(* ===== verification/Sdr_Prelude.thy ===== *)
theory Sdr_Prelude
  imports Complex_Main "HOL-Library.AList"
begin

text \<open>
  Shared vocabulary of the development: identifiers and time stamps, exceptions as values,
  JSON values and Python dictionaries, and the lemmas about them that every component uses.

  A Python exception is the left injection of a sum, so a function that may raise has the type
  \<open>pyexn + 'a\<close>; \<open>bindE\<close> is the sequencing of statements that may raise.  A dictionary is an
  association list in insertion order (Python keeps the position of a key that is overwritten,
  which is what \<open>AList.update\<close> does).  Text is a list of \<open>char\<close>, one per code point; the model
  therefore covers the Latin-1 range, in which the Portuguese texts of the program live.
  Instants and durations are integers (microseconds).
\<close>

named_theorems sdr_simps \<open>unfolding rules of the model's small helper functions\<close>
named_theorems sdr_frame \<open>which fields an operation leaves alone\<close>

type_synonym uuid = nat
type_synonym time = int
type_synonym duration = int
type_synonym 'v dict = "(string \<times> 'v) list"

subsection \<open>Exceptions\<close>

datatype msg_error =
    SignatureError
  | AuthError
  | RecipientUnreachable
  | WindowExpiredError
  | PolicyError
  | TransientError
  | RateLimitError int

text \<open>
  \<open>Untyped\<close> marks a configuration value whose type is not the one its dataclass declares and that
  the code does not check; Python carries such a value along, the model stops.
\<close>

datatype pyexn =
    Messaging msg_error string
  | KeyError string
  | TypeError
  | ValueError string
  | AssertionError
  | AttributeError
  | MultipleResultsFound
  | IntegrityError
  | TreeflowLoadError string
  | TemplateRenderError
  | CorrectionEscalation string
  | VoiceSynthesisError string
  | OptOutDetected
  | Untyped
  | OtherError string

definition bindE :: "'e + 'a \<Rightarrow> ('a \<Rightarrow> 'e + 'b) \<Rightarrow> 'e + 'b" where
  "bindE m f = (case m of Inl e \<Rightarrow> Inl e | Inr x \<Rightarrow> f x)"

fun mapE :: "('a \<Rightarrow> 'e + 'b) \<Rightarrow> 'a list \<Rightarrow> 'e + 'b list" where
  "mapE f [] = Inr []"
| "mapE f (x # xs) = bindE (f x) (\<lambda>y. bindE (mapE f xs) (\<lambda>ys. Inr (y # ys)))"

lemma bindE_simps [simp]:
  "bindE (Inl e) f = Inl e"
  "bindE (Inr x) f = f x"
  by (simp_all add: bindE_def)

lemma bindE_eq_Inr: "bindE m f = Inr y \<longleftrightarrow> (\<exists>x. m = Inr x \<and> f x = Inr y)"
  by (cases m) simp_all

lemma bindE_eq_Inl: "bindE m f = Inl e \<longleftrightarrow> m = Inl e \<or> (\<exists>x. m = Inr x \<and> f x = Inl e)"
  by (cases m) simp_all

lemma mapE_eq_Inr: "mapE f xs = Inr ys \<longleftrightarrow> list_all2 (\<lambda>x y. f x = Inr y) xs ys"
proof (induction xs arbitrary: ys)
  case Nil
  show ?case by auto
next
  case (Cons x xs)
  then show ?case by (auto simp: bindE_eq_Inr list_all2_Cons1)
qed

lemma mapE_InrD: "mapE f xs = Inr ys \<Longrightarrow> y \<in> set ys \<Longrightarrow> \<exists>x \<in> set xs. f x = Inr y"
  by (induction xs arbitrary: ys) (auto simp: bindE_eq_Inr)

lemma mapE_all: "\<forall>x \<in> set xs. f x = Inr (g x) \<Longrightarrow> mapE f xs = Inr (map g xs)"
  by (induction xs) auto

subsection \<open>JSON values and their truth value\<close>

datatype jval =
    JNull
  | JBool bool
  | JInt int
  | JFloat rat
  | JStr string
  | JList "jval list"
  | JObj "(string \<times> jval) list"

fun truthy :: "jval \<Rightarrow> bool" where
  "truthy JNull = False"
| "truthy (JBool b) = b"
| "truthy (JInt n) = (n \<noteq> 0)"
| "truthy (JFloat r) = (r \<noteq> 0)"
| "truthy (JStr s) = (s \<noteq> [])"
| "truthy (JList xs) = (xs \<noteq> [])"
| "truthy (JObj kvs) = (kvs \<noteq> [])"

text \<open>Truth value of what \<open>d.get(k)\<close> returns, and of \<open>str | None\<close>.\<close>

definition truthy_opt :: "jval option \<Rightarrow> bool" where
  [sdr_simps]: "truthy_opt v = (case v of None \<Rightarrow> False | Some x \<Rightarrow> truthy x)"

definition str_or :: "string option \<Rightarrow> string \<Rightarrow> string" where
  [sdr_simps]: "str_or v d = (case v of None \<Rightarrow> d | Some s \<Rightarrow> if s = [] then d else s)"

text \<open>
  Access to values of unknown type: \<open>x[k]\<close>, \<open>x.get(k)\<close>, iteration, and the test of membership in a
  set of strings, which raises for an unhashable value.
\<close>

definition py_getitem :: "jval \<Rightarrow> string \<Rightarrow> pyexn + jval" where
  "py_getitem x k =
     (case x of
        JObj d \<Rightarrow> (case map_of d k of None \<Rightarrow> Inl (KeyError k) | Some v \<Rightarrow> Inr v)
      | _ \<Rightarrow> Inl TypeError)"

definition py_get :: "jval \<Rightarrow> string \<Rightarrow> pyexn + jval option" where
  "py_get x k = (case x of JObj d \<Rightarrow> Inr (map_of d k) | _ \<Rightarrow> Inl AttributeError)"

definition py_iter :: "jval \<Rightarrow> pyexn + jval list" where
  "py_iter x =
     (case x of
        JList xs \<Rightarrow> Inr xs
      | JObj d \<Rightarrow> Inr (map (\<lambda>kv. JStr (fst kv)) d)
      | JStr s \<Rightarrow> Inr (map (\<lambda>c. JStr [c]) s)
      | _ \<Rightarrow> Inl TypeError)"

definition py_in_set :: "jval option \<Rightarrow> string list \<Rightarrow> pyexn + bool" where
  "py_in_set x ss =
     (case x of
        Some (JList _) \<Rightarrow> Inl TypeError
      | Some (JObj _) \<Rightarrow> Inl TypeError
      | Some (JStr s) \<Rightarrow> Inr (s \<in> set ss)
      | _ \<Rightarrow> Inr False)"

definition as_str :: "jval \<Rightarrow> pyexn + string" where
  "as_str x = (case x of JStr s \<Rightarrow> Inr s | _ \<Rightarrow> Inl Untyped)"

definition as_str_opt :: "jval option \<Rightarrow> pyexn + string option" where
  "as_str_opt x = (case x of None \<Rightarrow> Inr None | Some JNull \<Rightarrow> Inr None
                   | Some v \<Rightarrow> bindE (as_str v) (\<lambda>s. Inr (Some s)))"

lemma as_str_Inr [simp]: "as_str x = Inr s \<longleftrightarrow> x = JStr s"
  by (cases x) (auto simp: as_str_def)

lemma py_in_set_True: "py_in_set x ss = Inr True \<longleftrightarrow> (\<exists>s \<in> set ss. x = Some (JStr s))"
  by (auto simp: py_in_set_def split: option.splits jval.splits)

subsection \<open>Postconditions of computations that may raise\<close>

text \<open>
  \<open>returns m P\<close>: if \<open>m\<close> returns normally, its value satisfies \<open>P\<close>.  The rules collected in
  \<open>returns_intro\<close> follow the structure of a translated function body.
\<close>

named_theorems returns_intro \<open>rules for postconditions\<close>

definition returns :: "'e + 'a \<Rightarrow> ('a \<Rightarrow> bool) \<Rightarrow> bool" where
  "returns m P = (\<forall>x. m = Inr x \<longrightarrow> P x)"

lemma returnsD: "returns m P \<Longrightarrow> m = Inr x \<Longrightarrow> P x"
  by (simp add: returns_def)

lemma returns_Inl [returns_intro]: "returns (Inl e) P"
  by (simp add: returns_def)

lemma returns_Inr [returns_intro]: "P x \<Longrightarrow> returns (Inr x) P"
  by (simp add: returns_def)

lemma returns_bind [returns_intro]:
  "(\<And>x. m = Inr x \<Longrightarrow> returns (f x) P) \<Longrightarrow> returns (bindE m f) P"
  by (auto simp: returns_def bindE_eq_Inr)

lemma returns_if [returns_intro]:
  "(b \<Longrightarrow> returns m P) \<Longrightarrow> (\<not> b \<Longrightarrow> returns m' P) \<Longrightarrow> returns (if b then m else m') P"
  by simp

lemma returns_option [returns_intro]:
  "(v = None \<Longrightarrow> returns m P) \<Longrightarrow> (\<And>x. v = Some x \<Longrightarrow> returns (f x) P) \<Longrightarrow>
   returns (case v of None \<Rightarrow> m | Some x \<Rightarrow> f x) P"
  by (cases v) auto

lemma returns_jval [returns_intro]:
  "(v = JNull \<Longrightarrow> returns m1 P) \<Longrightarrow> (\<And>x. v = JBool x \<Longrightarrow> returns (m2 x) P) \<Longrightarrow>
   (\<And>x. v = JInt x \<Longrightarrow> returns (m3 x) P) \<Longrightarrow> (\<And>x. v = JFloat x \<Longrightarrow> returns (m4 x) P) \<Longrightarrow>
   (\<And>x. v = JStr x \<Longrightarrow> returns (m5 x) P) \<Longrightarrow> (\<And>x. v = JList x \<Longrightarrow> returns (m6 x) P) \<Longrightarrow>
   (\<And>x. v = JObj x \<Longrightarrow> returns (m7 x) P) \<Longrightarrow>
   returns (case v of JNull \<Rightarrow> m1 | JBool x \<Rightarrow> m2 x | JInt x \<Rightarrow> m3 x | JFloat x \<Rightarrow> m4 x
     | JStr x \<Rightarrow> m5 x | JList x \<Rightarrow> m6 x | JObj x \<Rightarrow> m7 x) P"
  by (cases v) auto

lemma returns_mapE:
  "(\<And>x. x \<in> set xs \<Longrightarrow> returns (f x) P) \<Longrightarrow> returns (mapE f xs) (\<lambda>ys. \<forall>y \<in> set ys. P y)"
  unfolding returns_def by (blast dest: mapE_InrD)

lemma returns_weaken: "returns m P \<Longrightarrow> (\<And>x. P x \<Longrightarrow> Q x) \<Longrightarrow> returns m Q"
  by (simp add: returns_def)

subsection \<open>Dictionaries\<close>

definition dict_put :: "string \<Rightarrow> 'v \<Rightarrow> 'v dict \<Rightarrow> 'v dict" where
  "dict_put k v d = AList.update k v d"

definition dict_merge :: "'v dict \<Rightarrow> 'v dict \<Rightarrow> 'v dict" where
  \<comment> \<open>\<open>{**a, **b}\<close> and \<open>a.update(b)\<close>\<close>
  "dict_merge a b = foldl (\<lambda>d kv. dict_put (fst kv) (snd kv) d) a b"

definition dict_wf :: "'v dict \<Rightarrow> bool" where
  "dict_wf d = distinct (map fst d)"

lemma map_of_dict_put [simp]: "map_of (dict_put k v d) = (map_of d)(k \<mapsto> v)"
  by (simp add: dict_put_def update_conv')

lemma map_of_foldl_put:
  "map_of (foldl (\<lambda>d kv. dict_put (fst kv) (snd kv) d) a b) = map_of a ++ map_of (rev b)"
proof (induction b arbitrary: a)
  case Nil
  show ?case by simp
next
  case (Cons kv b)
  show ?case by (simp add: Cons.IH map_add_assoc [symmetric] map_add_def fun_eq_iff split: option.splits)
qed

lemma map_of_dict_merge: "map_of (dict_merge a b) = map_of a ++ map_of (rev b)"
  by (simp add: dict_merge_def map_of_foldl_put)

lemma dict_wf_put: "dict_wf d \<Longrightarrow> dict_wf (dict_put k v d)"
  by (simp add: dict_wf_def dict_put_def distinct_update)

lemma dict_wf_merge: "dict_wf a \<Longrightarrow> dict_wf (dict_merge a b)"
  unfolding dict_merge_def by (induction b arbitrary: a) (auto simp: dict_wf_put)

lemma map_of_rev_wf: "dict_wf b \<Longrightarrow> map_of (rev b) = map_of b"
  by (simp add: dict_wf_def map_of_inject_set rev_map [symmetric])

lemma map_of_dict_merge_wf: "dict_wf b \<Longrightarrow> map_of (dict_merge a b) = map_of a ++ map_of b"
  by (simp add: map_of_dict_merge map_of_rev_wf)

lemma dict_put_keys: "fst ` set (dict_put k v d) = insert k (fst ` set d)"
  by (simp add: dict_put_def dom_map_of_conv_image_fst [symmetric] update_conv')

lemma in_set_dict_put: "kv \<in> set (dict_put k v d) \<Longrightarrow> kv = (k, v) \<or> kv \<in> set d"
  unfolding dict_put_def by (induction d) (auto split: if_splits)

subsection \<open>Tables\<close>

text \<open>
  A database table is the list of its rows.  \<open>first_max key p rows\<close> is the row an
  \<open>ORDER BY key DESC LIMIT 1\<close> query returns: the first of the rows that satisfy \<open>p\<close> with the
  largest key, and \<open>update_where\<close> is an \<open>UPDATE \<dots> WHERE\<close>.
\<close>

definition update_where :: "('r \<Rightarrow> bool) \<Rightarrow> ('r \<Rightarrow> 'r) \<Rightarrow> 'r list \<Rightarrow> 'r list" where
  "update_where p f rows = map (\<lambda>r. if p r then f r else r) rows"

fun argmax :: "('r \<Rightarrow> int) \<Rightarrow> 'r list \<Rightarrow> 'r option" where
  "argmax key [] = None"
| "argmax key (r # rs) =
     (case argmax key rs of
        None \<Rightarrow> Some r
      | Some m \<Rightarrow> if key m > key r then Some m else Some r)"

definition first_max :: "('r \<Rightarrow> int) \<Rightarrow> ('r \<Rightarrow> bool) \<Rightarrow> 'r list \<Rightarrow> 'r option" where
  "first_max key p rows = argmax key (filter p rows)"

definition first_min :: "('r \<Rightarrow> int) \<Rightarrow> ('r \<Rightarrow> bool) \<Rightarrow> 'r list \<Rightarrow> 'r option" where
  "first_min key p rows = argmax (\<lambda>r. - key r) (filter p rows)"

text \<open>\<open>scalar_one_or_none()\<close>: no row, one row, or an exception.\<close>

definition scalar_one_or_none :: "'r list \<Rightarrow> pyexn + 'r option" where
  "scalar_one_or_none rows =
     (case rows of [] \<Rightarrow> Inr None | [r] \<Rightarrow> Inr (Some r) | _ \<Rightarrow> Inl MultipleResultsFound)"

lemma argmax_None [simp]: "argmax key rs = None \<longleftrightarrow> rs = []"
  by (cases rs) (auto split: option.splits)

lemma argmax_Some: "argmax key rs = Some m \<Longrightarrow> m \<in> set rs \<and> (\<forall>r \<in> set rs. key r \<le> key m)"
  by (induction rs arbitrary: m) (fastforce split: option.splits if_splits)+

lemma first_max_None: "first_max key p rows = None \<longleftrightarrow> (\<forall>r \<in> set rows. \<not> p r)"
  by (auto simp: first_max_def filter_empty_conv)

lemma first_max_Some:
  "first_max key p rows = Some m \<Longrightarrow> m \<in> set rows \<and> p m \<and> (\<forall>r \<in> set rows. p r \<longrightarrow> key r \<le> key m)"
  by (auto simp: first_max_def dest: argmax_Some)

lemma first_min_None: "first_min key p rows = None \<longleftrightarrow> (\<forall>r \<in> set rows. \<not> p r)"
  by (auto simp: first_min_def filter_empty_conv)

lemma first_min_Some:
  "first_min key p rows = Some m \<Longrightarrow> m \<in> set rows \<and> p m \<and> (\<forall>r \<in> set rows. p r \<longrightarrow> key m \<le> key r)"
  by (auto simp: first_min_def dest: argmax_Some)

lemma length_update_where [simp]: "length (update_where p f rows) = length rows"
  by (simp add: update_where_def)

lemma in_set_update_where:
  "r' \<in> set (update_where p f rows) \<longleftrightarrow> (\<exists>r \<in> set rows. r' = (if p r then f r else r))"
  by (auto simp: update_where_def)

lemma update_where_none: "\<forall>r \<in> set rows. \<not> p r \<Longrightarrow> update_where p f rows = rows"
  by (simp add: update_where_def map_idI)

lemma map_update_where: "(\<And>r. g (f r) = g r) \<Longrightarrow> map g (update_where p f rows) = map g rows"
  by (simp add: update_where_def)

lemma length_filter_map_le:
  "(\<And>x. x \<in> set xs \<Longrightarrow> p (f x) \<Longrightarrow> p x) \<Longrightarrow> length (filter p (map f xs)) \<le> length (filter p xs)"
  by (induction xs) (auto simp: le_SucI)

lemma length_filter_map_less:
  assumes le: "\<And>x. x \<in> set xs \<Longrightarrow> p (f x) \<Longrightarrow> p x" and x: "x \<in> set xs" "p x" "\<not> p (f x)"
  shows "length (filter p (map f xs)) < length (filter p xs)"
proof -
  obtain ys zs where xs: "xs = ys @ x # zs" using x(1) by (meson split_list)
  have sub: "set ys \<subseteq> set xs" "set zs \<subseteq> set xs" by (auto simp: xs)
  have "length (filter p (map f ys)) \<le> length (filter p ys)" "length (filter p (map f zs)) \<le> length (filter p zs)"
    by (rule length_filter_map_le, rule le, use sub in blast, assumption)+
  then show ?thesis using x by (simp add: xs)
qed

lemma update_where_twice:
  "(\<And>r. p (f r) = p r) \<Longrightarrow> update_where p g (update_where p f rows) = update_where p (g \<circ> f) rows"
  by (induction rows) (auto simp: update_where_def)

subsection \<open>Slices\<close>

definition take_last :: "nat \<Rightarrow> 'a list \<Rightarrow> 'a list" where
  \<comment> \<open>\<open>xs[-n:]\<close> for \<open>n > 0\<close>\<close>
  "take_last n xs = drop (length xs - n) xs"

lemma length_take_last [simp]: "length (take_last n xs) = min n (length xs)"
  by (simp add: take_last_def min_def)

lemma take_last_short: "length xs \<le> n \<Longrightarrow> take_last n xs = xs"
  by (simp add: take_last_def)

lemma take_last_take_last_snoc:
  "0 < n \<Longrightarrow> take_last n (take_last n xs @ [x]) = take_last n (xs @ [x])"
  by (cases "length xs \<le> n") (auto simp: take_last_def drop_drop Suc_diff_le)

end
