(* ===== verification/Py_Text.thy ===== *)
theory Py_Text
  imports Sdr_Prelude
begin

text \<open>
  The parts of Python's \<open>str\<close> and \<open>re\<close> that the program uses, on lists of characters: case
  folding, \<open>strip\<close>, \<open>split\<close>, substring tests, decimal numerals, and the regular expressions of
  \<open>flowengine/heuristics.py\<close> and \<open>flowengine/preprocessing.py\<close> (sequences, alternatives, \<open>\s*\<close>,
  character classes and the word boundary \<open>\b\<close>) with Python's leftmost, ordered-choice search.
  Character classes are those of Unicode restricted to the code points up to 255.
\<close>

subsection \<open>Characters\<close>

abbreviation code :: "char \<Rightarrow> nat" where
  "code c \<equiv> of_char c"

text \<open>The character of a code point, with a code equation that needs no class of bit operations.\<close>

definition char_of_nat :: "nat \<Rightarrow> char" where
  "char_of_nat n = Char (n mod 2 = 1) (n div 2 mod 2 = 1) (n div 4 mod 2 = 1) (n div 8 mod 2 = 1)
     (n div 16 mod 2 = 1) (n div 32 mod 2 = 1) (n div 64 mod 2 = 1) (n div 128 mod 2 = 1)"

lemma char_of_nat_code [code_unfold]: "char_of n = char_of_nat n"
  by (simp add: char_of_def char_of_nat_def bit_iff_odd odd_iff_mod_2_eq_one)

definition py_isspace :: "char \<Rightarrow> bool" where
  "py_isspace c = (let n = code c in (9 \<le> n \<and> n \<le> 13) \<or> (28 \<le> n \<and> n \<le> 32) \<or> n = 133 \<or> n = 160)"

definition py_isword :: "char \<Rightarrow> bool" where
  "py_isword c =
     (let n = code c in
        (48 \<le> n \<and> n \<le> 57) \<or> (65 \<le> n \<and> n \<le> 90) \<or> n = 95 \<or> (97 \<le> n \<and> n \<le> 122) \<or>
        n = 170 \<or> n = 178 \<or> n = 179 \<or> n = 181 \<or> n = 185 \<or> n = 186 \<or> n = 188 \<or> n = 189 \<or> n = 190 \<or>
        (192 \<le> n \<and> n \<le> 214) \<or> (216 \<le> n \<and> n \<le> 246) \<or> (248 \<le> n \<and> n \<le> 255))"

definition lower_char :: "char \<Rightarrow> char" where
  "lower_char c =
     (let n = code c in
        if (65 \<le> n \<and> n \<le> 90) \<or> (192 \<le> n \<and> n \<le> 214) \<or> (216 \<le> n \<and> n \<le> 222)
        then char_of (n + 32) else c)"

definition py_lower :: "string \<Rightarrow> string" where
  "py_lower s = map lower_char s"

lemma lower_char_idem [simp]: "lower_char (lower_char c) = lower_char c"
  by (auto simp: lower_char_def Let_def)

lemma py_lower_idem [simp]: "py_lower (py_lower s) = py_lower s"
  by (simp add: py_lower_def)

lemma length_py_lower [simp]: "length (py_lower s) = length s"
  by (simp add: py_lower_def)

lemma py_lower_append [simp]: "py_lower (s @ t) = py_lower s @ py_lower t"
  by (simp add: py_lower_def)

subsection \<open>Strip, substring and split\<close>

definition lstrip :: "string \<Rightarrow> string" where
  "lstrip s = dropWhile py_isspace s"

definition strip :: "string \<Rightarrow> string" where
  "strip s = rev (lstrip (rev (lstrip s)))"

fun starts_with :: "string \<Rightarrow> string \<Rightarrow> bool" where
  "starts_with [] s = True"
| "starts_with (p # ps) [] = False"
| "starts_with (p # ps) (c # cs) = (p = c \<and> starts_with ps cs)"

text \<open>\<open>contains_str sub s\<close> is Python's \<open>sub in s\<close>.\<close>

fun contains_str :: "string \<Rightarrow> string \<Rightarrow> bool" where
  "contains_str sub [] = (sub = [])"
| "contains_str sub (c # cs) = (starts_with sub (c # cs) \<or> contains_str sub cs)"

text \<open>
  \<open>s.split(sep)\<close> for a non-empty separator: \<open>acc\<close> holds the current piece, reversed, and
  \<open>skip\<close> the characters of a separator still to be dropped.
\<close>

fun split_go :: "string \<Rightarrow> nat \<Rightarrow> string \<Rightarrow> string \<Rightarrow> string list" where
  "split_go sep skip acc [] = [rev acc]"
| "split_go sep (Suc k) acc (c # cs) = split_go sep k acc cs"
| "split_go sep 0 acc (c # cs) =
     (if starts_with sep (c # cs) then rev acc # split_go sep (length sep - 1) [] cs
      else split_go sep 0 (c # acc) cs)"

definition py_split :: "string \<Rightarrow> string \<Rightarrow> string list" where
  "py_split sep s = split_go sep 0 [] s"

fun py_join :: "string \<Rightarrow> string list \<Rightarrow> string" where
  "py_join sep [] = []"
| "py_join sep [x] = x"
| "py_join sep (x # y # ys) = x @ sep @ py_join sep (y # ys)"

text \<open>\<open>s.split()\<close>: the maximal runs of non-space characters.\<close>

fun words_go :: "string \<Rightarrow> string \<Rightarrow> string list" where
  "words_go acc [] = (if acc = [] then [] else [rev acc])"
| "words_go acc (c # cs) =
     (if py_isspace c then (if acc = [] then words_go [] cs else rev acc # words_go [] cs)
      else words_go (c # acc) cs)"

definition py_words :: "string \<Rightarrow> string list" where
  "py_words s = words_go [] s"

lemma starts_with_iff: "starts_with p s \<longleftrightarrow> (\<exists>t. s = p @ t)"
  by (induction p s rule: starts_with.induct) auto

lemma contains_str_iff: "contains_str sub s \<longleftrightarrow> (\<exists>a b. s = a @ sub @ b)"
proof (induction sub s rule: contains_str.induct)
  case (1 sub)
  show ?case by auto
next
  case (2 sub c cs)
  show ?case
  proof
    assume "contains_str sub (c # cs)"
    then consider t where "c # cs = sub @ t" | a b where "cs = a @ sub @ b"
      using 2 by (auto simp: starts_with_iff)
    then show "\<exists>a b. c # cs = a @ sub @ b"
      by cases (metis append_Nil, metis append_Cons)
  next
    assume "\<exists>a b. c # cs = a @ sub @ b"
    then obtain a b where *: "c # cs = a @ sub @ b" by blast
    show "contains_str sub (c # cs)"
    proof (cases a)
      case Nil
      then have "starts_with sub (c # cs)" using * by (auto simp: starts_with_iff)
      then show ?thesis by simp
    next
      case (Cons d a')
      then have "cs = a' @ sub @ b" using * by simp
      then show ?thesis using 2 [of] by auto
    qed
  qed
qed

lemma set_lstrip: "set (lstrip s) \<subseteq> set s"
  by (auto simp: lstrip_def dest: set_dropWhileD)

lemma set_strip: "set (strip s) \<subseteq> set s"
  unfolding strip_def using set_lstrip [of s] set_lstrip [of "rev (lstrip s)"] by auto

lemma lstrip_eq_Nil: "lstrip s = [] \<longleftrightarrow> (\<forall>c \<in> set s. py_isspace c)"
  by (simp add: lstrip_def dropWhile_eq_Nil_conv)

lemma strip_eq_Nil: "strip s = [] \<longleftrightarrow> (\<forall>c \<in> set s. py_isspace c)"
proof
  assume "strip s = []"
  then have "\<forall>c \<in> set (lstrip s). py_isspace c" by (simp add: strip_def lstrip_eq_Nil)
  moreover have "lstrip s \<noteq> [] \<Longrightarrow> \<not> py_isspace (hd (lstrip s))"
    unfolding lstrip_def by (rule hd_dropWhile)
  ultimately have "lstrip s = []" by (cases "lstrip s") auto
  then show "\<forall>c \<in> set s. py_isspace c" by (simp add: lstrip_eq_Nil)
next
  assume "\<forall>c \<in> set s. py_isspace c"
  then have "lstrip s = []" by (simp add: lstrip_eq_Nil)
  moreover have "lstrip [] = []" by (simp add: lstrip_def)
  ultimately show "strip s = []" by (simp add: strip_def)
qed

lemma strip_Nil [simp]: "strip [] = []"
  by (simp add: strip_def lstrip_def)

lemma lstrip_id: "s = [] \<or> \<not> py_isspace (hd s) \<Longrightarrow> lstrip s = s"
  by (cases s) (auto simp: lstrip_def)

lemma last_strip: "strip s \<noteq> [] \<Longrightarrow> \<not> py_isspace (last (strip s))"
  unfolding strip_def lstrip_def by (simp add: last_rev hd_dropWhile)

lemma hd_strip: "strip s \<noteq> [] \<Longrightarrow> \<not> py_isspace (hd (strip s))"
proof -
  assume ne: "strip s \<noteq> []"
  define l where "l = lstrip s"
  obtain a where a: "rev l = a @ lstrip (rev l)"
    unfolding lstrip_def by (metis takeWhile_dropWhile_id)
  have "l = strip s @ rev a"
    using arg_cong [OF a, of rev] by (simp add: strip_def l_def)
  then have "hd l = hd (strip s)" "l \<noteq> []" using ne by auto
  moreover have "\<not> py_isspace (hd l)"
    using \<open>l \<noteq> []\<close> unfolding l_def lstrip_def by (rule hd_dropWhile)
  ultimately show ?thesis by simp
qed

lemma strip_idem [simp]: "strip (strip s) = strip s"
proof (cases "strip s = []")
  case True
  then show ?thesis by simp
next
  case False
  then have "lstrip (strip s) = strip s" by (simp add: lstrip_id hd_strip)
  moreover have "lstrip (rev (strip s)) = rev (strip s)"
    using False by (simp add: lstrip_id hd_rev last_strip)
  ultimately show ?thesis by (simp add: strip_def [of "strip s"])
qed

lemma split_go_not_Nil [simp]: "split_go sep k acc s \<noteq> []"
  by (induction sep k acc s rule: split_go.induct) auto

lemma py_join_Cons: "ys \<noteq> [] \<Longrightarrow> py_join sep (x # ys) = x @ sep @ py_join sep ys"
  by (cases ys) auto

lemma split_go_skip: "k \<le> length s \<Longrightarrow> split_go sep k acc s = split_go sep 0 acc (drop k s)"
proof (induction k arbitrary: s)
  case (Suc k)
  then show ?case by (cases s) auto
qed simp

lemma split_go_sep:
  "sep \<noteq> [] \<Longrightarrow> split_go sep 0 acc (sep @ t) = rev acc # split_go sep 0 [] t"
proof -
  assume "sep \<noteq> []"
  then obtain p ps where sep: "sep = p # ps" by (cases sep) auto
  have "starts_with sep (sep @ t)" by (auto simp: starts_with_iff)
  moreover have "split_go sep (length ps) [] (ps @ t) = split_go sep 0 [] t"
    using split_go_skip [of "length ps" "ps @ t" sep "[]"] by simp
  ultimately show ?thesis by (simp add: sep)
qed

lemma join_split_go:
  assumes sep: "sep \<noteq> []"
  shows "length s \<le> n \<Longrightarrow> py_join sep (split_go sep 0 acc s) = rev acc @ s"
proof (induction n arbitrary: s acc)
  case 0
  then show ?case by simp
next
  case (Suc n)
  show ?case
  proof (cases "starts_with sep s")
    case True
    then obtain t where t: "s = sep @ t" by (auto simp: starts_with_iff)
    have "length t \<le> n" using Suc.prems sep t by (cases sep) auto
    then have "py_join sep (split_go sep 0 [] t) = t" using Suc.IH [of t "[]"] by simp
    then show ?thesis by (simp add: t split_go_sep sep py_join_Cons)
  next
    case False
    show ?thesis
    proof (cases s)
      case Nil
      then show ?thesis by simp
    next
      case (Cons c cs)
      then have "split_go sep 0 acc s = split_go sep 0 (c # acc) cs" using False by simp
      then show ?thesis using Suc.IH [of cs "c # acc"] Suc.prems Cons by simp
    qed
  qed
qed

lemma join_split: "sep \<noteq> [] \<Longrightarrow> py_join sep (py_split sep s) = s"
  by (simp add: py_split_def join_split_go [OF _ le_refl])

subsection \<open>Decimal numerals\<close>

definition digit_char :: "nat \<Rightarrow> char" where
  "digit_char n = char_of (48 + n)"

fun digits_go :: "nat \<Rightarrow> string \<Rightarrow> string" where
  "digits_go n acc =
     (if n < 10 then digit_char n # acc else digits_go (n div 10) (digit_char (n mod 10) # acc))"

declare digits_go.simps [simp del]

definition str_nat :: "nat \<Rightarrow> string" where
  "str_nat n = digits_go n []"

definition str_int :: "int \<Rightarrow> string" where
  "str_int z = (if z < 0 then CHR ''-'' # str_nat (nat (- z)) else str_nat (nat z))"

subsection \<open>Regular expressions\<close>

datatype rx =
    RChars "char list"
  | RSpaces
  | RBound
  | RSeq "rx list"
  | RAlt "rx list"

text \<open>
  A position in a text is the pair of the characters before it, reversed, and those after it.
  \<open>rx_ends\<close> lists the positions at which a match that starts at the given position can end, in
  the order in which Python's backtracking matcher tries them; \<open>cf\<close> is the identity, or lower
  case under \<open>re.IGNORECASE\<close>.
\<close>

type_synonym pos = "string \<times> string"

definition at_boundary :: "pos \<Rightarrow> bool" where
  "at_boundary p =
     ((case fst p of [] \<Rightarrow> False | c # _ \<Rightarrow> py_isword c) \<noteq>
      (case snd p of [] \<Rightarrow> False | c # _ \<Rightarrow> py_isword c))"

fun spaces_ends :: "string \<Rightarrow> string \<Rightarrow> pos list" where
  "spaces_ends before [] = [(before, [])]"
| "spaces_ends before (c # cs) =
     (if py_isspace c then spaces_ends (c # before) cs @ [(before, c # cs)] else [(before, c # cs)])"

fun rx_ends :: "(char \<Rightarrow> char) \<Rightarrow> rx \<Rightarrow> pos \<Rightarrow> pos list"
  and rx_seq :: "(char \<Rightarrow> char) \<Rightarrow> rx list \<Rightarrow> pos \<Rightarrow> pos list"
  and rx_alt :: "(char \<Rightarrow> char) \<Rightarrow> rx list \<Rightarrow> pos \<Rightarrow> pos list" where
  "rx_ends cf (RChars cs) p =
     (case snd p of [] \<Rightarrow> [] | c # r \<Rightarrow> if cf c \<in> set cs then [(c # fst p, r)] else [])"
| "rx_ends cf RSpaces p = spaces_ends (fst p) (snd p)"
| "rx_ends cf RBound p = (if at_boundary p then [p] else [])"
| "rx_ends cf (RSeq rs) p = rx_seq cf rs p"
| "rx_ends cf (RAlt rs) p = rx_alt cf rs p"
| "rx_seq cf [] p = [p]"
| "rx_seq cf (r # rs) p = concat (map (rx_seq cf rs) (rx_ends cf r p))"
| "rx_alt cf [] p = []"
| "rx_alt cf (r # rs) p = rx_ends cf r p @ rx_alt cf rs p"

text \<open>\<open>re.search\<close>: the text matched at the leftmost position, if any.\<close>

fun rx_search_from :: "(char \<Rightarrow> char) \<Rightarrow> rx \<Rightarrow> string \<Rightarrow> string \<Rightarrow> string option" where
  "rx_search_from cf r before [] =
     (case rx_ends cf r (before, []) of [] \<Rightarrow> None | _ \<Rightarrow> Some [])"
| "rx_search_from cf r before (c # cs) =
     (case rx_ends cf r (before, c # cs) of
        [] \<Rightarrow> rx_search_from cf r (c # before) cs
      | q # _ \<Rightarrow> Some (take (length (c # cs) - length (snd q)) (c # cs)))"

definition rx_search :: "(char \<Rightarrow> char) \<Rightarrow> rx \<Rightarrow> string \<Rightarrow> string option" where
  "rx_search cf r s = rx_search_from cf r [] s"

abbreviation rlit :: "string \<Rightarrow> rx" where
  \<comment> \<open>a literal text\<close>
  "rlit s \<equiv> RSeq (map (\<lambda>c. RChars [c]) s)"

abbreviation rword :: "rx \<Rightarrow> rx" where
  \<comment> \<open>\<open>\b(\<dots>)\b\<close>\<close>
  "rword r \<equiv> RSeq [RBound, r, RBound]"

lemma spaces_ends_text: "(b, a) \<in> set (spaces_ends before s) \<Longrightarrow> rev b @ a = rev before @ s"
  by (induction before s rule: spaces_ends.induct) (auto split: if_splits)

lemma rx_ends_text:
  "(b, a) \<in> set (rx_ends cf r p) \<Longrightarrow> rev b @ a = rev (fst p) @ snd p"
  "(b, a) \<in> set (rx_seq cf rs p) \<Longrightarrow> rev b @ a = rev (fst p) @ snd p"
  "(b, a) \<in> set (rx_alt cf rs p) \<Longrightarrow> rev b @ a = rev (fst p) @ snd p"
  by (induction cf r p and cf rs p and cf rs p arbitrary: b a and b a and b a
      rule: rx_ends_rx_seq_rx_alt.induct)
    (fastforce split: list.splits if_splits dest: spaces_ends_text)+

lemma rx_seq_lit: "rx_seq (\<lambda>c. c) (map (\<lambda>c. RChars [c]) s) p =
    (if starts_with s (snd p) then [(rev s @ fst p, drop (length s) (snd p))] else [])"
proof (induction s arbitrary: p)
  case (Cons c s)
  show ?case by (cases "snd p") (auto simp: Cons.IH)
qed simp

lemma rx_search_from_Some_iff:
  "(\<exists>m. rx_search_from cf r before s = Some m) \<longleftrightarrow>
   (\<exists>a b. s = a @ b \<and> rx_ends cf r (rev a @ before, b) \<noteq> [])"
proof (induction s arbitrary: before)
  case Nil
  show ?case by (auto split: list.splits)
next
  case (Cons c cs)
  show ?case
  proof (cases "rx_ends cf r (before, c # cs) = []")
    case True
    then have "(\<exists>m. rx_search_from cf r before (c # cs) = Some m) \<longleftrightarrow>
        (\<exists>a b. cs = a @ b \<and> rx_ends cf r (rev a @ c # before, b) \<noteq> [])"
      by (simp add: Cons.IH)
    also have "\<dots> \<longleftrightarrow> (\<exists>a b. c # cs = a @ b \<and> rx_ends cf r (rev a @ before, b) \<noteq> [])"
    proof
      assume "\<exists>a b. cs = a @ b \<and> rx_ends cf r (rev a @ c # before, b) \<noteq> []"
      then obtain a b where "cs = a @ b" "rx_ends cf r (rev a @ c # before, b) \<noteq> []" by blast
      then show "\<exists>a b. c # cs = a @ b \<and> rx_ends cf r (rev a @ before, b) \<noteq> []"
        by (intro exI [of _ "c # a"] exI [of _ b]) simp
    next
      assume "\<exists>a b. c # cs = a @ b \<and> rx_ends cf r (rev a @ before, b) \<noteq> []"
      then obtain a b where ab: "c # cs = a @ b" "rx_ends cf r (rev a @ before, b) \<noteq> []" by blast
      then obtain a' where "a = c # a'" using True by (cases a) auto
      then show "\<exists>a b. cs = a @ b \<and> rx_ends cf r (rev a @ c # before, b) \<noteq> []"
        using ab by (intro exI [of _ a'] exI [of _ b]) simp
    qed
    finally show ?thesis .
  next
    case False
    then have "\<exists>m. rx_search_from cf r before (c # cs) = Some m"
      by (auto split: list.splits)
    moreover have "\<exists>a b. c # cs = a @ b \<and> rx_ends cf r (rev a @ before, b) \<noteq> []"
      using False by (intro exI [of _ "[]"] exI [of _ "c # cs"]) simp
    ultimately show ?thesis by blast
  qed
qed

lemma rx_search_Some_iff:
  "(\<exists>m. rx_search cf r s = Some m) \<longleftrightarrow> (\<exists>a b. s = a @ b \<and> rx_ends cf r (rev a, b) \<noteq> [])"
  by (simp add: rx_search_def rx_search_from_Some_iff)

text \<open>A whole-word search for a literal text finds exactly its occurrences between boundaries.\<close>

lemma rx_search_word_iff:
  "(\<exists>m. rx_search (\<lambda>c. c) (rword (rlit w)) s = Some m) \<longleftrightarrow>
   (\<exists>a b. s = a @ w @ b \<and> at_boundary (rev a, w @ b) \<and> at_boundary (rev w @ rev a, b))"
proof -
  have "rx_ends (\<lambda>c. c) (rword (rlit w)) (rev a, c) \<noteq> [] \<longleftrightarrow>
      at_boundary (rev a, c) \<and> starts_with w c \<and> at_boundary (rev w @ rev a, drop (length w) c)" for a c
    by (auto simp: rx_seq_lit split: if_splits)
  then show ?thesis
    unfolding rx_search_Some_iff by (fastforce simp: starts_with_iff)
qed

end
