(* ===== verification/Py_Repr.thy ===== *)
theory Py_Repr
  imports Py_Text
begin

text \<open>
  \<open>str\<close> and \<open>repr\<close> of the values that reach prompts, error texts and keys, and \<open>int\<close> of a value read
  from a configuration file.  \<open>repr\<close> of a float is a parameter.
\<close>

subsection \<open>repr\<close>

definition hex_digit :: "nat \<Rightarrow> char" where
  "hex_digit n = (if n < 10 then char_of (48 + n) else char_of (87 + n))"

definition repr_char :: "char \<Rightarrow> char \<Rightarrow> string" where
  "repr_char q c =
     (let n = code c in
        if c = q \<or> n = 92 then [CHR 92, c]
        else if n = 10 then [CHR 92, CHR ''n'']
        else if n = 13 then [CHR 92, CHR ''r'']
        else if n = 9 then [CHR 92, CHR ''t'']
        else if n < 32 \<or> (127 \<le> n \<and> n \<le> 160) \<or> n = 173
          then [CHR 92, CHR ''x'', hex_digit (n div 16), hex_digit (n mod 16)]
        else [c])"

definition repr_str :: "string \<Rightarrow> string" where
  "repr_str s =
     (let q = (if CHR 39 \<in> set s \<and> CHR 34 \<notin> set s then CHR 34 else CHR 39)
      in [q] @ concat (map (repr_char q) s) @ [q])"

fun py_repr :: "(rat \<Rightarrow> string) \<Rightarrow> jval \<Rightarrow> string" where
  "py_repr fr JNull = ''None''"
| "py_repr fr (JBool b) = (if b then ''True'' else ''False'')"
| "py_repr fr (JInt n) = str_int n"
| "py_repr fr (JFloat r) = fr r"
| "py_repr fr (JStr s) = repr_str s"
| "py_repr fr (JList xs) = ''['' @ py_join '', '' (map (py_repr fr) xs) @ '']''"
| "py_repr fr (JObj d) =
     ''{'' @ py_join '', '' (map (\<lambda>(k, v). repr_str k @ '': '' @ py_repr fr v) d) @ ''}''"

definition py_str :: "(rat \<Rightarrow> string) \<Rightarrow> jval \<Rightarrow> string" where
  "py_str fr v = (case v of JStr s \<Rightarrow> s | _ \<Rightarrow> py_repr fr v)"

lemma py_str_JStr [simp]: "py_str fr (JStr s) = s"
  by (simp add: py_str_def)

subsection \<open>int\<close>

definition is_digit :: "char \<Rightarrow> bool" where
  "is_digit c = (48 \<le> code c \<and> code c \<le> 57)"

text \<open>Digits with single underscores between them.\<close>

fun int_body :: "int \<Rightarrow> string \<Rightarrow> int option" where
  "int_body acc [] = Some acc"
| "int_body acc (c # cs) =
     (if is_digit c then int_body (10 * acc + int (code c) - 48) cs
      else if c = CHR ''_''
        then (case cs of
                d # ds \<Rightarrow> if is_digit d then int_body (10 * acc + int (code d) - 48) ds else None
              | [] \<Rightarrow> None)
      else None)"

definition int_unsigned :: "string \<Rightarrow> int option" where
  "int_unsigned s = (case s of [] \<Rightarrow> None | c # _ \<Rightarrow> if is_digit c then int_body 0 s else None)"

definition int_of_str :: "string \<Rightarrow> int option" where
  "int_of_str s =
     (case strip s of
        [] \<Rightarrow> None
      | c # cs \<Rightarrow>
          if c = CHR ''-'' then map_option uminus (int_unsigned cs)
          else if c = CHR ''+'' then int_unsigned cs
          else int_unsigned (c # cs))"

definition trunc :: "rat \<Rightarrow> int" where
  \<comment> \<open>\<open>int(x)\<close> of a float rounds towards zero\<close>
  "trunc r = (if 0 \<le> r then \<lfloor>r\<rfloor> else \<lceil>r\<rceil>)"

lemma trunc_code [code]:
  "trunc r = (case quotient_of r of (p, q) \<Rightarrow> if 0 \<le> p then p div q else - (- p div q))"
proof -
  obtain p q where pq: "quotient_of r = (p, q)" by fastforce
  then have q: "0 < q" and r: "r = of_int p / of_int q"
    using quotient_of_denom_pos quotient_of_div by auto
  have "0 \<le> r \<longleftrightarrow> 0 \<le> p" using q by (simp add: r zero_le_divide_iff)
  moreover have "\<lfloor>r\<rfloor> = p div q" by (simp add: r floor_divide_of_int_eq)
  moreover have "\<lceil>r\<rceil> = - (- p div q)"
    using floor_divide_of_int_eq [of "- p" q, where ?'a = rat] by (simp add: r ceiling_def)
  ultimately show ?thesis using pq by (simp add: trunc_def)
qed

definition py_int :: "jval \<Rightarrow> pyexn + int" where
  "py_int v =
     (case v of
        JInt n \<Rightarrow> Inr n
      | JBool b \<Rightarrow> Inr (if b then 1 else 0)
      | JFloat r \<Rightarrow> Inr (trunc r)
      | JStr s \<Rightarrow> (case int_of_str s of None \<Rightarrow> Inl (ValueError ''int'') | Some n \<Rightarrow> Inr n)
      | _ \<Rightarrow> Inl TypeError)"

end
