(* ===== verification/Sdr_Models.thy ===== *)
theory Sdr_Models
  imports Py_Repr
begin

text \<open>
  The data of the program: the structured output of the model (\<open>flowengine/decision.py\<close>), the
  runtime state of a conversation (\<open>flowengine/state.py\<close>, \<open>models/talkflow_state.py\<close>), the rows of
  the tables (\<open>models/*.py\<close>) and the database as the record of those tables.  A row's \<open>uuid\<close> is
  drawn from the counter \<open>db_next\<close>, which stands for the server-side \<open>uuid_generate_v4()\<close>.
  The record \<open>ext\<close> collects the third-party functions the code calls.
\<close>

subsection \<open>Third-party functions\<close>

text \<open>
  \<open>simple_eval fs names e\<close> is \<open>bool(SimpleEval(names=names, functions=fs).eval(e))\<close>, with \<open>None\<close>
  for any exception; its first argument tells whether the caller passes \<open>functions={"len": len}\<close>.
  \<open>iso_duration\<close> is \<open>isodate.parse_duration\<close>, which yields a \<open>timedelta\<close>, or a \<open>Duration\<close> with
  years or months, which cannot be compared to a \<open>timedelta\<close>.  \<open>json_sha256\<close> is the hexadecimal
  SHA-256 of the text of a JSON value whose objects have sorted keys.  \<open>yaml_load\<close> is
  \<open>yaml.safe_load\<close>, with \<open>None\<close> for a \<open>YAMLError\<close>.  \<open>float_repr\<close> is
  \<open>repr\<close> of a float.
\<close>

datatype iso_result = IsoBad | IsoDelta duration | IsoCalendar

record ext =
  simple_eval :: "bool \<Rightarrow> jval dict \<Rightarrow> string \<Rightarrow> bool option"
  eval_parses :: "string \<Rightarrow> bool"
  iso_duration :: "string \<Rightarrow> iso_result"
  jinja_parses :: "string \<Rightarrow> bool"
  jinja_render :: "string \<Rightarrow> jval dict \<Rightarrow> string option"
  yaml_load :: "string \<Rightarrow> jval option"
  json_sha256 :: "jval \<Rightarrow> string"
  float_repr :: "rat \<Rightarrow> string"
  price_findall :: "string \<Rightarrow> string \<Rightarrow> string list"

subsection \<open>The structured output of the model\<close>

datatype treatment_strategy = StrategyInline | StrategySubnode | StrategyTool
datatype treatment_status = InProgress | ResolvedAccepted | ResolvedDeferred
datatype close_signal = CloseNo | CompletedSuccess | CompletedFailure | NoInterest
datatype response_format = FormatText | FormatVoice | FormatBoth
datatype escalation_category =
  UnknownInfo | OutOfScope | ComplexObjection | LeadRequested | SensitiveTopic | AmbiguousIntent
  | SystemExhausted | OtherCategory
datatype urgency = Low | Medium | High

definition urgency_rank :: "urgency \<Rightarrow> nat" where
  "urgency_rank u = (case u of Low \<Rightarrow> 0 | Medium \<Rightarrow> 1 | High \<Rightarrow> 2)"

instantiation urgency :: linorder
begin

definition less_eq_urgency :: "urgency \<Rightarrow> urgency \<Rightarrow> bool" where
  "less_eq_urgency a b = (urgency_rank a \<le> urgency_rank b)"

definition less_urgency :: "urgency \<Rightarrow> urgency \<Rightarrow> bool" where
  "less_urgency a b = (urgency_rank a < urgency_rank b)"

instance
  by standard
    (auto simp: less_eq_urgency_def less_urgency_def urgency_rank_def split: urgency.splits)

end

record human_escalation =
  he_reason :: string
  he_category :: escalation_category
  he_urgency :: urgency
  he_suggested :: "string option"
  he_waiting :: "string option"

record turn_decision =
  response_text :: string
  response_format :: "response_format option"
  voice_emotion :: "string option"
  collected_fields :: "jval dict"
  extracted_facts :: "jval dict"
  detected_objection :: "string option"
  treatment_strategy :: "treatment_strategy option"
  treatment_status :: "treatment_status option"
  next_node_suggestion :: "string option"
  intends_to_advance :: bool
  suggest_close_talk :: close_signal
  request_human_escalation :: "human_escalation option"
  suspect_injection_attempt :: bool
  off_topic_detected :: bool
  reasoning :: string

text \<open>
  \<open>truncate_reasoning limit\<close> is the validator of \<open>reasoning\<close> of both schemas (400 characters for
  \<open>TurnDecision\<close>, 200 for \<open>JudgeVerdict\<close>); \<open>validate_turn_decision\<close> is the construction of a
  \<open>TurnDecision\<close> from the model's output, with the length constraints of its fields.
\<close>

definition truncate_reasoning :: "nat \<Rightarrow> string \<Rightarrow> string" where
  "truncate_reasoning limit v = (if length v > limit then take (limit - 3) v @ ''...'' else v)"

definition escalation_valid :: "human_escalation \<Rightarrow> bool" where
  "escalation_valid h = (10 \<le> length (he_reason h) \<and> length (he_reason h) \<le> 300)"

definition validate_turn_decision :: "turn_decision \<Rightarrow> pyexn + turn_decision" where
  "validate_turn_decision d =
     (let d = d\<lparr>reasoning := truncate_reasoning 400 (reasoning d)\<rparr> in
        if response_text d = [] \<or> reasoning d = [] \<or> 400 < length (reasoning d) \<or>
           (\<exists>h \<in> set_option (request_human_escalation d). \<not> escalation_valid h)
        then Inl (ValueError ''ValidationError'') else Inr d)"

record judge_verdict =
  should_exit :: bool
  judge_reasoning :: string

definition validate_judge_verdict :: "judge_verdict \<Rightarrow> pyexn + judge_verdict" where
  "validate_judge_verdict v =
     (let v = v\<lparr>judge_reasoning := truncate_reasoning 200 (judge_reasoning v)\<rparr> in
        if judge_reasoning v = [] \<or> 200 < length (judge_reasoning v)
        then Inl (ValueError ''ValidationError'') else Inr v)"

lemma length_truncate_reasoning: "3 \<le> limit \<Longrightarrow> length (truncate_reasoning limit v) \<le> limit"
  by (auto simp: truncate_reasoning_def)

lemma truncate_reasoning_Nil [simp]: "3 < limit \<Longrightarrow> truncate_reasoning limit v = [] \<longleftrightarrow> v = []"
  by (auto simp: truncate_reasoning_def)

subsection \<open>The runtime state of a conversation\<close>

datatype role = RUser | RAssistant
datatype source = SrcLead | SrcAgent | SrcOperator
datatype media_type = MText | MAudio | MImage | MVideo
datatype objection_resolution = Accepted | Deferred | Exhausted

record message =
  msg_role :: role
  msg_content :: string
  msg_source :: source
  msg_media :: media_type
  msg_turn :: int
  msg_timestamp :: time

record treatment =
  tr_objection :: string
  tr_started :: int
  tr_turn :: int
  tr_max :: int
  tr_criteria :: string
  tr_history :: "string list"

record objection_entry =
  oe_objection :: string
  oe_detected :: int
  oe_resolved :: "int option"
  oe_resolution :: "objection_resolution option"

record talkflow_state =
  st_talk :: uuid
  st_tenant :: uuid
  st_node :: string
  st_collected :: "jval dict"
  st_facts :: "jval dict"
  st_messages :: "message list"
  st_treatment :: "treatment option"
  st_objections :: "objection_entry list"

subsection \<open>Rows\<close>

datatype talk_status =
  Active | Paused | RequiresReview | ClosedCompleted | ClosedSuccess | ClosedFailure
  | ClosedNoInterest | ClosedDuration | ClosedInactivity | ClosedOptout | ClosedBanned
datatype handling_mode = ModeAi | ModeHuman | ModeApproval
datatype review_reason =
  EscalationRequested | OffTopicExhausted | ValidatorExhausted | TreeflowVersionMissing
  | ObjectionTreatmentExhausted | VoiceSynthesisFailed
datatype closed_by = ByRule | ByOptout | ByLlm | ByOperator | BySentinel | ByPipelineHook | ByScanJob

record talk =
  tk_id :: uuid
  tk_tenant :: uuid
  tk_lead :: uuid
  tk_treeflow :: string
  tk_version :: uuid
  tk_status :: talk_status
  tk_mode :: handling_mode
  tk_operator :: "uuid option"
  tk_created :: time
  tk_last_message :: time
  tk_closed_at :: "time option"
  tk_closed_reason :: "string option"
  tk_closed_by :: "closed_by option"
  tk_escalated_at :: "time option"
  tk_escalation_category :: "escalation_category option"
  tk_escalation_reason :: "string option"
  tk_review_reason :: "review_reason option"
  tk_turns :: int
  tk_tokens :: "jval dict"

definition is_closed :: "talk_status \<Rightarrow> bool" where
  "is_closed s = (s \<in> {ClosedCompleted, ClosedSuccess, ClosedFailure, ClosedNoInterest,
     ClosedDuration, ClosedInactivity, ClosedOptout, ClosedBanned})"

datatype lead_status = PendingAssignment | LeadActive | Unreachable
datatype risk_level = RiskNormal | RiskElevated | RiskBanned

record lead =
  ld_id :: uuid
  ld_tenant :: uuid
  ld_e164 :: "string option"
  ld_label :: "string option"
  ld_status :: lead_status
  ld_unreachable_reason :: "string option"
  ld_channels :: "jval dict"
  ld_display_name :: "string option"
  ld_risk :: risk_level
  ld_risk_since :: "time option"
  ld_risk_reason :: "string option"
  ld_channel_label :: string
  ld_created :: time

datatype inbound_status = Queued | Processed | Skipped | InError

record inbound =
  in_id :: uuid
  in_tenant :: uuid
  in_provider :: string
  in_external :: string
  in_lead :: "uuid option"
  in_from :: string
  in_text :: string
  in_received :: time
  in_ingested :: time
  in_status :: inbound_status
  in_processed_at :: "time option"
  in_error :: "string option"
  in_media :: media_type
  in_media_key :: "string option"
  in_audio_url :: "string option"
  in_transcription :: "string option"
  in_confidence :: "rat option"
  in_transcriber :: "string option"
  in_raw :: jval

datatype outbound_status = OutSent | OutFailed
datatype outbound_type = OutText | OutTemplate | OutAudio
datatype trigger = TrigInbound | TrigFollowUp | TrigWindowExpired | TrigOperator

record outbound =
  ob_id :: uuid
  ob_tenant :: uuid
  ob_talk :: uuid
  ob_lead :: uuid
  ob_provider :: string
  ob_type :: outbound_type
  ob_body :: "string option"
  ob_template :: "string option"
  ob_language :: "string option"
  ob_params :: jval
  ob_status :: outbound_status
  ob_external :: "string option"
  ob_error :: "string option"
  ob_trigger :: trigger
  ob_inbound :: "uuid option"
  ob_follow_up :: "uuid option"
  ob_client_id :: "uuid option"
  ob_sent :: time
  ob_media :: media_type
  ob_media_key :: "string option"
  ob_audio_url :: "string option"
  ob_audio_ms :: "int option"
  ob_voice_id :: "string option"
  ob_emotion :: "string option"

datatype action_status = Pending | Executing | Succeeded | Failed

record action_execution =
  ax_id :: uuid
  ax_tenant :: uuid
  ax_talk :: uuid
  ax_node :: string
  ax_field :: string
  ax_hash :: string
  ax_adapter :: string
  ax_handler :: string
  ax_params :: "jval dict"
  ax_status :: action_status
  ax_attempts :: int
  ax_error :: "string option"
  ax_external :: "string option"

record treeflow_version =
  tv_id :: uuid
  tv_tenant :: uuid
  tv_treeflow :: string
  tv_version :: string
  tv_hash :: string
  tv_yaml :: string
  tv_created :: time

record tenant =
  tn_id :: uuid
  tn_slug :: string
  tn_architecture :: int

subsection \<open>The database\<close>

record db =
  db_tenants :: "tenant list"
  db_versions :: "treeflow_version list"
  db_leads :: "lead list"
  db_talks :: "talk list"
  db_states :: "talkflow_state list"
  db_inbound :: "inbound list"
  db_outbound :: "outbound list"
  db_actions :: "action_execution list"
  db_next :: uuid

text \<open>
  Writing a row back is what the flush of a modified ORM object does: the row with its primary
  key is replaced.
\<close>

definition put_talk :: "talk \<Rightarrow> db \<Rightarrow> db" where
  "put_talk t d = d\<lparr>db_talks := update_where (\<lambda>r. tk_id r = tk_id t) (\<lambda>_. t) (db_talks d)\<rparr>"

definition put_state :: "talkflow_state \<Rightarrow> db \<Rightarrow> db" where
  "put_state s d = d\<lparr>db_states := update_where (\<lambda>r. st_talk r = st_talk s) (\<lambda>_. s) (db_states d)\<rparr>"

definition put_lead :: "lead \<Rightarrow> db \<Rightarrow> db" where
  "put_lead l d = d\<lparr>db_leads := update_where (\<lambda>r. ld_id r = ld_id l) (\<lambda>_. l) (db_leads d)\<rparr>"

definition put_inbound :: "inbound \<Rightarrow> db \<Rightarrow> db" where
  "put_inbound m d = d\<lparr>db_inbound := update_where (\<lambda>r. in_id r = in_id m) (\<lambda>_. m) (db_inbound d)\<rparr>"

definition put_action :: "action_execution \<Rightarrow> db \<Rightarrow> db" where
  "put_action a d = d\<lparr>db_actions := update_where (\<lambda>r. ax_id r = ax_id a) (\<lambda>_. a) (db_actions d)\<rparr>"

definition find_row :: "('r \<Rightarrow> uuid) \<Rightarrow> uuid \<Rightarrow> 'r list \<Rightarrow> 'r option" where
  \<comment> \<open>\<open>SELECT \<dots> WHERE pk = x\<close>\<close>
  "find_row key x rows = find (\<lambda>r. key r = x) rows"

lemma find_row_Some: "find_row key x rows = Some r \<Longrightarrow> r \<in> set rows \<and> key r = x"
  by (auto simp: find_row_def find_Some_iff)

lemma find_row_None: "find_row key x rows = None \<longleftrightarrow> x \<notin> key ` set rows"
  by (auto simp: find_row_def find_None_iff)

lemma find_row_update:
  assumes key: "\<And>r. key (f r) = key r"
  shows "find_row key x (update_where (\<lambda>r. key r = y) f rows) =
    (if x = y then map_option f (find_row key x rows) else find_row key x rows)"
proof (induction rows)
  case Nil
  then show ?case by (simp add: find_row_def update_where_def)
next
  case (Cons r rows)
  then show ?case using key by (auto simp: find_row_def update_where_def)
qed

lemma find_row_put:
  "find_row key x (update_where (\<lambda>r. key r = key t) (\<lambda>_. t) rows) =
   (if x = key t then (if find_row key x rows = None then None else Some t)
    else find_row key x rows)"
  by (induction rows) (auto simp: find_row_def update_where_def)

end
