(* ===== verification/Treeflow_Loader.thy ===== *)
theory Treeflow_Loader
  imports Sdr_Models
begin

text \<open>
  \<open>flowengine/treeflow_loader.py\<close>: the data classes of a conversation tree and the parser that
  builds them from YAML data.  The parser is translated check by check; the texts of its error
  messages are abbreviated to the name of the check.  \<open>treeflow_wf\<close> states what a loaded tree
  promises to the rest of the program, and \<open>load_treeflow_v2_wf\<close> that loading guarantees it.
\<close>

subsection \<open>Data classes\<close>

record collect_field =
  cf_field :: string
  cf_type :: string
  cf_required :: bool
  cf_hint :: "string option"

record exit_condition =
  ec_type :: string
  ec_expression :: "string option"
  ec_fallback :: "string option"

record transition =
  tr_condition :: string
  tr_target :: string

record on_max_turns =
  om_action :: string
  om_hint :: "string option"

record tool_payload =
  tp_summary :: string
  tp_kb_ref :: string
  tp_max_turns :: int
  tp_criteria :: string
  tp_on_max :: on_max_turns
  tp_expected :: "jval option"

record objection =
  ob_name :: string
  ob_description :: string
  ob_mode :: string
  ob_payload :: "tool_payload option"

record on_collected =
  oc_field :: string
  oc_adapter :: string
  oc_handler :: string
  oc_params :: "jval dict"

record completion_rule =
  cr_expression :: string
  cr_outcome :: string

record talk_lifecycle =
  tl_inactivity :: "duration option"
  tl_duration :: "duration option"
  tl_completed :: "completion_rule list"

record treeflow_node =
  nd_id :: string
  nd_objetivo :: string
  nd_bridge :: string
  nd_collects :: "collect_field list"
  nd_exit :: exit_condition
  nd_next :: "transition list"
  nd_objections :: "objection list"
  nd_on_collected :: "on_collected list"

record treeflow =
  tf_id :: string
  tf_version :: string
  tf_display :: "string option"
  tf_persona :: jval
  tf_entry :: string
  tf_nodes :: "treeflow_node dict"
  tf_objections :: "objection list"
  tf_lifecycle :: "talk_lifecycle option"

definition load_error :: "string \<Rightarrow> pyexn + 'a" where
  "load_error msg = Inl (TreeflowLoadError msg)"

definition require_keys :: "string list \<Rightarrow> jval \<Rightarrow> string \<Rightarrow> pyexn + unit" where
  \<comment> \<open>\<open>missing = required - raw.keys()\<close>\<close>
  "require_keys ks raw msg =
     (case raw of
        JObj d \<Rightarrow> if \<forall>k \<in> set ks. k \<in> fst ` set d then Inr () else load_error msg
      | _ \<Rightarrow> Inl AttributeError)"

subsection \<open>Objections\<close>

definition parse_tool_payload :: "ext \<Rightarrow> jval option \<Rightarrow> pyexn + tool_payload" where
  "parse_tool_payload E tp =
     (case tp of
        Some (JObj d) \<Rightarrow>
          bindE (py_int (case map_of d ''max_treatment_turns'' of None \<Rightarrow> JInt 0 | Some v \<Rightarrow> v)) (\<lambda>mtt.
          if \<not> (1 \<le> mtt \<and> mtt \<le> 10) then load_error ''max_treatment_turns'' else
          let cas = (case map_of d ''canonical_arguments_summary'' of None \<Rightarrow> [] | Some v \<Rightarrow> py_str (float_repr E) v) in
          if length cas < 10 then load_error ''canonical_arguments_summary'' else
          let rc = (case map_of d ''resolution_criteria'' of None \<Rightarrow> [] | Some v \<Rightarrow> py_str (float_repr E) v) in
          if length rc < 10 then load_error ''resolution_criteria'' else
          let omtr = (case map_of d ''on_max_turns_no_resolution'' of
                        None \<Rightarrow> JObj [] | Some v \<Rightarrow> if truthy v then v else JObj []) in
          bindE (py_get omtr ''action'') (\<lambda>action.
          bindE (py_in_set action [''gracefully_continue'', ''escalate_to_human'']) (\<lambda>ok.
          if \<not> ok then load_error ''on_max_turns_no_resolution.action'' else
          bindE (as_str (the action)) (\<lambda>act.
          bindE (bindE (py_get omtr ''message_hint'') as_str_opt) (\<lambda>hint.
          bindE (case map_of d ''kb_ref'' of None \<Rightarrow> Inr [] | Some v \<Rightarrow> as_str v) (\<lambda>kb.
          Inr \<lparr>tp_summary = cas, tp_kb_ref = kb, tp_max_turns = mtt, tp_criteria = rc,
               tp_on_max = \<lparr>om_action = act, om_hint = hint\<rparr>,
               tp_expected = map_of d ''expected_turns''\<rparr>))))))
      | _ \<Rightarrow> load_error ''tool_payload'')"

definition parse_objection :: "ext \<Rightarrow> jval \<Rightarrow> pyexn + objection" where
  "parse_objection E raw =
     bindE (require_keys [''id'', ''description'', ''treatment_mode''] raw ''objection missing fields'') (\<lambda>_.
     bindE (py_getitem raw ''description'') (\<lambda>d.
     let desc = py_str (float_repr E) d in
     if length desc < 10 then load_error ''description'' else
     bindE (py_getitem raw ''treatment_mode'') (\<lambda>mode.
     bindE (py_in_set (Some mode) [''tool'', ''inline'']) (\<lambda>ok.
     if \<not> ok then load_error ''treatment_mode'' else
     bindE (as_str mode) (\<lambda>m.
     bindE (py_get raw ''tool_payload'') (\<lambda>tp.
     bindE (if m = ''tool'' then bindE (parse_tool_payload E tp) (\<lambda>p. Inr (Some p)) else Inr None) (\<lambda>payload.
     bindE (py_getitem raw ''id'') (\<lambda>i.
     Inr \<lparr>ob_name = py_str (float_repr E) i, ob_description = desc, ob_mode = m, ob_payload = payload\<rparr>))))))))"

subsection \<open>Actions on collection\<close>

text \<open>The recursive walk over \<open>params\<close>, which parses every text in it as a template.\<close>

fun templates_ok :: "(string \<Rightarrow> bool) \<Rightarrow> jval \<Rightarrow> bool" where
  "templates_ok parses (JStr s) = parses s"
| "templates_ok parses (JObj d) = (\<forall>kv \<in> set d. templates_ok parses (snd kv))"
| "templates_ok parses (JList xs) = (\<forall>v \<in> set xs. templates_ok parses v)"
| "templates_ok parses _ = True"

definition required_text :: "jval \<Rightarrow> string \<Rightarrow> pyexn + string" where
  \<comment> \<open>\<open>if not v or not isinstance(v, str): raise\<close>\<close>
  "required_text raw k =
     bindE (py_get raw k) (\<lambda>v.
       case v of Some (JStr s) \<Rightarrow> if s = [] then load_error k else Inr s | _ \<Rightarrow> load_error k)"

definition parse_on_collected_entry :: "ext \<Rightarrow> string list \<Rightarrow> jval \<Rightarrow> pyexn + on_collected" where
  "parse_on_collected_entry E cols raw =
     (case raw of
        JObj _ \<Rightarrow>
          bindE (required_text raw ''field'') (\<lambda>f.
          if f \<notin> set cols then load_error ''on_collected field not in node.collects'' else
          bindE (required_text raw ''adapter'') (\<lambda>ad.
          bindE (required_text raw ''handler'') (\<lambda>h.
          bindE (py_get raw ''params'') (\<lambda>p.
          case (case p of None \<Rightarrow> JObj [] | Some JNull \<Rightarrow> JObj [] | Some v \<Rightarrow> v) of
            JObj ps \<Rightarrow>
              if templates_ok (jinja_parses E) (JObj ps)
              then Inr \<lparr>oc_field = f, oc_adapter = ad, oc_handler = h, oc_params = ps\<rparr>
              else load_error ''template syntax''
          | _ \<Rightarrow> load_error ''params must be a mapping''))))
      | _ \<Rightarrow> load_error ''on_collected entry must be a mapping'')"

definition parse_on_collected :: "ext \<Rightarrow> string list \<Rightarrow> jval option \<Rightarrow> pyexn + on_collected list" where
  "parse_on_collected E cols raw =
     (case raw of
        None \<Rightarrow> Inr []
      | Some JNull \<Rightarrow> Inr []
      | Some (JList xs) \<Rightarrow> mapE (parse_on_collected_entry E cols) xs
      | _ \<Rightarrow> load_error ''on_collected must be a list'')"

subsection \<open>Nodes\<close>

definition parse_collect :: "jval \<Rightarrow> pyexn + collect_field" where
  "parse_collect c =
     bindE (bindE (py_getitem c ''field'') as_str) (\<lambda>f.
     bindE (bindE (py_getitem c ''type'') as_str) (\<lambda>t.
     bindE (py_get c ''required'') (\<lambda>r.
     bindE (bindE (py_get c ''extraction_hint'') as_str_opt) (\<lambda>h.
     Inr \<lparr>cf_field = f, cf_type = t, cf_required = truthy_opt r, cf_hint = h\<rparr>))))"

definition parse_exit :: "jval \<Rightarrow> pyexn + exit_condition" where
  "parse_exit ec =
     bindE (bindE (py_getitem ec ''type'') as_str) (\<lambda>t.
     bindE (bindE (py_get ec ''expression'') as_str_opt) (\<lambda>e.
     bindE (bindE (py_get ec ''fallback'') as_str_opt) (\<lambda>f.
     Inr \<lparr>ec_type = t, ec_expression = e, ec_fallback = f\<rparr>)))"

definition parse_transition :: "ext \<Rightarrow> jval \<Rightarrow> pyexn + transition" where
  "parse_transition E t =
     bindE (py_getitem t ''condition'') (\<lambda>c.
     bindE (bindE (py_getitem t ''target'') as_str) (\<lambda>g.
     Inr \<lparr>tr_condition = py_str (float_repr E) c, tr_target = g\<rparr>))"

definition parse_node :: "ext \<Rightarrow> jval \<Rightarrow> pyexn + treeflow_node" where
  "parse_node E raw =
     bindE (require_keys [''id'', ''objetivo'', ''collects'', ''exit_condition'', ''next_nodes''] raw
              ''node missing fields'') (\<lambda>_.
     bindE (bindE (bindE (py_getitem raw ''collects'') py_iter) (mapE parse_collect)) (\<lambda>collects.
     bindE (bindE (py_getitem raw ''exit_condition'') parse_exit) (\<lambda>ec.
     bindE (bindE (bindE (py_getitem raw ''next_nodes'') py_iter) (mapE (parse_transition E))) (\<lambda>trs.
     bindE (py_get raw ''handles_objections'') (\<lambda>ho.
     bindE (case ho of None \<Rightarrow> Inr [] | Some v \<Rightarrow> bindE (py_iter v) (mapE (parse_objection E))) (\<lambda>objs.
     bindE (py_get raw ''on_collected'') (\<lambda>oc.
     bindE (parse_on_collected E (map cf_field collects) oc) (\<lambda>actions.
     bindE (bindE (py_getitem raw ''id'') as_str) (\<lambda>i.
     bindE (bindE (py_getitem raw ''objetivo'') as_str) (\<lambda>o'.
     bindE (py_get raw ''bridge_instruction'') (\<lambda>b.
     bindE (case b of None \<Rightarrow> Inr [] | Some v \<Rightarrow> as_str v) (\<lambda>bridge.
     Inr \<lparr>nd_id = i, nd_objetivo = o', nd_bridge = bridge, nd_collects = collects, nd_exit = ec,
          nd_next = trs, nd_objections = objs, nd_on_collected = actions\<rparr>))))))))))))"

subsection \<open>Lifecycle\<close>

definition hours :: "int \<Rightarrow> duration" where
  "hours n = n * 3600000000"

definition days :: "int \<Rightarrow> duration" where
  "days n = n * 86400000000"

definition parse_limit :: "ext \<Rightarrow> string \<Rightarrow> duration \<Rightarrow> duration \<Rightarrow> jval option \<Rightarrow> pyexn + duration option" where
  "parse_limit E name lo hi v =
     (if \<not> truthy_opt v then Inr None
      else case the v of
        JStr s \<Rightarrow>
          (case iso_duration E s of
             IsoBad \<Rightarrow> load_error name
           | IsoCalendar \<Rightarrow> Inl TypeError
           | IsoDelta d \<Rightarrow> if lo \<le> d \<and> d \<le> hi then Inr (Some d) else load_error name)
      | _ \<Rightarrow> Inl TypeError)"

definition parse_completion_rule :: "ext \<Rightarrow> jval \<Rightarrow> pyexn + completion_rule" where
  "parse_completion_rule E entry =
     (case entry of
        JObj d \<Rightarrow>
          if \<not> truthy_opt (map_of d ''expression'') then load_error ''missing expression'' else
          bindE (py_in_set (map_of d ''outcome'') [''success'', ''failure'', ''no_interest'']) (\<lambda>ok.
          if \<not> ok then load_error ''outcome'' else
          case the (map_of d ''expression'') of
            JStr e \<Rightarrow>
              if eval_parses E e
              then bindE (as_str (the (map_of d ''outcome''))) (\<lambda>out.
                   Inr \<lparr>cr_expression = e, cr_outcome = out\<rparr>)
              else load_error ''expression syntax''
          | _ \<Rightarrow> load_error ''expression syntax'')
      | _ \<Rightarrow> load_error ''close_when_completed entries must be mappings'')"

definition parse_talk_lifecycle :: "ext \<Rightarrow> jval option \<Rightarrow> pyexn + talk_lifecycle option" where
  "parse_talk_lifecycle E raw =
     (case raw of
        None \<Rightarrow> Inr None
      | Some JNull \<Rightarrow> Inr None
      | Some v \<Rightarrow>
          bindE (bindE (py_get v ''close_after_inactivity'')
                   (parse_limit E ''close_after_inactivity'' (hours 1) (days 365))) (\<lambda>inact.
          bindE (bindE (py_get v ''close_after_duration'')
                   (parse_limit E ''close_after_duration'' (days 1) (days 730))) (\<lambda>dur.
          bindE (py_get v ''close_when_completed'') (\<lambda>c.
          bindE (if truthy_opt c then bindE (py_iter (the c)) (mapE (parse_completion_rule E)) else Inr []) (\<lambda>rules.
          Inr (Some \<lparr>tl_inactivity = inact, tl_duration = dur, tl_completed = rules\<rparr>))))))"

subsection \<open>The whole tree\<close>

text \<open>\<open>for raw in nodes_raw: nodes[raw["id"]] = _parse_node(raw)\<close>; a repeated id replaces the node.\<close>

fun parse_nodes :: "ext \<Rightarrow> treeflow_node dict \<Rightarrow> jval list \<Rightarrow> pyexn + treeflow_node dict" where
  "parse_nodes E acc [] = Inr acc"
| "parse_nodes E acc (raw # raws) =
     bindE (parse_node E raw) (\<lambda>n. parse_nodes E (dict_put (nd_id n) n acc) raws)"

definition load_treeflow_data :: "ext \<Rightarrow> jval \<Rightarrow> pyexn + treeflow" where
  "load_treeflow_data E data =
     (case data of
        JObj d \<Rightarrow>
          bindE (require_keys [''id'', ''version'', ''sdr_persona'', ''entry_node'', ''nodes''] data
                   ''missing required fields'') (\<lambda>_.
          bindE (py_getitem data ''nodes'') (\<lambda>nodes_raw.
          case nodes_raw of
            JList raws \<Rightarrow>
              bindE (parse_nodes E [] raws) (\<lambda>nodes.
              bindE (py_getitem data ''entry_node'') (\<lambda>ev.
              bindE (py_in_set (Some ev) (map fst nodes)) (\<lambda>ok.
              if \<not> ok then load_error ''entry_node'' else
              bindE (as_str ev) (\<lambda>entry.
              if \<exists>kn \<in> set nodes. \<exists>tr \<in> set (nd_next (snd kn)). tr_target tr \<notin> fst ` set nodes
              then load_error ''transition target'' else
              bindE (case map_of d ''global_objections'' of
                       None \<Rightarrow> Inr [] | Some v \<Rightarrow> bindE (py_iter v) (mapE (parse_objection E))) (\<lambda>objs.
              bindE (parse_talk_lifecycle E (map_of d ''talk_lifecycle'')) (\<lambda>lc.
              bindE (bindE (py_getitem data ''id'') as_str) (\<lambda>i.
              bindE (py_getitem data ''version'') (\<lambda>ver.
              bindE (as_str_opt (map_of d ''display_name'')) (\<lambda>disp.
              bindE (py_getitem data ''sdr_persona'') (\<lambda>persona.
              Inr \<lparr>tf_id = i, tf_version = py_str (float_repr E) ver, tf_display = disp,
                   tf_persona = persona, tf_entry = entry, tf_nodes = nodes,
                   tf_objections = objs, tf_lifecycle = lc\<rparr>))))))))))
          | _ \<Rightarrow> load_error ''nodes must be a list''))
      | _ \<Rightarrow> load_error ''root must be a mapping'')"

definition load_treeflow_v2 :: "ext \<Rightarrow> string \<Rightarrow> pyexn + treeflow" where
  "load_treeflow_v2 E yaml_text =
     (case yaml_load E yaml_text of
        None \<Rightarrow> load_error ''invalid YAML''
      | Some data \<Rightarrow> load_treeflow_data E data)"

subsection \<open>What loading promises\<close>

definition payload_wf :: "tool_payload \<Rightarrow> bool" where
  "payload_wf p =
     (1 \<le> tp_max_turns p \<and> tp_max_turns p \<le> 10 \<and> 10 \<le> length (tp_summary p) \<and>
      10 \<le> length (tp_criteria p) \<and>
      om_action (tp_on_max p) \<in> {''gracefully_continue'', ''escalate_to_human''})"

definition objection_wf :: "objection \<Rightarrow> bool" where
  "objection_wf o' =
     (10 \<le> length (ob_description o') \<and>
      (ob_mode o' = ''inline'' \<and> ob_payload o' = None \<or>
       ob_mode o' = ''tool'' \<and> (\<exists>p. ob_payload o' = Some p \<and> payload_wf p)))"

definition node_wf :: "ext \<Rightarrow> treeflow_node \<Rightarrow> bool" where
  "node_wf E n =
     ((\<forall>o' \<in> set (nd_objections n). objection_wf o') \<and>
      (\<forall>a \<in> set (nd_on_collected n).
         oc_field a \<in> cf_field ` set (nd_collects n) \<and> oc_adapter a \<noteq> [] \<and> oc_handler a \<noteq> [] \<and>
         templates_ok (jinja_parses E) (JObj (oc_params a))))"

definition lifecycle_wf :: "ext \<Rightarrow> talk_lifecycle \<Rightarrow> bool" where
  "lifecycle_wf E l =
     ((\<forall>d \<in> set_option (tl_inactivity l). hours 1 \<le> d \<and> d \<le> days 365) \<and>
      (\<forall>d \<in> set_option (tl_duration l). days 1 \<le> d \<and> d \<le> days 730) \<and>
      (\<forall>r \<in> set (tl_completed l). eval_parses E (cr_expression r) \<and> cr_expression r \<noteq> [] \<and>
         cr_outcome r \<in> {''success'', ''failure'', ''no_interest''}))"

definition treeflow_wf :: "ext \<Rightarrow> treeflow \<Rightarrow> bool" where
  "treeflow_wf E t =
     (tf_entry t \<in> fst ` set (tf_nodes t) \<and> dict_wf (tf_nodes t) \<and>
      (\<forall>kn \<in> set (tf_nodes t). fst kn = nd_id (snd kn) \<and> node_wf E (snd kn) \<and>
         (\<forall>tr \<in> set (nd_next (snd kn)). tr_target tr \<in> fst ` set (tf_nodes t))) \<and>
      (\<forall>o' \<in> set (tf_objections t). objection_wf o') \<and>
      (\<forall>l \<in> set_option (tf_lifecycle t). lifecycle_wf E l))"

lemma load_error_neq [simp]: "load_error m \<noteq> Inr x"
  by (simp add: load_error_def)

lemma returns_load_error [returns_intro]: "returns (load_error m) P"
  by (simp add: returns_def)

lemma parse_tool_payload_wf: "returns (parse_tool_payload E v) payload_wf"
  unfolding parse_tool_payload_def Let_def
  by (intro returns_intro) (auto simp: payload_wf_def py_in_set_True)

lemma some_payload_wf:
  "returns (bindE (parse_tool_payload E tp) (\<lambda>p. Inr (Some p))) (\<lambda>p. \<exists>q. p = Some q \<and> payload_wf q)"
  by (intro returns_intro) (auto dest: returnsD [OF parse_tool_payload_wf])

lemma parse_objection_wf: "returns (parse_objection E v) objection_wf"
  unfolding parse_objection_def Let_def
  by (intro returns_intro)
    (auto simp: objection_wf_def py_in_set_True split: if_splits dest: returnsD [OF some_payload_wf])

definition action_ok :: "ext \<Rightarrow> string list \<Rightarrow> on_collected \<Rightarrow> bool" where
  "action_ok E cols a =
     (oc_field a \<in> set cols \<and> oc_adapter a \<noteq> [] \<and> oc_handler a \<noteq> [] \<and>
      templates_ok (jinja_parses E) (JObj (oc_params a)))"

lemma required_text_nonempty: "returns (required_text raw k) (\<lambda>s. s \<noteq> [])"
  unfolding required_text_def by (intro returns_intro)

lemma parse_on_collected_entry_wf: "returns (parse_on_collected_entry E cols v) (action_ok E cols)"
  unfolding parse_on_collected_entry_def
  by (intro returns_intro)
    (auto simp: action_ok_def dest: returnsD [OF required_text_nonempty])

lemma parse_on_collected_wf:
  "returns (parse_on_collected E cols v) (\<lambda>xs. \<forall>a \<in> set xs. action_ok E cols a)"
  unfolding parse_on_collected_def
  by (intro returns_intro returns_mapE parse_on_collected_entry_wf) simp_all

lemma parse_objections_wf:
  "returns (bindE (py_iter v) (mapE (parse_objection E))) (\<lambda>os. \<forall>o' \<in> set os. objection_wf o')"
  by (intro returns_intro returns_mapE parse_objection_wf)

lemma parse_objections_opt_wf:
  "returns (case v of None \<Rightarrow> Inr [] | Some v \<Rightarrow> bindE (py_iter v) (mapE (parse_objection E)))
     (\<lambda>os. \<forall>o' \<in> set os. objection_wf o')"
  by (intro returns_intro parse_objections_wf) simp_all

lemma parse_node_wf: "returns (parse_node E raw) (node_wf E)"
  unfolding parse_node_def
proof (intro returns_intro, goal_cases)
  case (1 _ collects ec trs ho objs oc actions i obj b bridge)
  show ?case
    using returnsD [OF parse_objections_opt_wf 1(6)] returnsD [OF parse_on_collected_wf 1(8)]
    by (auto simp: node_wf_def action_ok_def)
qed

lemma parse_limit_bounds:
  "returns (parse_limit E name lo hi v) (\<lambda>r. \<forall>d \<in> set_option r. lo \<le> d \<and> d \<le> hi)"
  unfolding parse_limit_def
  by (intro returns_intro) (auto simp: returns_def split: iso_result.splits)

definition rule_wf :: "ext \<Rightarrow> completion_rule \<Rightarrow> bool" where
  "rule_wf E r =
     (eval_parses E (cr_expression r) \<and> cr_expression r \<noteq> [] \<and>
      cr_outcome r \<in> {''success'', ''failure'', ''no_interest''})"

lemma parse_completion_rule_wf: "returns (parse_completion_rule E v) (rule_wf E)"
  unfolding parse_completion_rule_def
  by (intro returns_intro)
    (auto simp: rule_wf_def py_in_set_True truthy_opt_def split: option.splits)

lemma limit_field_bounds:
  "returns (bindE m (parse_limit E name lo hi)) (\<lambda>r. \<forall>d \<in> set_option r. lo \<le> d \<and> d \<le> hi)"
  by (intro returns_intro parse_limit_bounds)

lemma completion_rules_wf:
  "returns (if b then bindE m (mapE (parse_completion_rule E)) else Inr []) (\<lambda>rs. \<forall>r \<in> set rs. rule_wf E r)"
  by (intro returns_intro returns_mapE parse_completion_rule_wf) simp

lemma parse_talk_lifecycle_wf:
  "returns (parse_talk_lifecycle E raw) (\<lambda>r. \<forall>l \<in> set_option r. lifecycle_wf E l)"
  unfolding parse_talk_lifecycle_def
  by (intro returns_intro)
    (auto simp: lifecycle_wf_def rule_wf_def dest!: returnsD [OF limit_field_bounds]
      returnsD [OF completion_rules_wf])

lemma parse_nodes_wf:
  assumes "parse_nodes E acc raws = Inr nodes"
    and "dict_wf acc" and "\<forall>kn \<in> set acc. fst kn = nd_id (snd kn) \<and> node_wf E (snd kn)"
  shows "dict_wf nodes \<and> (\<forall>kn \<in> set nodes. fst kn = nd_id (snd kn) \<and> node_wf E (snd kn))"
  using assms
proof (induction raws arbitrary: acc)
  case Nil
  then show ?case by simp
next
  case (Cons raw raws)
  then obtain n where n: "parse_node E raw = Inr n"
    and rest: "parse_nodes E (dict_put (nd_id n) n acc) raws = Inr nodes"
    by (auto simp: bindE_eq_Inr)
  have "node_wf E n" using returnsD [OF parse_node_wf n] .
  then show ?case
    using Cons.prems
    by (intro Cons.IH [OF rest]) (auto simp: dict_wf_put dest!: in_set_dict_put)
qed

lemma load_treeflow_data_wf: "returns (load_treeflow_data E data) (treeflow_wf E)"
  unfolding load_treeflow_data_def
proof (intro returns_intro, goal_cases)
  case (1 d _ nodes_raw raws nodes ev ok entry objs lc i ver disp persona)
  then show ?case
    using parse_nodes_wf [of E "[]" raws nodes] returnsD [OF parse_objections_opt_wf 1(11)]
      returnsD [OF parse_talk_lifecycle_wf 1(12)]
    by (auto simp: treeflow_wf_def dict_wf_def py_in_set_def)
qed

lemma treeflow_wf_target:
  assumes "treeflow_wf E tf" and kn: "(k, n) \<in> set (tf_nodes tf)" and tr: "tr \<in> set (nd_next n)"
  shows "tr_target tr \<in> fst ` set (tf_nodes tf)"
proof -
  have "\<forall>kn \<in> set (tf_nodes tf). \<forall>tr \<in> set (nd_next (snd kn)). tr_target tr \<in> fst ` set (tf_nodes tf)"
    using assms(1) unfolding treeflow_wf_def by blast
  from bspec [OF this kn] tr show ?thesis by simp
qed

end
