(* ===== verification/Repositories.thy ===== *)
theory Repositories
  imports Sdr_Models
begin

text \<open>
  The repositories of talks, runtime states and leads (\<open>repositories/*.py\<close>), as functions on the
  database.  A query sees the rows written by the same session (SQLAlchemy flushes before a query).
\<close>

subsection \<open>Talks\<close>

definition active_statuses :: "talk_status list" where
  "active_statuses = [Active, Paused, RequiresReview]"

definition find_active_for_lead :: "uuid \<Rightarrow> uuid \<Rightarrow> db \<Rightarrow> talk option" where
  "find_active_for_lead tenant_id lead_id d =
     first_max tk_created
       (\<lambda>t. tk_tenant t = tenant_id \<and> tk_lead t = lead_id \<and> tk_status t \<in> set active_statuses)
       (db_talks d)"

text \<open>\<open>ORDER BY closed_at DESC NULLS LAST LIMIT 1\<close>.\<close>

definition find_most_recent_closed :: "uuid \<Rightarrow> uuid \<Rightarrow> db \<Rightarrow> talk option" where
  "find_most_recent_closed tenant_id lead_id d =
     (let p = (\<lambda>t. tk_tenant t = tenant_id \<and> tk_lead t = lead_id \<and> is_closed (tk_status t)) in
      case first_max (\<lambda>t. the (tk_closed_at t)) (\<lambda>t. p t \<and> tk_closed_at t \<noteq> None) (db_talks d) of
        Some t \<Rightarrow> Some t
      | None \<Rightarrow> find p (db_talks d))"

definition create_talk :: "time \<Rightarrow> uuid \<Rightarrow> uuid \<Rightarrow> string \<Rightarrow> uuid \<Rightarrow> db \<Rightarrow> db \<times> talk" where
  "create_talk now tenant_id lead_id treeflow_id version_id d =
     (let t = \<lparr>tk_id = db_next d, tk_tenant = tenant_id, tk_lead = lead_id, tk_treeflow = treeflow_id,
               tk_version = version_id, tk_status = Active, tk_mode = ModeAi, tk_operator = None,
               tk_created = now, tk_last_message = now, tk_closed_at = None, tk_closed_reason = None,
               tk_closed_by = None, tk_escalated_at = None, tk_escalation_category = None,
               tk_escalation_reason = None, tk_review_reason = None, tk_turns = 0, tk_tokens = []\<rparr>
      in (d\<lparr>db_talks := db_talks d @ [t], db_next := Suc (db_next d)\<rparr>, t))"

subsection \<open>Runtime states\<close>

definition load_state :: "uuid \<Rightarrow> db \<Rightarrow> talkflow_state option" where
  "load_state talk_id d = find_row st_talk talk_id (db_states d)"

definition initialize_state :: "uuid \<Rightarrow> uuid \<Rightarrow> string \<Rightarrow> db \<Rightarrow> db \<times> talkflow_state" where
  "initialize_state talk_id tenant_id entry d =
     (let s = \<lparr>st_talk = talk_id, st_tenant = tenant_id, st_node = entry, st_collected = [],
               st_facts = [], st_messages = [], st_treatment = None, st_objections = []\<rparr>
      in (d\<lparr>db_states := db_states d @ [s]\<rparr>, s))"

text \<open>The rolling window: append, then keep the last \<open>max_window\<close> messages.\<close>

definition append_message :: "int \<Rightarrow> message \<Rightarrow> talkflow_state \<Rightarrow> pyexn + talkflow_state" where
  "append_message max_window m s =
     (if max_window < 1 then Inl (ValueError ''max_window must be >= 1'')
      else
        (let current = st_messages s @ [m] in
         Inr (s\<lparr>st_messages :=
                 (if int (length current) > max_window
                  then drop (length current - nat max_window) current else current)\<rparr>)))"

text \<open>The schema \<open>Message\<close> requires a positive turn index.\<close>

definition make_message :: "role \<Rightarrow> string \<Rightarrow> source \<Rightarrow> int \<Rightarrow> time \<Rightarrow> pyexn + message" where
  "make_message r content src turn ts =
     (if turn < 1 then Inl (ValueError ''turn_index'')
      else Inr \<lparr>msg_role = r, msg_content = content, msg_source = src, msg_media = MText,
                msg_turn = turn, msg_timestamp = ts\<rparr>)"

subsection \<open>Leads\<close>

definition find_by_channel_identifier :: "uuid \<Rightarrow> string \<Rightarrow> string \<Rightarrow> db \<Rightarrow> pyexn + lead option" where
  "find_by_channel_identifier tenant_id channel identifier d =
     scalar_one_or_none
       (filter (\<lambda>l. ld_tenant l = tenant_id \<and> map_of (ld_channels l) channel = Some (JStr identifier))
          (db_leads d))"

definition set_risk_level :: "time \<Rightarrow> string \<Rightarrow> string option \<Rightarrow> lead \<Rightarrow> pyexn + lead" where
  "set_risk_level now level reason l =
     (if level = ''normal'' then Inr (l\<lparr>ld_risk := RiskNormal, ld_risk_reason := reason, ld_risk_since := Some now\<rparr>)
      else if level = ''elevated'' then Inr (l\<lparr>ld_risk := RiskElevated, ld_risk_reason := reason, ld_risk_since := Some now\<rparr>)
      else if level = ''banned'' then Inr (l\<lparr>ld_risk := RiskBanned, ld_risk_reason := reason, ld_risk_since := Some now\<rparr>)
      else Inl (ValueError ''invalid risk_level''))"

text \<open>
  \<open>INSERT INTO leads\<close> with the partial unique indexes of migration 0006: at most one lead per
  tenant and WhatsApp number, and per tenant and label.
\<close>

definition new_lead :: "time \<Rightarrow> uuid \<Rightarrow> string \<Rightarrow> jval dict \<Rightarrow> lead_status \<Rightarrow> lead" where
  "new_lead now tenant_id address channels status =
     \<lparr>ld_id = 0, ld_tenant = tenant_id, ld_e164 = Some address, ld_label = None, ld_status = status,
      ld_unreachable_reason = None, ld_channels = channels, ld_display_name = None,
      ld_risk = RiskNormal, ld_risk_since = None, ld_risk_reason = None, ld_channel_label = ''main'',
      ld_created = now\<rparr>"

definition insert_lead :: "lead \<Rightarrow> db \<Rightarrow> pyexn + (db \<times> lead)" where
  "insert_lead l d =
     (if \<exists>r \<in> set (db_leads d). ld_tenant r = ld_tenant l \<and>
          (ld_e164 l \<noteq> None \<and> ld_e164 r = ld_e164 l \<or> ld_label l \<noteq> None \<and> ld_label r = ld_label l)
      then Inl IntegrityError
      else (let l' = l\<lparr>ld_id := db_next d\<rparr>
            in Inr (d\<lparr>db_leads := db_leads d @ [l'], db_next := Suc (db_next d)\<rparr>, l')))"

subsection \<open>Properties\<close>

lemma find_active_Some:
  "find_active_for_lead tn l d = Some t \<Longrightarrow>
   t \<in> set (db_talks d) \<and> tk_tenant t = tn \<and> tk_lead t = l \<and> tk_status t \<in> {Active, Paused, RequiresReview}"
  unfolding find_active_for_lead_def by (auto simp: active_statuses_def dest!: first_max_Some)

lemma find_active_None:
  "find_active_for_lead tn l d = None \<longleftrightarrow>
   (\<forall>t \<in> set (db_talks d). tk_tenant t = tn \<and> tk_lead t = l \<longrightarrow> tk_status t \<notin> {Active, Paused, RequiresReview})"
  unfolding find_active_for_lead_def first_max_None by (auto simp: active_statuses_def)

lemma append_message_window:
  assumes "append_message n m s = Inr s'"
  shows "st_messages s' = take_last (nat n) (st_messages s @ [m]) \<and> int (length (st_messages s')) \<le> n \<and>
    s' = s\<lparr>st_messages := st_messages s'\<rparr>"
  using assms by (auto simp: append_message_def Let_def take_last_def split: if_splits)

lemma append_message_ok: "1 \<le> n \<Longrightarrow> append_message n m s =
    Inr (s\<lparr>st_messages := take_last (nat n) (st_messages s @ [m])\<rparr>)"
  by (auto simp: append_message_def Let_def take_last_def)

text \<open>
  The window after a sequence of appends is the last \<open>n\<close> messages of everything ever said: what was
  evicted earlier never matters.
\<close>

definition append_all :: "int \<Rightarrow> message list \<Rightarrow> talkflow_state \<Rightarrow> pyexn + talkflow_state" where
  "append_all n ms s = foldl (\<lambda>r m. bindE r (append_message n m)) (Inr s) ms"

lemma foldl_bindE_Inl: "foldl (\<lambda>r m. bindE r (f m)) (Inl e) ms = Inl e"
  by (induction ms) auto

lemma append_all_window:
  assumes n: "1 \<le> n"
  shows "append_all n ms (s\<lparr>st_messages := take_last (nat n) xs\<rparr>) =
    Inr (s\<lparr>st_messages := take_last (nat n) (xs @ ms)\<rparr>)"
proof (induction ms arbitrary: xs)
  case Nil
  then show ?case by (simp add: append_all_def)
next
  case (Cons m ms)
  have "append_message n m (s\<lparr>st_messages := take_last (nat n) xs\<rparr>) =
      Inr (s\<lparr>st_messages := take_last (nat n) (xs @ [m])\<rparr>)"
    using n by (simp add: append_message_ok take_last_take_last_snoc)
  then show ?case
    using Cons.IH [of "xs @ [m]"] by (simp add: append_all_def)
qed

end
