(* ===== verification/Preprocessing.thy ===== *)
theory Preprocessing
  imports Treeflow_Loader Repositories
begin

text \<open>
  \<open>flowengine/preprocessing.py\<close>: opt-out detection, and the resolution of the lead, the talk and the
  runtime state of an inbound message.
\<close>

record pipeline_context =
  px_lead :: lead
  px_talk :: talk
  px_inbound :: inbound
  px_new :: bool

definition inbound_text :: "inbound \<Rightarrow> string" where
  \<comment> \<open>\<open>(inbound.text or inbound.transcription or "").strip()\<close>\<close>
  "inbound_text m = strip (if in_text m \<noteq> [] then in_text m else str_or (in_transcription m) [])"

definition match_opt_out :: "string \<Rightarrow> string list \<Rightarrow> bool" where
  "match_opt_out s keywords =
     (\<exists>kw \<in> set keywords. rx_search (\<lambda>c. c) (rword (rlit (py_lower kw))) (py_lower s) \<noteq> None)"

definition resolve_lead :: "time \<Rightarrow> tenant \<Rightarrow> inbound \<Rightarrow> db \<Rightarrow> pyexn + (db \<times> lead)" where
  "resolve_lead now tn m d =
     bindE (find_by_channel_identifier (tn_id tn) ''whatsapp'' (in_from m) d) (\<lambda>existing.
     case existing of
       Some l \<Rightarrow> Inr (d, l)
     | None \<Rightarrow>
         insert_lead (new_lead now (tn_id tn) (in_from m) [(''whatsapp'', JStr (in_from m))] LeadActive) d)"

text \<open>The talk and its state are created together; the state starts with the lead's first message.\<close>

definition open_talk ::
  "time \<Rightarrow> tenant \<Rightarrow> treeflow \<Rightarrow> treeflow_version \<Rightarrow> inbound \<Rightarrow> lead \<Rightarrow> db \<Rightarrow> pyexn + (db \<times> talk)" where
  "open_talk now tn tf ver m l d =
     (let (d1, t) = create_talk now (tn_id tn) (ld_id l) (tf_id tf) (tv_id ver) d;
          (d2, s) = initialize_state (tk_id t) (tn_id tn) (tf_entry tf) d1
      in bindE (make_message RUser (inbound_text m) SrcLead 1 (in_received m)) (\<lambda>msg.
         bindE (append_message 15 msg s) (\<lambda>s'. Inr (put_state s' d2, t))))"

definition resolve_pipeline_context ::
  "time \<Rightarrow> tenant \<Rightarrow> treeflow \<Rightarrow> treeflow_version \<Rightarrow> string list \<Rightarrow> inbound \<Rightarrow> db \<Rightarrow>
   pyexn + (db \<times> pipeline_context)" where
  "resolve_pipeline_context now tn tf ver keywords m d =
     (let s = inbound_text m in
      if s \<noteq> [] \<and> match_opt_out s keywords then Inl OptOutDetected
      else bindE (resolve_lead now tn m d) (\<lambda>(d1, l).
           case find_active_for_lead (tn_id tn) (ld_id l) d1 of
             Some t \<Rightarrow> Inr (d1, \<lparr>px_lead = l, px_talk = t, px_inbound = m, px_new = False\<rparr>)
           | None \<Rightarrow>
               bindE (open_talk now tn tf ver m l d1) (\<lambda>(d2, t).
               Inr (d2, \<lparr>px_lead = l, px_talk = t, px_inbound = m, px_new = True\<rparr>))))"

text \<open>The event logged when a lead comes back after its last talk was closed.\<close>

definition re_engagement :: "tenant \<Rightarrow> lead \<Rightarrow> db \<Rightarrow> talk option" where
  "re_engagement tn l d =
     (if find_active_for_lead (tn_id tn) (ld_id l) d \<noteq> None then None
      else find_most_recent_closed (tn_id tn) (ld_id l) d)"

subsection \<open>Opt-out\<close>

text \<open>
  A text matches when a keyword, both in lower case, occurs in it with a word boundary at each end.
\<close>

definition whole_word :: "string \<Rightarrow> string \<Rightarrow> bool" where
  "whole_word w s = (\<exists>a b. s = a @ w @ b \<and> at_boundary (rev a, w @ b) \<and> at_boundary (rev (a @ w), b))"

lemma match_opt_out_iff:
  "match_opt_out s kws \<longleftrightarrow> (\<exists>kw \<in> set kws. whole_word (py_lower kw) (py_lower s))"
proof -
  have "rx_search (\<lambda>c. c) (rword (rlit w)) t \<noteq> None \<longleftrightarrow> whole_word w t" for w t
    using rx_search_word_iff [of w t] by (auto simp: whole_word_def)
  then show ?thesis by (simp add: match_opt_out_def)
qed

subsection \<open>The resolved context\<close>

text \<open>
  Well-formed tables: ids are fresh below the counter, each talk has exactly one state, and a lead
  has at most one open talk.
\<close>

definition talks_wf :: "db \<Rightarrow> bool" where
  "talks_wf d =
     (distinct (map tk_id (db_talks d)) \<and> (\<forall>t \<in> set (db_talks d). tk_id t < db_next d) \<and>
      distinct (map st_talk (db_states d)) \<and> st_talk ` set (db_states d) = tk_id ` set (db_talks d))"

definition open_talks :: "uuid \<Rightarrow> uuid \<Rightarrow> db \<Rightarrow> talk list" where
  "open_talks tn l d =
     filter (\<lambda>t. tk_tenant t = tn \<and> tk_lead t = l \<and> tk_status t \<in> set active_statuses) (db_talks d)"

definition one_open_talk :: "db \<Rightarrow> bool" where
  "one_open_talk d = (\<forall>t \<in> set (db_talks d). length (open_talks (tk_tenant t) (tk_lead t) d) \<le> 1)"

lemma one_open_talk_all: "one_open_talk d \<longleftrightarrow> (\<forall>tn l. length (open_talks tn l d) \<le> 1)"
proof
  assume one: "one_open_talk d"
  show "\<forall>tn l. length (open_talks tn l d) \<le> 1"
  proof (intro allI)
    fix tn l
    show "length (open_talks tn l d) \<le> 1"
    proof (cases "open_talks tn l d")
      case (Cons t ts)
      then have "t \<in> set (open_talks tn l d)" by simp
      then show ?thesis using one by (auto simp: one_open_talk_def open_talks_def)
    qed simp
  qed
qed (simp add: one_open_talk_def)

lemma open_talks_Nil: "find_active_for_lead tn l d = None \<longleftrightarrow> open_talks tn l d = []"
  by (auto simp: find_active_for_lead_def first_max_None open_talks_def filter_empty_conv)

lemma resolve_lead_frame:
  assumes "resolve_lead now tn m d = Inr (d', l)"
  shows "db_talks d' = db_talks d \<and> db_states d' = db_states d \<and> db_next d \<le> db_next d' \<and>
    db_inbound d' = db_inbound d \<and> db_actions d' = db_actions d \<and> db_outbound d' = db_outbound d"
  using assms
  by (auto simp: resolve_lead_def bindE_eq_Inr insert_lead_def Let_def split: option.splits if_splits)

lemma open_talk_effect:
  assumes op: "open_talk now tn tf ver m l d = Inr (d', t)" and wf: "talks_wf d"
  shows "db_talks d' = db_talks d @ [t] \<and> tk_id t = db_next d \<and> tk_tenant t = tn_id tn \<and> tk_lead t = ld_id l \<and>
    tk_status t = Active \<and> tk_mode t = ModeAi \<and> tk_turns t = 0 \<and> tk_version t = tv_id ver \<and>
    tk_closed_at t = None \<and> tk_closed_reason t = None \<and> tk_closed_by t = None \<and>
    db_next d' = Suc (db_next d) \<and>
    (\<exists>s. db_states d' = db_states d @ [s] \<and> st_talk s = tk_id t \<and> st_node s = tf_entry tf \<and>
       st_treatment s = None \<and> map msg_content (st_messages s) = [inbound_text m])"
proof -
  have fresh: "st_talk s \<noteq> db_next d" if "s \<in> set (db_states d)" for s
    using wf that unfolding talks_wf_def by (metis imageE imageI less_irrefl)
  have put: "update_where (\<lambda>r. st_talk r = db_next d) f (db_states d) = db_states d" for f
    by (rule update_where_none) (use fresh in blast)
  show ?thesis
    using op put
    by (auto simp: open_talk_def Let_def create_talk_def initialize_state_def make_message_def
        append_message_ok put_state_def bindE_eq_Inr take_last_def update_where_def)
qed

lemma open_talk_wf:
  assumes op: "open_talk now tn tf ver m l d = Inr (d', t)" and wf: "talks_wf d"
  shows "talks_wf d'"
proof -
  obtain s where "db_talks d' = db_talks d @ [t]" "tk_id t = db_next d" "db_next d' = Suc (db_next d)"
    "db_states d' = db_states d @ [s]" "st_talk s = tk_id t"
    using open_talk_effect [OF op wf] by blast
  then show ?thesis
    using wf unfolding talks_wf_def
    by (auto simp: less_Suc_eq)
qed

lemma resolve_context_cases:
  assumes res: "resolve_pipeline_context now tn tf ver kws m d = Inr (d', cx)"
  obtains d1 where "resolve_lead now tn m d = Inr (d1, px_lead cx)"
    "\<not> (inbound_text m \<noteq> [] \<and> match_opt_out (inbound_text m) kws)"
    "(px_new cx = False \<and> d' = d1 \<and> find_active_for_lead (tn_id tn) (ld_id (px_lead cx)) d1 = Some (px_talk cx)) \<or>
     (px_new cx = True \<and> find_active_for_lead (tn_id tn) (ld_id (px_lead cx)) d1 = None \<and>
      open_talk now tn tf ver m (px_lead cx) d1 = Inr (d', px_talk cx))"
  using res
  by (auto simp: resolve_pipeline_context_def Let_def bindE_eq_Inr split: if_splits option.splits)

lemma resolve_context_wf:
  assumes res: "resolve_pipeline_context now tn tf ver kws m d = Inr (d', cx)"
    and wf: "talks_wf d" and one: "one_open_talk d"
  shows "talks_wf d' \<and> one_open_talk d' \<and> px_talk cx \<in> set (db_talks d') \<and>
    open_talks (tn_id tn) (ld_id (px_lead cx)) d' = [px_talk cx] \<and> (\<exists>s. load_state (tk_id (px_talk cx)) d' = Some s)"
proof -
  obtain d1 where rl: "resolve_lead now tn m d = Inr (d1, px_lead cx)"
    and cs: "(px_new cx = False \<and> d' = d1 \<and> find_active_for_lead (tn_id tn) (ld_id (px_lead cx)) d1 = Some (px_talk cx)) \<or>
     (px_new cx = True \<and> find_active_for_lead (tn_id tn) (ld_id (px_lead cx)) d1 = None \<and>
      open_talk now tn tf ver m (px_lead cx) d1 = Inr (d', px_talk cx))"
    using resolve_context_cases [OF res] by blast
  note fr = resolve_lead_frame [OF rl]
  have wf1: "talks_wf d1" using wf fr unfolding talks_wf_def by fastforce
  have one1: "one_open_talk d1" using one fr by (simp add: one_open_talk_all open_talks_def)
  have main: "talks_wf d' \<and> one_open_talk d' \<and> px_talk cx \<in> set (db_talks d') \<and>
    open_talks (tn_id tn) (ld_id (px_lead cx)) d' = [px_talk cx]"
    using cs
  proof
    assume a: "px_new cx = False \<and> d' = d1 \<and> find_active_for_lead (tn_id tn) (ld_id (px_lead cx)) d1 = Some (px_talk cx)"
    then have "px_talk cx \<in> set (open_talks (tn_id tn) (ld_id (px_lead cx)) d1)"
      using find_active_Some by (fastforce simp: open_talks_def active_statuses_def)
    moreover have "length (open_talks (tn_id tn) (ld_id (px_lead cx)) d1) \<le> 1"
      using one1 by (simp add: one_open_talk_all)
    ultimately have "open_talks (tn_id tn) (ld_id (px_lead cx)) d1 = [px_talk cx]"
      by (cases "open_talks (tn_id tn) (ld_id (px_lead cx)) d1") auto
    then show ?thesis using a wf1 one1 find_active_Some by blast
  next
    assume a: "px_new cx = True \<and> find_active_for_lead (tn_id tn) (ld_id (px_lead cx)) d1 = None \<and>
      open_talk now tn tf ver m (px_lead cx) d1 = Inr (d', px_talk cx)"
    note e = open_talk_effect [OF conjunct2 [OF conjunct2 [OF a]] wf1]
    have nil: "open_talks (tn_id tn) (ld_id (px_lead cx)) d1 = []" using a open_talks_Nil by blast
    have new: "open_talks tn' l' d' = open_talks tn' l' d1 @
        (if tn' = tn_id tn \<and> l' = ld_id (px_lead cx) then [px_talk cx] else [])" for tn' l'
      using e by (auto simp: open_talks_def active_statuses_def)
    have "one_open_talk d'"
      using one1 nil unfolding one_open_talk_all new by auto
    then show ?thesis
      using new [of "tn_id tn" "ld_id (px_lead cx)"] nil e open_talk_wf [OF conjunct2 [OF conjunct2 [OF a]] wf1] by simp
  qed
  have "tk_id (px_talk cx) \<in> st_talk ` set (db_states d')"
    using main unfolding talks_wf_def by blast
  then have "load_state (tk_id (px_talk cx)) d' \<noteq> None"
    by (simp add: load_state_def find_row_None)
  then show ?thesis using main by blast
qed

text \<open>
  A lead that the webhook has created has no channel identifier, so its first turn tries to create
  it a second time and violates the unique index.
\<close>

lemma resolve_lead_duplicate:
  assumes "\<forall>l \<in> set (db_leads d). ld_tenant l = tn_id tn \<longrightarrow> map_of (ld_channels l) ''whatsapp'' \<noteq> Some (JStr (in_from m))"
    and "l \<in> set (db_leads d)" "ld_tenant l = tn_id tn" "ld_e164 l = Some (in_from m)"
  shows "resolve_lead now tn m d = Inl IntegrityError"
proof -
  have "filter (\<lambda>l. ld_tenant l = tn_id tn \<and> map_of (ld_channels l) ''whatsapp'' = Some (JStr (in_from m))) (db_leads d) = []"
    using assms(1) by (auto simp: filter_empty_conv)
  then show ?thesis
    using assms(2-4) by (auto simp: resolve_lead_def find_by_channel_identifier_def scalar_one_or_none_def
        insert_lead_def new_lead_def)
qed

end
