(* ===== verification/Objection_Runtime.thy ===== *)
theory Objection_Runtime
  imports Treeflow_Loader
begin

text \<open>
  \<open>flowengine/objection_runtime.py\<close>: the state machine that treats an objection over several
  turns.  \<open>apply_objection\<close> is the function \<open>apply\<close>, branch by branch in its order of priority; the
  delta's treatment is \<open>None\<close> for the sentinel \<open>_UNSET\<close>.  The machine is refined to the abstract
  one of \<open>treat_spec\<close> (idle, or treating an objection with a number of turns left).
\<close>

type_synonym event = "string \<times> jval dict"

record state_delta =
  dl_treatment :: "treatment option option"
  dl_history :: "objection_entry list"
  dl_review :: "review_reason option"
  dl_events :: "event list"

definition empty_delta :: state_delta where
  "empty_delta = \<lparr>dl_treatment = None, dl_history = [], dl_review = None, dl_events = []\<rparr>"

definition changes_treatment :: "state_delta \<Rightarrow> bool" where
  "changes_treatment d = (dl_treatment d \<noteq> None)"

subsection \<open>The operations\<close>

definition find_objection :: "string \<Rightarrow> treeflow \<Rightarrow> string option \<Rightarrow> objection option" where
  "find_objection oid tf node =
     (case (case node of
              None \<Rightarrow> None
            | Some n \<Rightarrow>
                (case map_of (tf_nodes tf) n of
                   None \<Rightarrow> None
                 | Some nd \<Rightarrow> find (\<lambda>ob. ob_name ob = oid) (nd_objections nd))) of
        Some ob \<Rightarrow> Some ob
      | None \<Rightarrow> find (\<lambda>ob. ob_name ob = oid) (tf_objections tf))"

definition is_tool_mode :: "string \<Rightarrow> treeflow \<Rightarrow> string option \<Rightarrow> bool" where
  "is_tool_mode oid tf node =
     (case find_objection oid tf node of None \<Rightarrow> False | Some ob \<Rightarrow> ob_mode ob = ''tool'')"

definition enter_treatment :: "string \<Rightarrow> treeflow \<Rightarrow> string option \<Rightarrow> pyexn + treatment" where
  "enter_treatment oid tf node =
     (case find_objection oid tf node of
        None \<Rightarrow> Inl AssertionError
      | Some ob \<Rightarrow>
          (case ob_payload ob of
             None \<Rightarrow> Inl AssertionError
           | Some tp \<Rightarrow>
               Inr \<lparr>tr_objection = ob_name ob, tr_started = 1, tr_turn = 1,
                    tr_max = tp_max_turns tp, tr_criteria = tp_criteria tp, tr_history = []\<rparr>))"

definition history_entry :: "treatment \<Rightarrow> objection_resolution \<Rightarrow> objection_entry" where
  "history_entry t r =
     \<lparr>oe_objection = tr_objection t, oe_detected = tr_started t, oe_resolved = Some (tr_turn t),
      oe_resolution = Some r\<rparr>"

definition apply_idle :: "treeflow \<Rightarrow> string option \<Rightarrow> turn_decision \<Rightarrow> pyexn + state_delta" where
  "apply_idle tf node d =
     (let unchanged = empty_delta\<lparr>dl_treatment := Some None\<rparr> in
      case detected_objection d of
        None \<Rightarrow> Inr unchanged
      | Some oid \<Rightarrow>
          if oid = [] then Inr unchanged else
          (case find_objection oid tf node of
             None \<Rightarrow>
               Inr (unchanged\<lparr>dl_events :=
                      [(''objection.hallucinated_id'', [(''id_received'', JStr oid)])]\<rparr>)
           | Some ob \<Rightarrow>
               if ob_mode ob = ''tool''
               then bindE (enter_treatment oid tf node) (\<lambda>new.
                    Inr (empty_delta\<lparr>dl_treatment := Some (Some new),
                           dl_events := [(''objection.treatment.entered'',
                              [(''objection_id'', JStr oid), (''max_turns'', JInt (tr_max new))])]\<rparr>))
               else Inr unchanged))"

definition max_turns_action :: "objection option \<Rightarrow> string" where
  "max_turns_action ob =
     (case ob of
        None \<Rightarrow> ''gracefully_continue''
      | Some o' \<Rightarrow>
          (case ob_payload o' of
             None \<Rightarrow> ''gracefully_continue''
           | Some tp \<Rightarrow> om_action (tp_on_max tp)))"

definition apply_active ::
  "treeflow \<Rightarrow> string option \<Rightarrow> treatment \<Rightarrow> turn_decision \<Rightarrow> pyexn + state_delta" where
  "apply_active tf node active d =
     (if (case detected_objection d of
            None \<Rightarrow> False
          | Some oid \<Rightarrow> oid \<noteq> tr_objection active \<and> is_tool_mode oid tf node)
      then
        (let oid = the (detected_objection d) in
         bindE (enter_treatment oid tf node) (\<lambda>new.
         Inr (empty_delta\<lparr>dl_treatment := Some (Some new),
                dl_history := [history_entry active Deferred],
                dl_events := [(''objection.treatment.cross_swap'',
                   [(''from_id'', JStr (tr_objection active)), (''to_id'', JStr oid)])]\<rparr>)))
      else if tr_turn active \<ge> tr_max active
      then
        (let action = max_turns_action (find_objection (tr_objection active) tf node) in
         Inr \<lparr>dl_treatment = Some None,
              dl_history = [history_entry active Exhausted],
              dl_review = (if action = ''escalate_to_human'' then Some ObjectionTreatmentExhausted else None),
              dl_events = [(''objection.treatment.exhausted'',
                 [(''objection_id'', JStr (tr_objection active)), (''action_taken'', JStr action)])]\<rparr>)
      else if treatment_status d = Some ResolvedAccepted \<or> treatment_status d = Some ResolvedDeferred
      then
        (let r = (if treatment_status d = Some ResolvedAccepted then Accepted else Deferred) in
         Inr (empty_delta\<lparr>dl_treatment := Some None,
                dl_history := [history_entry active r],
                dl_events := [(''objection.treatment.resolved'',
                   [(''objection_id'', JStr (tr_objection active)),
                    (''status'', JStr (if r = Accepted then ''accepted'' else ''deferred'')),
                    (''total_turns'', JInt (tr_turn active))])]\<rparr>))
      else
        (let new = active\<lparr>tr_turn := tr_turn active + 1\<rparr> in
         Inr (empty_delta\<lparr>dl_treatment := Some (Some new),
                dl_events := [(''objection.treatment.continued'',
                   [(''objection_id'', JStr (tr_objection active)),
                    (''current_turn'', JInt (tr_turn new))])]\<rparr>)))"

definition apply_objection ::
  "treeflow \<Rightarrow> string option \<Rightarrow> treatment option \<Rightarrow> turn_decision \<Rightarrow> pyexn + state_delta" where
  "apply_objection tf node active d =
     (case active of None \<Rightarrow> apply_idle tf node d | Some a \<Rightarrow> apply_active tf node a d)"

subsection \<open>Invariant\<close>

definition treatment_wf :: "treatment \<Rightarrow> bool" where
  "treatment_wf t =
     (tr_started t = 1 \<and> 1 \<le> tr_turn t \<and> tr_turn t \<le> tr_max t \<and> tr_max t \<le> 10 \<and>
      10 \<le> length (tr_criteria t))"

definition treatment_opt_wf :: "treatment option \<Rightarrow> bool" where
  "treatment_opt_wf t = (\<forall>a \<in> set_option t. treatment_wf a)"

definition objection_limit :: "string \<Rightarrow> treeflow \<Rightarrow> string option \<Rightarrow> int" where
  "objection_limit oid tf node =
     (case find_objection oid tf node of
        Some ob \<Rightarrow> (case ob_payload ob of Some tp \<Rightarrow> tp_max_turns tp | None \<Rightarrow> 0)
      | None \<Rightarrow> 0)"

lemma find_objection_wf:
  assumes "treeflow_wf E tf" and "find_objection oid tf node = Some ob"
  shows "objection_wf ob \<and> ob_name ob = oid"
proof -
  have "ob_name ob = oid \<and>
    (ob \<in> set (tf_objections tf) \<or> (\<exists>kn \<in> set (tf_nodes tf). ob \<in> set (nd_objections (snd kn))))"
    using assms(2) unfolding find_objection_def
    by (fastforce split: option.splits simp: find_Some_iff dest!: map_of_SomeD)
  then show ?thesis
    using assms(1) by (auto simp: treeflow_wf_def node_wf_def)
qed

lemma enter_treatment_wf:
  assumes tf: "treeflow_wf E tf" and tool: "is_tool_mode oid tf node"
  obtains t where "enter_treatment oid tf node = Inr t" "treatment_wf t" "tr_objection t = oid" "tr_turn t = 1"
    "tr_max t = objection_limit oid tf node"
proof -
  obtain ob where ob: "find_objection oid tf node = Some ob" "ob_mode ob = ''tool''"
    using tool by (auto simp: is_tool_mode_def split: option.splits)
  moreover have "objection_wf ob" "ob_name ob = oid"
    using find_objection_wf [OF tf ob(1)] by auto
  ultimately show ?thesis
    using that by (auto simp: objection_wf_def payload_wf_def enter_treatment_def treatment_wf_def objection_limit_def)
qed

text \<open>On a loaded tree \<open>apply\<close> never raises, and what it returns preserves the invariant.\<close>

lemma apply_idle_ok:
  assumes tf: "treeflow_wf E tf"
  shows "\<exists>dl. apply_idle tf node d = Inr dl \<and> dl_history dl = [] \<and> dl_review dl = None \<and>
    (\<exists>t. dl_treatment dl = Some t \<and> treatment_opt_wf t \<and>
       (if \<exists>oid. detected_objection d = Some oid \<and> oid \<noteq> [] \<and> is_tool_mode oid tf node
        then \<exists>a. t = Some a \<and> tr_turn a = 1 \<and> detected_objection d = Some (tr_objection a) \<and>
               tr_max a = objection_limit (tr_objection a) tf node
        else t = None))"
proof (cases "detected_objection d")
  case None
  then show ?thesis by (simp add: apply_idle_def empty_delta_def treatment_opt_wf_def)
next
  case (Some oid)
  show ?thesis
  proof (cases "oid \<noteq> [] \<and> is_tool_mode oid tf node")
    case True
    then obtain t where "enter_treatment oid tf node = Inr t" "treatment_wf t" "tr_objection t = oid" "tr_turn t = 1"
        "tr_max t = objection_limit oid tf node"
      using enter_treatment_wf [OF tf] by blast
    then show ?thesis
      using Some True
      by (auto simp: apply_idle_def Let_def is_tool_mode_def empty_delta_def treatment_opt_wf_def split: option.splits)
  next
    case False
    then show ?thesis
      using Some
      by (auto simp: apply_idle_def Let_def is_tool_mode_def empty_delta_def treatment_opt_wf_def split: option.splits)
  qed
qed

definition cross_objection :: "treeflow \<Rightarrow> string option \<Rightarrow> treatment \<Rightarrow> turn_decision \<Rightarrow> bool" where
  "cross_objection tf node a d =
     (\<exists>oid. detected_objection d = Some oid \<and> oid \<noteq> tr_objection a \<and> is_tool_mode oid tf node)"

lemma apply_active_cases:
  assumes tf: "treeflow_wf E tf" and a: "treatment_wf a"
  obtains
    (swap) oid new dl where "cross_objection tf node a d" "detected_objection d = Some oid"
      "apply_active tf node a d = Inr dl" "dl_treatment dl = Some (Some new)" "treatment_wf new"
      "tr_objection new = oid" "tr_turn new = 1" "oid \<noteq> tr_objection a"
      "tr_max new = objection_limit oid tf node" "is_tool_mode oid tf node"
      "dl_history dl = [history_entry a Deferred]" "dl_review dl = None"
  | (exhausted) dl where "\<not> cross_objection tf node a d" "tr_turn a = tr_max a"
      "apply_active tf node a d = Inr dl" "dl_treatment dl = Some None"
      "dl_history dl = [history_entry a Exhausted]"
      "dl_review dl = (if max_turns_action (find_objection (tr_objection a) tf node) = ''escalate_to_human''
         then Some ObjectionTreatmentExhausted else None)"
  | (resolved) r dl where "\<not> cross_objection tf node a d" "tr_turn a < tr_max a"
      "treatment_status d = Some ResolvedAccepted \<and> r = Accepted \<or>
       treatment_status d = Some ResolvedDeferred \<and> r = Deferred"
      "apply_active tf node a d = Inr dl" "dl_treatment dl = Some None"
      "dl_history dl = [history_entry a r]" "dl_review dl = None"
  | (continue) dl where "\<not> cross_objection tf node a d" "tr_turn a < tr_max a"
      "treatment_status d \<noteq> Some ResolvedAccepted" "treatment_status d \<noteq> Some ResolvedDeferred"
      "apply_active tf node a d = Inr dl" "dl_treatment dl = Some (Some (a\<lparr>tr_turn := tr_turn a + 1\<rparr>))"
      "dl_history dl = []" "dl_review dl = None"
proof (cases "cross_objection tf node a d")
  case True
  then obtain oid where oid: "detected_objection d = Some oid" "oid \<noteq> tr_objection a"
    and tool: "is_tool_mode oid tf node"
    by (auto simp: cross_objection_def)
  obtain t where "enter_treatment oid tf node = Inr t" "treatment_wf t" "tr_objection t = oid" "tr_turn t = 1"
      "tr_max t = objection_limit oid tf node"
    using enter_treatment_wf [OF tf tool] .
  then show ?thesis
    using swap [OF True oid(1)] oid tool by (simp add: apply_active_def empty_delta_def)
next
  case False
  then have nc: "(case detected_objection d of None \<Rightarrow> False
      | Some oid \<Rightarrow> oid \<noteq> tr_objection a \<and> is_tool_mode oid tf node) = False"
    by (auto simp: cross_objection_def split: option.splits)
  show ?thesis
  proof (cases "tr_turn a < tr_max a")
    case True
    show ?thesis
    proof (cases "treatment_status d = Some ResolvedAccepted \<or> treatment_status d = Some ResolvedDeferred")
      case res: True
      then show ?thesis
        using resolved [OF False True, of "if treatment_status d = Some ResolvedAccepted then Accepted else Deferred"]
          True by (auto simp: apply_active_def nc Let_def empty_delta_def)
    next
      case res: False
      then show ?thesis
        using continue [OF False True] True by (auto simp: apply_active_def nc Let_def empty_delta_def)
    qed
  next
    case full: False
    then have "tr_turn a = tr_max a" using a by (simp add: treatment_wf_def)
    then show ?thesis
      using exhausted [OF False] by (simp add: apply_active_def nc Let_def)
  qed
qed

lemma apply_objection_wf:
  assumes tf: "treeflow_wf E tf" and wf: "treatment_opt_wf active"
  shows "\<exists>dl t. apply_objection tf node active d = Inr dl \<and> dl_treatment dl = Some t \<and> treatment_opt_wf t"
proof (cases active)
  case None
  then show ?thesis using apply_idle_ok [OF tf] by (fastforce simp: apply_objection_def)
next
  case (Some a)
  then have a: "treatment_wf a" using wf by (simp add: treatment_opt_wf_def)
  show ?thesis
    using tf a
    by (cases rule: apply_active_cases [where node = node and d = d])
      (use a in \<open>auto simp: Some apply_objection_def treatment_opt_wf_def treatment_wf_def\<close>)
qed

subsection \<open>Runs of the machine\<close>

definition step_treatment ::
  "treeflow \<Rightarrow> string option \<Rightarrow> treatment option \<Rightarrow> turn_decision \<Rightarrow> treatment option" where
  \<comment> \<open>the treatment after a turn; unchanged when \<open>apply\<close> raises\<close>
  "step_treatment tf node t d =
     (case apply_objection tf node t d of
        Inl _ \<Rightarrow> t
      | Inr dl \<Rightarrow> (case dl_treatment dl of None \<Rightarrow> t | Some t' \<Rightarrow> t'))"

definition treatments_after ::
  "treeflow \<Rightarrow> string option \<Rightarrow> treatment option \<Rightarrow> turn_decision list \<Rightarrow> treatment option" where
  "treatments_after tf node t ds = foldl (step_treatment tf node) t ds"

lemma step_treatment_active:
  assumes tf: "treeflow_wf E tf" and a: "treatment_wf a" and nc: "\<not> cross_objection tf node a d"
  shows "step_treatment tf node (Some a) d = None \<or>
    tr_turn a < tr_max a \<and> step_treatment tf node (Some a) d = Some (a\<lparr>tr_turn := tr_turn a + 1\<rparr>)"
  using tf a
  by (cases rule: apply_active_cases [where node = node and d = d])
    (auto simp: step_treatment_def apply_objection_def nc)

lemma cross_objection_turn [simp]:
  "cross_objection tf node (a\<lparr>tr_turn := k\<rparr>) d = cross_objection tf node a d"
  by (simp add: cross_objection_def)

lemma treatment_ends_aux:
  assumes tf: "treeflow_wf E tf"
  shows "treatment_wf a \<Longrightarrow> nat (tr_max a - tr_turn a) < length ds \<Longrightarrow>
    \<forall>d \<in> set ds. \<not> cross_objection tf node a d \<Longrightarrow>
    \<exists>k \<le> nat (tr_max a - tr_turn a) + 1. treatments_after tf node (Some a) (take k ds) = None"
proof (induction ds arbitrary: a)
  case Nil
  then show ?case by simp
next
  case (Cons d ds)
  consider "step_treatment tf node (Some a) d = None"
    | "tr_turn a < tr_max a" "step_treatment tf node (Some a) d = Some (a\<lparr>tr_turn := tr_turn a + 1\<rparr>)"
    using step_treatment_active [OF tf Cons.prems(1), of node d] Cons.prems(3) by auto
  then show ?case
  proof cases
    case 1
    then show ?thesis by (intro exI [of _ 1]) (simp add: treatments_after_def)
  next
    case 2
    let ?a = "a\<lparr>tr_turn := tr_turn a + 1\<rparr>"
    have "\<exists>k \<le> nat (tr_max ?a - tr_turn ?a) + 1. treatments_after tf node (Some ?a) (take k ds) = None"
      by (rule Cons.IH) (use Cons.prems 2 in \<open>auto simp: treatment_wf_def\<close>)
    then obtain k where "k \<le> nat (tr_max ?a - tr_turn ?a) + 1"
      "treatments_after tf node (Some ?a) (take k ds) = None" by blast
    then show ?thesis
      using 2 by (intro exI [of _ "Suc k"]) (auto simp: treatments_after_def)
  qed
qed

subsection \<open>The abstract machine\<close>

datatype treat_state = Idle | Treating string nat
datatype treat_input = Enter string nat | Resolve objection_resolution | Stay

fun treat_spec :: "treat_state \<Rightarrow> treat_input \<Rightarrow> treat_state \<times> (string \<times> objection_resolution) list" where
  "treat_spec Idle (Enter oid n) = (Treating oid n, [])"
| "treat_spec Idle _ = (Idle, [])"
| "treat_spec (Treating oid k) (Enter oid' n) = (Treating oid' n, [(oid, Deferred)])"
| "treat_spec (Treating oid k) (Resolve r) = (Idle, [(oid, if k \<le> 1 then Exhausted else r)])"
| "treat_spec (Treating oid k) Stay =
     (if k \<le> 1 then (Idle, [(oid, Exhausted)]) else (Treating oid (k - 1), []))"

definition abs_treatment :: "treatment option \<Rightarrow> treat_state" where
  "abs_treatment t =
     (case t of None \<Rightarrow> Idle | Some a \<Rightarrow> Treating (tr_objection a) (nat (tr_max a - tr_turn a) + 1))"

definition asked_resolution :: "turn_decision \<Rightarrow> treat_input" where
  "asked_resolution d =
     (case treatment_status d of
        Some ResolvedAccepted \<Rightarrow> Resolve Accepted
      | Some ResolvedDeferred \<Rightarrow> Resolve Deferred
      | _ \<Rightarrow> Stay)"

definition abs_input :: "treeflow \<Rightarrow> string option \<Rightarrow> treatment option \<Rightarrow> turn_decision \<Rightarrow> treat_input" where
  \<comment> \<open>what the decision asks of the machine: a different tool-mode objection, a resolution, nothing\<close>
  "abs_input tf node t d =
     (case detected_objection d of
        None \<Rightarrow> asked_resolution d
      | Some oid \<Rightarrow>
          if is_tool_mode oid tf node \<and> (case t of None \<Rightarrow> oid \<noteq> [] | Some a \<Rightarrow> oid \<noteq> tr_objection a)
          then Enter oid (nat (objection_limit oid tf node))
          else asked_resolution d)"

definition abs_history :: "objection_entry list \<Rightarrow> (string \<times> objection_resolution) list" where
  "abs_history es = map (\<lambda>e. (oe_objection e, the (oe_resolution e))) es"

lemma abs_input_cross:
  "cross_objection tf node a d \<Longrightarrow> detected_objection d = Some oid \<Longrightarrow>
   abs_input tf node (Some a) d = Enter oid (nat (objection_limit oid tf node))"
  by (auto simp: abs_input_def cross_objection_def)

lemma abs_input_no_cross:
  "\<not> cross_objection tf node a d \<Longrightarrow> abs_input tf node (Some a) d = asked_resolution d"
  by (auto simp: abs_input_def cross_objection_def split: option.splits)

lemma nat_pred: "0 < x \<Longrightarrow> nat x = Suc (nat (x - 1))"
  by simp

lemma apply_refines:
  assumes tf: "treeflow_wf E tf" and wf: "treatment_opt_wf t" and ap: "apply_objection tf node t d = Inr dl"
  shows "treat_spec (abs_treatment t) (abs_input tf node t d) =
    (abs_treatment (the (dl_treatment dl)), abs_history (dl_history dl))"
proof (cases t)
  case None
  obtain t' where h: "dl_history dl = []" "dl_treatment dl = Some t'" "treatment_opt_wf t'"
    and new: "if \<exists>oid. detected_objection d = Some oid \<and> oid \<noteq> [] \<and> is_tool_mode oid tf node
        then \<exists>a. t' = Some a \<and> tr_turn a = 1 \<and> detected_objection d = Some (tr_objection a) \<and>
               tr_max a = objection_limit (tr_objection a) tf node
        else t' = None"
    using apply_idle_ok [OF tf, of node d] ap None by (auto simp: apply_objection_def)
  show ?thesis
  proof (cases "\<exists>oid. detected_objection d = Some oid \<and> oid \<noteq> [] \<and> is_tool_mode oid tf node")
    case True
    then show ?thesis
      using h new
      by (auto simp: None abs_treatment_def abs_input_def abs_history_def treatment_opt_wf_def
          treatment_wf_def nat_pred)
  next
    case False
    then have "abs_input tf node None d = asked_resolution d"
      by (auto simp: abs_input_def split: option.splits)
    then show ?thesis
      using h new False
      by (auto simp: None abs_treatment_def abs_history_def asked_resolution_def
          split: option.splits treatment_status.splits)
  qed
next
  case (Some a)
  then have a: "treatment_wf a" using wf by (simp add: treatment_opt_wf_def)
  have ap': "apply_active tf node a d = Inr dl" using ap Some by (simp add: apply_objection_def)
  show ?thesis
    using tf a
  proof (cases rule: apply_active_cases [where node = node and d = d])
    case (swap oid new dl')
    then show ?thesis
      using ap' by (simp add: Some abs_treatment_def abs_input_cross abs_history_def history_entry_def
          treatment_wf_def nat_pred)
  next
    case (exhausted dl')
    then show ?thesis
      using ap' by (auto simp: Some abs_treatment_def abs_input_no_cross abs_history_def history_entry_def
          asked_resolution_def split: option.splits treatment_status.splits)
  next
    case (resolved r dl')
    then show ?thesis
      using ap' by (auto simp: Some abs_treatment_def abs_input_no_cross abs_history_def history_entry_def
          asked_resolution_def)
  next
    case (continue dl')
    then have "asked_resolution d = Stay"
      by (auto simp: asked_resolution_def split: option.splits treatment_status.splits)
    then show ?thesis
      using continue ap' by (simp add: Some abs_treatment_def abs_input_no_cross abs_history_def nat_diff_distrib')
  qed
qed

end
