(* ===== verification/Heuristics.thy ===== *)
theory Heuristics
  imports Objection_Runtime
begin

text \<open>
  The small deterministic stages around a model call: the text heuristics of
  \<open>flowengine/heuristics.py\<close>, the off-topic counter (\<open>flowengine/offtopic.py\<close>), the escalation
  request (\<open>flowengine/escalation.py\<close>), the completion rules (\<open>flowengine/close_lifecycle.py\<close>)
  and the token counters (\<open>flowengine/usage.py\<close>).
\<close>

subsection \<open>Text heuristics\<close>

definition a_acute :: "char list" where
  "a_acute = [CHR 0xE1, CHR ''a'']"

definition deferral_hint_re :: rx where
  "deferral_hint_re = rword (RAlt
     [rlit ''pena'',
      RSeq [rlit ''pens'', RChars ''ae'', rlit ''r''],
      RSeq [rlit ''tanto'', RSpaces, rlit ''faz''],
      RSeq [rlit ''sei'', RSpaces, rlit ''l'', RChars a_acute],
      RSeq [rlit ''talvez'', RSpaces, rlit ''depois''],
      RSeq [rlit ''fica'', RSpaces, rlit ''pra'', RSpaces, rlit ''depois''],
      RSeq [rlit ''deixa'', RSpaces, rlit ''pra'', RSpaces, rlit ''l'', RChars a_acute],
      RSeq [rlit ''t'', RChars a_acute, RSpaces, rlit ''bom'']])"

definition commitment_hint_re :: rx where
  "commitment_hint_re = rword (RAlt
     [RSeq [rlit ''vou'', RSpaces, rlit ''te'', RSpaces, rlit ''enviar''],
      RSeq [rlit ''te'', RSpaces, rlit ''envio''],
      RSeq [rlit ''te'', RSpaces, rlit ''conecto''],
      RSeq [rlit ''te'', RSpaces, rlit ''passo''],
      rlit ''aguarda'',
      RSeq [rlit ''pr'', RChars [CHR 0xF3, CHR ''o''], rlit ''ximo'', RSpaces, rlit ''passo''],
      RSeq [rlit ''agora'', RSpaces, rlit ''mesmo'']])"

definition apply_contradiction_heuristic :: "turn_decision \<Rightarrow> turn_decision \<times> event list" where
  "apply_contradiction_heuristic d =
     (if treatment_status d \<noteq> Some ResolvedAccepted then (d, [])
      else if rx_search lower_char deferral_hint_re (response_text d) = None then (d, [])
      else (d\<lparr>treatment_status := Some ResolvedDeferred\<rparr>,
            [(''decision.contradiction_corrected'',
              [(''field'', JStr ''treatment_status''), (''original'', JStr ''resolved_accepted''),
               (''corrected'', JStr ''resolved_deferred''),
               (''trigger'', JStr ''deferral_hint_in_response_text'')])]))"

definition detect_implicit_transition :: "turn_decision \<Rightarrow> event list" where
  "detect_implicit_transition d =
     (if next_node_suggestion d \<noteq> None then []
      else (case rx_search lower_char commitment_hint_re (response_text d) of
              None \<Rightarrow> []
            | Some m \<Rightarrow>
                [(''decision.implicit_transition_suspected'',
                  [(''matched_pattern'', JStr m),
                   (''response_excerpt'', JStr (take 120 (response_text d)))])]))"

lemma contradiction_only_status:
  "fst (apply_contradiction_heuristic d) = d \<or>
   treatment_status d = Some ResolvedAccepted \<and>
   fst (apply_contradiction_heuristic d) = d\<lparr>treatment_status := Some ResolvedDeferred\<rparr>"
  by (auto simp: apply_contradiction_heuristic_def)

lemma contradiction_frame [simp]:
  "response_text (fst (apply_contradiction_heuristic d)) = response_text d"
  "collected_fields (fst (apply_contradiction_heuristic d)) = collected_fields d"
  "extracted_facts (fst (apply_contradiction_heuristic d)) = extracted_facts d"
  "detected_objection (fst (apply_contradiction_heuristic d)) = detected_objection d"
  "request_human_escalation (fst (apply_contradiction_heuristic d)) = request_human_escalation d"
  "off_topic_detected (fst (apply_contradiction_heuristic d)) = off_topic_detected d"
  by (auto simp: apply_contradiction_heuristic_def)

subsection \<open>Off-topic counter\<close>

definition py_num_add :: "jval \<Rightarrow> int \<Rightarrow> pyexn + jval" where
  \<comment> \<open>\<open>v + n\<close> for an integer \<open>n\<close>\<close>
  "py_num_add v n =
     (case v of
        JInt k \<Rightarrow> Inr (JInt (k + n))
      | JBool b \<Rightarrow> Inr (JInt ((if b then 1 else 0) + n))
      | JFloat r \<Rightarrow> Inr (JFloat (r + of_int n))
      | _ \<Rightarrow> Inl TypeError)"

definition num_ge :: "jval \<Rightarrow> int \<Rightarrow> bool" where
  "num_ge v n = (case v of JInt k \<Rightarrow> k \<ge> n | JFloat r \<Rightarrow> r \<ge> of_int n | _ \<Rightarrow> False)"

definition offtopic_threshold :: int where
  "offtopic_threshold = 3"

definition handle_offtopic :: "jval \<Rightarrow> turn_decision \<Rightarrow> pyexn + (jval \<times> review_reason option)" where
  "handle_offtopic cnt d =
     (if \<not> off_topic_detected d then Inr (cnt, None)
      else bindE (py_num_add cnt 1) (\<lambda>new.
           if num_ge new offtopic_threshold then Inr (new, Some OffTopicExhausted)
           else Inr (new, None)))"

subsection \<open>Escalation request\<close>

definition resolve_escalation_reason :: "turn_decision \<Rightarrow> review_reason option" where
  "resolve_escalation_reason d =
     (case request_human_escalation d of None \<Rightarrow> None | Some _ \<Rightarrow> Some EscalationRequested)"

subsection \<open>Completion rules\<close>

record close_outcome =
  co_status :: talk_status
  co_reason :: string
  co_by :: closed_by

definition outcome_to_status :: "string \<Rightarrow> pyexn + talk_status" where
  "outcome_to_status out =
     (if out = ''success'' then Inr ClosedSuccess
      else if out = ''failure'' then Inr ClosedFailure
      else if out = ''no_interest'' then Inr ClosedNoInterest
      else Inl (ValueError ''unknown outcome''))"

definition completion_context ::
  "jval dict \<Rightarrow> jval dict \<Rightarrow> int \<Rightarrow> turn_decision \<Rightarrow> jval dict" where
  "completion_context coll facts turn d =
     (let merged = dict_merge coll (collected_fields d) in
      dict_put ''turn_index'' (JInt turn)
        (dict_put ''extracted_facts'' (JObj facts)
          (dict_put ''collected'' (JObj merged) merged)))"

text \<open>Any exception, also the one for an unknown outcome, skips the rule.\<close>

fun first_rule :: "ext \<Rightarrow> jval dict \<Rightarrow> completion_rule list \<Rightarrow> close_outcome option" where
  "first_rule E ctx [] = None"
| "first_rule E ctx (r # rs) =
     (case (case simple_eval E False ctx (cr_expression r) of
              Some True \<Rightarrow> outcome_to_status (cr_outcome r)
            | Some False \<Rightarrow> Inl (OtherError ''not fired'')
            | None \<Rightarrow> Inl (OtherError ''evaluation'')) of
        Inr s \<Rightarrow> Some \<lparr>co_status = s, co_reason = ''completion_rule: '' @ cr_expression r,
                        co_by = ByPipelineHook\<rparr>
      | Inl _ \<Rightarrow> first_rule E ctx rs)"

definition evaluate_completion_rule ::
  "ext \<Rightarrow> treeflow \<Rightarrow> jval dict \<Rightarrow> jval dict \<Rightarrow> int \<Rightarrow> turn_decision \<Rightarrow> close_outcome option" where
  "evaluate_completion_rule E tf coll facts turn d =
     (case tf_lifecycle tf of
        None \<Rightarrow> None
      | Some l \<Rightarrow>
          if tl_completed l = [] then None
          else first_rule E (completion_context coll facts turn d) (tl_completed l))"

lemma outcome_to_status_closed: "outcome_to_status out = Inr s \<Longrightarrow> is_closed s \<and> s \<in> {ClosedSuccess, ClosedFailure, ClosedNoInterest}"
  by (auto simp: outcome_to_status_def is_closed_def split: if_splits)

lemma first_rule_Some:
  "first_rule E ctx rs = Some co \<Longrightarrow>
   \<exists>pre r post. rs = pre @ r # post \<and> simple_eval E False ctx (cr_expression r) = Some True \<and>
     outcome_to_status (cr_outcome r) = Inr (co_status co) \<and>
     co_reason co = ''completion_rule: '' @ cr_expression r \<and> co_by co = ByPipelineHook \<and>
     (\<forall>r' \<in> set pre. simple_eval E False ctx (cr_expression r') \<noteq> Some True \<or>
        (\<exists>e. outcome_to_status (cr_outcome r') = Inl e))"
proof (induction rs)
  case Nil
  then show ?case by simp
next
  case (Cons r rs)
  show ?case
  proof (cases "\<exists>s. simple_eval E False ctx (cr_expression r) = Some True \<and> outcome_to_status (cr_outcome r) = Inr s")
    case True
    then show ?thesis using Cons.prems by (intro exI [of _ "[]"] exI [of _ r] exI [of _ rs]) auto
  next
    case False
    then have skip: "simple_eval E False ctx (cr_expression r) \<noteq> Some True \<or>
        (\<exists>e. outcome_to_status (cr_outcome r) = Inl e)"
      by (cases "outcome_to_status (cr_outcome r)") auto
    then have "first_rule E ctx rs = Some co"
      using Cons.prems by (auto split: option.splits bool.splits sum.splits)
    then obtain pre q post where "rs = pre @ q # post" "simple_eval E False ctx (cr_expression q) = Some True"
      "outcome_to_status (cr_outcome q) = Inr (co_status co)"
      "co_reason co = ''completion_rule: '' @ cr_expression q" "co_by co = ByPipelineHook"
      "\<forall>r' \<in> set pre. simple_eval E False ctx (cr_expression r') \<noteq> Some True \<or>
        (\<exists>e. outcome_to_status (cr_outcome r') = Inl e)"
      using Cons.IH by blast
    then show ?thesis
      using skip by (intro exI [of _ "r # pre"] exI [of _ q] exI [of _ post]) auto
  qed
qed

lemma evaluate_completion_rule_closed:
  "evaluate_completion_rule E tf coll facts turn d = Some co \<Longrightarrow>
   is_closed (co_status co) \<and> co_status co \<in> {ClosedSuccess, ClosedFailure, ClosedNoInterest} \<and>
   co_by co = ByPipelineHook"
  unfolding evaluate_completion_rule_def
  by (auto split: option.splits if_splits dest!: first_rule_Some outcome_to_status_closed)

subsection \<open>Token counters\<close>

record usage =
  us_input :: int
  us_cached :: int
  us_output :: int

definition int_field :: "jval dict \<Rightarrow> string \<Rightarrow> pyexn + int" where
  \<comment> \<open>\<open>int(d.get(k, 0) or 0)\<close>\<close>
  "int_field d k = (if truthy_opt (map_of d k) then py_int (the (map_of d k)) else Inr 0)"

definition or_empty :: "jval option \<Rightarrow> pyexn + jval dict" where
  \<comment> \<open>the dictionary of \<open>x or {}\<close>; using anything else as one raises\<close>
  "or_empty v =
     (if \<not> truthy_opt v then Inr []
      else case the v of JObj d \<Rightarrow> Inr d | _ \<Rightarrow> Inl AttributeError)"

text \<open>
  The argument is \<open>None\<close> for anything that is not an \<open>AIMessage\<close>, and otherwise the message's
  \<open>usage_metadata\<close>.
\<close>

definition extract_usage :: "jval option \<Rightarrow> pyexn + usage" where
  "extract_usage m =
     (case m of
        None \<Rightarrow> Inr \<lparr>us_input = 0, us_cached = 0, us_output = 0\<rparr>
      | Some meta \<Rightarrow>
          bindE (or_empty (Some meta)) (\<lambda>d.
          bindE (int_field d ''input_tokens'') (\<lambda>i.
          bindE (int_field d ''output_tokens'') (\<lambda>ou.
          bindE (or_empty (map_of d ''input_token_details'')) (\<lambda>det.
          bindE (int_field det ''cache_read'') (\<lambda>c.
          Inr \<lparr>us_input = i, us_cached = c, us_output = ou\<rparr>))))))"

definition bump :: "string \<Rightarrow> int \<Rightarrow> jval dict \<Rightarrow> pyexn + jval dict" where
  "bump k n d = bindE (int_field d k) (\<lambda>v. Inr (dict_put k (JInt (v + n)) d))"

definition accumulate_tokens :: "jval dict \<Rightarrow> usage \<Rightarrow> pyexn + jval dict" where
  "accumulate_tokens running u =
     bindE (bump ''input'' (us_input u) running) (\<lambda>r1.
     bindE (bump ''input_cached'' (us_cached u) r1) (\<lambda>r2.
     bindE (bump ''output'' (us_output u) r2) (\<lambda>r3.
     Inr (if map_of r3 ''total_cost_usd'' = None then dict_put ''total_cost_usd'' (JInt 0) r3 else r3))))"

definition accumulate_voice_usage :: "jval dict \<Rightarrow> int \<Rightarrow> int \<Rightarrow> pyexn + jval dict" where
  "accumulate_voice_usage running chars ms =
     bindE (bump ''voice_synthesis_chars'' chars running) (\<lambda>r.
     bump ''voice_transcription_ms'' ms r)"

lemma bump_value:
  "bump k n d = Inr d' \<Longrightarrow> map_of d' j = (if j = k then Some (JInt ((case int_field d k of Inr v \<Rightarrow> v | Inl _ \<Rightarrow> 0) + n)) else map_of d j)"
  by (auto simp: bump_def bindE_eq_Inr)

end
