(* ===== verification/Routing.thy ===== *)
theory Routing
  imports Treeflow_Loader
begin

text \<open>
  \<open>flowengine/routing.py\<close>: whether the node that the model suggests is a valid next node.
  \<open>validate_transition\<close> returns the resolved node and the reason of a refusal.  Expressions of
  the configuration are evaluated by \<open>simple_eval\<close>; an exception counts as false.
\<close>

datatype transition_failure =
  InvalidTarget | ConditionFalse | BlockedByTreatment | ExitNotSatisfied

definition failure_name :: "transition_failure \<Rightarrow> string" where
  "failure_name f =
     (case f of
        InvalidTarget \<Rightarrow> ''invalid_target''
      | ConditionFalse \<Rightarrow> ''condition_false''
      | BlockedByTreatment \<Rightarrow> ''transition_blocked_by_treatment''
      | ExitNotSatisfied \<Rightarrow> ''exit_not_satisfied'')"

record routing_view =
  rv_collected :: "jval dict"
  rv_facts :: "jval dict"
  rv_objections :: "objection_entry list"
  rv_turn :: int
  rv_treatment :: "treatment option"

definition resolution_name :: "objection_resolution \<Rightarrow> string" where
  "resolution_name r =
     (case r of Accepted \<Rightarrow> ''accepted'' | Deferred \<Rightarrow> ''deferred'' | Exhausted \<Rightarrow> ''exhausted'')"

definition objection_summary :: "objection_entry \<Rightarrow> jval" where
  "objection_summary e =
     JObj [(''id'', JStr (oe_objection e)),
           (''resolution'', case oe_resolution e of None \<Rightarrow> JNull | Some r \<Rightarrow> JStr (resolution_name r))]"

definition eval_context :: "routing_view \<Rightarrow> jval dict" where
  "eval_context v =
     dict_put ''turn_index'' (JInt (rv_turn v))
      (dict_put ''objections_handled'' (JList (map objection_summary (rv_objections v)))
       (dict_put ''extracted_facts'' (JObj (rv_facts v))
        (dict_put ''collected'' (JObj (rv_collected v)) (rv_collected v))))"

definition eval_bool :: "ext \<Rightarrow> string \<Rightarrow> routing_view \<Rightarrow> bool" where
  "eval_bool E e v = (case simple_eval E True (eval_context v) e of None \<Rightarrow> False | Some b \<Rightarrow> b)"

definition eval_bool_collected :: "ext \<Rightarrow> string \<Rightarrow> jval dict \<Rightarrow> bool" where
  "eval_bool_collected E e c = (case simple_eval E False c e of None \<Rightarrow> False | Some b \<Rightarrow> b)"

definition is_blank :: "jval option \<Rightarrow> bool" where
  \<comment> \<open>\<open>v in (None, "")\<close>\<close>
  "is_blank v = (v = None \<or> v = Some JNull \<or> v = Some (JStr []))"

definition fields_filled :: "treeflow_node \<Rightarrow> jval dict \<Rightarrow> bool" where
  "fields_filled node c = (\<forall>f \<in> set (nd_collects node). cf_required f \<longrightarrow> \<not> is_blank (map_of c (cf_field f)))"

definition exit_satisfied :: "ext \<Rightarrow> treeflow_node \<Rightarrow> jval dict \<Rightarrow> bool" where
  "exit_satisfied E node c =
     (let ec = nd_exit node in
      if ec_type ec = ''all_fields_filled'' then fields_filled node c
      else if ec_type ec = ''rule_expression''
        then eval_bool_collected E (str_or (ec_expression ec) ''false'') c
      else if ec_type ec = ''combined''
        then (if \<not> fields_filled node c then False
              else eval_bool_collected E (str_or (ec_expression ec) ''false'') c)
      else if ec_type ec = ''llm_judge'' then False
      else False)"

definition validate_transition ::
  "ext \<Rightarrow> treeflow \<Rightarrow> string \<Rightarrow> string option \<Rightarrow> routing_view \<Rightarrow> string \<times> transition_failure option" where
  "validate_transition E tf cur suggestion v =
     (case suggestion of
        None \<Rightarrow> (cur, None)
      | Some s \<Rightarrow>
          if s = ''current'' \<or> s = cur then (cur, None) else
          (case map_of (tf_nodes tf) cur of
             None \<Rightarrow> (cur, Some InvalidTarget)
           | Some node \<Rightarrow>
               (case filter (\<lambda>t. tr_target t = s) (nd_next node) of
                  [] \<Rightarrow> (cur, Some InvalidTarget)
                | t # _ \<Rightarrow>
                    if strip (tr_condition t) \<noteq> ''true'' \<and> \<not> eval_bool E (tr_condition t) v
                    then (cur, Some ConditionFalse)
                    else if rv_treatment v \<noteq> None then (cur, Some BlockedByTreatment)
                    else if \<not> exit_satisfied E node (rv_collected v) then (cur, Some ExitNotSatisfied)
                    else (s, None))))"

subsection \<open>Specification\<close>

text \<open>
  \<open>may_advance\<close> says declaratively when a move from \<open>cur\<close> to another node is allowed: the node
  has a transition to it, the condition of the first such transition holds, no treatment is in
  progress, and the exit condition of the node is satisfied.
\<close>

definition condition_holds :: "ext \<Rightarrow> routing_view \<Rightarrow> transition \<Rightarrow> bool" where
  "condition_holds E v t = (strip (tr_condition t) = ''true'' \<or> eval_bool E (tr_condition t) v)"

definition may_advance :: "ext \<Rightarrow> treeflow \<Rightarrow> string \<Rightarrow> string \<Rightarrow> routing_view \<Rightarrow> bool" where
  "may_advance E tf cur s v =
     (\<exists>node t. map_of (tf_nodes tf) cur = Some node \<and> find (\<lambda>t. tr_target t = s) (nd_next node) = Some t \<and>
        condition_holds E v t \<and> rv_treatment v = None \<and> exit_satisfied E node (rv_collected v))"

lemma find_filter: "find p xs = (case filter p xs of [] \<Rightarrow> None | x # _ \<Rightarrow> Some x)"
  by (induction xs) auto

lemma find_SomeE:
  assumes "find p xs = Some x"
  obtains rest where "filter p xs = x # rest"
  using assms by (auto simp: find_filter split: list.splits)

lemma validate_transition_advance:
  assumes "s \<noteq> ''current''" "s \<noteq> cur" and may: "may_advance E tf cur s v"
  shows "validate_transition E tf cur (Some s) v = (s, None)"
proof -
  obtain node t where node: "map_of (tf_nodes tf) cur = Some node"
    and t: "find (\<lambda>t. tr_target t = s) (nd_next node) = Some t"
    and ok: "condition_holds E v t" "rv_treatment v = None" "exit_satisfied E node (rv_collected v)"
    using may unfolding may_advance_def by blast
  obtain rest where "filter (\<lambda>t. tr_target t = s) (nd_next node) = t # rest"
    using t by (rule find_SomeE)
  then show ?thesis
    using assms(1,2) node ok by (auto simp: validate_transition_def condition_holds_def)
qed

lemma validate_transition_refuse:
  assumes "s \<noteq> ''current''" "s \<noteq> cur" and may: "\<not> may_advance E tf cur s v"
  shows "\<exists>f. validate_transition E tf cur (Some s) v = (cur, Some f)"
proof (cases "map_of (tf_nodes tf) cur")
  case None
  then show ?thesis using assms(1,2) by (simp add: validate_transition_def)
next
  case (Some node)
  show ?thesis
  proof (cases "filter (\<lambda>t. tr_target t = s) (nd_next node)")
    case Nil
    then show ?thesis using assms(1,2) Some by (simp add: validate_transition_def)
  next
    case (Cons t rest)
    then have "\<not> (condition_holds E v t \<and> rv_treatment v = None \<and> exit_satisfied E node (rv_collected v))"
      using may Some by (auto simp: may_advance_def find_filter)
    then show ?thesis
      using assms(1,2) Some Cons by (auto simp: validate_transition_def condition_holds_def)
  qed
qed

lemma validate_transition_cases:
  obtains (stay) "validate_transition E tf cur sg v = (cur, None)"
      "sg = None \<or> sg = Some ''current'' \<or> sg = Some cur"
    | (advance) s where "sg = Some s" "s \<noteq> ''current''" "s \<noteq> cur" "may_advance E tf cur s v"
      "validate_transition E tf cur sg v = (s, None)"
    | (refuse) s f where "sg = Some s" "s \<noteq> ''current''" "s \<noteq> cur" "\<not> may_advance E tf cur s v"
      "validate_transition E tf cur sg v = (cur, Some f)"
proof (cases sg)
  case None
  then show ?thesis using stay by (simp add: validate_transition_def)
next
  case (Some s)
  show ?thesis
  proof (cases "s = ''current'' \<or> s = cur")
    case True
    then show ?thesis using stay Some by (auto simp: validate_transition_def)
  next
    case False
    show ?thesis
    proof (cases "may_advance E tf cur s v")
      case True
      show ?thesis
        using advance [OF Some] False True validate_transition_advance [of s cur E tf v] Some by simp
    next
      case no: False
      then show ?thesis
        using refuse [OF Some] False validate_transition_refuse [of s cur E tf v] Some by auto
    qed
  qed
qed

lemma may_advance_target:
  assumes "may_advance E tf cur s v" and "treeflow_wf E' tf"
  shows "s \<in> fst ` set (tf_nodes tf)"
proof -
  obtain node t where node: "map_of (tf_nodes tf) cur = Some node"
    and t: "find (\<lambda>t. tr_target t = s) (nd_next node) = Some t"
    using assms(1) unfolding may_advance_def by blast
  have "(cur, node) \<in> set (tf_nodes tf)" using node by (rule map_of_SomeD)
  moreover have "t \<in> set (nd_next node)" "tr_target t = s"
    using t by (auto simp: find_Some_iff)
  ultimately show ?thesis using treeflow_wf_target [OF assms(2)] by blast
qed

lemma validate_transition_target:
  assumes "treeflow_wf E' tf" and "cur \<in> fst ` set (tf_nodes tf)"
  shows "fst (validate_transition E tf cur sg v) \<in> fst ` set (tf_nodes tf)"
proof (cases rule: validate_transition_cases [of E tf cur sg v])
  case stay
  then show ?thesis using assms(2) by simp
next
  case (advance s)
  then show ?thesis using may_advance_target [OF _ assms(1)] by simp
next
  case (refuse s f)
  then show ?thesis using assms(2) by simp
qed

end
