(* ===== verification/Once_Table.thy ===== *)
theory Once_Table
  imports Sdr_Models
begin

text \<open>
  The contract of an insert that is done at most once per key: \<open>INSERT \<dots> ON CONFLICT DO NOTHING\<close>
  on \<open>action_executions\<close> and \<open>inbound_messages\<close>, and the select-then-insert of the audit row.  The
  operation returns the new row's id, or \<open>None\<close> when a row with the key exists.  The lemmas of the
  locale are what the callers rely on: repeating a batch of inserts changes nothing and reports
  nothing new, and the number of new ids is the number of new keys.
\<close>

locale once_table =
  fixes ins :: "'r \<Rightarrow> 's \<Rightarrow> 's \<times> uuid option"
    and keys :: "'s \<Rightarrow> 'k set"
    and key_of :: "'r \<Rightarrow> 'k"
  assumes ins_dup: "key_of r \<in> keys s \<Longrightarrow> ins r s = (s, None)"
    and ins_new: "key_of r \<notin> keys s \<Longrightarrow> snd (ins r s) \<noteq> None"
    and keys_ins: "keys (fst (ins r s)) = insert (key_of r) (keys s)"
begin

fun ins_all :: "'r list \<Rightarrow> 's \<Rightarrow> 's \<times> uuid list" where
  "ins_all [] s = (s, [])"
| "ins_all (r # rs) s =
     (let (s1, i) = ins r s; (s2, is) = ins_all rs s1
      in (s2, (case i of None \<Rightarrow> is | Some x \<Rightarrow> x # is)))"

lemma ins_None_iff: "snd (ins r s) = None \<longleftrightarrow> key_of r \<in> keys s"
  using ins_dup ins_new by fastforce

lemma keys_ins_all: "keys (fst (ins_all rs s)) = keys s \<union> key_of ` set rs"
proof (induction rs arbitrary: s)
  case Nil
  then show ?case by simp
next
  case (Cons r rs)
  then show ?case using keys_ins [of r s] by (auto simp: case_prod_beta Let_def)
qed

lemma ins_all_known: "key_of ` set rs \<subseteq> keys s \<Longrightarrow> ins_all rs s = (s, [])"
proof (induction rs)
  case Nil
  then show ?case by simp
next
  case (Cons r rs)
  then show ?case using ins_dup [of r s] by simp
qed

text \<open>Delivering a batch a second time has no effect.\<close>

lemma ins_all_idem: "ins_all rs (fst (ins_all rs s)) = (fst (ins_all rs s), [])"
  by (rule ins_all_known) (simp add: keys_ins_all)

lemma ins_twice: "ins r (fst (ins r s)) = (fst (ins r s), None)"
  by (rule ins_dup) (simp add: keys_ins)

lemma length_ins_all:
  "finite (keys s) \<Longrightarrow> length (snd (ins_all rs s)) = card (key_of ` set rs - keys s)"
proof (induction rs arbitrary: s)
  case Nil
  then show ?case by simp
next
  case (Cons r rs)
  obtain s1 i where r: "ins r s = (s1, i)" by fastforce
  have k: "keys s1 = insert (key_of r) (keys s)" using keys_ins [of r s] r by simp
  have fin: "finite (keys s1)" using k Cons.prems by simp
  have len: "length (snd (ins_all rs s1)) = card (key_of ` set rs - keys s1)"
    by (rule Cons.IH [OF fin])
  show ?case
  proof (cases "key_of r \<in> keys s")
    case True
    then have "i = None" "keys s1 = keys s" using ins_None_iff [of r s] r k by auto
    then show ?thesis using r len True by (simp add: case_prod_beta insert_Diff_if)
  next
    case False
    then obtain x where "i = Some x" using ins_None_iff [of r s] r by auto
    moreover have "key_of ` set (r # rs) - keys s = insert (key_of r) (key_of ` set rs - keys s1)"
      using False k by auto
    ultimately show ?thesis using r len k by (simp add: case_prod_beta)
  qed
qed

end

end
