(* ===== verification/Actions.thy ===== *)
theory Actions
  imports Treeflow_Loader Once_Table "HOL-Library.List_Lexorder" "HOL-Library.Char_ord"
begin

text \<open>
  The actions fired when a field is collected: template rendering (\<open>flowengine/actions/templating.py\<close>),
  the dispatcher (\<open>dispatcher.py\<close>), the repository of \<open>action_executions\<close>
  (\<open>repositories/action_execution_repository.py\<close>) and the job that runs one action
  (\<open>worker/jobs/execute_action.py\<close>).  Templates are rendered by \<open>jinja_render\<close>; adapters are the
  entries of a registry, functions on a world \<open>'w\<close> of their own.
\<close>

subsection \<open>Templates\<close>

fun render_value :: "(string \<Rightarrow> string option) \<Rightarrow> jval \<Rightarrow> jval option" where
  "render_value f (JStr s) = map_option JStr (f s)"
| "render_value f (JObj d) =
     map_option JObj (those (map (\<lambda>(k, v). map_option (Pair k) (render_value f v)) d))"
| "render_value f (JList xs) = map_option JList (those (map (render_value f) xs))"
| "render_value f v = Some v"

definition render_params :: "ext \<Rightarrow> jval dict \<Rightarrow> jval dict \<Rightarrow> pyexn + jval dict" where
  "render_params E params ctx =
     (case render_value (\<lambda>s. jinja_render E s ctx) (JObj params) of
        Some (JObj d) \<Rightarrow> Inr d
      | _ \<Rightarrow> Inl TemplateRenderError)"

definition opt_str :: "string option \<Rightarrow> jval" where
  "opt_str s = (case s of None \<Rightarrow> JNull | Some t \<Rightarrow> JStr t)"

definition uuid_str :: "uuid \<Rightarrow> string" where
  "uuid_str u = str_nat u"

definition build_template_context ::
  "talkflow_state \<Rightarrow> turn_decision \<Rightarrow> lead \<Rightarrow> talk \<Rightarrow> jval dict" where
  "build_template_context st d l t =
     [(''collected'', JObj (dict_merge (st_collected st) (collected_fields d))),
      (''extracted_facts'', JObj (st_facts st)),
      (''lead'', JObj [(''id'', JStr (uuid_str (ld_id l))), (''whatsapp_e164'', opt_str (ld_e164 l)),
                       (''external_label'', opt_str (ld_label l))]),
      (''talk'', JObj [(''id'', JStr (uuid_str (tk_id t))), (''treeflow_id'', JStr (tk_treeflow t)),
                       (''turn_count'', JInt (tk_turns t))])]"

subsection \<open>The hash of a value\<close>

text \<open>
  \<open>json.dumps(value, sort_keys=True)\<close> orders the keys of every object; \<open>json_sha256\<close> is the hash of
  the text of such a value.
\<close>

fun json_canon :: "jval \<Rightarrow> jval" where
  "json_canon (JObj d) = JObj (sort_key fst (map (\<lambda>(k, v). (k, json_canon v)) d))"
| "json_canon (JList xs) = JList (map json_canon xs)"
| "json_canon v = v"

definition hash_value :: "ext \<Rightarrow> jval \<Rightarrow> string" where
  "hash_value E v = json_sha256 E (json_canon v)"

subsection \<open>The repository\<close>

type_synonym action_key = "uuid \<times> string \<times> string"

definition ax_key :: "action_execution \<Rightarrow> action_key" where
  "ax_key a = (ax_talk a, ax_field a, ax_hash a)"

definition action_keys :: "db \<Rightarrow> action_key set" where
  "action_keys d = ax_key ` set (db_actions d)"

definition insert_pending :: "action_execution \<Rightarrow> db \<Rightarrow> db \<times> uuid option" where
  "insert_pending a d =
     (if \<exists>r \<in> set (db_actions d). ax_key r = ax_key a then (d, None)
      else (d\<lparr>db_actions := db_actions d @
                [a\<lparr>ax_id := db_next d, ax_status := Pending, ax_attempts := 0, ax_error := None,
                   ax_external := None\<rparr>],
              db_next := Suc (db_next d)\<rparr>,
            Some (db_next d)))"

definition mark_executing :: "uuid \<Rightarrow> db \<Rightarrow> db \<times> action_execution option" where
  "mark_executing i d =
     (case find_row ax_id i (db_actions d) of
        None \<Rightarrow> (d, None)
      | Some a \<Rightarrow>
          let a' = a\<lparr>ax_status := Executing, ax_attempts := ax_attempts a + 1\<rparr>
          in (put_action a' d, Some a'))"

definition mark_success :: "action_execution \<Rightarrow> string option \<Rightarrow> db \<Rightarrow> db" where
  "mark_success a ext_id d = put_action (a\<lparr>ax_status := Succeeded, ax_external := ext_id\<rparr>) d"

definition mark_failed :: "action_execution \<Rightarrow> string \<Rightarrow> bool \<Rightarrow> db \<Rightarrow> db" where
  "mark_failed a err terminal d =
     (let a' = a\<lparr>ax_error := Some (take 1000 err)\<rparr>
      in put_action (if terminal then a'\<lparr>ax_status := Failed\<rparr> else a') d)"

interpretation act: once_table insert_pending action_keys ax_key
proof
  fix a :: action_execution and d :: db
  show "ax_key a \<in> action_keys d \<Longrightarrow> insert_pending a d = (d, None)"
    by (auto simp: insert_pending_def action_keys_def)
  show "ax_key a \<notin> action_keys d \<Longrightarrow> snd (insert_pending a d) \<noteq> None"
    by (auto simp: insert_pending_def action_keys_def image_iff)
  show "action_keys (fst (insert_pending a d)) = insert (ax_key a) (action_keys d)"
  proof (cases "\<exists>r \<in> set (db_actions d). ax_key r = ax_key a")
    case True
    then have "ax_key a \<in> ax_key ` set (db_actions d)" by (metis imageI)
    then show ?thesis using True by (auto simp: insert_pending_def action_keys_def)
  next
    case False
    then show ?thesis by (simp add: insert_pending_def action_keys_def) (simp add: ax_key_def)
  qed
qed

subsection \<open>The dispatcher\<close>

text \<open>
  The queue is the list of the jobs enqueued so far.  It is not part of the database: enqueuing is
  not undone when the transaction rolls back.
\<close>

definition new_execution ::
  "ext \<Rightarrow> talk \<Rightarrow> treeflow_node \<Rightarrow> on_collected \<Rightarrow> jval \<Rightarrow> jval dict \<Rightarrow> action_execution" where
  "new_execution E t nd a v ps =
     \<lparr>ax_id = 0, ax_tenant = tk_tenant t, ax_talk = tk_id t, ax_node = nd_id nd, ax_field = oc_field a,
      ax_hash = hash_value E v, ax_adapter = oc_adapter a, ax_handler = oc_handler a, ax_params = ps,
      ax_status = Pending, ax_attempts = 0, ax_error = None, ax_external = None\<rparr>"

fun dispatch_specs ::
  "ext \<Rightarrow> jval dict \<Rightarrow> jval dict \<Rightarrow> treeflow_node \<Rightarrow> talk \<Rightarrow> on_collected list \<Rightarrow> db \<times> uuid list \<Rightarrow> db \<times> uuid list"
  where
  "dispatch_specs E ctx coll nd t [] w = w"
| "dispatch_specs E ctx coll nd t (a # as) (d, q) =
     (case map_of coll (oc_field a) of
        None \<Rightarrow> dispatch_specs E ctx coll nd t as (d, q)
      | Some v \<Rightarrow>
          (case render_params E (oc_params a) ctx of
             Inl _ \<Rightarrow> dispatch_specs E ctx coll nd t as (d, q)
           | Inr ps \<Rightarrow>
               (case insert_pending (new_execution E t nd a v ps) d of
                  (d', None) \<Rightarrow> dispatch_specs E ctx coll nd t as (d', q)
                | (d', Some i) \<Rightarrow> dispatch_specs E ctx coll nd t as (d', q @ [i]))))"

definition dispatch_actions ::
  "ext \<Rightarrow> talkflow_state \<Rightarrow> turn_decision \<Rightarrow> treeflow_node \<Rightarrow> talk \<Rightarrow> lead \<Rightarrow> db \<times> uuid list \<Rightarrow> db \<times> uuid list"
  where
  "dispatch_actions E st dec nd t l w =
     (if nd_on_collected nd = [] then w
      else dispatch_specs E (build_template_context st dec l t) (collected_fields dec) nd t
             (nd_on_collected nd) w)"

subsection \<open>Running an action\<close>

text \<open>
  An adapter receives the handler and the parameters and returns the external id or raises.
  \<open>tenant_cfg\<close> tells whether the tenant's configuration loads; \<open>registry\<close> is \<open>ACTION_ADAPTERS\<close>.
\<close>

type_synonym 'w adapter_fn = "string \<Rightarrow> jval dict \<Rightarrow> 'w \<Rightarrow> (pyexn + string option) \<times> 'w"

definition run_adapter ::
  "(uuid \<Rightarrow> bool) \<Rightarrow> (string \<Rightarrow> 'w adapter_fn option) \<Rightarrow> action_execution \<Rightarrow> 'w \<Rightarrow> (pyexn + string option) \<times> 'w"
  where
  "run_adapter tenant_cfg registry a w =
     (if \<not> tenant_cfg (ax_tenant a) then (Inl (OtherError ''tenant''), w)
      else (case registry (ax_adapter a) of
              None \<Rightarrow> (Inl (OtherError ''UnknownAdapterError''), w)
            | Some f \<Rightarrow> f (ax_handler a) (ax_params a) w))"

definition max_attempts :: int where
  "max_attempts = 3"

definition execute_action ::
  "(pyexn \<Rightarrow> string) \<Rightarrow> (uuid \<Rightarrow> bool) \<Rightarrow> (string \<Rightarrow> 'w adapter_fn option) \<Rightarrow> uuid \<Rightarrow> db \<times> 'w \<Rightarrow>
   (pyexn + unit) \<times> db \<times> 'w" where
  "execute_action exn_str tenant_cfg registry i dw =
     (let (d, w) = dw in
      case mark_executing i d of
        (d1, None) \<Rightarrow> (Inr (), d1, w)
      | (d1, Some a) \<Rightarrow>
          (case run_adapter tenant_cfg registry a w of
             (Inl e, w1) \<Rightarrow>
               (case find_row ax_id i (db_actions d1) of
                  None \<Rightarrow> (Inr (), d1, w1)
                | Some r \<Rightarrow>
                    let terminal = (ax_attempts r \<ge> max_attempts);
                        d2 = mark_failed r (exn_str e) terminal d1
                    in (if terminal then Inr () else Inl e, d2, w1))
           | (Inr ext_id, w1) \<Rightarrow>
               (case find_row ax_id i (db_actions d1) of
                  None \<Rightarrow> (Inr (), d1, w1)
                | Some r \<Rightarrow> (Inr (), mark_success r ext_id d1, w1))))"

text \<open>The queue runs the job again as long as it raises, \<open>n\<close> times at most.\<close>

fun run_job ::
  "(pyexn \<Rightarrow> string) \<Rightarrow> (uuid \<Rightarrow> bool) \<Rightarrow> (string \<Rightarrow> 'w adapter_fn option) \<Rightarrow> nat \<Rightarrow> uuid \<Rightarrow> db \<times> 'w \<Rightarrow>
   (pyexn + unit) \<times> db \<times> 'w" where
  "run_job s tc reg 0 i dw = (Inl (OtherError ''not run''), dw)"
| "run_job s tc reg (Suc n) i dw =
     (case execute_action s tc reg i dw of
        (Inr u, dw') \<Rightarrow> (Inr u, dw')
      | (Inl e, dw') \<Rightarrow> if n = 0 then (Inl e, dw') else run_job s tc reg n i dw')"

subsection \<open>Properties of the dispatcher\<close>

definition actions_wf :: "db \<Rightarrow> bool" where
  "actions_wf d =
     (distinct (map ax_key (db_actions d)) \<and> distinct (map ax_id (db_actions d)) \<and>
      (\<forall>a \<in> set (db_actions d). ax_id a < db_next d))"

lemma insert_pending_wf: "actions_wf d \<Longrightarrow> actions_wf (fst (insert_pending a d))"
  by (auto simp: actions_wf_def insert_pending_def ax_key_def less_Suc_eq)

text \<open>What a dispatch adds: rows, one new job per row, nothing else.\<close>

definition extends :: "db \<times> uuid list \<Rightarrow> db \<times> uuid list \<Rightarrow> bool" where
  "extends w w' =
     (\<exists>rows. db_actions (fst w') = db_actions (fst w) @ rows \<and> snd w' = snd w @ map ax_id rows \<and>
        (\<forall>r \<in> set rows. ax_status r = Pending \<and> ax_attempts r = 0) \<and>
        db_next (fst w) \<le> db_next (fst w') \<and>
        fst w' = (fst w)\<lparr>db_actions := db_actions (fst w'), db_next := db_next (fst w')\<rparr>)"

lemma extends_refl [simp]: "extends w w"
  by (simp add: extends_def)

lemma extends_trans: "extends a b \<Longrightarrow> extends b c \<Longrightarrow> extends a c"
proof -
  assume ab: "extends a b" and bc: "extends b c"
  obtain r1 where r1: "db_actions (fst b) = db_actions (fst a) @ r1" "snd b = snd a @ map ax_id r1"
      "\<forall>r \<in> set r1. ax_status r = Pending \<and> ax_attempts r = 0"
      and le1: "db_next (fst a) \<le> db_next (fst b)"
      and b: "fst b = (fst a)\<lparr>db_actions := db_actions (fst b), db_next := db_next (fst b)\<rparr>"
    using ab unfolding extends_def by blast
  obtain r2 where r2: "db_actions (fst c) = db_actions (fst b) @ r2" "snd c = snd b @ map ax_id r2"
      "\<forall>r \<in> set r2. ax_status r = Pending \<and> ax_attempts r = 0"
      and le2: "db_next (fst b) \<le> db_next (fst c)"
      and c: "fst c = (fst b)\<lparr>db_actions := db_actions (fst c), db_next := db_next (fst c)\<rparr>"
    using bc unfolding extends_def by blast
  have "fst c = (fst a)\<lparr>db_actions := db_actions (fst c), db_next := db_next (fst c)\<rparr>"
    by (subst c, subst b) simp
  then show "extends a c"
    unfolding extends_def using r1 r2 le1 le2 by (intro exI [of _ "r1 @ r2"]) auto
qed

lemma extends_insert:
  "insert_pending a d = (d', Some i) \<Longrightarrow> extends (d, q) (d', q @ [i])"
  by (auto simp: insert_pending_def extends_def split: if_splits)

lemma dispatch_specs_ok:
  "extends w (dispatch_specs E ctx coll nd t as w) \<and>
   (actions_wf (fst w) \<longrightarrow> actions_wf (fst (dispatch_specs E ctx coll nd t as w)))"
proof (induction as arbitrary: w)
  case Nil
  then show ?case by simp
next
  case (Cons a as)
  obtain d q where w: "w = (d, q)" by fastforce
  show ?case
  proof (cases "\<exists>v ps. map_of coll (oc_field a) = Some v \<and> render_params E (oc_params a) ctx = Inr ps")
    case False
    then show ?thesis using Cons.IH [of w] by (auto simp: w split: option.splits sum.splits)
  next
    case True
    then obtain v ps where v: "map_of coll (oc_field a) = Some v" "render_params E (oc_params a) ctx = Inr ps"
      by blast
    obtain d' o' where ins: "insert_pending (new_execution E t nd a v ps) d = (d', o')" by fastforce
    have wf: "actions_wf d \<longrightarrow> actions_wf d'"
      using insert_pending_wf [of d "new_execution E t nd a v ps"] ins by simp
    show ?thesis
    proof (cases o')
      case None
      then have "d' = d" using ins by (auto simp: insert_pending_def split: if_splits)
      then show ?thesis using Cons.IH [of "(d, q)"] v ins None by (simp add: w)
    next
      case (Some i)
      then have "extends (d, q) (d', q @ [i])" using extends_insert ins by simp
      then show ?thesis
        using Cons.IH [of "(d', q @ [i])"] v ins Some wf extends_trans by (auto simp: w)
    qed
  qed
qed

lemma dispatch_actions_ok:
  "extends w (dispatch_actions E st dec nd t l w)"
  "actions_wf (fst w) \<Longrightarrow> actions_wf (fst (dispatch_actions E st dec nd t l w))"
  using dispatch_specs_ok unfolding dispatch_actions_def by auto

lemma insert_pending_keys: "action_keys d \<subseteq> action_keys (fst (insert_pending a d))"
  using act.keys_ins by auto

lemma dispatch_specs_mono: "action_keys (fst w) \<subseteq> action_keys (fst (dispatch_specs E ctx coll nd t as w))"
  using dispatch_specs_ok [of w E ctx coll nd t as] by (auto simp: extends_def action_keys_def)

lemma dispatch_specs_covers:
  "a \<in> set as \<Longrightarrow> map_of coll (oc_field a) = Some v \<Longrightarrow> render_params E (oc_params a) ctx = Inr ps \<Longrightarrow>
   (tk_id t, oc_field a, hash_value E v) \<in> action_keys (fst (dispatch_specs E ctx coll nd t as w))"
proof (induction as arbitrary: w)
  case Nil
  then show ?case by simp
next
  case (Cons b as)
  obtain d q where w: "w = (d, q)" by fastforce
  show ?case
  proof (cases "a = b")
    case True
    let ?r = "new_execution E t nd a v ps"
    have "ax_key ?r \<in> action_keys (fst (insert_pending ?r d))" using act.keys_ins by simp
    moreover have "ax_key ?r = (tk_id t, oc_field a, hash_value E v)"
      by (simp add: ax_key_def new_execution_def)
    ultimately show ?thesis
      using Cons.prems True dispatch_specs_mono
      by (auto simp: w split: prod.splits option.splits)
        (metis fst_conv subset_eq)+
  next
    case False
    then show ?thesis
      using Cons by (auto simp: w split: option.splits sum.splits prod.splits)
  qed
qed

text \<open>A second dispatch of the same decision inserts nothing and enqueues nothing.\<close>

lemma dispatch_specs_known:
  "\<forall>a \<in> set as. \<forall>v. map_of coll (oc_field a) = Some v \<longrightarrow>
     (\<exists>ps. render_params E (oc_params a) ctx = Inr ps) \<longrightarrow>
     (tk_id t, oc_field a, hash_value E v) \<in> action_keys (fst w) \<Longrightarrow>
   dispatch_specs E ctx coll nd t as w = w"
proof (induction as)
  case Nil
  then show ?case by simp
next
  case (Cons a as)
  obtain d q where w: "w = (d, q)" by fastforce
  have IH: "dispatch_specs E ctx coll nd t as (d, q) = (d, q)" using Cons by (simp add: w)
  show ?case
  proof (cases "\<exists>v ps. map_of coll (oc_field a) = Some v \<and> render_params E (oc_params a) ctx = Inr ps")
    case False
    then show ?thesis using IH by (auto simp: w split: option.splits sum.splits)
  next
    case True
    then obtain v ps where v: "map_of coll (oc_field a) = Some v" "render_params E (oc_params a) ctx = Inr ps"
      by blast
    have "ax_key (new_execution E t nd a v ps) \<in> action_keys d"
      using Cons.prems v by (auto simp: w ax_key_def new_execution_def)
    then show ?thesis using act.ins_dup v IH by (simp add: w)
  qed
qed

lemma dispatch_specs_idem:
  "dispatch_specs E ctx coll nd t as (dispatch_specs E ctx coll nd t as w) =
   dispatch_specs E ctx coll nd t as w"
  by (rule dispatch_specs_known) (use dispatch_specs_covers in blast)

lemma dispatch_actions_idem:
  "dispatch_actions E st dec nd t l (dispatch_actions E st dec nd t l w) = dispatch_actions E st dec nd t l w"
  by (simp add: dispatch_actions_def dispatch_specs_idem)

subsection \<open>Properties of the job\<close>

lemma find_put_action:
  "find_row ax_id i (db_actions (put_action a d)) =
   (if i = ax_id a then (if find_row ax_id i (db_actions d) = None then None else Some a)
    else find_row ax_id i (db_actions d))"
  unfolding put_action_def by (simp add: find_row_put)

text \<open>The three ways a run of the job can end.\<close>

definition after_success :: "action_execution \<Rightarrow> string option \<Rightarrow> action_execution" where
  "after_success a x = a\<lparr>ax_attempts := ax_attempts a + 1, ax_status := Succeeded, ax_external := x\<rparr>"

definition after_failure :: "action_execution \<Rightarrow> string \<Rightarrow> action_execution" where
  "after_failure a err =
     (if ax_attempts a + 1 \<ge> max_attempts
      then a\<lparr>ax_attempts := ax_attempts a + 1, ax_error := Some (take 1000 err), ax_status := Failed\<rparr>
      else a\<lparr>ax_status := Executing, ax_attempts := ax_attempts a + 1, ax_error := Some (take 1000 err)\<rparr>)"

lemma put_action_put [simp]: "ax_id a = ax_id b \<Longrightarrow> put_action a (put_action b d) = put_action a d"
  by (auto simp: put_action_def update_where_def)

lemma execute_action_missing:
  "find_row ax_id i (db_actions d) = None \<Longrightarrow> execute_action s tc reg i (d, w) = (Inr (), d, w)"
  by (simp add: execute_action_def mark_executing_def)

lemma execute_action_success:
  assumes row: "find_row ax_id i (db_actions d) = Some a"
    and run: "run_adapter tc reg (a\<lparr>ax_status := Executing, ax_attempts := ax_attempts a + 1\<rparr>) w = (Inr x, w1)"
  shows "execute_action s tc reg i (d, w) = (Inr (), put_action (after_success a x) d, w1)"
proof -
  have i: "ax_id a = i" using find_row_Some [OF row] by simp
  show ?thesis
    using row run i
    by (simp add: execute_action_def mark_executing_def Let_def find_put_action mark_success_def
        after_success_def)
qed

lemma execute_action_failure:
  assumes row: "find_row ax_id i (db_actions d) = Some a"
    and run: "run_adapter tc reg (a\<lparr>ax_status := Executing, ax_attempts := ax_attempts a + 1\<rparr>) w = (Inl e, w1)"
  shows "execute_action s tc reg i (d, w) =
    (if ax_attempts a + 1 \<ge> max_attempts then Inr () else Inl e,
     put_action (after_failure a (s e)) d, w1)"
proof -
  have i: "ax_id a = i" using find_row_Some [OF row] by simp
  show ?thesis
    using row run i
    by (simp add: execute_action_def mark_executing_def Let_def find_put_action mark_failed_def
        after_failure_def)
qed

lemma find_after:
  "find_row ax_id i (db_actions d) = Some a \<Longrightarrow>
   find_row ax_id i (db_actions (put_action (after_success a x) d)) = Some (after_success a x) \<and>
   find_row ax_id i (db_actions (put_action (after_failure a m) d)) = Some (after_failure a m)"
  using find_row_Some [of ax_id i "db_actions d" a]
  by (auto simp: find_put_action after_success_def after_failure_def)

text \<open>
  With as many tries as are left before the limit, the job ends in a terminal status.
\<close>

lemma run_job_terminal:
  assumes row: "find_row ax_id i (db_actions d) = Some a"
    and tries: "int n = max_attempts - ax_attempts a" and pos: "0 < n"
  shows "\<exists>d' w' a'. run_job s tc reg n i (d, w) = (Inr (), d', w') \<and>
    find_row ax_id i (db_actions d') = Some a' \<and> ax_attempts a' \<le> max_attempts \<and>
    (ax_status a' = Succeeded \<or> ax_status a' = Failed \<and> ax_attempts a' = max_attempts)"
  using assms
proof (induction n arbitrary: d w a)
  case 0
  then show ?case by simp
next
  case (Suc n)
  obtain r w1 where run: "run_adapter tc reg (a\<lparr>ax_status := Executing, ax_attempts := ax_attempts a + 1\<rparr>) w = (r, w1)"
    by fastforce
  show ?case
  proof (cases r)
    case (Inr x)
    have "run_job s tc reg (Suc n) i (d, w) = (Inr (), put_action (after_success a x) d, w1)"
      using execute_action_success [OF Suc.prems(1) run [unfolded Inr]] by simp
    then show ?thesis
      using find_after [OF Suc.prems(1), of x] Suc.prems(2) by (simp add: after_success_def)
  next
    case (Inl e)
    note ex = execute_action_failure [OF Suc.prems(1), of tc reg w e w1 s]
    let ?d = "put_action (after_failure a (s e)) d"
    have found: "find_row ax_id i (db_actions ?d) = Some (after_failure a (s e))"
      using find_after [OF Suc.prems(1)] by simp
    show ?thesis
    proof (cases "n = 0")
      case True
      then have "ax_attempts a + 1 = max_attempts" using Suc.prems(2) by simp
      then show ?thesis
        using ex run Inl found by (simp add: after_failure_def)
    next
      case False
      then have "\<not> ax_attempts a + 1 \<ge> max_attempts" using Suc.prems(2) by simp
      then have "run_job s tc reg (Suc n) i (d, w) = run_job s tc reg n i (?d, w1)"
        using ex run Inl False by simp
      moreover have "int n = max_attempts - ax_attempts (after_failure a (s e))"
        using Suc.prems(2) by (simp add: after_failure_def)
      ultimately show ?thesis using Suc.IH [OF found] False by simp
    qed
  qed
qed

text \<open>A canonical value is its own canonical form, so the order of keys never matters to the hash.\<close>

lemma json_canon_idem: "json_canon (json_canon v) = json_canon v"
proof (induction v)
  case (JObj d)
  have id: "map (\<lambda>(k, v). (k, json_canon v)) (sort_key fst (map (\<lambda>(k, v). (k, json_canon v)) d)) =
      sort_key fst (map (\<lambda>(k, v). (k, json_canon v)) d)"
    using JObj by (intro map_idI) (fastforce simp: snds.simps)
  show ?case by (simp add: id del: map_map) (simp add: sorted_sort_key sort_key_id_if_sorted)
qed auto

end
