(* ===== verification/Post_Processing.thy ===== *)
theory Post_Processing
  imports Heuristics Routing Actions Repositories
begin

text \<open>
  \<open>flowengine/post_processing.py\<close>: \<open>apply_decision\<close> turns the model's decision into changes of the
  talk, of its runtime state and of the action table.  The ORM objects of the talk and the state
  are values that are threaded through and returned; the caller writes them back.  An exception
  leaves the jobs already enqueued in the queue, so the queue is returned in every case.
\<close>

subsection \<open>The stages\<close>

definition offtopic_key :: string where
  "offtopic_key = ''__off_topic_count__''"

definition merge_decision :: "turn_decision \<Rightarrow> talkflow_state \<Rightarrow> talkflow_state" where
  "merge_decision d st =
     (let st1 = (if collected_fields d \<noteq> []
                 then st\<lparr>st_collected := dict_merge (st_collected st) (collected_fields d)\<rparr> else st)
      in if extracted_facts d \<noteq> []
         then st1\<lparr>st_facts := dict_merge (st_facts st1) (extracted_facts d)\<rparr> else st1)"

text \<open>Step 4b: the actions of every node with an action on a collected field.\<close>

definition nodes_with_actions :: "treeflow \<Rightarrow> turn_decision \<Rightarrow> treeflow_node list" where
  "nodes_with_actions tf d =
     filter (\<lambda>n. \<exists>a \<in> set (nd_on_collected n). map_of (collected_fields d) (oc_field a) \<noteq> None)
       (map snd (tf_nodes tf))"

definition dispatch_all ::
  "ext \<Rightarrow> treeflow \<Rightarrow> talkflow_state \<Rightarrow> turn_decision \<Rightarrow> talk \<Rightarrow> db \<times> uuid list \<Rightarrow> db \<times> uuid list" where
  "dispatch_all E tf st d t w =
     (if collected_fields d = [] then w
      else (case nodes_with_actions tf d of
              [] \<Rightarrow> w
            | nodes \<Rightarrow>
                (case find_row ld_id (tk_lead t) (db_leads (fst w)) of
                   None \<Rightarrow> w
                 | Some l \<Rightarrow> foldl (\<lambda>w n. dispatch_actions E st d n t l w) w nodes)))"

definition apply_delta :: "state_delta \<Rightarrow> talkflow_state \<Rightarrow> talkflow_state" where
  "apply_delta dl st =
     (let st1 = (case dl_treatment dl of None \<Rightarrow> st | Some t \<Rightarrow> st\<lparr>st_treatment := t\<rparr>)
      in if dl_history dl \<noteq> [] then st1\<lparr>st_objections := st_objections st1 @ dl_history dl\<rparr> else st1)"

definition or_else :: "'a option \<Rightarrow> 'a option \<Rightarrow> 'a option" where
  "or_else a b = (case a of None \<Rightarrow> b | Some x \<Rightarrow> Some x)"

definition close_talk :: "time \<Rightarrow> close_outcome \<Rightarrow> talk \<Rightarrow> talk" where
  "close_talk now co t =
     t\<lparr>tk_status := co_status co, tk_closed_at := Some now, tk_closed_reason := Some (co_reason co),
       tk_closed_by := Some (co_by co)\<rparr>"

definition request_review :: "time \<Rightarrow> review_reason option \<Rightarrow> talk \<Rightarrow> talk" where
  "request_review now reason t =
     (case reason of
        None \<Rightarrow> t
      | Some r \<Rightarrow>
          if tk_status t \<noteq> RequiresReview
          then t\<lparr>tk_status := RequiresReview, tk_review_reason := Some r, tk_escalated_at := Some now\<rparr>
          else t)"

text \<open>Step 9, after no completion rule has fired: the reason of a review and the off-topic counter.\<close>

definition review_stage ::
  "time \<Rightarrow> state_delta \<Rightarrow> turn_decision \<Rightarrow> talk \<times> talkflow_state \<Rightarrow> pyexn + talk \<times> talkflow_state" where
  "review_stage now dl d ts =
     (let (t, st) = ts;
          reason = or_else (dl_review dl) (resolve_escalation_reason d);
          raw = map_of (st_collected st) offtopic_key;
          cur = (if truthy_opt raw then the raw else JInt 0)
      in bindE (handle_offtopic cur d) (\<lambda>(new, off).
         let st' = (if new \<noteq> cur then st\<lparr>st_collected := dict_put offtopic_key new (st_collected st)\<rparr> else st)
         in Inr (request_review now (or_else reason off) t, st')))"

text \<open>
  \<open>TalkFlowState\<close> has no attribute \<open>turn_index\<close>, so \<open>_get(state, "turn_index", 0)\<close> in
  \<open>evaluate_completion_rule\<close> is its default 0.
\<close>

definition finish_turn ::
  "ext \<Rightarrow> treeflow \<Rightarrow> time \<Rightarrow> state_delta \<Rightarrow> turn_decision \<Rightarrow> talk \<times> talkflow_state \<Rightarrow>
   pyexn + talk \<times> talkflow_state" where
  "finish_turn E tf now dl d ts =
     (let (t, st) = ts in
      case evaluate_completion_rule E tf (st_collected st) (st_facts st) 0 d of
        Some co \<Rightarrow> Inr (close_talk now co t, st)
      | None \<Rightarrow> review_stage now dl d (t, st))"

definition apply_decision ::
  "ext \<Rightarrow> treeflow \<Rightarrow> time \<Rightarrow> talk \<Rightarrow> talkflow_state \<Rightarrow> turn_decision \<Rightarrow> string \<Rightarrow> db \<times> uuid list \<Rightarrow>
   (pyexn + talk \<times> talkflow_state) \<times> db \<times> uuid list" where
  "apply_decision E tf now t st d target w =
     (let d1 = fst (apply_contradiction_heuristic d) in
      case apply_objection tf (Some (st_node st)) (st_treatment st) d1 of
        Inl e \<Rightarrow> (Inl e, w)
      | Inr dl \<Rightarrow>
          let st1 = merge_decision d1 st;
              w1 = dispatch_all E tf st1 d1 t w;
              st2 = (apply_delta dl st1)\<lparr>st_node := target\<rparr>;
              next_turn = tk_turns t + 1
          in (bindE (make_message RAssistant (response_text d1) SrcAgent next_turn now) (\<lambda>m.
              bindE (append_message 15 m st2) (\<lambda>st3.
              finish_turn E tf now dl d1 (t\<lparr>tk_turns := next_turn, tk_last_message := now\<rparr>, st3))), w1))"

text \<open>The events that \<open>apply_decision\<close> logs.\<close>

definition decision_events :: "treeflow \<Rightarrow> talkflow_state \<Rightarrow> turn_decision \<Rightarrow> event list" where
  "decision_events tf st d =
     (let (d1, ev) = apply_contradiction_heuristic d in
      ev @ detect_implicit_transition d1 @
      (case apply_objection tf (Some (st_node st)) (st_treatment st) d1 of
         Inl _ \<Rightarrow> [] | Inr dl \<Rightarrow> dl_events dl))"

subsection \<open>Invariants\<close>

definition state_wf :: "treeflow \<Rightarrow> talkflow_state \<Rightarrow> bool" where
  "state_wf tf st =
     (st_node st \<in> fst ` set (tf_nodes tf) \<and> treatment_opt_wf (st_treatment st) \<and>
      length (st_messages st) \<le> 15)"

text \<open>A talk is closed exactly when it carries the time, reason and author of its closing.\<close>

definition talk_wf :: "talk \<Rightarrow> bool" where
  "talk_wf t =
     (0 \<le> tk_turns t \<and>
      (is_closed (tk_status t) \<longrightarrow> tk_closed_at t \<noteq> None \<and> tk_closed_reason t \<noteq> None \<and> tk_closed_by t \<noteq> None) \<and>
      (\<not> is_closed (tk_status t) \<longrightarrow> tk_closed_at t = None \<and> tk_closed_reason t = None \<and> tk_closed_by t = None) \<and>
      (tk_status t = RequiresReview \<longrightarrow> tk_review_reason t \<noteq> None \<and> tk_escalated_at t \<noteq> None))"

definition counter_ok :: "jval dict \<Rightarrow> bool" where
  \<comment> \<open>the off-topic counter, when there is one, is a number or falsy\<close>
  "counter_ok c =
     (case map_of c offtopic_key of
        None \<Rightarrow> True
      | Some v \<Rightarrow> \<not> truthy v \<or> (\<exists>n. v = JInt n) \<or> (\<exists>b. v = JBool b) \<or> (\<exists>r. v = JFloat r))"

lemma handle_offtopic_ok:
  "\<not> off_topic_detected d \<or> (\<exists>n. v = JInt n) \<or> (\<exists>b. v = JBool b) \<or> (\<exists>r. v = JFloat r) \<Longrightarrow>
   \<exists>r. handle_offtopic v d = Inr r"
  by (auto simp: handle_offtopic_def py_num_add_def)

lemma merge_decision_simps [simp]:
  "st_node (merge_decision d st) = st_node st"
  "st_treatment (merge_decision d st) = st_treatment st"
  "st_messages (merge_decision d st) = st_messages st"
  "st_objections (merge_decision d st) = st_objections st"
  "st_talk (merge_decision d st) = st_talk st"
  "st_tenant (merge_decision d st) = st_tenant st"
  "st_collected (merge_decision d st) = dict_merge (st_collected st) (collected_fields d)"
  "st_facts (merge_decision d st) = dict_merge (st_facts st) (extracted_facts d)"
  by (auto simp: merge_decision_def Let_def dict_merge_def)

lemma apply_delta_simps [simp]:
  "st_node (apply_delta dl st) = st_node st"
  "st_messages (apply_delta dl st) = st_messages st"
  "st_collected (apply_delta dl st) = st_collected st"
  "st_facts (apply_delta dl st) = st_facts st"
  "st_talk (apply_delta dl st) = st_talk st"
  "st_tenant (apply_delta dl st) = st_tenant st"
  "st_objections (apply_delta dl st) = st_objections st @ dl_history dl"
  "st_treatment (apply_delta dl st) = (case dl_treatment dl of None \<Rightarrow> st_treatment st | Some t \<Rightarrow> t)"
  by (auto simp: apply_delta_def Let_def split: option.splits)

subsection \<open>What a turn does to the talk and the state\<close>

text \<open>\<open>turn_state\<close>: the state before the last stage, and the talk with its counters advanced.\<close>

definition turn_state :: "time \<Rightarrow> talk \<Rightarrow> talkflow_state \<Rightarrow> turn_decision \<Rightarrow> state_delta \<Rightarrow> string \<Rightarrow> talkflow_state" where
  "turn_state now t st d dl target =
     (apply_delta dl (merge_decision d st))
       \<lparr>st_node := target,
        st_messages := take_last 15 (st_messages st @
          [\<lparr>msg_role = RAssistant, msg_content = response_text d, msg_source = SrcAgent, msg_media = MText,
            msg_turn = tk_turns t + 1, msg_timestamp = now\<rparr>])\<rparr>"

lemma apply_decision_decompose:
  assumes ap: "apply_decision E tf now t st d target w = (Inr (t', st'), w')" and d1: "d1 = fst (apply_contradiction_heuristic d)"
  obtains dl where "apply_objection tf (Some (st_node st)) (st_treatment st) d1 = Inr dl"
    "finish_turn E tf now dl d1 (t\<lparr>tk_turns := tk_turns t + 1, tk_last_message := now\<rparr>, turn_state now t st d1 dl target)
       = Inr (t', st')"
    "w' = dispatch_all E tf (merge_decision d1 st) d1 t w" "0 \<le> tk_turns t"
proof -
  obtain dl where dl: "apply_objection tf (Some (st_node st)) (st_treatment st) d1 = Inr dl"
    using ap d1 by (auto simp: apply_decision_def Let_def split: sum.splits)
  have "0 \<le> tk_turns t"
    using ap dl d1 by (auto simp: apply_decision_def Let_def make_message_def split: if_splits)
  moreover from this have "apply_decision E tf now t st d target w =
     (finish_turn E tf now dl d1 (t\<lparr>tk_turns := tk_turns t + 1, tk_last_message := now\<rparr>, turn_state now t st d1 dl target),
      dispatch_all E tf (merge_decision d1 st) d1 t w)"
    using dl d1 by (simp add: apply_decision_def Let_def make_message_def append_message_ok turn_state_def)
  ultimately show ?thesis using that dl ap by simp
qed

lemma review_stage_cases:
  assumes "review_stage now dl d (t, st) = Inr (t', st')"
  obtains new off where
    "handle_offtopic (if truthy_opt (map_of (st_collected st) offtopic_key) then the (map_of (st_collected st) offtopic_key) else JInt 0) d = Inr (new, off)"
    "t' = request_review now (or_else (or_else (dl_review dl) (resolve_escalation_reason d)) off) t"
    "\<exists>c. st' = st\<lparr>st_collected := c\<rparr> \<and> (c = st_collected st \<or> c = dict_put offtopic_key new (st_collected st))"
proof -
  let ?cur = "if truthy_opt (map_of (st_collected st) offtopic_key) then the (map_of (st_collected st) offtopic_key) else JInt 0"
  obtain new off where o1: "handle_offtopic ?cur d = Inr (new, off)"
    and r: "t' = request_review now (or_else (or_else (dl_review dl) (resolve_escalation_reason d)) off) t"
    and s: "st' = (if new \<noteq> ?cur then st\<lparr>st_collected := dict_put offtopic_key new (st_collected st)\<rparr> else st)"
  proof -
    obtain p where p: "handle_offtopic ?cur d = Inr p"
      using assms unfolding review_stage_def Let_def prod.case bindE_eq_Inr by blast
    obtain n o' where "p = (n, o')" by fastforce
    then show ?thesis
      using that [of n o'] p assms unfolding review_stage_def Let_def by simp
  qed
  have "st = st\<lparr>st_collected := st_collected st\<rparr>" by simp
  then show ?thesis using that [OF o1 r] s by metis
qed

lemma finish_turn_state:
  assumes "finish_turn E tf now dl d (t, st) = Inr (t', st')"
  shows "\<exists>c. st' = st\<lparr>st_collected := c\<rparr> \<and> (\<forall>k. k \<noteq> offtopic_key \<longrightarrow> map_of c k = map_of (st_collected st) k)"
proof (cases "evaluate_completion_rule E tf (st_collected st) (st_facts st) 0 d")
  case None
  then have "review_stage now dl d (t, st) = Inr (t', st')" using assms by (simp add: finish_turn_def)
  then show ?thesis by (rule review_stage_cases) auto
next
  case (Some co)
  then show ?thesis using assms by (auto simp: finish_turn_def intro!: exI [of _ "st_collected st"])
qed

lemma apply_decision_state_wf:
  assumes tf: "treeflow_wf E' tf" and st: "state_wf tf st" and target: "target \<in> fst ` set (tf_nodes tf)"
    and ap: "apply_decision E tf now t st d target w = (Inr (t', st'), w')"
  shows "state_wf tf st' \<and> st_node st' = target"
proof -
  define d1 where "d1 = fst (apply_contradiction_heuristic d)"
  obtain dl where dl: "apply_objection tf (Some (st_node st)) (st_treatment st) d1 = Inr dl"
    and fin: "finish_turn E tf now dl d1 (t\<lparr>tk_turns := tk_turns t + 1, tk_last_message := now\<rparr>, turn_state now t st d1 dl target)
       = Inr (t', st')"
    using apply_decision_decompose [OF ap d1_def] by blast
  obtain tr where tr: "dl_treatment dl = Some tr" "treatment_opt_wf tr"
    using apply_objection_wf [OF tf, of "st_treatment st" "Some (st_node st)" d1] st dl
    by (auto simp: state_wf_def)
  obtain c where "st' = (turn_state now t st d1 dl target)\<lparr>st_collected := c\<rparr>"
    using finish_turn_state [OF fin] by blast
  then show ?thesis using tr target by (simp add: state_wf_def turn_state_def)
qed

lemma request_review_wf: "talk_wf t \<Longrightarrow> \<not> is_closed (tk_status t) \<Longrightarrow> talk_wf (request_review now r t)"
  by (auto simp: request_review_def talk_wf_def is_closed_def split: option.splits)

lemma close_talk_wf: "0 \<le> tk_turns t \<Longrightarrow> is_closed (co_status co) \<Longrightarrow> talk_wf (close_talk now co t)"
  by (auto simp: close_talk_def talk_wf_def is_closed_def)

lemma finish_turn_talk_wf:
  assumes fin: "finish_turn E tf now dl d (t, st) = Inr (t', st')" and t: "talk_wf t" "\<not> is_closed (tk_status t)"
  shows "talk_wf t'"
proof (cases "evaluate_completion_rule E tf (st_collected st) (st_facts st) 0 d")
  case None
  then have "review_stage now dl d (t, st) = Inr (t', st')" using fin by (simp add: finish_turn_def)
  then show ?thesis by (rule review_stage_cases) (use t in \<open>simp add: request_review_wf\<close>)
next
  case (Some co)
  then have "t' = close_talk now co t" using fin by (simp add: finish_turn_def)
  then show ?thesis
    using evaluate_completion_rule_closed [OF Some] t close_talk_wf [of t co now] by (simp add: talk_wf_def)
qed

lemma talk_wf_counters:
  "talk_wf t \<Longrightarrow> talk_wf (t\<lparr>tk_turns := tk_turns t + 1, tk_last_message := now\<rparr>)"
  by (auto simp: talk_wf_def)

lemma apply_decision_talk_wf:
  assumes t: "talk_wf t" "\<not> is_closed (tk_status t)"
    and ap: "apply_decision E tf now t st d target w = (Inr (t', st'), w')"
  shows "talk_wf t'"
proof -
  obtain dl where "finish_turn E tf now dl (fst (apply_contradiction_heuristic d))
      (t\<lparr>tk_turns := tk_turns t + 1, tk_last_message := now\<rparr>,
       turn_state now t st (fst (apply_contradiction_heuristic d)) dl target) = Inr (t', st')"
    using apply_decision_decompose [OF ap refl] by blast
  then show ?thesis
    by (rule finish_turn_talk_wf) (use t talk_wf_counters in simp_all)
qed

text \<open>
  Closing wins over review: a turn either closes the talk, leaving the review fields alone, or
  leaves it open, leaving the closing fields alone.
\<close>

lemma finish_turn_exclusive:
  assumes "finish_turn E tf now dl d (t, st) = Inr (t', st')" and "\<not> is_closed (tk_status t)"
  shows "(is_closed (tk_status t') \<and> tk_closed_at t' = Some now \<and> tk_closed_by t' = Some ByPipelineHook \<and>
      tk_review_reason t' = tk_review_reason t \<and> tk_escalated_at t' = tk_escalated_at t) \<or>
    (\<not> is_closed (tk_status t') \<and> tk_closed_at t' = tk_closed_at t \<and> tk_closed_by t' = tk_closed_by t \<and>
      tk_closed_reason t' = tk_closed_reason t)"
proof (cases "evaluate_completion_rule E tf (st_collected st) (st_facts st) 0 d")
  case None
  then have "review_stage now dl d (t, st) = Inr (t', st')" using assms(1) by (simp add: finish_turn_def)
  then show ?thesis
    by (rule review_stage_cases)
      (use assms(2) in \<open>auto simp: request_review_def is_closed_def split: option.splits\<close>)
next
  case (Some co)
  then have "t' = close_talk now co t" using assms(1) by (simp add: finish_turn_def)
  then show ?thesis using evaluate_completion_rule_closed [OF Some] by (simp add: close_talk_def)
qed

lemma fold_dispatch_ok:
  "extends w (foldl (\<lambda>w n. dispatch_actions E st d n t l w) w ns) \<and>
   (actions_wf (fst w) \<longrightarrow> actions_wf (fst (foldl (\<lambda>w n. dispatch_actions E st d n t l w) w ns)))"
proof (induction ns arbitrary: w)
  case Nil
  then show ?case by simp
next
  case (Cons n ns)
  have "extends w (dispatch_actions E st d n t l w)"
    "actions_wf (fst w) \<Longrightarrow> actions_wf (fst (dispatch_actions E st d n t l w))"
    by (simp_all add: dispatch_actions_ok)
  then show ?case using Cons.IH [of "dispatch_actions E st d n t l w"] extends_trans by auto
qed

lemma dispatch_all_cases:
  "dispatch_all E tf st d t w = w \<or>
   (\<exists>l ns. dispatch_all E tf st d t w = foldl (\<lambda>w n. dispatch_actions E st d n t l w) w ns)"
  unfolding dispatch_all_def
  by (cases "nodes_with_actions tf d"; cases "find_row ld_id (tk_lead t) (db_leads (fst w))")
    (auto simp del: foldl_Cons)

lemma dispatch_all_ok:
  "extends w (dispatch_all E tf st d t w)"
  "actions_wf (fst w) \<Longrightarrow> actions_wf (fst (dispatch_all E tf st d t w))"
  using dispatch_all_cases [of E tf st d t w] fold_dispatch_ok by fastforce+

end
