(* ===== verification/System_Prompt.thy ===== *)
theory System_Prompt
  imports Treeflow_Loader
begin

text \<open>
  \<open>flowengine/system_prompt.py\<close>: the layered prompt.  A layer is the list of its sections, in the
  order of the text; a section carries the data that the code interpolates into it, and leaves out
  the fixed wording around that data.  \<open>assemble_prompt\<close> puts the layers and the message together.
\<close>

record correction =
  cx_previous :: string
  cx_reason :: string
  cx_category :: string

record persona_example =
  pe_context :: string
  pe_bad :: string
  pe_good :: string
  pe_why :: string

datatype prompt_section =
    Persona string string "persona_example list"
  | OperatingInstructions
  | EscalationGuidance
  | SentinelAwareness
  | Clock time string
  | TalkState string int "jval dict" "jval dict" "objection_entry list"
  | CurrentNode string string string "(string \<times> string \<times> bool \<times> string option) list"
  | NodeObjections "(string \<times> string \<times> string \<times> int option) list"
  | NextNodes "(string \<times> string \<times> string \<times> string list \<times> string) list"
  | ActiveTreatment string int int string "string list"
  | CorrectionContext correction
  | RecentConversation "(role \<times> source \<times> string) list"
  | CurrentInbound string
  | VoiceMode

type_synonym layer = "prompt_section list"

record prompt =
  pr_cached :: layer
  pr_fresh :: layer
  pr_inbound :: string

subsection \<open>The cached layer\<close>

text \<open>\<open>(d.get(k) or "").strip()\<close>.\<close>

definition stripped_field :: "jval \<Rightarrow> string \<Rightarrow> pyexn + string" where
  "stripped_field x k =
     bindE (py_get x k) (\<lambda>v.
       if \<not> truthy_opt v then Inr []
       else (case the v of JStr s \<Rightarrow> Inr (strip s) | _ \<Rightarrow> Inl AttributeError))"

definition parse_example :: "jval \<Rightarrow> pyexn + persona_example" where
  "parse_example x =
     bindE (stripped_field x ''context'') (\<lambda>c.
     bindE (stripped_field x ''bad_response'') (\<lambda>b.
     bindE (stripped_field x ''good_response'') (\<lambda>g.
     bindE (stripped_field x ''why'') (\<lambda>w.
     Inr \<lparr>pe_context = c, pe_bad = b, pe_good = g, pe_why = w\<rparr>))))"

definition build_cached_layer :: "treeflow \<Rightarrow> pyexn + layer" where
  "build_cached_layer tf =
     (let persona = (if truthy (tf_persona tf) then tf_persona tf else JObj []) in
      bindE (stripped_field persona ''voice'') (\<lambda>v.
      bindE (stripped_field persona ''conduct'') (\<lambda>c.
      bindE (py_get persona ''examples'') (\<lambda>ex.
      bindE (if truthy_opt ex then bindE (py_iter (the ex)) (mapE parse_example) else Inr []) (\<lambda>exs.
      Inr [Persona v c exs, OperatingInstructions, EscalationGuidance, SentinelAwareness])))))"

subsection \<open>The fresh layer\<close>

definition period :: "time \<Rightarrow> string" where
  "period now =
     (let hour = (now div 3600000000) mod 24 in
      if 5 \<le> hour \<and> hour < 12 then ''manha''
      else if 12 \<le> hour \<and> hour < 18 then ''tarde''
      else if 18 \<le> hour \<and> hour < 24 then ''noite''
      else ''madrugada'')"

definition voice_mode_instruction :: "string option \<Rightarrow> layer" where
  "voice_mode_instruction mode = (if mode = Some ''context_driven'' then [VoiceMode] else [])"

definition objection_line :: "objection \<Rightarrow> string \<times> string \<times> string \<times> int option" where
  "objection_line ob =
     (ob_name ob, ob_description ob, ob_mode ob, map_option tp_max_turns (ob_payload ob))"

definition collect_line :: "collect_field \<Rightarrow> string \<times> string \<times> bool \<times> string option" where
  "collect_line c =
     (cf_field c, cf_type c, cf_required c,
      (case cf_hint c of None \<Rightarrow> None | Some h \<Rightarrow> if h = [] then None else Some h))"

definition next_node_line :: "treeflow_node \<times> string \<Rightarrow> string \<times> string \<times> string \<times> string list \<times> string" where
  "next_node_line nc =
     (let (n, cond) = nc in (nd_id n, nd_objetivo n, nd_bridge n, map cf_field (nd_collects n), cond))"

definition build_fresh_layer ::
  "treeflow_node \<Rightarrow> (treeflow_node \<times> string) list \<Rightarrow> jval dict \<Rightarrow> jval dict \<Rightarrow> objection_entry list \<Rightarrow>
   message list \<Rightarrow> int \<Rightarrow> time \<Rightarrow> treatment option \<Rightarrow> correction option \<Rightarrow> string \<Rightarrow> string option \<Rightarrow> layer"
  where
  "build_fresh_layer node nexts coll facts objs history turn now active corr inbound_text voice_mode =
     [Clock now (period now), TalkState (nd_id node) turn coll facts objs,
      CurrentNode (nd_id node) (nd_objetivo node) (nd_bridge node) (map collect_line (nd_collects node))] @
     (if nd_objections node = [] then [] else [NodeObjections (map objection_line (nd_objections node))]) @
     (if nexts = [] then [] else [NextNodes (map next_node_line nexts)]) @
     (case active of
        None \<Rightarrow> []
      | Some t \<Rightarrow> [ActiveTreatment (tr_objection t) (tr_turn t) (tr_max t) (tr_criteria t) (tr_history t)]) @
     (case corr of None \<Rightarrow> [] | Some c \<Rightarrow> [CorrectionContext c]) @
     [RecentConversation (map (\<lambda>m. (msg_role m, msg_source m, msg_content m)) (take_last 15 history)),
      CurrentInbound inbound_text] @
     voice_mode_instruction voice_mode"

definition assemble_prompt :: "layer \<Rightarrow> layer \<Rightarrow> string \<Rightarrow> prompt" where
  "assemble_prompt cached fresh inbound_text =
     \<lparr>pr_cached = cached, pr_fresh = fresh, pr_inbound = inbound_text\<rparr>"

subsection \<open>Properties\<close>

text \<open>
  The node ids that the fresh layer reveals: the current node and the given next nodes, and nothing
  else of the tree.
\<close>

fun section_nodes :: "prompt_section \<Rightarrow> string list" where
  "section_nodes (TalkState n t c f os) = [n]"
| "section_nodes (CurrentNode i ob b cs) = [i]"
| "section_nodes (NextNodes ns) = map fst ns"
| "section_nodes _ = []"

lemma fresh_layer_nodes:
  "set (concat (map section_nodes (build_fresh_layer node nexts coll facts objs history turn now active corr txt vm))) =
   insert (nd_id node) (nd_id ` fst ` set nexts)"
  by (auto simp: build_fresh_layer_def voice_mode_instruction_def next_node_line_def image_iff
      split: option.splits prod.splits) force+

lemma fresh_layer_correction:
  "CorrectionContext c \<in> set (build_fresh_layer node nexts coll facts objs history turn now active corr txt vm) \<longleftrightarrow>
   corr = Some c"
  by (auto simp: build_fresh_layer_def voice_mode_instruction_def split: option.splits)

end
