(* ===== verification/Guardrails.thy ===== *)
theory Guardrails
  imports Sdr_Models
begin

text \<open>
  \<open>guardrails/validator.py\<close>: the deterministic check of a reply against the tenant's whitelists of
  prices and products.  The tenant's price pattern is a regular expression of the configuration;
  the texts it finds are a parameter (\<open>price_findall\<close>, that is \<open>re.findall\<close>).
\<close>

record guardrail_config =
  gc_pattern :: string
  gc_prices :: "string list"
  gc_products :: "string list"
  gc_fallback :: string

record validation_result =
  vr_ok :: bool
  vr_violation :: "string option"
  vr_category :: "string option"

definition price_violation :: "string \<Rightarrow> string" where
  "price_violation m =
     ''response text contains a price '' @ [CHR 39] @ m @ [CHR 39] @
     '' that is not in the tenant'' @ [CHR 39] @ ''s allowed_prices whitelist''"

definition product_violation :: string where
  "product_violation =
     ''response text mentions a product/program that is not in the tenant'' @ [CHR 39] @
     ''s allowed_products whitelist''"

definition normalize_product :: "string \<Rightarrow> string" where
  "normalize_product s = py_join '' '' (py_words (py_lower s))"

definition product_triggers :: "string list" where
  "product_triggers =
     [''curso'', ''programa'', ''produto'', ''treinamento'', ''mentoria'', ''consultoria'']"

definition norm_price :: "string \<Rightarrow> string" where
  "norm_price p = strip (py_lower p)"

definition validate_response_text :: "ext \<Rightarrow> string \<Rightarrow> guardrail_config \<Rightarrow> validation_result" where
  "validate_response_text E text cfg =
     (let matches = (if gc_pattern cfg = [] then [] else price_findall E (gc_pattern cfg) text);
          allowed_norm = map norm_price (gc_prices cfg)
      in case find (\<lambda>m. norm_price m \<notin> set allowed_norm) matches of
           Some m \<Rightarrow> \<lparr>vr_ok = False, vr_violation = Some (price_violation m),
                      vr_category = Some ''price_invented''\<rparr>
         | None \<Rightarrow>
             if gc_products cfg \<noteq> [] \<and>
                (\<exists>t \<in> set product_triggers. contains_str t (py_lower text)) \<and>
                \<not> (\<exists>p \<in> set (gc_products cfg). contains_str (normalize_product p) (normalize_product text))
             then \<lparr>vr_ok = False, vr_violation = Some product_violation,
                   vr_category = Some ''product_invented''\<rparr>
             else \<lparr>vr_ok = True, vr_violation = None, vr_category = None\<rparr>)"

subsection \<open>Specification\<close>

definition prices_whitelisted :: "ext \<Rightarrow> string \<Rightarrow> guardrail_config \<Rightarrow> bool" where
  "prices_whitelisted E text cfg =
     (gc_pattern cfg = [] \<or>
      (\<forall>m \<in> set (price_findall E (gc_pattern cfg) text). \<exists>p \<in> set (gc_prices cfg). norm_price m = norm_price p))"

definition products_whitelisted :: "string \<Rightarrow> guardrail_config \<Rightarrow> bool" where
  "products_whitelisted text cfg =
     (gc_products cfg = [] \<or>
      (\<forall>t \<in> set product_triggers. \<forall>a b. py_lower text \<noteq> a @ t @ b) \<or>
      (\<exists>p \<in> set (gc_products cfg). \<exists>a b. normalize_product text = a @ normalize_product p @ b))"

lemma validate_ok_iff:
  "vr_ok (validate_response_text E text cfg) \<longleftrightarrow>
   prices_whitelisted E text cfg \<and> products_whitelisted text cfg"
proof -
  have p: "find (\<lambda>m. norm_price m \<notin> set (map norm_price (gc_prices cfg)))
      (if gc_pattern cfg = [] then [] else price_findall E (gc_pattern cfg) text) = None \<longleftrightarrow>
    prices_whitelisted E text cfg"
    by (auto simp: prices_whitelisted_def find_None_iff image_iff)
  have q: "products_whitelisted text cfg \<longleftrightarrow>
    \<not> (gc_products cfg \<noteq> [] \<and> (\<exists>t \<in> set product_triggers. contains_str t (py_lower text)) \<and>
       \<not> (\<exists>p \<in> set (gc_products cfg). contains_str (normalize_product p) (normalize_product text)))"
    unfolding products_whitelisted_def contains_str_iff by blast
  show ?thesis
    unfolding validate_response_text_def Let_def q p [symmetric]
    by (simp split: option.split)
qed

lemma validate_ok_fields:
  "vr_ok (validate_response_text E text cfg) \<longleftrightarrow> vr_violation (validate_response_text E text cfg) = None"
  by (simp add: validate_response_text_def Let_def split: option.split)

end
