(* ===== verification/Correction.thy ===== *)
theory Correction
  imports System_Prompt Guardrails Routing
begin

text \<open>
  \<open>flowengine/correction.py\<close>: the corrective retries after a guardrail violation and after a refused
  transition.  The model is a function on its own state \<open>'l\<close>; what it returns passes the
  validation of the schema before it is used.
\<close>

type_synonym 'l llm = "prompt \<Rightarrow> 'l \<Rightarrow> (pyexn + turn_decision) \<times> 'l"

definition invoke :: "'l llm \<Rightarrow> prompt \<Rightarrow> 'l \<Rightarrow> (pyexn + turn_decision) \<times> 'l" where
  "invoke llm p s = (case llm p s of (r, s') \<Rightarrow> (bindE r validate_turn_decision, s'))"

definition run_guardrails_retry ::
  "ext \<Rightarrow> 'l llm \<Rightarrow> layer \<Rightarrow> (correction option \<Rightarrow> layer) \<Rightarrow> string \<Rightarrow> guardrail_config \<Rightarrow> turn_decision \<Rightarrow>
   validation_result \<Rightarrow> 'l \<Rightarrow> (pyexn + turn_decision) \<times> 'l" where
  "run_guardrails_retry E llm cached fresh inbound_text cfg initial validation s =
     (if vr_ok validation then (Inr initial, s)
      else (let c = \<lparr>cx_previous = response_text initial,
                     cx_reason = str_or (vr_violation validation) ''guardrails violation'',
                     cx_category = str_or (vr_category validation) ''guardrails_violation''\<rparr> in
            case invoke llm (assemble_prompt cached (fresh (Some c)) inbound_text) s of
              (Inl e, s') \<Rightarrow> (Inl e, s')
            | (Inr d, s') \<Rightarrow>
                let v = validate_response_text E (response_text d) cfg in
                if vr_ok v then (Inr d, s')
                else (Inl (CorrectionEscalation
                        (''guardrails retry failed: '' @ str_or (vr_violation v) ''None'')), s')))"

definition transition_correction :: "turn_decision \<Rightarrow> transition_failure \<Rightarrow> correction" where
  "transition_correction d f =
     \<lparr>cx_previous = ''suggested transition to '' @
        (case next_node_suggestion d of None \<Rightarrow> ''None'' | Some n \<Rightarrow> repr_str n),
      cx_reason = ''transition failed: '' @ failure_name f @
        ''. Reconsider: either complete the missing collection or do not advance.'',
      cx_category = failure_name f\<rparr>"

definition run_transition_retry ::
  "'l llm \<Rightarrow> layer \<Rightarrow> (correction option \<Rightarrow> layer) \<Rightarrow> string \<Rightarrow> (turn_decision \<Rightarrow> string \<times> transition_failure option) \<Rightarrow>
   string \<Rightarrow> turn_decision \<Rightarrow> string \<Rightarrow> transition_failure option \<Rightarrow> 'l \<Rightarrow> (pyexn + turn_decision \<times> string) \<times> 'l"
  where
  "run_transition_retry llm cached fresh inbound_text revalidate cur initial target failure s =
     (case failure of
        None \<Rightarrow> (Inr (initial, target), s)
      | Some f \<Rightarrow>
          (case invoke llm (assemble_prompt cached (fresh (Some (transition_correction initial f))) inbound_text) s of
             (Inl e, s') \<Rightarrow> (Inl e, s')
           | (Inr d, s') \<Rightarrow>
               (case revalidate d of
                  (t, None) \<Rightarrow> (Inr (d, t), s')
                | (t, Some _) \<Rightarrow> (Inr (initial, cur), s'))))"

subsection \<open>Properties\<close>

lemma guardrails_retry_ok:
  assumes "run_guardrails_retry E llm cached fresh txt cfg d0 v s = (Inr d, s')"
    and "v = validate_response_text E (response_text d0) cfg"
  shows "vr_ok (validate_response_text E (response_text d) cfg)"
  using assms
  by (auto simp: run_guardrails_retry_def Let_def split: if_splits prod.splits sum.splits)

lemma transition_retry_cases:
  assumes "run_transition_retry llm cached fresh txt reval cur d0 t0 f s = (Inr (d, t), s')"
  obtains (initial) "f = None" "d = d0" "t = t0" "s' = s"
    | (retried) "f \<noteq> None" "reval d = (t, None)"
    | (stay) "f \<noteq> None" "d = d0" "t = cur"
  using assms
  by (cases f) (auto simp: run_transition_retry_def split: prod.splits sum.splits option.splits)

text \<open>Each retry invokes the model at most once; \<open>cnt\<close> counts invocations.\<close>

lemma invoke_state: "snd (invoke llm p s) = snd (llm p s)"
  by (simp add: invoke_def split_beta)

lemma guardrails_retry_calls:
  fixes cnt :: "'l \<Rightarrow> nat"
  assumes "\<And>p s. cnt (snd (llm p s)) = cnt s + 1"
  shows "cnt (snd (run_guardrails_retry E llm cached fresh txt cfg d0 v s)) = cnt s + (if vr_ok v then 0 else 1)"
proof -
  have "cnt s' = cnt s + 1" if "invoke llm p s = (r, s')" for p r s'
    using assms [of p s] invoke_state [of llm p s] that by simp
  then show ?thesis
    by (auto simp: run_guardrails_retry_def Let_def split: prod.splits sum.splits)
qed

lemma transition_retry_calls:
  fixes cnt :: "'l \<Rightarrow> nat"
  assumes "\<And>p s. cnt (snd (llm p s)) = cnt s + 1"
  shows "cnt (snd (run_transition_retry llm cached fresh txt reval cur d0 t0 f s)) = cnt s + (if f = None then 0 else 1)"
proof -
  have "cnt s' = cnt s + 1" if "invoke llm p s = (r, s')" for p r s'
    using assms [of p s] invoke_state [of llm p s] that by simp
  then show ?thesis
    by (auto simp: run_transition_retry_def split: prod.splits sum.splits option.splits)
qed

end
