(* ===== verification/Channel.thy ===== *)
theory Channel
  imports Sdr_Models
begin

text \<open>
  The boundary to a messaging provider: \<open>MessagingAdapter\<close> (\<open>messaging/base.py\<close>) as a record of
  operations on an adapter state \<open>'a\<close>, the error hierarchy (\<open>messaging/errors.py\<close>), the contract
  of the port as the locale \<open>channel\<close>, and the in-memory adapter of \<open>messaging/fake.py\<close>, which
  satisfies the contract; its state also holds what the fakes of \<open>voice/fake.py\<close> and
  \<open>storage/fake.py\<close> record.
\<close>

subsection \<open>Errors\<close>

definition is_messaging :: "pyexn \<Rightarrow> bool" where
  "is_messaging e = (case e of Messaging _ _ \<Rightarrow> True | _ \<Rightarrow> False)"

definition is_transient :: "pyexn \<Rightarrow> bool" where
  \<comment> \<open>\<open>TransientError\<close> and its subclass \<open>RateLimitError\<close>\<close>
  "is_transient e =
     (case e of
        Messaging TransientError _ \<Rightarrow> True
      | Messaging (RateLimitError _) _ \<Rightarrow> True
      | _ \<Rightarrow> False)"

definition is_terminal :: "pyexn \<Rightarrow> bool" where
  \<comment> \<open>the subclasses of \<open>TerminalError\<close>\<close>
  "is_terminal e =
     (case e of
        Messaging k _ \<Rightarrow> k \<in> {AuthError, RecipientUnreachable, WindowExpiredError, PolicyError}
      | _ \<Rightarrow> False)"

definition msg_error_name :: "msg_error \<Rightarrow> string" where
  \<comment> \<open>\<open>type(e).__name__\<close>\<close>
  "msg_error_name k =
     (case k of
        SignatureError \<Rightarrow> ''SignatureError'' | AuthError \<Rightarrow> ''AuthError''
      | RecipientUnreachable \<Rightarrow> ''RecipientUnreachable'' | WindowExpiredError \<Rightarrow> ''WindowExpiredError''
      | PolicyError \<Rightarrow> ''PolicyError'' | TransientError \<Rightarrow> ''TransientError''
      | RateLimitError _ \<Rightarrow> ''RateLimitError'')"

subsection \<open>The port\<close>

record inbound_msg =
  im_external :: string
  im_from :: string
  im_text :: string
  im_received :: time
  im_raw :: jval
  im_media :: media_type
  im_media_ref :: "jval option"

record 'a adapter =
  ad_send_text :: "string option \<Rightarrow> string \<Rightarrow> 'a \<Rightarrow> (pyexn + string) \<times> 'a"
  ad_send_template :: "string option \<Rightarrow> string \<Rightarrow> string \<Rightarrow> string list \<Rightarrow> 'a \<Rightarrow> (pyexn + string) \<times> 'a"
  ad_send_audio :: "string option \<Rightarrow> string \<Rightarrow> string \<Rightarrow> 'a \<Rightarrow> (pyexn + string) \<times> 'a"
  ad_download :: "string \<Rightarrow> 'a \<Rightarrow> (pyexn + string \<times> string) \<times> 'a"
  ad_typing :: "string option \<Rightarrow> 'a \<Rightarrow> (pyexn + unit) \<times> 'a"

text \<open>What a recipient receives.\<close>

datatype delivery =
    TextTo "string option" string
  | TemplateTo "string option" string string "string list"
  | AudioTo "string option" string string

text \<open>
  The contract: a send that returns has delivered exactly its message, one that raises has
  delivered nothing, and the other operations deliver nothing.
\<close>

locale channel =
  fixes ad :: "'a adapter"
    and delivered :: "'a \<Rightarrow> delivery list"
  assumes text_ok: "ad_send_text ad to t a = (Inr i, a') \<Longrightarrow> delivered a' = delivered a @ [TextTo to t]"
    and text_fail: "ad_send_text ad to t a = (Inl e, a') \<Longrightarrow> delivered a' = delivered a"
    and audio_ok: "ad_send_audio ad to b c a = (Inr i, a') \<Longrightarrow> delivered a' = delivered a @ [AudioTo to b c]"
    and audio_fail: "ad_send_audio ad to b c a = (Inl e, a') \<Longrightarrow> delivered a' = delivered a"
    and typing_none: "ad_typing ad to a = (r, a') \<Longrightarrow> delivered a' = delivered a"
    and download_none: "ad_download ad ref a = (r', a') \<Longrightarrow> delivered a' = delivered a"
begin

lemma text_log:
  "delivered (snd (ad_send_text ad to t a)) =
   delivered a @ (case fst (ad_send_text ad to t a) of Inr _ \<Rightarrow> [TextTo to t] | Inl _ \<Rightarrow> [])"
  by (cases "ad_send_text ad to t a"; cases "fst (ad_send_text ad to t a)")
    (auto dest: text_ok text_fail)

lemma audio_log:
  "delivered (snd (ad_send_audio ad to b c a)) =
   delivered a @ (case fst (ad_send_audio ad to b c a) of Inr _ \<Rightarrow> [AudioTo to b c] | Inl _ \<Rightarrow> [])"
  by (cases "ad_send_audio ad to b c a"; cases "fst (ad_send_audio ad to b c a)")
    (auto dest: audio_ok audio_fail)

lemma typing_log: "delivered (snd (ad_typing ad to a)) = delivered a"
  by (cases "ad_typing ad to a") (auto dest: typing_none)

lemma download_log: "delivered (snd (ad_download ad ref a)) = delivered a"
  by (cases "ad_download ad ref a") (auto dest: download_none)

end

subsection \<open>The in-memory adapter\<close>

record fake_state =
  fk_inbound :: "inbound_msg list"
  fk_failure :: "pyexn option"
  fk_template_failure :: "pyexn option"
  fk_sent :: "delivery list"
  fk_typing :: "string option list"
  fk_media :: "(string \<times> string) dict"
  fk_ids :: nat
  fk_spoken :: "(string \<times> string \<times> string option) list"
  fk_objects :: "(string \<times> string) dict"

definition fake_init :: fake_state where
  "fake_init =
     \<lparr>fk_inbound = [], fk_failure = None, fk_template_failure = None, fk_sent = [], fk_typing = [],
      fk_media = [], fk_ids = 0, fk_spoken = [], fk_objects = []\<rparr>"

definition fake_queue_inbound :: "inbound_msg \<Rightarrow> fake_state \<Rightarrow> fake_state" where
  "fake_queue_inbound m a = a\<lparr>fk_inbound := fk_inbound a @ [m]\<rparr>"

definition fake_fail_next_send :: "pyexn \<Rightarrow> fake_state \<Rightarrow> fake_state" where
  "fake_fail_next_send e a = a\<lparr>fk_failure := Some e\<rparr>"

definition fake_fail_next_template_send :: "pyexn \<Rightarrow> fake_state \<Rightarrow> fake_state" where
  "fake_fail_next_template_send e a = a\<lparr>fk_template_failure := Some e\<rparr>"

definition fake_handle_inbound :: "fake_state \<Rightarrow> inbound_msg list \<times> fake_state" where
  "fake_handle_inbound a = (fk_inbound a, a\<lparr>fk_inbound := []\<rparr>)"

definition fake_stage_media :: "string \<Rightarrow> string \<Rightarrow> string \<Rightarrow> fake_state \<Rightarrow> fake_state" where
  "fake_stage_media ref data ctype a = a\<lparr>fk_media := dict_put ref (data, ctype) (fk_media a)\<rparr>"

definition fake_send_text :: "string option \<Rightarrow> string \<Rightarrow> fake_state \<Rightarrow> (pyexn + string) \<times> fake_state" where
  "fake_send_text to t a =
     (case fk_failure a of
        Some e \<Rightarrow> (Inl e, a\<lparr>fk_failure := None\<rparr>)
      | None \<Rightarrow> (Inr (''fake_'' @ str_nat (fk_ids a)),
                 a\<lparr>fk_sent := fk_sent a @ [TextTo to t], fk_ids := Suc (fk_ids a)\<rparr>))"

definition fake_send_template ::
  "string option \<Rightarrow> string \<Rightarrow> string \<Rightarrow> string list \<Rightarrow> fake_state \<Rightarrow> (pyexn + string) \<times> fake_state" where
  "fake_send_template to ref lang ps a =
     (case fk_template_failure a of
        Some e \<Rightarrow> (Inl e, a\<lparr>fk_template_failure := None\<rparr>)
      | None \<Rightarrow> (Inr (''faketmpl_'' @ str_nat (fk_ids a)),
                 a\<lparr>fk_sent := fk_sent a @ [TemplateTo to ref lang ps], fk_ids := Suc (fk_ids a)\<rparr>))"

definition fake_send_audio ::
  "string option \<Rightarrow> string \<Rightarrow> string \<Rightarrow> fake_state \<Rightarrow> (pyexn + string) \<times> fake_state" where
  "fake_send_audio to b c a =
     (case fk_failure a of
        Some e \<Rightarrow> (Inl e, a\<lparr>fk_failure := None\<rparr>)
      | None \<Rightarrow> (Inr (''fakeaud_'' @ str_nat (fk_ids a)),
                 a\<lparr>fk_sent := fk_sent a @ [AudioTo to b c], fk_ids := Suc (fk_ids a)\<rparr>))"

definition fake_download_media :: "string \<Rightarrow> fake_state \<Rightarrow> (pyexn + string \<times> string) \<times> fake_state" where
  "fake_download_media ref a =
     (case map_of (fk_media a) ref of None \<Rightarrow> (Inl (KeyError ref), a) | Some bc \<Rightarrow> (Inr bc, a))"

definition fake_mark_as_typing :: "string option \<Rightarrow> fake_state \<Rightarrow> (pyexn + unit) \<times> fake_state" where
  "fake_mark_as_typing to a = (Inr (), a\<lparr>fk_typing := fk_typing a @ [to]\<rparr>)"

definition fake_verification_challenge :: "string dict \<Rightarrow> string option" where
  "fake_verification_challenge ps = map_of ps ''hub.challenge''"

definition fake_adapter :: "fake_state adapter" where
  "fake_adapter =
     \<lparr>ad_send_text = fake_send_text, ad_send_template = fake_send_template,
      ad_send_audio = fake_send_audio, ad_download = fake_download_media,
      ad_typing = fake_mark_as_typing\<rparr>"

interpretation fake: channel fake_adapter fk_sent
  by unfold_locales
    (auto simp: fake_adapter_def fake_send_text_def fake_send_audio_def fake_mark_as_typing_def
      fake_download_media_def split: option.splits)

end
