(* ===== verification/Humanizer.thy ===== *)
theory Humanizer
  imports Sdr_Models
begin

text \<open>
  \<open>flowengine/humanizer.py\<close>: a reply is cut into chunks that are sent with typing-like delays.
  Typing speeds are rationals; the value of \<open>random.uniform\<close> for the n-th pause is the parameter
  \<open>speed n\<close>.  Splitting on an empty delimiter raises \<open>ValueError\<close>, as in Python.
\<close>

record humanization_config =
  hc_enabled :: bool
  hc_delimiter :: string
  hc_cps_min :: rat
  hc_cps_max :: rat
  hc_min_delay :: int
  hc_max_delay :: int
  hc_apply_to_voice :: bool

record chunk =
  ch_text :: string
  ch_delay :: int

definition default_humanization :: humanization_config where
  "default_humanization =
     \<lparr>hc_enabled = True, hc_delimiter = [CHR 10, CHR 10], hc_cps_min = 8, hc_cps_max = 15,
      hc_min_delay = 800, hc_max_delay = 4000, hc_apply_to_voice = False\<rparr>"

text \<open>The bounds checked by the validator of \<open>schemas/tenant_yaml.py\<close>.\<close>

definition humanization_valid :: "humanization_config \<Rightarrow> bool" where
  "humanization_valid c =
     (0 < hc_cps_min c \<and> 0 < hc_cps_max c \<and> 0 \<le> hc_min_delay c \<and> 0 \<le> hc_max_delay c \<and>
      hc_cps_min c \<le> hc_cps_max c \<and> hc_min_delay c \<le> hc_max_delay c)"

definition typing_delay :: "humanization_config \<Rightarrow> rat \<Rightarrow> string \<Rightarrow> int" where
  "typing_delay c drawn text =
     (let s = (if hc_cps_min c = hc_cps_max c then hc_cps_min c else drawn);
          ms = trunc (of_nat (length text) / s * 1000)
      in max (hc_min_delay c) (min (hc_max_delay c) ms))"

definition single_chunk :: "string \<Rightarrow> chunk list" where
  "single_chunk text = (if strip text = [] then [] else [\<lparr>ch_text = text, ch_delay = 0\<rparr>])"

fun later_chunks :: "humanization_config \<Rightarrow> (nat \<Rightarrow> rat) \<Rightarrow> nat \<Rightarrow> string list \<Rightarrow> chunk list" where
  "later_chunks c speed n [] = []"
| "later_chunks c speed n (t # ts) =
     \<lparr>ch_text = t, ch_delay = typing_delay c (speed n) t\<rparr> # later_chunks c speed (Suc n) ts"

definition raw_chunks :: "humanization_config \<Rightarrow> string \<Rightarrow> string list" where
  "raw_chunks c text = filter (\<lambda>t. t \<noteq> []) (map strip (py_split (hc_delimiter c) text))"

definition humanize :: "humanization_config \<Rightarrow> (nat \<Rightarrow> rat) \<Rightarrow> bool \<Rightarrow> string \<Rightarrow> pyexn + chunk list" where
  "humanize c speed is_voice text =
     (if is_voice \<and> \<not> hc_apply_to_voice c then Inr (single_chunk text)
      else if \<not> hc_enabled c then Inr (single_chunk text)
      else if hc_delimiter c = [] then Inl (ValueError ''empty separator'')
      else (case raw_chunks c text of
              [] \<Rightarrow> Inr []
            | t # ts \<Rightarrow> Inr (\<lparr>ch_text = t, ch_delay = 0\<rparr> # later_chunks c speed 0 ts)))"

subsection \<open>Properties\<close>

lemma typing_delay_bounds:
  "hc_min_delay c \<le> hc_max_delay c \<Longrightarrow>
   hc_min_delay c \<le> typing_delay c s t \<and> typing_delay c s t \<le> hc_max_delay c"
  by (simp add: typing_delay_def Let_def)

lemma later_chunks_text: "map ch_text (later_chunks c speed n ts) = ts"
  by (induction ts arbitrary: n) auto

lemma later_chunks_delay:
  "hc_min_delay c \<le> hc_max_delay c \<Longrightarrow> ch \<in> set (later_chunks c speed n ts) \<Longrightarrow>
   hc_min_delay c \<le> ch_delay ch \<and> ch_delay ch \<le> hc_max_delay c"
  by (induction ts arbitrary: n) (auto simp: typing_delay_bounds)

lemma raw_chunks_nonempty: "t \<in> set (raw_chunks c text) \<Longrightarrow> t \<noteq> [] \<and> strip t = t"
  by (auto simp: raw_chunks_def)

definition chunked :: "humanization_config \<Rightarrow> bool \<Rightarrow> bool" where
  \<comment> \<open>the reply is really cut\<close>
  "chunked c is_voice = (hc_enabled c \<and> \<not> (is_voice \<and> \<not> hc_apply_to_voice c))"

lemma humanize_texts:
  assumes "humanize c speed v text = Inr cs"
  shows "map ch_text cs =
    (if chunked c v then raw_chunks c text else if strip text = [] then [] else [text])"
  using assms
  by (auto simp: humanize_def chunked_def single_chunk_def later_chunks_text
      split: if_splits list.splits)

lemma humanize_returns:
  "(\<exists>cs. humanize c speed v text = Inr cs) \<longleftrightarrow> \<not> chunked c v \<or> hc_delimiter c \<noteq> []"
  by (auto simp: humanize_def chunked_def split: list.splits)

lemma humanize_delays:
  assumes cfg: "hc_min_delay c \<le> hc_max_delay c" and "humanize c speed v text = Inr (ch # cs)"
  shows "ch_delay ch = 0 \<and> (\<forall>x \<in> set cs. hc_min_delay c \<le> ch_delay x \<and> ch_delay x \<le> hc_max_delay c)"
  using assms later_chunks_delay [OF cfg]
  by (auto simp: humanize_def single_chunk_def split: if_splits list.splits)

text \<open>No visible character is lost: without white space, the chunks put together are the text.\<close>

definition visible :: "string \<Rightarrow> string" where
  "visible s = filter (\<lambda>c. \<not> py_isspace c) s"

lemma visible_Nil [simp]: "visible [] = []"
  by (simp add: visible_def)

lemma visible_append [simp]: "visible (s @ t) = visible s @ visible t"
  by (simp add: visible_def)

lemma visible_lstrip: "visible (lstrip s) = visible s"
  by (induction s) (auto simp: visible_def lstrip_def)

lemma visible_rev: "visible (rev s) = rev (visible s)"
  by (simp add: visible_def rev_filter)

lemma visible_strip [simp]: "visible (strip s) = visible s"
  by (simp add: strip_def visible_lstrip visible_rev)

lemma visible_concat_filter: "visible (concat (filter (\<lambda>t. t \<noteq> []) ts)) = visible (concat ts)"
  by (induction ts) auto

lemma visible_concat_strip: "visible (concat (map strip ts)) = visible (concat ts)"
  by (induction ts) auto

lemma visible_join: "visible sep = [] \<Longrightarrow> visible (py_join sep ts) = visible (concat ts)"
  by (induction sep ts rule: py_join.induct) auto

lemma humanize_keeps_text:
  assumes hum: "humanize c speed v text = Inr cs" and sep: "visible (hc_delimiter c) = []"
  shows "visible (concat (map ch_text cs)) = visible text"
proof (cases "chunked c v")
  case True
  then have ne: "hc_delimiter c \<noteq> []" using hum humanize_returns [of c speed v "text"] by blast
  have "visible (concat (raw_chunks c text)) = visible (concat (py_split (hc_delimiter c) text))"
    unfolding raw_chunks_def by (simp only: visible_concat_filter visible_concat_strip)
  also have "\<dots> = visible text"
    using visible_join [OF sep, of "py_split (hc_delimiter c) text"] join_split [OF ne] by simp
  finally show ?thesis using True humanize_texts [OF hum] by simp
next
  case False
  have "strip text = [] \<Longrightarrow> visible text = []"
    by (simp add: strip_eq_Nil visible_def)
  then show ?thesis using False humanize_texts [OF hum] by (auto simp: visible_def)
qed

end
