(* ===== verification/Renderer.thy ===== *)
theory Renderer
  imports Channel Humanizer
begin

text \<open>
  Sending a reply: the modality decision and the renderer (\<open>voice/renderer.py\<close>) and the sender
  (\<open>flowengine/sender.py\<close>).  The speech synthesizer and the media storage are functions on the
  same world \<open>'a\<close> as the messaging adapter; pauses between chunks take no time in the model.
\<close>

definition exn_text :: "pyexn \<Rightarrow> string" where
  \<comment> \<open>\<open>str(exc)\<close>\<close>
  "exn_text e =
     (case e of
        Messaging _ m \<Rightarrow> m | ValueError m \<Rightarrow> m | TreeflowLoadError m \<Rightarrow> m | CorrectionEscalation m \<Rightarrow> m
      | VoiceSynthesisError m \<Rightarrow> m | OtherError m \<Rightarrow> m | KeyError k \<Rightarrow> repr_str k | _ \<Rightarrow> [])"

record synthesis_cfg =
  sc_voice :: string
  sc_emotion :: "string option"
  sc_format :: string

record transcription_cfg =
  tc_language :: string
  tc_min_confidence :: rat

record voice_cfg =
  vc_mode :: string
  vc_synthesis :: "synthesis_cfg option"
  vc_transcription :: "transcription_cfg option"
  vc_fallback :: bool

record synthesized =
  sy_audio :: string
  sy_ctype :: string
  sy_voice :: string
  sy_ms :: "int option"
  sy_chars :: int

type_synonym 'a synthesizer =
  "string \<Rightarrow> string \<Rightarrow> string option \<Rightarrow> string \<Rightarrow> 'a \<Rightarrow> (pyexn + synthesized) \<times> 'a"

type_synonym 'a storage = "string \<Rightarrow> string \<Rightarrow> string \<Rightarrow> 'a \<Rightarrow> (pyexn + string) \<times> 'a"

datatype modality = ModText | ModVoice

record render_result =
  rr_external :: "string option"
  rr_modality :: modality
  rr_media :: media_type
  rr_audio_url :: "string option"
  rr_media_key :: "string option"
  rr_voice_id :: "string option"
  rr_emotion :: "string option"
  rr_ms :: "int option"
  rr_chars :: int

definition text_result :: "string option \<Rightarrow> render_result" where
  "text_result i =
     \<lparr>rr_external = i, rr_modality = ModText, rr_media = MText, rr_audio_url = None, rr_media_key = None,
      rr_voice_id = None, rr_emotion = None, rr_ms = None, rr_chars = 0\<rparr>"

subsection \<open>The operations\<close>

definition decide_modality :: "string \<Rightarrow> response_format option \<Rightarrow> media_type \<Rightarrow> modality" where
  "decide_modality mode fmt media =
     (if mode = ''always'' then ModVoice
      else if mode = ''never'' then ModText
      else if mode = ''match_lead'' then (if media = MAudio then ModVoice else ModText)
      else if mode = ''context_driven''
        then (if fmt = Some FormatVoice \<or> fmt = Some FormatBoth then ModVoice else ModText)
      else ModText)"

text \<open>\<open>contextlib.suppress(NotImplementedError, AttributeError)\<close> around the typing indicator.\<close>

definition suppressed :: "pyexn \<Rightarrow> bool" where
  "suppressed e = (e = AttributeError \<or> e = OtherError ''NotImplementedError'')"

fun send_chunks ::
  "'a adapter \<Rightarrow> string option \<Rightarrow> chunk list \<Rightarrow> string option \<Rightarrow> 'a \<Rightarrow> (pyexn + string option) \<times> 'a" where
  "send_chunks ad to [] prev a = (Inr prev, a)"
| "send_chunks ad to (c # cs) prev a =
     (let (r, a1) = (if ch_delay c > 0 then ad_typing ad to a else (Inr (), a)) in
      case r of
        Inl e \<Rightarrow>
          if suppressed e
          then (case ad_send_text ad to (ch_text c) a1 of
                  (Inl e', a2) \<Rightarrow> (Inl e', a2)
                | (Inr i, a2) \<Rightarrow> send_chunks ad to cs (Some i) a2)
          else (Inl e, a1)
      | Inr _ \<Rightarrow>
          (case ad_send_text ad to (ch_text c) a1 of
             (Inl e', a2) \<Rightarrow> (Inl e', a2)
           | (Inr i, a2) \<Rightarrow> send_chunks ad to cs (Some i) a2))"

definition send_text_humanized ::
  "'a adapter \<Rightarrow> humanization_config \<Rightarrow> (nat \<Rightarrow> rat) \<Rightarrow> string option \<Rightarrow> string \<Rightarrow> response_format option \<Rightarrow> 'a \<Rightarrow>
   (pyexn + string option) \<times> 'a" where
  "send_text_humanized ad hc speed to text fmt a =
     (case humanize hc speed (fmt = Some FormatVoice) text of
        Inl e \<Rightarrow> (Inl e, a)
      | Inr cs \<Rightarrow> send_chunks ad to cs None a)"

definition text_render ::
  "'a adapter \<Rightarrow> humanization_config \<Rightarrow> (nat \<Rightarrow> rat) \<Rightarrow> string option \<Rightarrow> string \<Rightarrow> response_format option \<Rightarrow> 'a \<Rightarrow>
   (pyexn + render_result) \<times> 'a" where
  "text_render ad hc speed to text fmt a =
     (case send_text_humanized ad hc speed to text fmt a of
        (Inl e, a1) \<Rightarrow> (Inl e, a1)
      | (Inr i, a1) \<Rightarrow> (Inr (text_result i), a1))"

text \<open>The body of the \<open>try\<close>: synthesize, archive, send.\<close>

definition voice_attempt ::
  "'a adapter \<Rightarrow> 'a synthesizer \<Rightarrow> 'a storage \<Rightarrow> synthesis_cfg \<Rightarrow> string option \<Rightarrow> string \<Rightarrow> string option \<Rightarrow> string \<Rightarrow>
   'a \<Rightarrow> (pyexn + render_result) \<times> 'a" where
  "voice_attempt ad synth store sc to text emotion message_id a =
     (case synth text (sc_voice sc)
             (case emotion of None \<Rightarrow> sc_emotion sc | Some s \<Rightarrow> if s = [] then sc_emotion sc else Some s)
             (sc_format sc) a of
        (Inl e, a1) \<Rightarrow> (Inl e, a1)
      | (Inr sy, a1) \<Rightarrow>
          let key = ''outbound/'' @ message_id @ ''.ogg'' in
          (case store key (sy_audio sy) (sy_ctype sy) a1 of
             (Inl e, a2) \<Rightarrow> (Inl e, a2)
           | (Inr url, a2) \<Rightarrow>
               (case ad_send_audio ad to (sy_audio sy) (sy_ctype sy) a2 of
                  (Inl e, a3) \<Rightarrow> (Inl e, a3)
                | (Inr i, a3) \<Rightarrow>
                    (Inr \<lparr>rr_external = Some i, rr_modality = ModVoice, rr_media = MAudio,
                          rr_audio_url = Some url, rr_media_key = Some key,
                          rr_voice_id = Some (sy_voice sy), rr_emotion = emotion,
                          rr_ms = sy_ms sy, rr_chars = sy_chars sy\<rparr>, a3))))"

definition render_and_send ::
  "'a adapter \<Rightarrow> humanization_config \<Rightarrow> (nat \<Rightarrow> rat) \<Rightarrow> voice_cfg option \<Rightarrow> 'a synthesizer option \<Rightarrow>
   'a storage option \<Rightarrow> media_type \<Rightarrow> string \<Rightarrow> string option \<Rightarrow> string \<Rightarrow> response_format option \<Rightarrow>
   string option \<Rightarrow> 'a \<Rightarrow> (pyexn + render_result) \<times> 'a" where
  "render_and_send ad hc speed vcfg synth store media message_id to text fmt emotion a =
     (case (vcfg, synth, store) of
        (Some vc, Some sy, Some st) \<Rightarrow>
          if decide_modality (vc_mode vc) fmt media = ModText
          then text_render ad hc speed to text fmt a
          else (case vc_synthesis vc of
                  None \<Rightarrow> (Inl AssertionError, a)
                | Some sc \<Rightarrow>
                    (case voice_attempt ad sy st sc to text emotion message_id a of
                       (Inr r, a1) \<Rightarrow> (Inr r, a1)
                     | (Inl e, a1) \<Rightarrow>
                         if vc_fallback vc then text_render ad hc speed to text fmt a1
                         else (Inl (VoiceSynthesisError (exn_text e)), a1)))
      | _ \<Rightarrow> text_render ad hc speed to text fmt a)"

text \<open>\<open>send_response_text\<close>: the status of its result is always \<open>sent\<close>.\<close>

definition send_response_text ::
  "'a adapter \<Rightarrow> humanization_config \<Rightarrow> (nat \<Rightarrow> rat) \<Rightarrow> voice_cfg option \<Rightarrow> 'a synthesizer option \<Rightarrow>
   'a storage option \<Rightarrow> media_type \<Rightarrow> uuid \<Rightarrow> lead \<Rightarrow> turn_decision \<Rightarrow> 'a \<Rightarrow> (pyexn + render_result) \<times> 'a" where
  "send_response_text ad hc speed vcfg synth store media message_id l d a =
     render_and_send ad hc speed vcfg synth store media (str_nat message_id) (ld_e164 l)
       (response_text d) (response_format d) (voice_emotion d) a"

subsection \<open>What is delivered\<close>

definition text_deliveries :: "string option \<Rightarrow> string list \<Rightarrow> delivery list" where
  "text_deliveries to ts = map (TextTo to) ts"

text \<open>The texts of a reply that is sent as text: its chunks, or the whole of it.\<close>

definition reply_texts :: "humanization_config \<Rightarrow> response_format option \<Rightarrow> string \<Rightarrow> string list" where
  "reply_texts hc fmt t =
     (if chunked hc (fmt = Some FormatVoice) then raw_chunks hc t else if strip t = [] then [] else [t])"

context channel
begin

lemma send_chunks_delivers:
  "send_chunks ad to cs prev a = (r, a') \<Longrightarrow>
   (case r of
      Inr i \<Rightarrow> delivered a' = delivered a @ text_deliveries to (map ch_text cs)
    | Inl e \<Rightarrow> \<exists>k < length cs. delivered a' = delivered a @ text_deliveries to (take k (map ch_text cs)))"
proof (induction cs arbitrary: prev a)
  case Nil
  then show ?case by (auto simp: text_deliveries_def)
next
  case (Cons c cs)
  obtain r0 a1 where t: "(if ch_delay c > 0 then ad_typing ad to a else (Inr (), a)) = (r0, a1)" by fastforce
  have d1: "delivered a1 = delivered a" using t typing_none by (auto split: if_splits)
  show ?case
  proof (cases "\<exists>e. r0 = Inl e \<and> \<not> suppressed e")
    case True
    then show ?thesis using Cons.prems t d1 by (auto simp: text_deliveries_def intro!: exI [of _ 0])
  next
    case False
    obtain s a2 where s: "ad_send_text ad to (ch_text c) a1 = (s, a2)" by fastforce
    show ?thesis
    proof (cases s)
      case (Inl e)
      then have "delivered a2 = delivered a" using text_fail s d1 by simp
      moreover have "r = Inl e" "a' = a2"
        using Cons.prems t s Inl False by (auto split: sum.splits)
      ultimately show ?thesis by (auto simp: text_deliveries_def intro!: exI [of _ 0])
    next
      case (Inr i)
      then have d2: "delivered a2 = delivered a @ [TextTo to (ch_text c)]" using text_ok s d1 by simp
      have rest: "send_chunks ad to cs (Some i) a2 = (r, a')"
        using Cons.prems t s Inr False by (auto split: sum.splits)
      show ?thesis
      proof (cases r)
        case (Inl e)
        then obtain k where "k < length cs" "delivered a' = delivered a2 @ text_deliveries to (take k (map ch_text cs))"
          using Cons.IH [OF rest] by auto
        then show ?thesis
          using Inl d2 by (auto simp: text_deliveries_def intro!: exI [of _ "Suc k"])
      next
        case (Inr j)
        then show ?thesis using Cons.IH [OF rest] d2 by (simp add: text_deliveries_def)
      qed
    qed
  qed
qed

end

text \<open>
  A channel together with a synthesizer and a storage that deliver nothing themselves: rendering
  delivers the whole reply in one modality, or, when it raises, at most a part of its text.
\<close>

locale voice_channel = channel ad delivered
  for ad :: "'a adapter" and delivered :: "'a \<Rightarrow> delivery list" +
  fixes synth :: "'a synthesizer" and store :: "'a storage"
  assumes synth_none: "synth t v e f a = (r, a') \<Longrightarrow> delivered a' = delivered a"
    and store_none: "store k b c a = (r'', a') \<Longrightarrow> delivered a' = delivered a"
begin

lemma voice_attempt_delivers:
  assumes "voice_attempt ad synth store sc to t emotion mid a = (r, a')"
  shows "case r of
      Inr rr \<Rightarrow> rr_media rr = MAudio \<and> rr_external rr \<noteq> None \<and>
        (\<exists>b c. delivered a' = delivered a @ [AudioTo to b c])
    | Inl e \<Rightarrow> delivered a' = delivered a"
proof -
  define emo where "emo = (case emotion of None \<Rightarrow> sc_emotion sc | Some s \<Rightarrow> if s = [] then sc_emotion sc else Some s)"
  obtain r1 a1 where s1: "synth t (sc_voice sc) emo (sc_format sc) a = (r1, a1)" by fastforce
  have d1: "delivered a1 = delivered a" using synth_none s1 by blast
  show ?thesis
  proof (cases r1)
    case (Inl e)
    then show ?thesis using assms s1 d1 by (auto simp: voice_attempt_def emo_def)
  next
    case (Inr sy)
    obtain r2 a2 where s2: "store (''outbound/'' @ mid @ ''.ogg'') (sy_audio sy) (sy_ctype sy) a1 = (r2, a2)"
      by fastforce
    have d2: "delivered a2 = delivered a" using store_none s2 d1 by metis
    show ?thesis
    proof (cases r2)
      case (Inl e)
      then show ?thesis using assms s1 s2 Inr d2 by (auto simp: voice_attempt_def emo_def Let_def)
    next
      case url: (Inr url)
      obtain r3 a3 where s3: "ad_send_audio ad to (sy_audio sy) (sy_ctype sy) a2 = (r3, a3)" by fastforce
      show ?thesis
        using assms s1 s2 s3 Inr url d2 audio_ok [of to "sy_audio sy" "sy_ctype sy" a2]
          audio_fail [of to "sy_audio sy" "sy_ctype sy" a2]
        by (cases r3) (auto simp: voice_attempt_def emo_def Let_def)
    qed
  qed
qed

lemma text_render_delivers:
  assumes "text_render ad hc speed to t fmt a = (r, a')"
  shows "case r of
      Inr rr \<Rightarrow> rr_media rr = MText \<and> delivered a' = delivered a @ text_deliveries to (reply_texts hc fmt t)
    | Inl e \<Rightarrow> \<exists>k. delivered a' = delivered a @ text_deliveries to (take k (reply_texts hc fmt t))"
proof (cases "humanize hc speed (fmt = Some FormatVoice) t")
  case (Inl e)
  then show ?thesis
    using assms
    by (auto simp: text_render_def send_text_humanized_def text_deliveries_def intro!: exI [of _ 0])
next
  case (Inr cs)
  obtain r1 a1 where s: "send_chunks ad to cs None a = (r1, a1)" by fastforce
  have ts: "map ch_text cs = reply_texts hc fmt t"
    using humanize_texts [OF Inr] by (simp add: reply_texts_def)
  have s': "send_text_humanized ad hc speed to t fmt a = (r1, a1)"
    using Inr s by (simp add: send_text_humanized_def)
  show ?thesis
    using send_chunks_delivers [OF s] assms s' ts
    by (cases r1) (auto simp: text_render_def text_result_def)
qed

lemma render_delivers:
  assumes "render_and_send ad hc speed vcfg
      (if voice then Some synth else None) (if voice then Some store else None) media mid to t fmt emotion a = (r, a')"
  shows "case r of
      Inr rr \<Rightarrow> (rr_media rr = MText \<and> delivered a' = delivered a @ text_deliveries to (reply_texts hc fmt t)) \<or>
        (rr_media rr = MAudio \<and> (\<exists>b c. delivered a' = delivered a @ [AudioTo to b c]))
    | Inl e \<Rightarrow> \<exists>k. delivered a' = delivered a @ text_deliveries to (take k (reply_texts hc fmt t))"
proof -
  have none: "\<exists>k. delivered a = delivered a @ text_deliveries to (take k (reply_texts hc fmt t))" for a
    by (auto simp: text_deliveries_def intro!: exI [of _ 0])
  have by_text: ?thesis if "text_render ad hc speed to t fmt a0 = (r, a')" "delivered a0 = delivered a" for a0
    using text_render_delivers [OF that(1)] that(2) by (cases r) auto
  show ?thesis
  proof (cases "vcfg = None \<or> \<not> voice \<or> decide_modality (vc_mode (the vcfg)) fmt media = ModText")
    case True
    then have "text_render ad hc speed to t fmt a = (r, a')"
      using assms by (auto simp: render_and_send_def split: option.splits if_splits)
    then show ?thesis by (rule by_text) simp
  next
    case False
    then obtain vc where vc: "vcfg = Some vc" "decide_modality (vc_mode vc) fmt media \<noteq> ModText" and v: "voice"
      by auto
    show ?thesis
    proof (cases "vc_synthesis vc")
      case None
      then show ?thesis using assms vc v none by (auto simp: render_and_send_def)
    next
      case (Some sc)
      obtain r1 a1 where va: "voice_attempt ad synth store sc to t emotion mid a = (r1, a1)" by fastforce
      note d = voice_attempt_delivers [OF va]
      show ?thesis
      proof (cases r1)
        case (Inr rr)
        then show ?thesis using assms vc v Some va d by (auto simp: render_and_send_def)
      next
        case (Inl e)
        show ?thesis
        proof (cases "vc_fallback vc")
          case True
          then have "text_render ad hc speed to t fmt a1 = (r, a')"
            using assms vc v Some va Inl by (simp add: render_and_send_def)
          moreover have "delivered a1 = delivered a" using d Inl by simp
          ultimately show ?thesis by (rule by_text)
        next
          case False
          then have "r = Inl (VoiceSynthesisError (exn_text e))" "a' = a1"
            using assms vc v Some va Inl by (simp_all add: render_and_send_def)
          then show ?thesis using d Inl none by simp
        qed
      qed
    qed
  qed
qed

end

subsection \<open>The in-memory synthesizer and storage\<close>

definition utf8 :: "string \<Rightarrow> string" where
  "utf8 s = concat (map (\<lambda>c. if code c < 128 then [c]
     else [char_of (192 + code c div 64), char_of (128 + code c mod 64)]) s)"

definition fake_synthesize :: "fake_state synthesizer" where
  "fake_synthesize t voice emotion fmt a =
     (Inr \<lparr>sy_audio = ''FAKEOGG'' @ utf8 t, sy_ctype = ''audio/ogg; codecs=opus'', sy_voice = voice,
           sy_ms = Some (60 * int (length t)), sy_chars = int (length t)\<rparr>,
      a\<lparr>fk_spoken := fk_spoken a @ [(t, voice, emotion)]\<rparr>)"

definition fake_upload :: "fake_state storage" where
  "fake_upload key data ctype a =
     (Inr (''https://fake.storage.local/'' @ key),
      a\<lparr>fk_objects := dict_put key (data, ctype) (fk_objects a)\<rparr>)"

interpretation fakev: voice_channel fake_adapter fk_sent fake_synthesize fake_upload
  by unfold_locales (auto simp: fake_synthesize_def fake_upload_def)

end
