(* ===== verification/Pipeline.thy ===== *)
theory Pipeline
  imports Preprocessing Post_Processing Correction Renderer
begin

text \<open>
  \<open>flowengine/pipeline.py\<close> and \<open>flowengine/audit.py\<close>: one turn of the conversation.  The world is
  the database together with what a rollback does not undo: the queue of enqueued jobs, the state of
  the model and the state of the messaging adapter.  \<open>run_turn\<close> is \<open>preprocessing\<close>, the commit, and
  \<open>locked_turn\<close>, the part that runs in one transaction under the lead's advisory lock.
\<close>

subsection \<open>The audit row\<close>

text \<open>\<open>template_params ->> key = str(n)\<close>.\<close>

definition json_text_is :: "jval \<Rightarrow> string \<Rightarrow> int \<Rightarrow> bool" where
  "json_text_is ps key n =
     (case ps of
        JObj d \<Rightarrow> (case map_of d key of
                     Some (JInt k) \<Rightarrow> str_int k = str_int n
                   | Some (JStr s) \<Rightarrow> s = str_int n
                   | _ \<Rightarrow> False)
      | _ \<Rightarrow> False)"

definition audit_match :: "uuid \<Rightarrow> uuid \<Rightarrow> int \<Rightarrow> int \<Rightarrow> outbound \<Rightarrow> bool" where
  "audit_match tenant_id talk_id turn chunk_ix r =
     (ob_tenant r = tenant_id \<and> ob_talk r = talk_id \<and> json_text_is (ob_params r) ''turn_index'' turn \<and>
      json_text_is (ob_params r) ''chunk_index'' chunk_ix)"

definition audit_row ::
  "uuid \<Rightarrow> talk \<Rightarrow> inbound \<Rightarrow> string \<Rightarrow> int \<Rightarrow> int \<Rightarrow> render_result \<Rightarrow> time \<Rightarrow> outbound" where
  "audit_row i t m body turn chunk_ix rr sent_at =
     \<lparr>ob_id = i, ob_tenant = tk_tenant t, ob_talk = tk_id t, ob_lead = tk_lead t,
      ob_provider = in_provider m, ob_type = (if rr_media rr = MAudio then OutAudio else OutText),
      ob_body = Some body, ob_template = None, ob_language = None,
      ob_params = JObj [(''turn_index'', JInt turn), (''chunk_index'', JInt chunk_ix)],
      ob_status = OutSent, ob_external = rr_external rr, ob_error = None, ob_trigger = TrigInbound,
      ob_inbound = Some (in_id m), ob_follow_up = None, ob_client_id = None, ob_sent = sent_at,
      ob_media = rr_media rr, ob_media_key = rr_media_key rr, ob_audio_url = rr_audio_url rr,
      ob_audio_ms = rr_ms rr, ob_voice_id = rr_voice_id rr, ob_emotion = rr_emotion rr\<rparr>"

definition record_outbound_audit ::
  "talk \<Rightarrow> inbound \<Rightarrow> string \<Rightarrow> int \<Rightarrow> int \<Rightarrow> render_result \<Rightarrow> time \<Rightarrow> db \<Rightarrow> pyexn + db" where
  "record_outbound_audit t m body turn chunk_ix rr sent_at d =
     bindE (scalar_one_or_none (filter (audit_match (tk_tenant t) (tk_id t) turn chunk_ix) (db_outbound d))) (\<lambda>ex.
     case ex of
       Some _ \<Rightarrow> Inr d
     | None \<Rightarrow>
         Inr (d\<lparr>db_outbound := db_outbound d @ [audit_row (db_next d) t m body turn chunk_ix rr sent_at],
                db_next := Suc (db_next d)\<rparr>))"

subsection \<open>The parameters and the world of a turn\<close>

record ('l, 'a) turn_env =
  te_ext :: ext
  te_tenant :: tenant
  te_humanization :: humanization_config
  te_treeflow :: treeflow
  te_version :: treeflow_version
  te_llm :: "'l llm"
  te_adapter :: "'a adapter"
  te_optout :: "string list"
  te_guardrails :: guardrail_config
  te_voice :: "voice_cfg option"
  te_synth :: "'a synthesizer option"
  te_storage :: "'a storage option"
  te_speed :: "nat \<Rightarrow> rat"
  te_now :: time

record ('l, 'a) world =
  w_db :: db
  w_queue :: "uuid list"
  w_llm :: 'l
  w_ad :: 'a

datatype turn_outcome = Sent | Escalated | OptOut | LeadBanned | SkippedHuman

record turn_result =
  tu_outcome :: turn_outcome
  tu_node :: "string option"
  tu_text :: "string option"

subsection \<open>Deciding what to answer\<close>

definition routing_view_of :: "talk \<Rightarrow> talkflow_state \<Rightarrow> turn_decision \<Rightarrow> routing_view" where
  "routing_view_of t st d =
     \<lparr>rv_collected = dict_merge (st_collected st) (collected_fields d),
      rv_facts = dict_merge (st_facts st) (extracted_facts d),
      rv_objections = st_objections st, rv_turn = tk_turns t + 1, rv_treatment = st_treatment st\<rparr>"

definition fresh_layer_of ::
  "('l, 'a) turn_env \<Rightarrow> treeflow_node \<Rightarrow> talk \<Rightarrow> talkflow_state \<Rightarrow> inbound \<Rightarrow> correction option \<Rightarrow> layer" where
  "fresh_layer_of env node t st m c =
     (let nodes = tf_nodes (te_treeflow env);
          nexts = List.map_filter (\<lambda>tr. map_option (\<lambda>n. (n, tr_condition tr)) (map_of nodes (tr_target tr))) (nd_next node)
      in build_fresh_layer node nexts (st_collected st) (st_facts st) (st_objections st) (st_messages st)
           (tk_turns t + 1) (te_now env) (st_treatment st) c (inbound_text m)
           (map_option vc_mode (te_voice env)))"

text \<open>Steps 6 and 7: the prompt and the model call; step 8: the guardrails with their retry.\<close>

definition first_decision ::
  "('l, 'a) turn_env \<Rightarrow> layer \<Rightarrow> (correction option \<Rightarrow> layer) \<Rightarrow> inbound \<Rightarrow> 'l \<Rightarrow> (pyexn + turn_decision) \<times> 'l" where
  "first_decision env cached fresh m s =
     invoke (te_llm env) (assemble_prompt cached (fresh None) (inbound_text m)) s"

definition guarded_decision ::
  "('l, 'a) turn_env \<Rightarrow> layer \<Rightarrow> (correction option \<Rightarrow> layer) \<Rightarrow> inbound \<Rightarrow> turn_decision \<Rightarrow> 'l \<Rightarrow>
   (pyexn + turn_decision) \<times> 'l" where
  "guarded_decision env cached fresh m d s =
     run_guardrails_retry (te_ext env) (te_llm env) cached fresh (inbound_text m) (te_guardrails env) d
       (validate_response_text (te_ext env) (response_text d) (te_guardrails env)) s"

text \<open>Step 9: the transition with its retry.\<close>

definition routed_decision ::
  "('l, 'a) turn_env \<Rightarrow> layer \<Rightarrow> (correction option \<Rightarrow> layer) \<Rightarrow> talk \<Rightarrow> talkflow_state \<Rightarrow> inbound \<Rightarrow>
   turn_decision \<Rightarrow> 'l \<Rightarrow> (pyexn + turn_decision \<times> string) \<times> 'l" where
  "routed_decision env cached fresh t st m d s =
     (let reval = (\<lambda>x. validate_transition (te_ext env) (te_treeflow env) (st_node st)
                        (next_node_suggestion x) (routing_view_of t st x));
          (target, failure) = reval d
      in run_transition_retry (te_llm env) cached fresh (inbound_text m) reval (st_node st) d target failure s)"

subsection \<open>Sending\<close>

definition escalate :: "time \<Rightarrow> review_reason \<Rightarrow> string \<Rightarrow> talk \<Rightarrow> talk" where
  "escalate now reason detail t =
     t\<lparr>tk_status := RequiresReview, tk_escalated_at := Some now,
       tk_escalation_category := Some SystemExhausted, tk_escalation_reason := Some detail,
       tk_review_reason := Some reason\<rparr>"

text \<open>The tenant's fallback text, sent inside the transaction by both escalation paths.\<close>

definition send_fallback ::
  "('l, 'a) turn_env \<Rightarrow> lead \<Rightarrow> string \<Rightarrow> ('l, 'a) world \<Rightarrow> (pyexn + turn_result) \<times> ('l, 'a) world" where
  "send_fallback env l node w =
     (case ad_send_text (te_adapter env) (Some (str_or (ld_e164 l) [])) (gc_fallback (te_guardrails env)) (w_ad w) of
        (Inl e, a) \<Rightarrow> (Inl e, w\<lparr>w_ad := a\<rparr>)
      | (Inr _, a) \<Rightarrow>
          (Inr \<lparr>tu_outcome = Escalated, tu_node = Some node, tu_text = Some (gc_fallback (te_guardrails env))\<rparr>,
           w\<lparr>w_ad := a\<rparr>))"

definition send_reply ::
  "('l, 'a) turn_env \<Rightarrow> lead \<Rightarrow> inbound \<Rightarrow> turn_decision \<Rightarrow> 'a \<Rightarrow> (pyexn + render_result) \<times> 'a" where
  "send_reply env l m d a =
     send_response_text (te_adapter env) (te_humanization env) (te_speed env) (te_voice env) (te_synth env)
       (te_storage env) (in_media m) (in_id m) l d a"

text \<open>
  Steps 11 to 13: token counters, sending, audit.  Nothing sets \<open>_raw_message\<close> on a decision, so
  \<open>extract_usage\<close> always receives \<open>None\<close>.  The talk and the state are written to the database by
  the flush at the end of the transaction.
\<close>

definition deliver ::
  "('l, 'a) turn_env \<Rightarrow> lead \<Rightarrow> inbound \<Rightarrow> talk \<Rightarrow> talkflow_state \<Rightarrow> turn_decision \<Rightarrow> string \<Rightarrow>
   ('l, 'a) world \<Rightarrow> (pyexn + turn_result) \<times> ('l, 'a) world" where
  "deliver env l m t st d target w =
     (case bindE (extract_usage None) (accumulate_tokens (tk_tokens t)) of
        Inl e \<Rightarrow> (Inl e, w)
      | Inr tokens \<Rightarrow>
          (case send_reply env l m d (w_ad w) of
             (Inl (VoiceSynthesisError msg), a) \<Rightarrow>
               let t' = escalate (te_now env) VoiceSynthesisFailed msg t in
               send_fallback env l (st_node st)
                 (w\<lparr>w_ad := a, w_db := put_talk t' (put_state st (w_db w))\<rparr>)
           | (Inl e, a) \<Rightarrow> (Inl e, w\<lparr>w_ad := a\<rparr>)
           | (Inr rr, a) \<Rightarrow>
               (case (if rr_chars rr \<noteq> 0 then accumulate_voice_usage tokens (rr_chars rr) 0 else Inr tokens) of
                  Inl e \<Rightarrow> (Inl e, w\<lparr>w_ad := a\<rparr>)
                | Inr tokens' \<Rightarrow>
                    let t' = t\<lparr>tk_tokens := tokens'\<rparr> in
                    (case record_outbound_audit t' m (response_text d) (tk_turns t') 0 rr (te_now env)
                            (put_talk t' (put_state st (w_db w))) of
                       Inl e \<Rightarrow> (Inl e, w\<lparr>w_ad := a\<rparr>)
                     | Inr d' \<Rightarrow>
                         (Inr \<lparr>tu_outcome = Sent, tu_node = Some target, tu_text = Some (response_text d)\<rparr>,
                          w\<lparr>w_ad := a, w_db := d'\<rparr>)))))"

subsection \<open>The transaction\<close>

definition answer_turn ::
  "('l, 'a) turn_env \<Rightarrow> lead \<Rightarrow> inbound \<Rightarrow> talk \<Rightarrow> talkflow_state \<Rightarrow> ('l, 'a) world \<Rightarrow>
   (pyexn + turn_result) \<times> ('l, 'a) world" where
  "answer_turn env l m t st w =
     (case build_cached_layer (te_treeflow env) of
        Inl e \<Rightarrow> (Inl e, w)
      | Inr cached \<Rightarrow>
          (case map_of (tf_nodes (te_treeflow env)) (st_node st) of
             None \<Rightarrow> (Inl (KeyError (st_node st)), w)
           | Some node \<Rightarrow>
               let fresh = fresh_layer_of env node t st m in
               (case first_decision env cached fresh m (w_llm w) of
                  (Inl e, s0) \<Rightarrow> (Inl e, w\<lparr>w_llm := s0\<rparr>)
                | (Inr d0, s0) \<Rightarrow>
                    (case guarded_decision env cached fresh m d0 s0 of
                       (Inl (CorrectionEscalation msg), s1) \<Rightarrow>
                         let t' = escalate (te_now env) ValidatorExhausted msg t in
                         send_fallback env l (st_node st) (w\<lparr>w_llm := s1, w_db := put_talk t' (w_db w)\<rparr>)
                     | (Inl e, s1) \<Rightarrow> (Inl e, w\<lparr>w_llm := s1\<rparr>)
                     | (Inr d, s1) \<Rightarrow>
                         (case routed_decision env cached fresh t st m d s1 of
                            (Inl e, s2) \<Rightarrow> (Inl e, w\<lparr>w_llm := s2\<rparr>)
                          | (Inr (d', target), s2) \<Rightarrow>
                              (case apply_decision (te_ext env) (te_treeflow env) (te_now env) t st d' target
                                      (w_db w, w_queue w) of
                                 (Inl e, d1, q1) \<Rightarrow> (Inl e, w\<lparr>w_llm := s2, w_queue := q1\<rparr>)
                               | (Inr (t', st'), d1, q1) \<Rightarrow>
                                   deliver env l m t' st' d' target
                                     (w\<lparr>w_llm := s2, w_db := d1, w_queue := q1\<rparr>)))))))"

definition locked_turn ::
  "('l, 'a) turn_env \<Rightarrow> lead \<Rightarrow> uuid \<Rightarrow> inbound \<Rightarrow> ('l, 'a) world \<Rightarrow> (pyexn + turn_result) \<times> ('l, 'a) world" where
  "locked_turn env l talk_id m w =
     (case find_row tk_id talk_id (db_talks (w_db w)) of
        None \<Rightarrow> (Inl (OtherError ''InvalidRequestError''), w)
      | Some t \<Rightarrow>
          (case load_state talk_id (w_db w) of
             None \<Rightarrow> (Inl AssertionError, w)
           | Some st \<Rightarrow>
               if tk_mode t = ModeHuman
               then (Inr \<lparr>tu_outcome = SkippedHuman, tu_node = Some (st_node st), tu_text = None\<rparr>, w)
               else answer_turn env l m t st w))"

text \<open>\<open>async with session.begin()\<close>: commit on return, roll the database back on an exception.\<close>

definition transaction ::
  "(('l, 'a) world \<Rightarrow> (pyexn + 'r) \<times> ('l, 'a) world) \<Rightarrow> ('l, 'a) world \<Rightarrow> (pyexn + 'r) \<times> ('l, 'a) world" where
  "transaction body w =
     (case body w of
        (Inl e, w') \<Rightarrow> (Inl e, w'\<lparr>w_db := w_db w\<rparr>)
      | (Inr r, w') \<Rightarrow> (Inr r, w'))"

definition run_turn ::
  "('l, 'a) turn_env \<Rightarrow> inbound \<Rightarrow> ('l, 'a) world \<Rightarrow> (pyexn + turn_result) \<times> ('l, 'a) world" where
  "run_turn env m w =
     (case resolve_pipeline_context (te_now env) (te_tenant env) (te_treeflow env) (te_version env)
             (te_optout env) m (w_db w) of
        Inl e \<Rightarrow>
          if e = OptOutDetected then (Inr \<lparr>tu_outcome = OptOut, tu_node = None, tu_text = None\<rparr>, w)
          else (Inl e, w)
      | Inr (d1, cx) \<Rightarrow>
          if ld_risk (px_lead cx) = RiskBanned
          then (Inr \<lparr>tu_outcome = LeadBanned, tu_node = None, tu_text = None\<rparr>, w\<lparr>w_db := d1\<rparr>)
          else transaction (locked_turn env (px_lead cx) (tk_id (px_talk cx)) m) (w\<lparr>w_db := d1\<rparr>))"

subsection \<open>Decomposition\<close>

lemma send_fallback_cases:
  assumes "send_fallback env l node w = (Inr r, w')"
  obtains i a where "ad_send_text (te_adapter env) (Some (str_or (ld_e164 l) [])) (gc_fallback (te_guardrails env)) (w_ad w) = (Inr i, a)"
    "r = \<lparr>tu_outcome = Escalated, tu_node = Some node, tu_text = Some (gc_fallback (te_guardrails env))\<rparr>"
    "w' = w\<lparr>w_ad := a\<rparr>"
  using assms by (auto simp: send_fallback_def split: prod.splits sum.splits)

lemma deliver_cases:
  assumes del: "deliver env l m t st d target w = (Inr r, w')"
  obtains (sent) tokens rr a d' where
      "send_reply env l m d (w_ad w) = (Inr rr, a)"
      "record_outbound_audit (t\<lparr>tk_tokens := tokens\<rparr>) m (response_text d) (tk_turns t) 0 rr (te_now env)
         (put_talk (t\<lparr>tk_tokens := tokens\<rparr>) (put_state st (w_db w))) = Inr d'"
      "r = \<lparr>tu_outcome = Sent, tu_node = Some target, tu_text = Some (response_text d)\<rparr>"
      "w' = w\<lparr>w_ad := a, w_db := d'\<rparr>"
  | (voice_failed) msg a where
      "send_reply env l m d (w_ad w) = (Inl (VoiceSynthesisError msg), a)"
      "send_fallback env l (st_node st)
         (w\<lparr>w_ad := a, w_db := put_talk (escalate (te_now env) VoiceSynthesisFailed msg t) (put_state st (w_db w))\<rparr>)
       = (Inr r, w')"
proof -
  obtain tokens where tk: "bindE (extract_usage None) (accumulate_tokens (tk_tokens t)) = Inr tokens"
    using del by (cases "bindE (extract_usage None) (accumulate_tokens (tk_tokens t))") (simp_all add: deliver_def)
  obtain res a where sr: "send_reply env l m d (w_ad w) = (res, a)" by fastforce
  show ?thesis
  proof (cases res)
    case (Inl e)
    show ?thesis
    proof (cases "\<exists>msg. e = VoiceSynthesisError msg")
      case True
      then show ?thesis using voice_failed del tk sr Inl by (auto simp: deliver_def Let_def)
    next
      case False
      then have "fst (deliver env l m t st d target w) = Inl e"
        using tk sr Inl by (cases e) (simp_all add: deliver_def)
      then show ?thesis using del by simp
    qed
  next
    case (Inr rr)
    define tk2 where "tk2 = (if rr_chars rr \<noteq> 0 then accumulate_voice_usage tokens (rr_chars rr) 0 else Inr tokens)"
    obtain tokens' where t2: "tk2 = Inr tokens'"
      using del tk sr Inr by (cases tk2) (simp_all add: deliver_def tk2_def [symmetric])
    define au where "au = record_outbound_audit (t\<lparr>tk_tokens := tokens'\<rparr>) m (response_text d) (tk_turns t) 0 rr (te_now env)
         (put_talk (t\<lparr>tk_tokens := tokens'\<rparr>) (put_state st (w_db w)))"
    obtain d' where d': "au = Inr d'"
      using del tk sr Inr t2 by (cases au) (simp_all add: deliver_def tk2_def [symmetric] Let_def au_def [symmetric])
    have "r = \<lparr>tu_outcome = Sent, tu_node = Some target, tu_text = Some (response_text d)\<rparr>"
      "w' = w\<lparr>w_ad := a, w_db := d'\<rparr>"
      using del tk sr Inr t2 d'
      by (simp_all add: deliver_def tk2_def [symmetric] Let_def au_def [symmetric])
    then show ?thesis using sent [OF _ d' [unfolded au_def]] sr Inr by simp
  qed
qed

lemma answer_turn_cases:
  assumes an: "answer_turn env l m t st w = (Inr r, w')"
  obtains (exhausted) cached fresh d0 s0 msg s1 where
      "first_decision env cached fresh m (w_llm w) = (Inr d0, s0)"
      "guarded_decision env cached fresh m d0 s0 = (Inl (CorrectionEscalation msg), s1)"
      "send_fallback env l (st_node st)
         (w\<lparr>w_llm := s1, w_db := put_talk (escalate (te_now env) ValidatorExhausted msg t) (w_db w)\<rparr>) = (Inr r, w')"
  | (answered) cached fresh d0 s0 d s1 d' target s2 t' st' d1 q1 where
      "first_decision env cached fresh m (w_llm w) = (Inr d0, s0)"
      "guarded_decision env cached fresh m d0 s0 = (Inr d, s1)"
      "routed_decision env cached fresh t st m d s1 = (Inr (d', target), s2)"
      "apply_decision (te_ext env) (te_treeflow env) (te_now env) t st d' target (w_db w, w_queue w) =
         (Inr (t', st'), d1, q1)"
      "deliver env l m t' st' d' target (w\<lparr>w_llm := s2, w_db := d1, w_queue := q1\<rparr>) = (Inr r, w')"
proof -
  obtain cached where c: "build_cached_layer (te_treeflow env) = Inr cached"
    using an by (cases "build_cached_layer (te_treeflow env)") (simp_all add: answer_turn_def)
  obtain node where n: "map_of (tf_nodes (te_treeflow env)) (st_node st) = Some node"
    using an c by (cases "map_of (tf_nodes (te_treeflow env)) (st_node st)") (simp_all add: answer_turn_def)
  define fresh where "fresh = fresh_layer_of env node t st m"
  note unf = answer_turn_def c n sum.case option.case Let_def fresh_def [symmetric]
  obtain r0 s0 where f0: "first_decision env cached fresh m (w_llm w) = (r0, s0)" by fastforce
  then obtain d0 where d0: "r0 = Inr d0" using an by (cases r0) (simp_all add: unf)
  obtain r1 s1 where f1: "guarded_decision env cached fresh m d0 s0 = (r1, s1)" by fastforce
  show ?thesis
  proof (cases r1)
    case (Inl e)
    show ?thesis
    proof (cases "\<exists>msg. e = CorrectionEscalation msg")
      case True
      then show ?thesis using exhausted f0 d0 f1 Inl an by (auto simp: unf)
    next
      case False
      then have "fst (answer_turn env l m t st w) = Inl e"
        using f0 d0 f1 Inl by (cases e) (simp_all add: unf)
      then show ?thesis using an by simp
    qed
  next
    case (Inr d)
    obtain r2 s2 where f2: "routed_decision env cached fresh t st m d s1 = (r2, s2)" by fastforce
    then obtain d' target where d2: "r2 = Inr (d', target)"
      using an f0 d0 f1 Inr by (cases r2) (auto simp: unf)
    obtain r3 d1 q1 where f3: "apply_decision (te_ext env) (te_treeflow env) (te_now env) t st d' target (w_db w, w_queue w) = (r3, d1, q1)"
      by (metis prod.collapse)
    then obtain t' st' where d3: "r3 = Inr (t', st')"
      using an f0 d0 f1 Inr f2 d2 by (cases r3) (auto simp: unf)
    show ?thesis
      using answered [of cached fresh d0 s0 d s1 d' target s2 t' st' d1 q1] an f0 d0 f1 Inr f2 d2 f3 d3
      by (simp add: unf)
  qed
qed

end
