(* ===== verification/Sample_Tree.thy ===== *)
theory Sample_Tree
  imports Treeflow_Loader
begin

text \<open>
  A small tenant configuration on which the theorems of the development are exercised: a tree of
  two nodes with an objection of each mode, an action, a completion rule and a life cycle.  The
  third-party functions are instantiated by simple stand-ins: an expression is true when it is the
  text \<open>true\<close> or the name of a collected field, a template renders to itself, and a price is found
  when the text mentions \<open>R$\<close>.
\<close>

definition sample_tool :: jval where
  "sample_tool = JObj
     [(''id'', JStr ''preco''), (''description'', JStr ''acha o preco alto''),
      (''treatment_mode'', JStr ''tool''),
      (''tool_payload'', JObj
        [(''max_treatment_turns'', JInt 2),
         (''canonical_arguments_summary'', JStr ''retorno em tres meses''),
         (''resolution_criteria'', JStr ''lead aceita o valor''),
         (''on_max_turns_no_resolution'', JObj [(''action'', JStr ''escalate_to_human'')])])]"

definition sample_inline :: jval where
  "sample_inline = JObj
     [(''id'', JStr ''tempo''), (''description'', JStr ''diz que nao tem tempo''),
      (''treatment_mode'', JStr ''inline'')]"

definition sample_node :: "string \<Rightarrow> string \<Rightarrow> string \<Rightarrow> jval list \<Rightarrow> jval list \<Rightarrow> jval list \<Rightarrow> jval" where
  "sample_node i exit_type field targets objs actions = JObj
     [(''id'', JStr i), (''objetivo'', JStr ''conhecer o lead''),
      (''collects'', JList [JObj [(''field'', JStr field), (''type'', JStr ''string''), (''required'', JBool True)]]),
      (''exit_condition'', JObj [(''type'', JStr exit_type)]),
      (''next_nodes'', JList targets), (''handles_objections'', JList objs),
      (''on_collected'', JList actions)]"

definition sample_data :: jval where
  "sample_data = JObj
     [(''id'', JStr ''captacao''), (''version'', JStr ''1''),
      (''sdr_persona'', JObj [(''voice'', JStr ''cordial''), (''conduct'', JStr ''breve'')]),
      (''entry_node'', JStr ''inicio''),
      (''nodes'', JList
        [sample_node ''inicio'' ''all_fields_filled'' ''nome''
           [JObj [(''condition'', JStr ''true''), (''target'', JStr ''fim'')]] [sample_tool]
           [JObj [(''field'', JStr ''nome''), (''adapter'', JStr ''crm''), (''handler'', JStr ''criar''),
                  (''params'', JObj [(''lead'', JStr ''{{ lead.id }}'')])]],
         sample_node ''fim'' ''all_fields_filled'' ''email'' [] [] []]),
      (''global_objections'', JList [sample_inline]),
      (''talk_lifecycle'', JObj
        [(''close_after_inactivity'', JStr ''PT48H''), (''close_after_duration'', JStr ''P30D''),
         (''close_when_completed'', JList [JObj [(''expression'', JStr ''email''), (''outcome'', JStr ''success'')]])])]"

definition sample_ext :: ext where
  "sample_ext =
     \<lparr>simple_eval = (\<lambda>fs names e. if e = ''true'' then Some True else Some (map_of names e \<noteq> None)),
      eval_parses = (\<lambda>e. e \<noteq> []),
      iso_duration = (\<lambda>s. if s = ''PT48H'' then IsoDelta (hours 48)
                           else if s = ''P30D'' then IsoDelta (days 30)
                           else if s = ''P1M'' then IsoCalendar else IsoBad),
      jinja_parses = (\<lambda>s. True),
      jinja_render = (\<lambda>s ctx. Some s),
      yaml_load = (\<lambda>s. if s = ''captacao.yaml'' then Some sample_data else None),
      json_sha256 = (\<lambda>v. case v of JStr s \<Rightarrow> s | _ \<Rightarrow> []),
      float_repr = (\<lambda>r. ''1.0''),
      price_findall = (\<lambda>p s. if contains_str ''R$ 10'' s then [''R$ 10''] else
                              if contains_str ''R$'' s then [''R$ 99''] else [])\<rparr>"

definition sample_payload :: tool_payload where
  "sample_payload =
     \<lparr>tp_summary = ''retorno em tres meses'', tp_kb_ref = [], tp_max_turns = 2,
      tp_criteria = ''lead aceita o valor'',
      tp_on_max = \<lparr>om_action = ''escalate_to_human'', om_hint = None\<rparr>, tp_expected = None\<rparr>"

definition sample_inicio :: treeflow_node where
  "sample_inicio =
     \<lparr>nd_id = ''inicio'', nd_objetivo = ''conhecer o lead'', nd_bridge = [],
      nd_collects = [\<lparr>cf_field = ''nome'', cf_type = ''string'', cf_required = True, cf_hint = None\<rparr>],
      nd_exit = \<lparr>ec_type = ''all_fields_filled'', ec_expression = None, ec_fallback = None\<rparr>,
      nd_next = [\<lparr>tr_condition = ''true'', tr_target = ''fim''\<rparr>],
      nd_objections = [\<lparr>ob_name = ''preco'', ob_description = ''acha o preco alto'', ob_mode = ''tool'',
                        ob_payload = Some sample_payload\<rparr>],
      nd_on_collected = [\<lparr>oc_field = ''nome'', oc_adapter = ''crm'', oc_handler = ''criar'',
                          oc_params = [(''lead'', JStr ''{{ lead.id }}'')]\<rparr>]\<rparr>"

definition sample_fim :: treeflow_node where
  "sample_fim =
     \<lparr>nd_id = ''fim'', nd_objetivo = ''conhecer o lead'', nd_bridge = [],
      nd_collects = [\<lparr>cf_field = ''email'', cf_type = ''string'', cf_required = True, cf_hint = None\<rparr>],
      nd_exit = \<lparr>ec_type = ''all_fields_filled'', ec_expression = None, ec_fallback = None\<rparr>,
      nd_next = [], nd_objections = [], nd_on_collected = []\<rparr>"

definition sample_tree :: treeflow where
  "sample_tree =
     \<lparr>tf_id = ''captacao'', tf_version = ''1'', tf_display = None,
      tf_persona = JObj [(''voice'', JStr ''cordial''), (''conduct'', JStr ''breve'')],
      tf_entry = ''inicio'', tf_nodes = [(''inicio'', sample_inicio), (''fim'', sample_fim)],
      tf_objections = [\<lparr>ob_name = ''tempo'', ob_description = ''diz que nao tem tempo'', ob_mode = ''inline'',
                        ob_payload = None\<rparr>],
      tf_lifecycle = Some \<lparr>tl_inactivity = Some (hours 48), tl_duration = Some (days 30),
                           tl_completed = [\<lparr>cr_expression = ''email'', cr_outcome = ''success''\<rparr>]\<rparr>\<rparr>"

lemma sample_load: "load_treeflow_data sample_ext sample_data = Inr sample_tree"
  by code_simp

lemma sample_load_yaml: "load_treeflow_v2 sample_ext ''captacao.yaml'' = Inr sample_tree"
proof -
  have "yaml_load sample_ext ''captacao.yaml'' = Some sample_data" by code_simp
  then show ?thesis by (simp add: load_treeflow_v2_def sample_load)
qed

lemma sample_tree_wf: "treeflow_wf sample_ext sample_tree"
  by (rule returnsD [OF load_treeflow_data_wf sample_load])

end
