(* ===== verification/Sample_Turn.thy ===== *)
theory Sample_Turn
  imports Pipeline Sample_Tree
begin

text \<open>
  A concrete world for the theorems about a turn: a tenant with one lead, the tree of \<open>Sample_Tree\<close>,
  a model that answers from a script and counts its invocations, and the in-memory adapter.
\<close>

type_synonym script = "nat \<times> turn_decision list"

definition script_llm :: "script llm" where
  "script_llm p s =
     (case snd s of
        [] \<Rightarrow> (Inl (OtherError ''end of script''), (fst s + 1, []))
      | d # ds \<Rightarrow> (Inr d, (fst s + 1, ds)))"

lemma script_llm_counts: "fst (snd (script_llm p s)) = fst s + 1"
  by (simp add: script_llm_def split: list.split)

definition sample_decision :: turn_decision where
  "sample_decision =
     \<lparr>response_text = ''Ola! Qual o seu nome?'', response_format = None, voice_emotion = None,
      collected_fields = [], extracted_facts = [], detected_objection = None, treatment_strategy = None,
      treatment_status = None, next_node_suggestion = None, intends_to_advance = False,
      suggest_close_talk = CloseNo, request_human_escalation = None, suspect_injection_attempt = False,
      off_topic_detected = False, reasoning = ''saudacao''\<rparr>"

definition sample_tenant :: tenant where
  "sample_tenant = \<lparr>tn_id = 1, tn_slug = ''avelum'', tn_architecture = 2\<rparr>"

definition sample_version :: treeflow_version where
  "sample_version =
     \<lparr>tv_id = 2, tv_tenant = 1, tv_treeflow = ''captacao'', tv_version = ''1'', tv_hash = [],
      tv_yaml = ''captacao.yaml'', tv_created = 0\<rparr>"

definition sample_lead :: lead where
  "sample_lead =
     (new_lead 0 1 ''+5511999'' [(''whatsapp'', JStr ''+5511999'')] LeadActive)\<lparr>ld_id := 3\<rparr>"

definition sample_inbound :: "uuid \<Rightarrow> string \<Rightarrow> inbound" where
  "sample_inbound i txt =
     \<lparr>in_id = i, in_tenant = 1, in_provider = ''whatsapp_cloud'', in_external = str_nat i, in_lead = Some 3,
      in_from = ''+5511999'', in_text = txt, in_received = 1000, in_ingested = 1000, in_status = Queued,
      in_processed_at = None, in_error = None, in_media = MText, in_media_key = None,
      in_audio_url = None, in_transcription = None, in_confidence = None, in_transcriber = None,
      in_raw = JNull\<rparr>"

definition sample_db :: db where
  "sample_db =
     \<lparr>db_tenants = [sample_tenant], db_versions = [sample_version], db_leads = [sample_lead],
      db_talks = [], db_states = [], db_inbound = [sample_inbound 4 ''oi''], db_outbound = [],
      db_actions = [], db_next = 10\<rparr>"

definition sample_guardrails :: guardrail_config where
  "sample_guardrails =
     \<lparr>gc_pattern = ''R$'', gc_prices = [''R$ 10''], gc_products = [], gc_fallback = ''Um momento.''\<rparr>"

definition sample_env :: "(script, fake_state) turn_env" where
  "sample_env =
     \<lparr>te_ext = sample_ext, te_tenant = sample_tenant, te_humanization = default_humanization,
      te_treeflow = sample_tree, te_version = sample_version, te_llm = script_llm,
      te_adapter = fake_adapter, te_optout = [''sair''], te_guardrails = sample_guardrails,
      te_voice = None, te_synth = None, te_storage = None, te_speed = (\<lambda>n. 10), te_now = 5000\<rparr>"

definition sample_world :: "turn_decision list \<Rightarrow> db \<Rightarrow> (script, fake_state) world" where
  "sample_world ds d = \<lparr>w_db = d, w_queue = [], w_llm = (0, ds), w_ad = fake_init\<rparr>"

definition sample_run :: "turn_decision list \<Rightarrow> (pyexn + turn_result) \<times> (script, fake_state) world" where
  "sample_run ds = run_turn sample_env (sample_inbound 4 ''oi'') (sample_world ds sample_db)"

lemma sample_run_sent:
  "fst (sample_run [sample_decision]) =
     Inr \<lparr>tu_outcome = Sent, tu_node = Some ''inicio'', tu_text = Some ''Ola! Qual o seu nome?''\<rparr>"
  by code_simp

end
