(* ===== verification/Pipeline_Laws.thy ===== *)
theory Pipeline_Laws
  imports Sample_Turn
begin

text \<open>
  What a turn of the pipeline guarantees: the tables stay well-formed, an exception leaves the
  database as the preprocessing left it, an answered turn delivers its reply once and leaves one
  audit row, the model is called at most three times, and a talk held by a human is left alone.
\<close>

subsection \<open>Frames\<close>

definition same_talk :: "talk \<Rightarrow> talk \<Rightarrow> bool" where
  \<comment> \<open>the columns of a talk that no turn changes\<close>
  "same_talk t t' =
     (tk_id t' = tk_id t \<and> tk_tenant t' = tk_tenant t \<and> tk_lead t' = tk_lead t \<and>
      tk_version t' = tk_version t \<and> tk_mode t' = tk_mode t \<and> tk_created t' = tk_created t)"

lemma finish_turn_same:
  assumes "finish_turn E tf now dl d (t, st) = Inr (t', st')"
  shows "same_talk t t' \<and> tk_turns t' = tk_turns t \<and> tk_escalation_category t' = tk_escalation_category t"
proof (cases "evaluate_completion_rule E tf (st_collected st) (st_facts st) 0 d")
  case None
  then have "review_stage now dl d (t, st) = Inr (t', st')" using assms by (simp add: finish_turn_def)
  then show ?thesis
    by (rule review_stage_cases) (auto simp: request_review_def same_talk_def split: option.splits)
next
  case (Some co)
  then have "t' = close_talk now co t" using assms by (simp add: finish_turn_def)
  then show ?thesis by (simp add: close_talk_def same_talk_def)
qed

lemma apply_decision_frame:
  assumes ap: "apply_decision E tf now t st d target (db, q) = (Inr (t', st'), db', q')"
  shows "same_talk t t'" "tk_turns t' = tk_turns t + 1" "st_talk st' = st_talk st"
    "tk_escalation_category t' = tk_escalation_category t"
    "extends (db, q) (db', q')" "actions_wf db \<Longrightarrow> actions_wf db'"
proof -
  define d1 where "d1 = fst (apply_contradiction_heuristic d)"
  obtain dl where fin: "finish_turn E tf now dl d1 (t\<lparr>tk_turns := tk_turns t + 1, tk_last_message := now\<rparr>,
      turn_state now t st d1 dl target) = Inr (t', st')"
    and w': "(db', q') = dispatch_all E tf (merge_decision d1 st) d1 t (db, q)"
    using apply_decision_decompose [OF ap d1_def] by metis
  show "same_talk t t'" "tk_turns t' = tk_turns t + 1" "tk_escalation_category t' = tk_escalation_category t"
    using finish_turn_same [OF fin] by (simp_all add: same_talk_def)
  show "st_talk st' = st_talk st"
    using finish_turn_state [OF fin] by (auto simp: turn_state_def)
  show "extends (db, q) (db', q')" "actions_wf db \<Longrightarrow> actions_wf db'"
    using dispatch_all_ok [of "(db, q)" E tf "merge_decision d1 st" d1 t] unfolding w' [symmetric] by simp_all
qed

lemma record_outbound_frame:
  assumes "record_outbound_audit t m body turn ix rr sent_at d = Inr d'"
  shows "db_talks d' = db_talks d \<and> db_states d' = db_states d \<and> db_actions d' = db_actions d \<and>
    db_leads d' = db_leads d \<and> db_inbound d' = db_inbound d \<and> db_next d \<le> db_next d'"
  using assms by (auto simp: record_outbound_audit_def bindE_eq_Inr split: option.splits)

text \<open>A successful audit leaves exactly one row for the turn of the talk.\<close>

lemma record_outbound_once:
  assumes au: "record_outbound_audit t m body turn ix rr sent_at d = Inr d'"
  shows "length (filter (audit_match (tk_tenant t) (tk_id t) turn ix) (db_outbound d')) = 1"
proof -
  let ?f = "filter (audit_match (tk_tenant t) (tk_id t) turn ix) (db_outbound d)"
  obtain ex where ex: "scalar_one_or_none ?f = Inr ex"
    using au by (auto simp: record_outbound_audit_def bindE_eq_Inr)
  have m: "audit_match (tk_tenant t) (tk_id t) turn ix (audit_row i t m body turn ix rr sent_at)" for i
    by (simp add: audit_match_def audit_row_def json_text_is_def)
  show ?thesis
  proof (cases ex)
    case None
    then have "?f = []" using ex by (auto simp: scalar_one_or_none_def split: list.splits)
    then show ?thesis using au None ex m by (auto simp: record_outbound_audit_def)
  next
    case (Some r)
    then have "?f = [r]" using ex by (auto simp: scalar_one_or_none_def split: list.splits)
    then show ?thesis using au Some ex by (auto simp: record_outbound_audit_def)
  qed
qed

subsection \<open>Cases of a run\<close>

lemma run_turn_cases:
  assumes run: "run_turn env m w = (r, w')"
  obtains (optout)
      "resolve_pipeline_context (te_now env) (te_tenant env) (te_treeflow env) (te_version env) (te_optout env) m (w_db w) = Inl OptOutDetected"
      "r = Inr \<lparr>tu_outcome = OptOut, tu_node = None, tu_text = None\<rparr>" "w' = w"
  | (failed) e where
      "resolve_pipeline_context (te_now env) (te_tenant env) (te_treeflow env) (te_version env) (te_optout env) m (w_db w) = Inl e"
      "r = Inl e" "w' = w"
  | (banned) d1 cx where
      "resolve_pipeline_context (te_now env) (te_tenant env) (te_treeflow env) (te_version env) (te_optout env) m (w_db w) = Inr (d1, cx)"
      "ld_risk (px_lead cx) = RiskBanned"
      "r = Inr \<lparr>tu_outcome = LeadBanned, tu_node = None, tu_text = None\<rparr>" "w' = w\<lparr>w_db := d1\<rparr>"
  | (rolled_back) d1 cx e w1 where
      "resolve_pipeline_context (te_now env) (te_tenant env) (te_treeflow env) (te_version env) (te_optout env) m (w_db w) = Inr (d1, cx)"
      "locked_turn env (px_lead cx) (tk_id (px_talk cx)) m (w\<lparr>w_db := d1\<rparr>) = (Inl e, w1)"
      "r = Inl e" "w' = w1\<lparr>w_db := d1\<rparr>"
  | (committed) d1 cx res where
      "resolve_pipeline_context (te_now env) (te_tenant env) (te_treeflow env) (te_version env) (te_optout env) m (w_db w) = Inr (d1, cx)"
      "ld_risk (px_lead cx) \<noteq> RiskBanned"
      "locked_turn env (px_lead cx) (tk_id (px_talk cx)) m (w\<lparr>w_db := d1\<rparr>) = (Inr res, w')"
      "r = Inr res"
proof -
  let ?res = "resolve_pipeline_context (te_now env) (te_tenant env) (te_treeflow env) (te_version env) (te_optout env) m (w_db w)"
  show ?thesis
  proof (cases ?res)
    case (Inl e)
    then show ?thesis using run optout failed [OF Inl] by (auto simp: run_turn_def split: if_splits)
  next
    case (Inr p)
    obtain d1 cx where p: "p = (d1, cx)" by fastforce
    show ?thesis
    proof (cases "ld_risk (px_lead cx) = RiskBanned")
      case True
      then show ?thesis using run Inr p banned by (auto simp: run_turn_def)
    next
      case False
      obtain r1 w1 where l: "locked_turn env (px_lead cx) (tk_id (px_talk cx)) m (w\<lparr>w_db := d1\<rparr>) = (r1, w1)"
        by fastforce
      show ?thesis
        using run Inr p False l rolled_back [of d1 cx] committed [of d1 cx]
        by (cases r1) (auto simp: run_turn_def transaction_def)
    qed
  qed
qed

lemma locked_turn_cases:
  assumes "locked_turn env l i m w = (Inr r, w')"
  obtains (human) t st where "find_row tk_id i (db_talks (w_db w)) = Some t" "load_state i (w_db w) = Some st"
      "tk_mode t = ModeHuman" "r = \<lparr>tu_outcome = SkippedHuman, tu_node = Some (st_node st), tu_text = None\<rparr>" "w' = w"
  | (ai) t st where "find_row tk_id i (db_talks (w_db w)) = Some t" "load_state i (w_db w) = Some st"
      "tk_mode t \<noteq> ModeHuman" "answer_turn env l m t st w = (Inr r, w')"
  using assms by (auto simp: locked_turn_def split: option.splits if_splits)

lemma locked_turn_human:
  "find_row tk_id i (db_talks (w_db w)) = Some t \<Longrightarrow> tk_mode t = ModeHuman \<Longrightarrow>
   snd (locked_turn env l i m w) = w"
  by (auto simp: locked_turn_def split: option.splits)

subsection \<open>The invariant of the conversation tables\<close>

text \<open>
  \<open>talk_sound\<close>: a talk is well-formed, or it has been escalated because the system was exhausted;
  the escalation after a failed synthesis overwrites the status of a talk that the same turn has
  closed, so such a talk can carry closing fields.  The states of the talks that run on the tree of
  the turn fit that tree.
\<close>

definition talk_sound :: "talk \<Rightarrow> bool" where
  "talk_sound t = (talk_wf t \<or> tk_escalation_category t = Some SystemExhausted)"

definition tables_wf :: "treeflow \<Rightarrow> uuid \<Rightarrow> db \<Rightarrow> bool" where
  "tables_wf tf v d =
     (talks_wf d \<and> one_open_talk d \<and> actions_wf d \<and> (\<forall>t \<in> set (db_talks d). talk_sound t) \<and>
      (\<forall>t \<in> set (db_talks d). \<forall>s \<in> set (db_states d).
         tk_version t = v \<and> st_talk s = tk_id t \<longrightarrow> state_wf tf s))"

lemma is_open_iff: "tk_status t \<in> set active_statuses \<longleftrightarrow> \<not> is_closed (tk_status t)"
  by (cases "tk_status t") (auto simp: active_statuses_def is_closed_def)

lemma put_talk_talks: "db_talks (put_talk t d) = update_where (\<lambda>r. tk_id r = tk_id t) (\<lambda>_. t) (db_talks d)"
  and put_talk_frame: "db_states (put_talk t d) = db_states d" "db_actions (put_talk t d) = db_actions d"
    "db_next (put_talk t d) = db_next d" "db_outbound (put_talk t d) = db_outbound d"
    "db_leads (put_talk t d) = db_leads d" "db_inbound (put_talk t d) = db_inbound d"
  and put_state_states: "db_states (put_state s d) = update_where (\<lambda>r. st_talk r = st_talk s) (\<lambda>_. s) (db_states d)"
  and put_state_frame: "db_talks (put_state s d) = db_talks d" "db_actions (put_state s d) = db_actions d"
    "db_next (put_state s d) = db_next d" "db_outbound (put_state s d) = db_outbound d"
    "db_leads (put_state s d) = db_leads d" "db_inbound (put_state s d) = db_inbound d"
  by (simp_all add: put_talk_def put_state_def)

lemmas put_frames = put_talk_talks put_talk_frame put_state_states put_state_frame

lemma map_put: "map f (update_where (\<lambda>r. f r = f x) (\<lambda>_. x) rows) = map f rows"
  by (simp add: update_where_def)

lemma distinct_put_unique:
  assumes "distinct (map f rows)" "t \<in> set rows" "f t' = f t"
  shows "set (update_where (\<lambda>r. f r = f t') (\<lambda>_. t') rows) = insert t' (set rows - {t})"
  using assms by (auto simp: update_where_def inj_on_def distinct_map)

lemma filter_put_le:
  assumes d: "distinct (map f rows)" and t: "t \<in> set rows" "f t' = f t" and q: "q t' \<Longrightarrow> q t"
  shows "length (filter q (update_where (\<lambda>r. f r = f t') (\<lambda>_. t') rows)) \<le> length (filter q rows)"
  using d t
proof (induction rows)
  case Nil
  then show ?case by simp
next
  case (Cons r rows)
  show ?case
  proof (cases "f r = f t")
    case True
    then have "t = r" using Cons.prems by (auto simp: image_iff)
    moreover have "update_where (\<lambda>r. f r = f t') (\<lambda>_. t') rows = rows"
      by (rule update_where_none) (use Cons.prems True in \<open>auto simp: image_iff\<close>)
    ultimately show ?thesis using q Cons.prems by (auto simp: update_where_def)
  next
    case False
    then show ?thesis using Cons by (auto simp: update_where_def)
  qed
qed

text \<open>Writing back the talk and the state of a turn keeps the tables well-formed.\<close>

lemma tables_put_talk:
  assumes wf: "tables_wf tf v d" and t: "t \<in> set (db_talks d)" and same: "same_talk t t'"
    and sound: "talk_sound t'" and op: "\<not> is_closed (tk_status t)"
  shows "tables_wf tf v (put_talk t' d)"
proof -
  have id: "tk_id t' = tk_id t" "tk_tenant t' = tk_tenant t" "tk_lead t' = tk_lead t" "tk_version t' = tk_version t"
    using same by (simp_all add: same_talk_def)
  have dist: "distinct (map tk_id (db_talks d))" using wf by (simp add: tables_wf_def talks_wf_def)
  have set': "set (db_talks (put_talk t' d)) = insert t' (set (db_talks d) - {t})"
    unfolding put_talk_talks by (rule distinct_put_unique [OF dist t id(1)])
  have ids: "map tk_id (db_talks (put_talk t' d)) = map tk_id (db_talks d)"
    unfolding put_talk_talks by (rule map_put)
  then have idset: "tk_id ` set (db_talks (put_talk t' d)) = tk_id ` set (db_talks d)"
    by (metis list.set_map)
  have "length (open_talks tn l (put_talk t' d)) \<le> length (open_talks tn l d)" for tn l
    unfolding open_talks_def put_talk_talks
    by (rule filter_put_le [OF dist t id(1)]) (use id op in \<open>simp add: is_open_iff\<close>)
  then have "one_open_talk (put_talk t' d)"
    using wf unfolding tables_wf_def one_open_talk_all by (meson le_trans)
  moreover have "talks_wf (put_talk t' d)"
    using wf ids idset set' id t unfolding tables_wf_def talks_wf_def put_talk_frame by auto
  ultimately show ?thesis
    using wf set' sound id t unfolding tables_wf_def put_talk_frame actions_wf_def by auto
qed

lemma tables_put_state:
  assumes wf: "tables_wf tf v d" and s: "load_state i d = Some s" and i: "st_talk s' = st_talk s"
    and t: "t \<in> set (db_talks d)" "tk_id t = i" and ok: "tk_version t = v \<Longrightarrow> state_wf tf s'"
  shows "tables_wf tf v (put_state s' d)"
proof -
  have mem: "s \<in> set (db_states d)" using s find_row_Some by (fastforce simp: load_state_def)
  have dist: "distinct (map st_talk (db_states d))" using wf by (simp add: tables_wf_def talks_wf_def)
  have set': "set (db_states (put_state s' d)) = insert s' (set (db_states d) - {s})"
    unfolding put_state_states by (rule distinct_put_unique [OF dist mem i])
  have ids: "map st_talk (db_states (put_state s' d)) = map st_talk (db_states d)"
    unfolding put_state_states by (rule map_put)
  then have idset: "st_talk ` set (db_states (put_state s' d)) = st_talk ` set (db_states d)"
    by (metis list.set_map)
  have "talks_wf (put_state s' d)" "one_open_talk (put_state s' d)"
    using wf ids idset unfolding tables_wf_def talks_wf_def one_open_talk_all open_talks_def put_state_frame by auto
  moreover have "t' = t" if "t' \<in> set (db_talks d)" "tk_id t' = i" for t'
    using that t wf unfolding tables_wf_def talks_wf_def by (metis distinct_map inj_onD)
  moreover have "st_talk s = i" using s find_row_Some by (fastforce simp: load_state_def)
  ultimately show ?thesis
    using wf set' ok i unfolding tables_wf_def put_state_frame actions_wf_def by auto
qed

lemma tables_cong:
  assumes "tables_wf tf v d" "db_talks d' = db_talks d" "db_states d' = db_states d" "actions_wf d'"
    "db_next d \<le> db_next d'"
  shows "tables_wf tf v d'"
  using assms unfolding tables_wf_def talks_wf_def one_open_talk_all open_talks_def by (auto intro: less_le_trans)


lemma tables_cong_actions:
  assumes "tables_wf tf v d" "db_talks d' = db_talks d" "db_states d' = db_states d"
    "db_actions d' = db_actions d" "db_next d \<le> db_next d'"
  shows "tables_wf tf v d'"
  by (rule tables_cong [OF assms(1-3) _ assms(5)])
    (use assms in \<open>auto simp: tables_wf_def actions_wf_def intro: less_le_trans\<close>)

lemma routed_target:
  assumes tf: "treeflow_wf E (te_treeflow env)" and cur: "st_node st \<in> fst ` set (tf_nodes (te_treeflow env))"
    and r: "routed_decision env cached fresh t st m d s = (Inr (d', target), s')"
  shows "target \<in> fst ` set (tf_nodes (te_treeflow env))"
proof -
  define reval where "reval = (\<lambda>x. validate_transition (te_ext env) (te_treeflow env) (st_node st)
                        (next_node_suggestion x) (routing_view_of t st x))"
  obtain t0 f where v: "reval d = (t0, f)" by fastforce
  have ok: "reval x = (y, f') \<Longrightarrow> y \<in> fst ` set (tf_nodes (te_treeflow env))" for x y f'
    using validate_transition_target [OF tf cur] by (simp add: reval_def) (metis fst_conv)
  have "run_transition_retry (te_llm env) cached fresh (inbound_text m) reval (st_node st) d t0 f s = (Inr (d', target), s')"
    using r v unfolding routed_decision_def reval_def [symmetric] by simp
  then show ?thesis
    by (rule transition_retry_cases) (use ok v cur in auto)
qed

lemma escalate_same: "same_talk t (escalate now r m t)" "talk_sound (escalate now r m t)"
  "\<not> is_closed (tk_status (escalate now r m t))"
  by (simp_all add: escalate_def same_talk_def talk_sound_def is_closed_def)

lemma same_talk_trans: "same_talk a b \<Longrightarrow> same_talk b c \<Longrightarrow> same_talk a c"
  by (simp add: same_talk_def)

lemma talk_sound_cong:
  "talk_sound (t\<lparr>tk_tokens := x\<rparr>) = talk_sound t"
  by (simp add: talk_sound_def talk_wf_def)

lemma deliver_tables:
  assumes del: "deliver env l m t' st' d target w = (Inr r, w')" and wf: "tables_wf tf v (w_db w)"
    and t: "t \<in> set (db_talks (w_db w))" "tk_id t = i" "\<not> is_closed (tk_status t)"
    and s: "load_state i (w_db w) = Some st" and same: "same_talk t t'" "st_talk st' = st_talk st"
    and sound: "talk_sound t'" and ok: "tk_version t = v \<Longrightarrow> state_wf tf st'"
  shows "tables_wf tf v (w_db w')"
proof -
  have put: "tables_wf tf v (put_talk t2 (put_state st' (w_db w)))" if "same_talk t t2" "talk_sound t2" for t2
  proof (rule tables_put_talk [OF _ _ that t(3)])
    show "tables_wf tf v (put_state st' (w_db w))"
      by (rule tables_put_state [OF wf s same(2) t(1,2) ok])
    show "t \<in> set (db_talks (put_state st' (w_db w)))" using t(1) by (simp add: put_state_frame)
  qed
  from del show ?thesis
  proof (cases rule: deliver_cases)
    case (sent tokens rr a d')
    have "tables_wf tf v (put_talk (t'\<lparr>tk_tokens := tokens\<rparr>) (put_state st' (w_db w)))"
      by (rule put) (use same sound in \<open>simp_all add: same_talk_def talk_sound_cong\<close>)
    then have "tables_wf tf v d'"
      by (rule tables_cong_actions) (use record_outbound_frame [OF sent(2)] in simp_all)
    then show ?thesis using sent(4) by simp
  next
    case (voice_failed msg a)
    have "tables_wf tf v (put_talk (escalate (te_now env) VoiceSynthesisFailed msg t') (put_state st' (w_db w)))"
      by (rule put) (use same escalate_same same_talk_trans in blast)+
    then show ?thesis
      using voice_failed(2) by (auto elim!: send_fallback_cases)
  qed
qed

lemma answer_tables:
  assumes an: "answer_turn env l m t st w = (Inr r, w')" and wf: "tables_wf tf v (w_db w)"
    and tf: "treeflow_wf E (te_treeflow env)" and tree: "tk_version t = v \<Longrightarrow> tf = te_treeflow env"
    and t: "t \<in> set (db_talks (w_db w))" "tk_id t = i" "\<not> is_closed (tk_status t)"
    and s: "load_state i (w_db w) = Some st"
  shows "tables_wf tf v (w_db w')"
  using an
proof (cases rule: answer_turn_cases)
  case (exhausted cached fresh d0 s0 msg s1)
  have "tables_wf tf v (put_talk (escalate (te_now env) ValidatorExhausted msg t) (w_db w))"
    by (rule tables_put_talk [OF wf t(1) escalate_same(1,2) t(3)])
  then show ?thesis using exhausted(3) by (auto elim!: send_fallback_cases)
next
  case (answered cached fresh d0 s0 d s1 d' target s2 t' st' d1 q1)
  note fr = apply_decision_frame [OF answered(4)]
  have ext: "db_talks d1 = db_talks (w_db w)" "db_states d1 = db_states (w_db w)" "db_next (w_db w) \<le> db_next d1"
    using fr(5) unfolding extends_def by (auto dest: arg_cong [where f = db_talks] arg_cong [where f = db_states])
  have sound: "talk_sound t'"
  proof -
    have "talk_sound t" using wf t(1) by (simp add: tables_wf_def)
    then show ?thesis
      using apply_decision_talk_wf [OF _ t(3) answered(4)] fr(4) by (auto simp: talk_sound_def)
  qed
  have st_mem: "st \<in> set (db_states (w_db w))" "st_talk st = i"
    using s find_row_Some by (fastforce simp: load_state_def)+
  have ok: "state_wf tf st'" if "tk_version t = v"
  proof -
    have st: "state_wf (te_treeflow env) st"
      using wf that t st_mem tree by (simp add: tables_wf_def)
    then have "target \<in> fst ` set (tf_nodes (te_treeflow env))"
      using routed_target [OF tf _ answered(3)] by (simp add: state_wf_def)
    then show ?thesis using apply_decision_state_wf [OF tf st _ answered(4)] tree [OF that] by blast
  qed
  show ?thesis
  proof (rule deliver_tables [OF answered(5), of tf v t i st])
    show "tables_wf tf v (w_db (w\<lparr>w_llm := s2, w_db := d1, w_queue := q1\<rparr>))"
      using tables_cong [OF wf ext(1,2) _ ext(3)] fr(6) wf by (fastforce simp: tables_wf_def [of _ _ "w_db w"])
  qed (use t s ext fr sound ok in \<open>simp_all add: load_state_def\<close>)
qed


lemma open_talk_actions:
  assumes "open_talk now tn tf ver m l d = Inr (d', t)"
  shows "db_actions d' = db_actions d"
proof -
  have "returns (open_talk now tn tf ver m l d) (\<lambda>r. db_actions (fst r) = db_actions d)"
    unfolding open_talk_def Let_def create_talk_def initialize_state_def prod.case
    by (intro returns_intro) (simp add: put_state_def)
  from returnsD [OF this assms] show ?thesis by simp
qed

lemma open_talk_tables:
  assumes op: "open_talk now tn tf ver m l d = Inr (d', t)" and wf: "tables_wf tf' v d"
    and tf: "treeflow_wf E tf" and tree: "tv_id ver = v \<Longrightarrow> tf' = tf" and d': "talks_wf d'" "one_open_talk d'"
  shows "tables_wf tf' v d'"
proof -
  have twf: "talks_wf d" using wf by (simp add: tables_wf_def)
  note eff = open_talk_effect [OF op twf]
  have e: "db_talks d' = db_talks d @ [t]" "tk_id t = db_next d" "tk_status t = Active" "tk_turns t = 0"
    "tk_closed_at t = None" "tk_closed_reason t = None" "tk_closed_by t = None" "db_next d' = Suc (db_next d)" "tk_version t = tv_id ver"
    using eff by simp_all
  obtain s where s: "db_states d' = db_states d @ [s]" "st_talk s = tk_id t" "st_node s = tf_entry tf" "st_treatment s = None"
    "map msg_content (st_messages s) = [inbound_text m]"
    using eff by (elim conjE exE)
  have "tf_entry tf \<in> fst ` set (tf_nodes tf)" using tf unfolding treeflow_wf_def by blast
  moreover have "length (st_messages s) = 1" using s(5) by (metis length_map list.size(3,4) One_nat_def add_0)
  ultimately have "state_wf tf s"
    using s by (simp add: state_wf_def treatment_opt_wf_def)
  moreover have "talk_sound t"
    using e by (simp add: talk_sound_def talk_wf_def is_closed_def)
  moreover have "st_talk s' \<noteq> tk_id t" if "s' \<in> set (db_states d)" for s'
    using twf that e(2) unfolding talks_wf_def by (metis imageE imageI less_irrefl)
  moreover have "st_talk s \<noteq> tk_id t'" if "t' \<in> set (db_talks d)" for t'
    using twf that e(2) s(2) unfolding talks_wf_def by auto
  moreover have "actions_wf d'"
    using wf open_talk_actions [OF op] e(8) by (auto simp: tables_wf_def actions_wf_def less_Suc_eq)
  ultimately show ?thesis
    using wf d' e(1,9) s(1) tree unfolding tables_wf_def by auto
qed

lemma resolve_tables:
  assumes res: "resolve_pipeline_context now tn tf ver kws m d = Inr (d', cx)"
    and wf: "tables_wf tf' v d" and tf: "treeflow_wf E tf" and tree: "tv_id ver = v \<Longrightarrow> tf' = tf"
  shows "tables_wf tf' v d'"
proof -
  have "talks_wf d" "one_open_talk d" using wf by (simp_all add: tables_wf_def)
  note d' = resolve_context_wf [OF res this]
  obtain d1 where rl: "resolve_lead now tn m d = Inr (d1, px_lead cx)"
    and cs: "d' = d1 \<or> open_talk now tn tf ver m (px_lead cx) d1 = Inr (d', px_talk cx)"
    using resolve_context_cases [OF res] by blast
  have "tables_wf tf' v d1"
    by (rule tables_cong_actions [OF wf]) (use resolve_lead_frame [OF rl] in simp_all)
  then show ?thesis using cs open_talk_tables [OF _ _ tf tree] d' by blast
qed

text \<open>Every run of the pipeline keeps the tables well-formed, whether it answers, escalates or raises.\<close>

lemma run_turn_tables:
  assumes run: "run_turn env m w = (r, w')" and wf: "tables_wf (te_treeflow env) (tv_id (te_version env)) (w_db w)"
    and tf: "treeflow_wf E (te_treeflow env)"
  shows "tables_wf (te_treeflow env) (tv_id (te_version env)) (w_db w')"
  using run
proof (cases rule: run_turn_cases)
  case optout
  then show ?thesis using wf by simp
next
  case (failed e)
  then show ?thesis using wf by simp
next
  case (banned d1 cx)
  then show ?thesis using resolve_tables [OF banned(1) wf tf refl] by simp
next
  case (rolled_back d1 cx e w1)
  then show ?thesis using resolve_tables [OF rolled_back(1) wf tf refl] by simp
next
  case (committed d1 cx res)
  note d1 = resolve_tables [OF committed(1) wf tf refl]
  have cx: "px_talk cx \<in> set (db_talks d1)" "\<not> is_closed (tk_status (px_talk cx))"
  proof -
    have "open_talks (tn_id (te_tenant env)) (ld_id (px_lead cx)) d1 = [px_talk cx]"
      using resolve_context_wf [OF committed(1)] wf by (simp add: tables_wf_def)
    then have "px_talk cx \<in> set (open_talks (tn_id (te_tenant env)) (ld_id (px_lead cx)) d1)" by simp
    then show "px_talk cx \<in> set (db_talks d1)" "\<not> is_closed (tk_status (px_talk cx))"
      by (simp_all add: open_talks_def is_open_iff)
  qed
  from committed(3) show ?thesis
  proof (cases rule: locked_turn_cases)
    case (human t st)
    then show ?thesis using d1 by simp
  next
    case (ai t st)
    have t: "t \<in> set (db_talks d1)" "tk_id t = tk_id (px_talk cx)"
      using find_row_Some [OF ai(1)] by simp_all
    then have "t = px_talk cx"
      using cx d1 unfolding tables_wf_def talks_wf_def by (metis distinct_map inj_onD)
    then show ?thesis
      using answer_tables [OF ai(4) _ tf refl, of "tv_id (te_version env)" "tk_id t"] d1 t cx ai(2) by simp
  qed
qed


text \<open>A turn leaves the inbound messages alone.\<close>

lemma open_talk_inbound:
  assumes "open_talk now tn tf ver m l d = Inr (d', t)"
  shows "db_inbound d' = db_inbound d"
proof -
  have "returns (open_talk now tn tf ver m l d) (\<lambda>r. db_inbound (fst r) = db_inbound d)"
    unfolding open_talk_def Let_def create_talk_def initialize_state_def prod.case
    by (intro returns_intro) (simp add: put_state_def)
  from returnsD [OF this assms] show ?thesis by simp
qed

lemma resolve_inbound:
  assumes "resolve_pipeline_context now tn tf ver kws m d = Inr (d', cx)"
  shows "db_inbound d' = db_inbound d"
  using resolve_context_cases [OF assms] resolve_lead_frame open_talk_inbound by metis

lemma deliver_inbound:
  assumes "deliver env l m t st d target w = (Inr r, w')"
  shows "db_inbound (w_db w') = db_inbound (w_db w)"
  using assms
proof (cases rule: deliver_cases)
  case (sent tokens rr a d')
  then show ?thesis using record_outbound_frame [OF sent(2)] by (simp add: put_frames)
next
  case (voice_failed msg a)
  then show ?thesis by (auto elim!: send_fallback_cases simp: put_frames)
qed

lemma run_turn_inbound:
  assumes run: "run_turn env m w = (r, w')"
  shows "db_inbound (w_db w') = db_inbound (w_db w)"
  using run
proof (cases rule: run_turn_cases)
  case (committed d1 cx res)
  note d1 = resolve_inbound [OF committed(1)]
  from committed(3) show ?thesis
  proof (cases rule: locked_turn_cases)
    case (human t st)
    then show ?thesis using d1 by simp
  next
    case (ai t st)
    from ai(4) show ?thesis
    proof (cases rule: answer_turn_cases)
      case (exhausted cached fresh d0 s0 msg s1)
      then show ?thesis using d1 by (auto elim!: send_fallback_cases simp: put_frames)
    next
      case (answered cached fresh d0 s0 d s1 d' target s2 t' st' d2 q1)
      have "db_inbound d2 = db_inbound d1"
        using apply_decision_frame(5) [OF answered(4)] unfolding extends_def
        by (auto dest: arg_cong [where f = db_inbound])
      then show ?thesis using deliver_inbound [OF answered(5)] d1 by simp
    qed
  qed
qed (auto dest: resolve_inbound)

subsection \<open>Deliveries, model calls and the text that is sent\<close>

text \<open>
  What the lead receives from a turn that answers: the whole reply, as text or as one audio message;
  and from a turn that escalates: at most a part of a reply, then the tenant's fallback text.
\<close>

definition reply_delivered :: "humanization_config \<Rightarrow> string option \<Rightarrow> string \<Rightarrow> delivery list \<Rightarrow> bool" where
  "reply_delivered hc to txt ds =
     ((\<exists>fmt. ds = text_deliveries to (reply_texts hc fmt txt)) \<or> (\<exists>b c. ds = [AudioTo to b c]))"

definition fallback_delivered :: "humanization_config \<Rightarrow> string option \<Rightarrow> string \<Rightarrow> delivery list \<Rightarrow> bool" where
  "fallback_delivered hc to fb ds =
     (\<exists>k fmt txt. ds = text_deliveries to (take k (reply_texts hc fmt txt)) @ [TextTo (Some (str_or to [])) fb])"

definition turn_delivered ::
  "humanization_config \<Rightarrow> guardrail_config \<Rightarrow> string option \<Rightarrow> turn_result \<Rightarrow> delivery list \<Rightarrow> bool" where
  "turn_delivered hc gc to r ds =
     (case tu_outcome r of
        Sent \<Rightarrow> (\<exists>txt. tu_text r = Some txt \<and> reply_delivered hc to txt ds)
      | Escalated \<Rightarrow> fallback_delivered hc to (gc_fallback gc) ds
      | _ \<Rightarrow> ds = [])"

context voice_channel
begin

lemma fallback_delivers:
  assumes "send_fallback env l node w = (Inr r, w')" and "te_adapter env = ad"
  shows "tu_outcome r = Escalated \<and>
    delivered (w_ad w') = delivered (w_ad w) @ [TextTo (Some (str_or (ld_e164 l) [])) (gc_fallback (te_guardrails env))]"
  using assms text_ok by (auto elim!: send_fallback_cases)

lemma send_reply_delivers:
  assumes "send_reply env l m d a = (r, a')" and "te_adapter env = ad"
    and "te_synth env = (if voice then Some synth else None)" "te_storage env = (if voice then Some store else None)"
  shows "case r of
      Inr rr \<Rightarrow> \<exists>ds. delivered a' = delivered a @ ds \<and> reply_delivered (te_humanization env) (ld_e164 l) (response_text d) ds
    | Inl e \<Rightarrow> \<exists>k. delivered a' = delivered a @
        text_deliveries (ld_e164 l) (take k (reply_texts (te_humanization env) (response_format d) (response_text d)))"
  using render_delivers [of "te_humanization env" "te_speed env" "te_voice env" voice "in_media m" "str_nat (in_id m)"
      "ld_e164 l" "response_text d" "response_format d" "voice_emotion d" a r a'] assms
  by (auto simp: send_reply_def send_response_text_def reply_delivered_def split: sum.splits)

lemma answer_delivers:
  assumes an: "answer_turn env l m t st w = (Inr r, w')" and "te_adapter env = ad"
    and "te_synth env = (if voice then Some synth else None)" "te_storage env = (if voice then Some store else None)"
  shows "\<exists>ds. delivered (w_ad w') = delivered (w_ad w) @ ds \<and>
    turn_delivered (te_humanization env) (te_guardrails env) (ld_e164 l) r ds"
  using an
proof (cases rule: answer_turn_cases)
  case (exhausted cached fresh d0 s0 msg s1)
  then show ?thesis
    using fallback_delivers [OF exhausted(3) assms(2)]
    by (auto simp: text_deliveries_def turn_delivered_def fallback_delivered_def intro!: exI [of _ 0])
next
  case (answered cached fresh d0 s0 d s1 d' target s2 t' st' d1 q1)
  from answered(5) show ?thesis
  proof (cases rule: deliver_cases)
    case (sent tokens rr a d'')
    then show ?thesis using send_reply_delivers [OF sent(1) assms(2-4)] by (auto simp: turn_delivered_def)
  next
    case (voice_failed msg a)
    then show ?thesis
      using send_reply_delivers [OF voice_failed(1) assms(2-4)] fallback_delivers [OF voice_failed(2) assms(2)]
      by (fastforce simp: turn_delivered_def fallback_delivered_def)
  qed
qed

lemma run_delivers:
  assumes run: "run_turn env m w = (Inr r, w')" and "te_adapter env = ad"
    and "te_synth env = (if voice then Some synth else None)" "te_storage env = (if voice then Some store else None)"
  shows "\<exists>to ds. delivered (w_ad w') = delivered (w_ad w) @ ds \<and>
    turn_delivered (te_humanization env) (te_guardrails env) to r ds"
  using run
proof (cases rule: run_turn_cases)
  case (committed d1 cx res)
  from committed(3) show ?thesis
  proof (cases rule: locked_turn_cases)
    case (human t st)
    then show ?thesis using committed by (auto simp: turn_delivered_def)
  next
    case (ai t st)
    then show ?thesis
      using answer_delivers [OF ai(4) assms(2-4)] committed(4) by auto
  qed
qed (auto simp: turn_delivered_def)

end

lemma invoke_calls:
  fixes cnt :: "'l \<Rightarrow> nat"
  assumes "\<And>p s. cnt (snd (llm p s)) = cnt s + 1"
  shows "cnt (snd (invoke llm p s)) = cnt s + 1"
  by (simp add: invoke_state assms)

lemma routed_calls:
  fixes cnt :: "'l \<Rightarrow> nat"
  assumes "\<And>p s. cnt (snd (te_llm env p s)) = cnt s + 1"
  shows "cnt (snd (routed_decision env cached fresh t st m d s)) \<le> cnt s + 1"
proof -
  obtain t0 f where v: "validate_transition (te_ext env) (te_treeflow env) (st_node st)
      (next_node_suggestion d) (routing_view_of t st d) = (t0, f)" by fastforce
  show ?thesis
    using transition_retry_calls [of cnt "te_llm env", OF assms] v by (simp add: routed_decision_def)
qed

lemma deliver_llm: "w_llm (snd (deliver env l m t st d target w)) = w_llm w"
  by (auto simp: deliver_def send_fallback_def Let_def split: sum.splits prod.splits pyexn.splits)

lemma send_fallback_llm: "w_llm (snd (send_fallback env l node w)) = w_llm w"
  by (auto simp: send_fallback_def split: sum.splits prod.splits)


lemma answer_calls:
  fixes cnt :: "'l \<Rightarrow> nat"
  assumes c: "\<And>p s. cnt (snd (te_llm env p s)) = cnt s + 1"
  shows "cnt (w_llm (snd (answer_turn env l m t st w))) \<le> cnt (w_llm w) + 3"
proof (cases "build_cached_layer (te_treeflow env)")
  case (Inl e)
  then show ?thesis by (simp add: answer_turn_def)
next
  case cached: (Inr cached)
  show ?thesis
  proof (cases "map_of (tf_nodes (te_treeflow env)) (st_node st)")
    case None
    then show ?thesis using cached by (simp add: answer_turn_def)
  next
    case (Some node)
    define fresh where "fresh = fresh_layer_of env node t st m"
    note unf = answer_turn_def cached Some sum.case option.case Let_def fresh_def [symmetric]
    obtain r0 s0 where f0: "first_decision env cached fresh m (w_llm w) = (r0, s0)" by fastforce
    have c0: "cnt s0 = cnt (w_llm w) + 1"
      using f0 invoke_calls [of cnt "te_llm env", OF c] by (metis first_decision_def snd_conv)
    show ?thesis
    proof (cases r0)
      case (Inl e)
      then show ?thesis using f0 c0 by (simp add: unf)
    next
      case d0: (Inr d0)
      obtain r1 s1 where f1: "guarded_decision env cached fresh m d0 s0 = (r1, s1)" by fastforce
      have c1: "cnt s1 \<le> cnt s0 + 1"
        using f1 guardrails_retry_calls [of cnt "te_llm env", OF c] unfolding guarded_decision_def
        by (smt (verit, ccfv_threshold) add_le_cancel_left le_numeral_extra(4) snd_conv zero_le_one)
      show ?thesis
      proof (cases r1)
        case (Inl e)
        then show ?thesis using f0 d0 f1 c0 c1
          by (cases e) (simp_all add: unf send_fallback_llm)
      next
        case d: (Inr d)
        obtain r2 s2 where f2: "routed_decision env cached fresh t st m d s1 = (r2, s2)" by fastforce
        have c2: "cnt s2 \<le> cnt s1 + 1"
          using f2 routed_calls [of cnt env, OF c] by (metis snd_conv)
        obtain r3 d1 q1 where f3: "apply_decision (te_ext env) (te_treeflow env) (te_now env) t st (fst (projr r2)) (snd (projr r2)) (w_db w, w_queue w) = (r3, d1, q1)"
          by (metis prod.collapse)
        show ?thesis
          using f0 d0 f1 d f2 f3 c0 c1 c2
          by (cases r2; cases r3) (auto simp: unf deliver_llm split: prod.splits)
      qed
    qed
  qed
qed

lemma transaction_llm: "w_llm (snd (transaction body w)) = w_llm (snd (body w))"
  by (auto simp: transaction_def split: prod.split sum.split)

lemma run_turn_calls:
  fixes cnt :: "'l \<Rightarrow> nat" and env :: "('l, 'a) turn_env"
  assumes c: "\<And>p s. cnt (snd (te_llm env p s)) = cnt s + 1"
  shows "cnt (w_llm (snd (run_turn env m w))) \<le> cnt (w_llm w) + 3"
proof -
  have "cnt (w_llm (snd (locked_turn env l i m w))) \<le> cnt (w_llm w) + 3" for l i and w :: "('l, 'a) world"
    using answer_calls [of cnt env, OF c] by (auto simp: locked_turn_def split: option.split)
  then have lt: "cnt (w_llm (snd (transaction (locked_turn env l i m) (w\<lparr>w_db := d\<rparr>)))) \<le> cnt (w_llm w) + 3" for l i d
    using transaction_llm by (metis world.select_convs(3) world.surjective world.update_convs(1))
  show ?thesis
    using lt by (simp add: run_turn_def split: sum.split prod.split)
qed

lemma routed_text:
  assumes r: "routed_decision env cached fresh t st m d s = (Inr (d', target), s')"
  shows "d' = d \<or> snd (validate_transition (te_ext env) (te_treeflow env) (st_node st) (next_node_suggestion d)
      (routing_view_of t st d)) \<noteq> None"
proof -
  obtain t0 f where v: "validate_transition (te_ext env) (te_treeflow env) (st_node st)
      (next_node_suggestion d) (routing_view_of t st d) = (t0, f)" by fastforce
  show ?thesis
    using r v unfolding routed_decision_def Let_def by (auto elim!: transition_retry_cases)
qed

lemma answer_text:
  assumes an: "answer_turn env l m t st w = (Inr r, w')" and sent: "tu_outcome r = Sent"
  obtains d where "vr_ok (validate_response_text (te_ext env) (response_text d) (te_guardrails env))"
    "tu_text r = Some (response_text d) \<or>
     snd (validate_transition (te_ext env) (te_treeflow env) (st_node st) (next_node_suggestion d) (routing_view_of t st d)) \<noteq> None"
  using an
proof (cases rule: answer_turn_cases)
  case (exhausted cached fresh d0 s0 msg s1)
  then show ?thesis using sent by (auto elim!: send_fallback_cases)
next
  case (answered cached fresh d0 s0 d s1 d' target s2 t' st' d1 q1)
  have "vr_ok (validate_response_text (te_ext env) (response_text d) (te_guardrails env))"
    using guardrails_retry_ok [OF answered(2) [unfolded guarded_decision_def] refl] .
  moreover have "tu_text r = Some (response_text d')"
    using answered(5) sent by (auto elim!: deliver_cases send_fallback_cases)
  ultimately show ?thesis using that [of d] routed_text [OF answered(3)] by auto
qed

text \<open>A turn that answers leaves one audit row for the new turn of the talk.\<close>


lemma answer_audit:
  assumes an: "answer_turn env l m t st w = (Inr r, w')" and sent: "tu_outcome r = Sent"
    and t: "t \<in> set (db_talks (w_db w))"
  shows "\<exists>t' \<in> set (db_talks (w_db w')). 0 < tk_turns t' \<and>
    length (filter (audit_match (tk_tenant t') (tk_id t') (tk_turns t') 0) (db_outbound (w_db w'))) = 1"
  using an
proof (cases rule: answer_turn_cases)
  case (exhausted cached fresh d0 s0 msg s1)
  then show ?thesis using sent by (auto elim!: send_fallback_cases)
next
  case (answered cached fresh d0 s0 d s1 d' target s2 t' st' d1 q1)
  note fr = apply_decision_frame [OF answered(4)]
  have turns: "0 \<le> tk_turns t" using apply_decision_decompose [OF answered(4) refl] by blast
  have d1: "db_talks d1 = db_talks (w_db w)"
    using fr(5) unfolding extends_def by (auto dest: arg_cong [where f = db_talks])
  from answered(5) show ?thesis
  proof (cases rule: deliver_cases)
    case (sent tokens rr a d'')
    let ?t = "t'\<lparr>tk_tokens := tokens\<rparr>"
    have "db_talks d'' = update_where (\<lambda>r. tk_id r = tk_id ?t) (\<lambda>_. ?t) (db_talks (w_db w))"
      using record_outbound_frame [OF sent(2)] d1 by (simp add: put_talk_talks put_state_frame)
    then have "?t \<in> set (db_talks d'')"
      using t fr(1) by (auto simp: in_set_update_where same_talk_def)
    moreover have "0 < tk_turns ?t" using fr(2) turns by simp
    ultimately show ?thesis
      using record_outbound_once [OF sent(2)] sent(4) by (intro bexI [of _ ?t]) simp_all
  next
    case (voice_failed msg a)
    then show ?thesis using sent by (auto elim!: send_fallback_cases)
  qed
qed

lemma run_audit:
  assumes run: "run_turn env m w = (Inr r, w')" and sent: "tu_outcome r = Sent"
  shows "\<exists>t \<in> set (db_talks (w_db w')). 0 < tk_turns t \<and>
    length (filter (audit_match (tk_tenant t) (tk_id t) (tk_turns t) 0) (db_outbound (w_db w'))) = 1"
  using run
proof (cases rule: run_turn_cases)
  case (committed d1 cx res)
  from committed(3) show ?thesis
  proof (cases rule: locked_turn_cases)
    case (human t st)
    then show ?thesis using sent committed(4) by simp
  next
    case (ai t st)
    have "t \<in> set (db_talks (w_db (w\<lparr>w_db := d1\<rparr>)))" using find_row_Some [OF ai(1)] by simp
    then show ?thesis using answer_audit [OF ai(4)] sent committed(4) by simp
  qed
qed (use sent in auto)

subsection \<open>Properties\<close>

definition held_db :: db where
  "held_db =
     (let d = w_db (snd (sample_run [sample_decision]))
      in d\<lparr>db_talks := map (\<lambda>t. t\<lparr>tk_mode := ModeHuman\<rparr>) (db_talks d)\<rparr>)"

definition second_world :: "(script, fake_state) world" where
  "second_world = sample_world [sample_decision] (w_db (snd (sample_run [sample_decision])))"

definition second_talk :: talk where
  "second_talk = hd (db_talks (w_db second_world))"

definition second_state :: talkflow_state where
  "second_state = hd (db_states (w_db second_world))"

definition refused_decision :: turn_decision where
  "refused_decision = sample_decision\<lparr>next_node_suggestion := Some ''fim''\<rparr>"

definition priced_decision :: turn_decision where
  "priced_decision = sample_decision\<lparr>response_text := ''Fica por R$ 99''\<rparr>"

definition voice_env :: "(script, fake_state) turn_env" where
  "voice_env =
     sample_env
       \<lparr>te_voice := Some \<lparr>vc_mode = ''always'',
                           vc_synthesis = Some \<lparr>sc_voice = ''ana'', sc_emotion = None, sc_format = ''ogg''\<rparr>,
                           vc_transcription = None, vc_fallback = False\<rparr>,
        te_synth := Some fake_synthesize, te_storage := Some fake_upload\<rparr>"

definition closing_decision :: turn_decision where
  "closing_decision = sample_decision\<lparr>collected_fields := [(''email'', JStr ''ana@x.br'')]\<rparr>"

definition reopened_run :: "(pyexn + turn_result) \<times> (script, fake_state) world" where
  "reopened_run =
     run_turn voice_env (sample_inbound 4 ''oi'')
       ((sample_world [closing_decision] sample_db)
          \<lparr>w_ad := fake_fail_next_send (Messaging TransientError ''503'') fake_init\<rparr>)"

lemma sample_tables: "tables_wf (te_treeflow sample_env) (tv_id (te_version sample_env)) sample_db"
  by code_simp

text \<open>
  C3: Every run of \<open>run_turn\<close>, whether it answers, escalates, is skipped or raises, keeps the tables
  of the conversation well-formed: every talk has exactly one runtime state, a lead has at most one
  open talk, at most one action per talk, field and value hash exists, each talk carries closing
  fields exactly when it is closed (unless it was escalated because the system was exhausted), and
  every state of a talk on this tree stands on a node of the tree, within the message window and
  with a treatment that has turns left.
\<close>

theorem run_turn_keeps_tables:
  assumes "run_turn env m w = (r, w')" and "treeflow_wf E (te_treeflow env)"
    and "tables_wf (te_treeflow env) (tv_id (te_version env)) (w_db w)"
  shows "tables_wf (te_treeflow env) (tv_id (te_version env)) (w_db w')"
  by (rule run_turn_tables [OF assms(1,3,2)])

theorem run_turn_keeps_tables_witness:
  "tables_wf sample_tree 2 (w_db (snd (sample_run [sample_decision])))"
  using run_turn_keeps_tables [of sample_env "sample_inbound 4 ''oi''" "sample_world [sample_decision] sample_db" _ _ sample_ext,
      OF prod.collapse [symmetric]] sample_tables sample_tree_wf
  by (simp add: sample_run_def sample_env_def sample_world_def sample_version_def)

text \<open>
  When \<open>run_turn\<close> raises, the database is the one it started from, or the one that the
  preprocessing has committed: nothing of the turn itself survives.
\<close>

theorem run_turn_rollback:
  assumes "run_turn env m w = (Inl e, w')"
  shows "w_db w' = w_db w \<or>
    (\<exists>cx. resolve_pipeline_context (te_now env) (te_tenant env) (te_treeflow env) (te_version env)
            (te_optout env) m (w_db w) = Inr (w_db w', cx))"
  using assms by (cases rule: run_turn_cases) auto

theorem run_turn_rollback_witness:
  "w_db (snd (sample_run [])) = sample_db \<or>
   (\<exists>cx. resolve_pipeline_context 5000 sample_tenant sample_tree sample_version [''sair'']
           (sample_inbound 4 ''oi'') sample_db = Inr (w_db (snd (sample_run [])), cx))"
proof -
  have "sample_run [] = (Inl (OtherError ''end of script''), snd (sample_run []))"
    by code_simp
  from run_turn_rollback [OF this [unfolded sample_run_def]] show ?thesis
    by (simp add: sample_run_def sample_env_def sample_world_def)
qed

text \<open>
  While a human operator holds the talk, a turn changes nothing: the model is not called, nothing
  is sent, no job is enqueued, and the outcome is \<open>skipped_human\<close>.
\<close>

theorem run_turn_human:
  assumes "tables_wf tf v (w_db w)" and "t \<in> set (db_talks (w_db w))" and "tk_mode t = ModeHuman"
  shows "\<exists>st :: talkflow_state. locked_turn env l (tk_id t) m w =
    (Inr \<lparr>tu_outcome = SkippedHuman, tu_node = Some (st_node st), tu_text = None\<rparr>, w)"
proof -
  have d: "distinct (map tk_id (db_talks (w_db w)))" and s: "tk_id t \<in> st_talk ` set (db_states (w_db w))"
    using assms(1,2) by (auto simp: tables_wf_def talks_wf_def)
  obtain t' where t': "find_row tk_id (tk_id t) (db_talks (w_db w)) = Some t'"
    using assms(2) find_row_None [of tk_id "tk_id t"] by fastforce
  then have "t' = t" using find_row_Some [OF t'] assms(2) d by (metis distinct_map inj_onD)
  moreover obtain st where "load_state (tk_id t) (w_db w) = Some st"
    using s find_row_None [of st_talk "tk_id t"] unfolding load_state_def by fastforce
  ultimately show ?thesis using t' assms(3) by - (rule exI [of _ st], simp add: locked_turn_def)
qed

theorem run_turn_human_witness:
  "\<exists>st :: talkflow_state. locked_turn sample_env sample_lead 10 (sample_inbound 5 ''alo'') (sample_world [sample_decision] held_db) =
    (Inr \<lparr>tu_outcome = SkippedHuman, tu_node = Some (st_node st), tu_text = None\<rparr>, sample_world [sample_decision] held_db)"
proof -
  have 1: "tables_wf sample_tree 2 held_db" by code_simp
  have 2: "hd (db_talks held_db) \<in> set (db_talks held_db)" "tk_mode (hd (db_talks held_db)) = ModeHuman"
    "tk_id (hd (db_talks held_db)) = 10"
    by code_simp+
  show ?thesis
    using run_turn_human [of sample_tree 2 "sample_world [sample_decision] held_db" "hd (db_talks held_db)"] 1 2
    by (simp add: sample_world_def)
qed



text \<open>C33: A turn calls the model at most three times: the answer, one guardrail retry and one transition retry.\<close>

theorem run_turn_model_calls:
  fixes cnt :: "'l \<Rightarrow> nat" and env :: "('l, 'a) turn_env"
  assumes "\<And>p s. cnt (snd (te_llm env p s)) = cnt s + 1"
  shows "cnt (w_llm (snd (run_turn env m w))) \<le> cnt (w_llm w) + 3"
  by (rule run_turn_calls [OF assms])

theorem run_turn_model_calls_witness: "fst (w_llm (snd (sample_run [sample_decision]))) \<le> 3"
  using run_turn_model_calls [of fst sample_env "sample_inbound 4 ''oi''" "sample_world [sample_decision] sample_db"]
  by (simp add: sample_env_def script_llm_counts sample_run_def sample_world_def)



text \<open>
  The guardrails do not hold of every text that is sent: when the first reply suggests a refused
  transition, the second reply is sent without a check, here with a price that is not in the
  tenant's list.
\<close>

theorem unchecked_retry_is_sent:
  "\<exists>r. fst (sample_run [refused_decision, priced_decision]) = Inr r \<and> tu_outcome r = Sent \<and>
    tu_text r = Some ''Fica por R$ 99'' \<and>
    \<not> vr_ok (validate_response_text sample_ext ''Fica por R$ 99'' sample_guardrails)"
proof -
  have "fst (sample_run [refused_decision, priced_decision]) =
      Inr \<lparr>tu_outcome = Sent, tu_node = Some ''inicio'', tu_text = Some ''Fica por R$ 99''\<rparr>"
    by code_simp
  moreover have "\<not> vr_ok (validate_response_text sample_ext ''Fica por R$ 99'' sample_guardrails)"
    by code_simp
  ultimately show ?thesis by simp
qed

text \<open>
  A turn that answers leaves exactly one audit row for the turn number that the talk has reached.
\<close>

theorem answered_audit_once:
  assumes "run_turn env m w = (Inr r, w')" and "tu_outcome r = Sent"
  shows "\<exists>t \<in> set (db_talks (w_db w')). 0 < tk_turns t \<and>
    length (filter (audit_match (tk_tenant t) (tk_id t) (tk_turns t) 0) (db_outbound (w_db w'))) = 1"
  by (rule run_audit [OF assms])

theorem answered_audit_once_witness:
  "\<exists>t \<in> set (db_talks (w_db (snd (sample_run [sample_decision])))). 0 < tk_turns t \<and>
    length (filter (audit_match (tk_tenant t) (tk_id t) (tk_turns t) 0)
      (db_outbound (w_db (snd (sample_run [sample_decision]))))) = 1"
proof -
  have "sample_run [sample_decision] =
      (Inr \<lparr>tu_outcome = Sent, tu_node = Some ''inicio'', tu_text = Some ''Ola! Qual o seu nome?''\<rparr>,
       snd (sample_run [sample_decision]))"
    using sample_run_sent by (metis prod.collapse)
  from answered_audit_once [OF this [unfolded sample_run_def]] show ?thesis
    by (simp add: sample_run_def)
qed

text \<open>
  A talk that a completion rule has just closed is put back to review when the audio of the closing
  reply cannot be sent: its status says open while its closing time, reason and author stay set.
\<close>

theorem failed_voice_reopens:
  "\<exists>t \<in> set (db_talks (w_db (snd reopened_run))).
     tk_status t = RequiresReview \<and> tk_review_reason t = Some VoiceSynthesisFailed \<and>
     tk_closed_at t = Some 5000 \<and> tk_closed_by t = Some ByPipelineHook \<and> \<not> talk_wf t"
  by code_simp

end
