(* ===== verification/Flow_Laws.thy ===== *)
theory Flow_Laws
  imports Pipeline_Laws
begin

text \<open>
  The theorems about the components of a turn: the loader, the objection machine, routing, the
  guardrails, the post-processing of a decision, the dispatch and execution of actions, the
  resolution of the context, the prompt and the humanizer.
\<close>

subsection \<open>The tree of a tenant\<close>

text \<open>
  C5: A tree that \<open>load_treeflow_v2\<close> accepts is well-formed: the entry node and every transition
  target exist, nodes are keyed by their id, tool objections carry a payload within its bounds,
  actions refer to collected fields, and life-cycle limits and completion rules are in range.
\<close>

theorem loaded_tree_wf:
  assumes "load_treeflow_v2 E y = Inr t"
  shows "treeflow_wf E t"
proof -
  obtain data where "load_treeflow_data E data = Inr t"
    using assms by (auto simp: load_treeflow_v2_def split: option.splits)
  then show ?thesis by (rule returnsD [OF load_treeflow_data_wf])
qed

theorem loaded_tree_wf_witness: "treeflow_wf sample_ext sample_tree"
  by (rule loaded_tree_wf [OF sample_load_yaml])

subsection \<open>Sample values\<close>

definition sample_talk :: talk where
  "sample_talk = (snd (create_talk 100 1 3 ''captacao'' 2 sample_db))\<lparr>tk_id := 7\<rparr>"

definition sample_state :: talkflow_state where
  "sample_state = snd (initialize_state 7 1 ''inicio'' sample_db)"

definition advancing :: turn_decision where
  "advancing = sample_decision\<lparr>collected_fields := [(''nome'', JStr ''Ana'')], next_node_suggestion := Some ''fim''\<rparr>"

definition sample_applied :: "(pyexn + talk \<times> talkflow_state) \<times> db \<times> uuid list" where
  "sample_applied =
     apply_decision sample_ext sample_tree 5000 sample_talk sample_state advancing ''fim'' (sample_db, [])"

definition acted_db :: db where
  "acted_db = fst (snd sample_applied)"

definition sample_message :: "int \<Rightarrow> message" where
  "sample_message n =
     \<lparr>msg_role = RUser, msg_content = ''oi'', msg_source = SrcLead, msg_media = MText, msg_turn = n,
      msg_timestamp = 100\<rparr>"

lemma length_filter_unique:
  assumes "distinct (map f xs)" and "k \<in> f ` set xs"
  shows "length (filter (\<lambda>x. f x = k) xs) = 1"
proof -
  have "filter (\<lambda>x. f x = k) xs = [x]" if "x \<in> set xs" "f x = k" "distinct (map f xs)" for x
    using that by (induction xs) (auto simp: filter_empty_conv image_iff)
  then show ?thesis using assms by fastforce
qed

subsection \<open>Objections\<close>

definition objecting :: turn_decision where
  "objecting = sample_decision\<lparr>detected_objection := Some ''preco''\<rparr>"

definition sample_treatment :: treatment where
  "sample_treatment =
     \<lparr>tr_objection = ''preco'', tr_started = 1, tr_turn = 1, tr_max = 2, tr_criteria = ''lead aceita o valor'',
      tr_history = []\<rparr>"

lemma sample_treatment_wf: "treatment_wf sample_treatment"
  by code_simp

text \<open>
  C6: \<open>apply\<close> refines the abstract treatment machine: it enters on a tool-mode objection, counts the
  turns down, ends by a resolution or by exhaustion, and swaps to another objection deferring the
  one it leaves; the history it records is the one of the machine.
\<close>

theorem objection_refinement:
  assumes "treeflow_wf E tf" and "treatment_opt_wf t" and "apply_objection tf node t d = Inr dl"
  shows "treat_spec (abs_treatment t) (abs_input tf node t d) =
    (abs_treatment (the (dl_treatment dl)), abs_history (dl_history dl))"
  by (rule apply_refines [OF assms])

theorem objection_refinement_witness:
  "treat_spec Idle (Enter ''preco'' 2) = (Treating ''preco'' 2, [])"
proof -
  have 1: "apply_objection sample_tree (Some ''inicio'') None objecting =
      Inr \<lparr>dl_treatment = Some (Some sample_treatment), dl_history = [], dl_review = None,
           dl_events = [(''objection.treatment.entered'', [(''objection_id'', JStr ''preco''), (''max_turns'', JInt 2)])]\<rparr>"
    by code_simp
  have 2: "abs_input sample_tree (Some ''inicio'') None objecting = Enter ''preco'' 2"
    "abs_treatment None = Idle" "abs_treatment (Some sample_treatment) = Treating ''preco'' 2" "abs_history [] = []"
    by code_simp+
  show ?thesis
    using objection_refinement [OF sample_tree_wf _ 1] 2 by (simp add: treatment_opt_wf_def)
qed

text \<open>
  On a loaded tree \<open>apply\<close> never raises, always sets the treatment, and the treatment it leaves
  has turns left and at most the ten that the loader allows.
\<close>

theorem objection_total:
  assumes "treeflow_wf E tf" and "treatment_opt_wf active"
  shows "\<exists>dl t. apply_objection tf node active d = Inr dl \<and> dl_treatment dl = Some t \<and> treatment_opt_wf t"
  by (rule apply_objection_wf [OF assms])

theorem objection_total_witness:
  "\<exists>dl t. apply_objection sample_tree (Some ''inicio'') (Some sample_treatment) objecting = Inr dl \<and>
    dl_treatment dl = Some t \<and> treatment_opt_wf t"
  by (rule objection_total [OF sample_tree_wf]) (simp add: treatment_opt_wf_def sample_treatment_wf)

text \<open>
  C28: A treatment ends: as long as no other tool-mode objection is raised, it is over after at most
  the turns it has left, whatever the model decides.
\<close>

theorem treatment_ends:
  assumes "treeflow_wf E tf" and "treatment_wf a" and "nat (tr_max a - tr_turn a) < length ds"
    and "\<forall>d \<in> set ds. \<not> cross_objection tf node a d"
  shows "\<exists>k \<le> nat (tr_max a - tr_turn a) + 1. treatments_after tf node (Some a) (take k ds) = None"
  by (rule treatment_ends_aux [OF assms])

theorem treatment_ends_witness:
  "\<exists>k \<le> nat 1 + 1. treatments_after sample_tree (Some ''inicio'') (Some sample_treatment) (take k [objecting, objecting]) = None"
proof -
  have "\<not> cross_objection sample_tree (Some ''inicio'') sample_treatment objecting"
    by (simp add: cross_objection_def objecting_def sample_treatment_def)
  then show ?thesis
    using treatment_ends [OF sample_tree_wf sample_treatment_wf, of "[objecting, objecting]" "Some ''inicio''"]
    by (simp add: sample_treatment_def)
qed

subsection \<open>Routing and guardrails\<close>

text \<open>
  \<open>validate_transition\<close> moves the conversation to another node exactly when the model suggests
  that node, the current node has a transition to it whose condition holds, no objection is being
  treated, and the exit condition of the current node is satisfied.
\<close>

theorem transition_iff:
  "(validate_transition E tf cur sg v = (s, None) \<and> s \<noteq> cur) \<longleftrightarrow>
   (sg = Some s \<and> s \<noteq> ''current'' \<and> s \<noteq> cur \<and> may_advance E tf cur s v)"
  by (cases rule: validate_transition_cases [of E tf cur sg v]) auto

text \<open>
  A reply passes the guardrails exactly when every price it mentions is in the tenant's list and,
  if the tenant lists products, a product word comes with a listed product.
\<close>

theorem guardrails_iff:
  "vr_ok (validate_response_text E text cfg) \<longleftrightarrow> prices_whitelisted E text cfg \<and> products_whitelisted text cfg"
  by (rule validate_ok_iff)

text \<open>
  The decision that \<open>run_guardrails_retry\<close> returns has passed the guardrails, whether it is the
  first one or the one of the retry.
\<close>

theorem guardrails_retry_checked:
  assumes "run_guardrails_retry E llm cached fresh txt cfg d0 (validate_response_text E (response_text d0) cfg) s = (Inr d, s')"
  shows "prices_whitelisted E (response_text d) cfg \<and> products_whitelisted (response_text d) cfg"
  using guardrails_retry_ok [OF assms refl] by (simp add: validate_ok_iff)

theorem guardrails_retry_checked_witness:
  "prices_whitelisted sample_ext ''Ola! Qual o seu nome?'' sample_guardrails"
proof -
  have "run_guardrails_retry sample_ext script_llm [] (\<lambda>c. []) [] sample_guardrails
      (sample_decision\<lparr>response_text := ''R$ 99''\<rparr>)
      (validate_response_text sample_ext (response_text (sample_decision\<lparr>response_text := ''R$ 99''\<rparr>)) sample_guardrails)
      (0, [sample_decision]) = (Inr sample_decision, (1, []))"
    by code_simp
  from guardrails_retry_checked [OF this] show ?thesis
    by (simp add: sample_decision_def)
qed

subsection \<open>Post-processing\<close>

text \<open>
  What \<open>apply_decision\<close> does to the runtime state: it stands on the validated target, has merged
  the collected fields and the facts (the off-topic counter apart), ends with the reply as its last
  message within the window of 15, and keeps its invariant.
\<close>

theorem apply_decision_state:
  assumes "apply_decision E tf now t st d target w = (Inr (t', st'), w')"
    and "treeflow_wf E' tf" and "state_wf tf st" and "target \<in> fst ` set (tf_nodes tf)"
  shows "state_wf tf st' \<and> st_node st' = target \<and>
    msg_content (last (st_messages st')) = response_text d \<and> msg_turn (last (st_messages st')) = tk_turns t + 1 \<and>
    (\<forall>k. k \<noteq> offtopic_key \<longrightarrow>
       map_of (st_collected st') k = map_of (dict_merge (st_collected st) (collected_fields d)) k) \<and>
    st_facts st' = dict_merge (st_facts st) (extracted_facts d)"
proof -
  define d1 where "d1 = fst (apply_contradiction_heuristic d)"
  obtain dl where fin: "finish_turn E tf now dl d1 (t\<lparr>tk_turns := tk_turns t + 1, tk_last_message := now\<rparr>,
      turn_state now t st d1 dl target) = Inr (t', st')"
    using apply_decision_decompose [OF assms(1) d1_def] by blast
  obtain c where c: "st' = (turn_state now t st d1 dl target)\<lparr>st_collected := c\<rparr>"
    "\<forall>k. k \<noteq> offtopic_key \<longrightarrow> map_of c k = map_of (st_collected (turn_state now t st d1 dl target)) k"
    using finish_turn_state [OF fin] by blast
  have "last (take_last 15 (ms @ [m])) = m" for ms :: "message list" and m
    by (simp add: take_last_def)
  then show ?thesis
    using apply_decision_state_wf [OF assms(2,3,4,1)] c by (simp add: turn_state_def d1_def)
qed

theorem apply_decision_state_witness:
  "state_wf sample_tree (snd (projr (fst sample_applied))) \<and> st_node (snd (projr (fst sample_applied))) = ''fim''"
proof -
  have 1: "apply_decision sample_ext sample_tree 5000 sample_talk sample_state advancing ''fim'' (sample_db, []) =
      (Inr (fst (projr (fst sample_applied)), snd (projr (fst sample_applied))), snd sample_applied)"
    by code_simp
  have "state_wf sample_tree sample_state" by code_simp
  moreover have "''fim'' \<in> fst ` set (tf_nodes sample_tree)" by code_simp
  ultimately show ?thesis
    using apply_decision_state [OF 1 sample_tree_wf] by blast
qed

text \<open>
  C19: \<open>apply_decision\<close> turns an open, well-formed talk into a well-formed one with one more turn: a
  completion rule closes it and leaves its review fields alone, or it stays open and its closing
  fields stay as they were; both never happen in the same turn.
\<close>

theorem apply_decision_talk:
  assumes "apply_decision E tf now t st d target w = (Inr (t', st'), w')"
    and "talk_wf t" and "\<not> is_closed (tk_status t)"
  shows "talk_wf t' \<and> tk_turns t' = tk_turns t + 1 \<and>
    ((is_closed (tk_status t') \<and> tk_closed_at t' = Some now \<and> tk_closed_by t' = Some ByPipelineHook \<and>
        tk_review_reason t' = tk_review_reason t \<and> tk_escalated_at t' = tk_escalated_at t) \<or>
     (\<not> is_closed (tk_status t') \<and> tk_closed_at t' = None \<and> tk_closed_reason t' = None \<and> tk_closed_by t' = None))"
proof -
  define d1 where "d1 = fst (apply_contradiction_heuristic d)"
  obtain dl where fin: "finish_turn E tf now dl d1 (t\<lparr>tk_turns := tk_turns t + 1, tk_last_message := now\<rparr>,
      turn_state now t st d1 dl target) = Inr (t', st')"
    using apply_decision_decompose [OF assms(1) d1_def] by blast
  have "talk_wf t'" by (rule apply_decision_talk_wf [OF assms(2,3,1)])
  moreover have "tk_turns t' = tk_turns t + 1"
    using finish_turn_same [OF fin] by simp
  ultimately show ?thesis
    using finish_turn_exclusive [OF fin] assms(2,3) by (auto simp: talk_wf_def)
qed

theorem apply_decision_talk_witness: "tk_turns (fst (projr (fst sample_applied))) = 1"
proof -
  have 1: "apply_decision sample_ext sample_tree 5000 sample_talk sample_state advancing ''fim'' (sample_db, []) =
      (Inr (fst (projr (fst sample_applied)), snd (projr (fst sample_applied))), snd sample_applied)"
    by code_simp
  have "talk_wf sample_talk" "\<not> is_closed (tk_status sample_talk)" "tk_turns sample_talk = 0" by code_simp+
  then show ?thesis using apply_decision_talk [OF 1] by simp
qed

subsection \<open>Actions\<close>

text \<open>
  C16: Dispatching the actions of a node creates exactly one execution for a collected field with a
  given value, however often the turn is repeated: a second dispatch changes nothing and enqueues
  nothing.
\<close>

theorem dispatch_exactly_once:
  assumes "actions_wf (fst w)" and "a \<in> set (nd_on_collected nd)"
    and "map_of (collected_fields d) (oc_field a) = Some v"
    and "render_params E (oc_params a) (build_template_context st d l t) = Inr ps"
  shows "length (filter (\<lambda>r. ax_key r = (tk_id t, oc_field a, hash_value E v))
      (db_actions (fst (dispatch_actions E st d nd t l w)))) = 1 \<and>
    dispatch_actions E st d nd t l (dispatch_actions E st d nd t l w) = dispatch_actions E st d nd t l w"
proof -
  have "nd_on_collected nd \<noteq> []" using assms(2) by auto
  then have "(tk_id t, oc_field a, hash_value E v) \<in> action_keys (fst (dispatch_actions E st d nd t l w))"
    using dispatch_specs_covers [OF assms(2,3,4)] by (simp add: dispatch_actions_def)
  moreover have "distinct (map ax_key (db_actions (fst (dispatch_actions E st d nd t l w))))"
    using dispatch_actions_ok(2) [OF assms(1)] by (simp add: actions_wf_def)
  ultimately show ?thesis
    unfolding action_keys_def by (simp add: length_filter_unique dispatch_actions_idem)
qed

theorem dispatch_exactly_once_witness:
  "length (filter (\<lambda>r. ax_key r = (7, ''nome'', ''Ana''))
      (db_actions (fst (dispatch_actions sample_ext sample_state advancing sample_inicio sample_talk sample_lead (sample_db, []))))) = 1"
proof -
  have 1: "actions_wf (fst (sample_db, [] :: uuid list))" by code_simp
  have 2: "nd_on_collected sample_inicio = [\<lparr>oc_field = ''nome'', oc_adapter = ''crm'', oc_handler = ''criar'',
      oc_params = [(''lead'', JStr ''{{ lead.id }}'')]\<rparr>]" by code_simp
  have 3: "map_of (collected_fields advancing) ''nome'' = Some (JStr ''Ana'')" by code_simp
  have 4: "render_params sample_ext [(''lead'', JStr ''{{ lead.id }}'')]
      (build_template_context sample_state advancing sample_lead sample_talk) = Inr [(''lead'', JStr ''{{ lead.id }}'')]"
    by code_simp
  have 5: "tk_id sample_talk = 7" "hash_value sample_ext (JStr ''Ana'') = ''Ana''" by code_simp+
  show ?thesis
    using dispatch_exactly_once [OF 1, of "hd (nd_on_collected sample_inicio)" sample_inicio advancing "JStr ''Ana''"
        sample_ext sample_state sample_lead sample_talk] 2 3 4 5 by simp
qed

text \<open>
  The job of a pending action, run as often as the attempts left allow and whatever its adapter
  does, ends without an exception and leaves the action succeeded, or failed after exactly three
  attempts.
\<close>

theorem action_job_terminal:
  assumes "find_row ax_id i (db_actions d) = Some a" and "int n = max_attempts - ax_attempts a" and "0 < n"
  shows "\<exists>d' w' a'. run_job exn_str tenant_cfg registry n i (d, w) = (Inr (), d', w') \<and>
    find_row ax_id i (db_actions d') = Some a' \<and> ax_attempts a' \<le> max_attempts \<and>
    (ax_status a' = Succeeded \<or> ax_status a' = Failed \<and> ax_attempts a' = max_attempts)"
  by (rule run_job_terminal [OF assms])

theorem action_job_terminal_witness:
  "\<exists>d' w' a'. run_job exn_text (\<lambda>t. True) (\<lambda>n. None) 3 10 (acted_db, ()) = (Inr (), d', w') \<and>
    find_row ax_id 10 (db_actions d') = Some a' \<and> ax_attempts a' \<le> max_attempts \<and>
    (ax_status a' = Succeeded \<or> ax_status a' = Failed \<and> ax_attempts a' = max_attempts)"
proof -
  have "find_row ax_id 10 (db_actions acted_db) = Some (hd (db_actions acted_db))"
    "max_attempts - ax_attempts (hd (db_actions acted_db)) = 3"
    by code_simp+
  then show ?thesis by (intro action_job_terminal) simp_all
qed

subsection \<open>Preprocessing\<close>

text \<open>
  A message opts out exactly when one of the tenant's keywords occurs in it as a whole word, case
  ignored: with a word boundary at both ends.
\<close>

theorem opt_out_iff:
  "match_opt_out s kws \<longleftrightarrow> (\<exists>kw \<in> set kws. whole_word (py_lower kw) (py_lower s))"
  by (rule match_opt_out_iff)

text \<open>
  Whatever message comes in, the context that the preprocessing resolves is the single open talk of
  its lead, with its runtime state, and the tables stay well-formed.
\<close>

theorem context_single_open_talk:
  assumes "resolve_pipeline_context now tn tf ver kws m d = Inr (d', cx)"
    and "talks_wf d" and "one_open_talk d"
  shows "talks_wf d' \<and> one_open_talk d' \<and> px_talk cx \<in> set (db_talks d') \<and>
    open_talks (tn_id tn) (ld_id (px_lead cx)) d' = [px_talk cx] \<and> (\<exists>s. load_state (tk_id (px_talk cx)) d' = Some s)"
  by (rule resolve_context_wf [OF assms])

theorem context_single_open_talk_witness:
  "\<exists>d' cx. resolve_pipeline_context 5000 sample_tenant sample_tree sample_version [''sair''] (sample_inbound 4 ''oi'')
      sample_db = Inr (d', cx) \<and> open_talks 1 (ld_id (px_lead cx)) d' = [px_talk cx]"
proof -
  define res where "res = resolve_pipeline_context 5000 sample_tenant sample_tree sample_version [''sair'']
      (sample_inbound 4 ''oi'') sample_db"
  have "\<not> isl res" unfolding res_def by code_simp
  then obtain d' cx where r: "res = Inr (d', cx)" by (cases res) auto
  have "talks_wf sample_db" "one_open_talk sample_db" "tn_id sample_tenant = 1" by code_simp+
  then show ?thesis
    using context_single_open_talk [OF r [unfolded res_def]] r by (auto simp: res_def)
qed

subsection \<open>Prompt, humanizer and window\<close>

text \<open>
  The prompt of a turn speaks of no node but the current one and the targets of its transitions.
\<close>

theorem prompt_nodes:
  "set (concat (map section_nodes (build_fresh_layer node nexts coll facts objs history turn now active corr txt vm))) =
   insert (nd_id node) (nd_id ` fst ` set nexts)"
  by (rule fresh_layer_nodes)

text \<open>
  Cutting a reply into humanized messages loses no visible character, and every message but the
  first is delayed within the tenant's bounds.
\<close>

theorem humanized_reply:
  assumes "humanize c speed v text = Inr cs" and "visible (hc_delimiter c) = []"
    and "hc_min_delay c \<le> hc_max_delay c"
  shows "visible (concat (map ch_text cs)) = visible text \<and>
    (\<forall>x \<in> set (tl cs). hc_min_delay c \<le> ch_delay x \<and> ch_delay x \<le> hc_max_delay c)"
  using humanize_keeps_text [OF assms(1,2)] humanize_delays [OF assms(3)] assms(1) by (cases cs) auto

theorem humanized_reply_witness:
  "visible (concat (map ch_text (projr (humanize default_humanization (\<lambda>n. 10) False
     (''Oi'' @ [CHR 10, CHR 10] @ ''tudo bem?''))))) = visible ''Oitudo bem?''"
proof -
  define h where "h = humanize default_humanization (\<lambda>n. 10) False (''Oi'' @ [CHR 10, CHR 10] @ ''tudo bem?'')"
  have 1: "h = Inr (projr h)" unfolding h_def by code_simp
  have 2: "visible (hc_delimiter default_humanization) = []"
    "hc_min_delay default_humanization \<le> hc_max_delay default_humanization" by code_simp+
  have "visible (''Oi'' @ [CHR 10, CHR 10] @ ''tudo bem?'') = visible ''Oitudo bem?''" by code_simp
  then show ?thesis
    using humanized_reply [OF 1 [unfolded h_def] 2] by simp
qed

text \<open>
  The rolling window of a conversation is always the last \<open>n\<close> of all the messages ever appended:
  what was evicted earlier never matters.
\<close>

theorem message_window:
  assumes "1 \<le> n"
  shows "append_all n ms (s\<lparr>st_messages := take_last (nat n) xs\<rparr>) =
    Inr (s\<lparr>st_messages := take_last (nat n) (xs @ ms)\<rparr>)"
  by (rule append_all_window [OF assms])

theorem message_window_witness:
  "append_all 2 [sample_message 3] (sample_state\<lparr>st_messages := take_last (nat 2) [sample_message 1, sample_message 2]\<rparr>) =
   Inr (sample_state\<lparr>st_messages := [sample_message 2, sample_message 3]\<rparr>)"
  using message_window [of 2 "[sample_message 3]" "[sample_message 1, sample_message 2]" sample_state]
  by (simp add: take_last_def)

end
