(* ===== verification/Webhook.thy ===== *)
theory Webhook
  imports Channel Repositories Once_Table
begin

text \<open>
  Ingestion of provider messages: \<open>messaging/ingest.py\<close> and the webhook routes of
  \<open>api/routes/webhooks.py\<close>.  The adapter registry is a parameter that yields, for a tenant and a
  provider, the adapter's \<open>handle_inbound\<close> and \<open>verification_challenge\<close>.  A request is one
  transaction: the database changes only when it commits.
\<close>

subsection \<open>Ingestion\<close>

definition find_or_create_lead_by_address ::
  "time \<Rightarrow> uuid \<Rightarrow> string \<Rightarrow> string \<Rightarrow> db \<Rightarrow> pyexn + (db \<times> lead)" where
  "find_or_create_lead_by_address now tenant_id provider address d =
     (if provider \<noteq> ''whatsapp_cloud'' then Inl (OtherError ''NotImplementedError'')
      else bindE (scalar_one_or_none
                    (filter (\<lambda>l. ld_tenant l = tenant_id \<and> ld_e164 l = Some address) (db_leads d))) (\<lambda>existing.
           case existing of
             Some l \<Rightarrow> Inr (d, l)
           | None \<Rightarrow> insert_lead (new_lead now tenant_id address [] PendingAssignment) d))"

type_synonym inbound_key = "uuid \<times> string \<times> string"

definition in_key :: "inbound \<Rightarrow> inbound_key" where
  "in_key m = (in_tenant m, in_provider m, in_external m)"

definition inbound_keys :: "db \<Rightarrow> inbound_key set" where
  "inbound_keys d = in_key ` set (db_inbound d)"

definition insert_inbound :: "inbound \<Rightarrow> db \<Rightarrow> db \<times> uuid option" where
  \<comment> \<open>\<open>INSERT \<dots> ON CONFLICT (tenant_id, provider, external_id) DO NOTHING\<close>\<close>
  "insert_inbound m d =
     (if \<exists>r \<in> set (db_inbound d). in_key r = in_key m then (d, None)
      else (d\<lparr>db_inbound := db_inbound d @ [m\<lparr>in_id := db_next d\<rparr>], db_next := Suc (db_next d)\<rparr>,
            Some (db_next d)))"

interpretation inb: once_table insert_inbound inbound_keys in_key
proof
  fix m :: inbound and d :: db
  show "in_key m \<in> inbound_keys d \<Longrightarrow> insert_inbound m d = (d, None)"
    by (auto simp: insert_inbound_def inbound_keys_def)
  show "in_key m \<notin> inbound_keys d \<Longrightarrow> snd (insert_inbound m d) \<noteq> None"
    by (auto simp: insert_inbound_def inbound_keys_def image_iff)
  show "inbound_keys (fst (insert_inbound m d)) = insert (in_key m) (inbound_keys d)"
  proof (cases "\<exists>r \<in> set (db_inbound d). in_key r = in_key m")
    case True
    then have "in_key m \<in> in_key ` set (db_inbound d)" by (metis imageI)
    then show ?thesis using True by (auto simp: insert_inbound_def inbound_keys_def)
  next
    case False
    then show ?thesis by (simp add: insert_inbound_def inbound_keys_def) (simp add: in_key_def)
  qed
qed

definition inbound_row :: "time \<Rightarrow> uuid \<Rightarrow> string \<Rightarrow> uuid \<Rightarrow> inbound_msg \<Rightarrow> inbound" where
  "inbound_row now tenant_id provider lead_id m =
     \<lparr>in_id = 0, in_tenant = tenant_id, in_provider = provider, in_external = im_external m,
      in_lead = Some lead_id, in_from = im_from m, in_text = im_text m, in_received = im_received m,
      in_ingested = now, in_status = Queued, in_processed_at = None, in_error = None,
      in_media = im_media m, in_media_key = None, in_audio_url = None, in_transcription = None,
      in_confidence = None, in_transcriber = None, in_raw = im_raw m\<rparr>"

definition ingest_inbound_message ::
  "time \<Rightarrow> uuid \<Rightarrow> string \<Rightarrow> inbound_msg \<Rightarrow> db \<Rightarrow> pyexn + (db \<times> bool \<times> uuid)" where
  \<comment> \<open>the Boolean tells \<open>queued\<close> from \<open>skipped_dedupe\<close>\<close>
  "ingest_inbound_message now tenant_id provider m d =
     bindE (find_or_create_lead_by_address now tenant_id provider (im_from m) d) (\<lambda>(d1, l).
     case insert_inbound (inbound_row now tenant_id provider (ld_id l) m) d1 of
       (d2, None) \<Rightarrow> Inr (d2, False, ld_id l)
     | (d2, Some _) \<Rightarrow> Inr (d2, True, ld_id l))"

subsection \<open>The routes\<close>

datatype response = Status int string | Crash pyexn

record provider_entry =
  pe_inbound :: "string \<Rightarrow> string dict \<Rightarrow> pyexn + inbound_msg list"
  pe_challenge :: "string dict \<Rightarrow> pyexn + string option"

type_synonym registry = "tenant \<Rightarrow> string \<Rightarrow> provider_entry option"

definition load_tenant :: "string \<Rightarrow> db \<Rightarrow> tenant option" where
  "load_tenant slug d = find (\<lambda>t. tn_slug t = slug) (db_tenants d)"

definition is_signature_error :: "pyexn \<Rightarrow> bool" where
  "is_signature_error e = (case e of Messaging SignatureError _ \<Rightarrow> True | _ \<Rightarrow> False)"

definition webhook_challenge :: "registry \<Rightarrow> string \<Rightarrow> string \<Rightarrow> string dict \<Rightarrow> db \<Rightarrow> response" where
  "webhook_challenge reg slug provider params d =
     (case load_tenant slug d of
        None \<Rightarrow> Status 404 ''tenant not found''
      | Some t \<Rightarrow>
          (case reg t provider of
             None \<Rightarrow> Status 404 ''provider''
           | Some pe \<Rightarrow>
               (case pe_challenge pe params of
                  Inl e \<Rightarrow> if is_signature_error e then Status 401 ''signature'' else Crash e
                | Inr None \<Rightarrow> Status 404 ''no challenge expected''
                | Inr (Some c) \<Rightarrow> Status 200 c)))"

text \<open>
  \<open>ingest_all\<close> is the loop over the messages; it collects the affected leads, each once, and the last
  preview of each.
\<close>

fun ingest_all ::
  "time \<Rightarrow> uuid \<Rightarrow> string \<Rightarrow> inbound_msg list \<Rightarrow> db \<times> (uuid \<times> string) list \<Rightarrow>
   pyexn + db \<times> (uuid \<times> string) list" where
  "ingest_all now tn provider [] w = Inr w"
| "ingest_all now tn provider (m # ms) (d, leads) =
     (case ingest_inbound_message now tn provider m d of
        Inl e \<Rightarrow> Inl e
      | Inr (d1, queued, l) \<Rightarrow>
          ingest_all now tn provider ms
            (d1, if queued then AList.update l (take 120 (im_text m)) leads else leads))"

record webhook_result =
  wh_response :: response
  wh_jobs :: "(uuid \<times> uuid) list"
  wh_published :: "(uuid \<times> string) list"

definition webhook_ingest ::
  "registry \<Rightarrow> time \<Rightarrow> string \<Rightarrow> string \<Rightarrow> string \<Rightarrow> string dict \<Rightarrow> db \<Rightarrow> webhook_result \<times> db" where
  "webhook_ingest reg now slug provider body headers d =
     (let reply = (\<lambda>r. (\<lparr>wh_response = r, wh_jobs = [], wh_published = []\<rparr>, d)) in
      case load_tenant slug d of
        None \<Rightarrow> reply (Status 404 ''tenant not found'')
      | Some t \<Rightarrow>
          (case reg t provider of
             None \<Rightarrow> reply (Status 404 ''provider'')
           | Some pe \<Rightarrow>
               (case pe_inbound pe body headers of
                  Inl e \<Rightarrow> if is_signature_error e then reply (Status 401 ''invalid signature'')
                           else reply (Crash e)
                | Inr [] \<Rightarrow> reply (Status 200 [])
                | Inr ms \<Rightarrow>
                    (case ingest_all now (tn_id t) provider ms (d, []) of
                       Inl e \<Rightarrow> reply (Crash e)
                     | Inr (d', leads) \<Rightarrow>
                         (\<lparr>wh_response = Status 200 [], wh_jobs = map (\<lambda>lp. (tn_id t, fst lp)) leads,
                           wh_published = leads\<rparr>, d')))))"

subsection \<open>Properties\<close>

definition has_lead :: "uuid \<Rightarrow> string \<Rightarrow> uuid \<Rightarrow> db \<Rightarrow> bool" where
  "has_lead tn a i d =
     (\<exists>l. filter (\<lambda>l. ld_tenant l = tn \<and> ld_e164 l = Some a) (db_leads d) = [l] \<and> ld_id l = i)"

lemma find_existing_lead:
  assumes "has_lead tn a i d"
  shows "\<exists>l. find_or_create_lead_by_address now tn ''whatsapp_cloud'' a d = Inr (d, l) \<and> ld_id l = i"
  using assms by (auto simp: has_lead_def find_or_create_lead_by_address_def scalar_one_or_none_def)

lemma insert_inbound_leads [simp]: "db_leads (fst (insert_inbound m d)) = db_leads d"
  by (simp add: insert_inbound_def)

lemma ingest_decompose:
  assumes "ingest_inbound_message now tn p m d = Inr (d', q, l)"
  obtains d1 ld where "find_or_create_lead_by_address now tn p (im_from m) d = Inr (d1, ld)"
    "d' = fst (insert_inbound (inbound_row now tn p (ld_id ld) m) d1)"
proof -
  obtain d1 ld where f: "find_or_create_lead_by_address now tn p (im_from m) d = Inr (d1, ld)"
    using assms by (auto simp: ingest_inbound_message_def bindE_eq_Inr)
  obtain d2 i where "insert_inbound (inbound_row now tn p (ld_id ld) m) d1 = (d2, i)" by fastforce
  then show ?thesis
    using that [OF f] assms f by (cases i) (simp_all add: ingest_inbound_message_def)
qed

lemma create_has_lead:
  assumes "find_or_create_lead_by_address now tn p a d = Inr (d', l)"
  shows "p = ''whatsapp_cloud'' \<and> has_lead tn a (ld_id l) d' \<and> db_inbound d' = db_inbound d \<and>
    (\<forall>tn' a' i. has_lead tn' a' i d \<longrightarrow> has_lead tn' a' i d')"
proof -
  have p: "p = ''whatsapp_cloud''"
    using assms by (auto simp: find_or_create_lead_by_address_def split: if_splits)
  let ?f = "filter (\<lambda>l. ld_tenant l = tn \<and> ld_e164 l = Some a) (db_leads d)"
  show ?thesis
  proof (cases "?f")
    case Nil
    then have ins: "insert_lead (new_lead now tn a [] PendingAssignment) d = Inr (d', l)"
      using assms p by (simp add: find_or_create_lead_by_address_def scalar_one_or_none_def)
    then have d': "db_leads d' = db_leads d @ [l]" "db_inbound d' = db_inbound d" "ld_tenant l = tn" "ld_e164 l = Some a"
      by (auto simp: insert_lead_def Let_def new_lead_def split: if_splits)
    have "has_lead tn a (ld_id l) d'" using Nil d' by (simp add: has_lead_def)
    moreover have "has_lead tn' a' i d'" if h: "has_lead tn' a' i d" for tn' a' i
    proof -
      have "\<not> (tn' = tn \<and> a' = a)" using h Nil by (auto simp: has_lead_def)
      then show ?thesis using h d' by (auto simp: has_lead_def)
    qed
    ultimately show ?thesis using p d' by blast
  next
    case (Cons x xs)
    then have "xs = []" "d' = d" "l = x"
      using assms p
      by (auto simp: find_or_create_lead_by_address_def scalar_one_or_none_def split: list.splits)
    then show ?thesis using Cons p by (auto simp: has_lead_def)
  qed
qed

text \<open>After a message has been ingested, ingesting it again changes nothing.\<close>

definition ingested :: "uuid \<Rightarrow> string \<Rightarrow> inbound_msg \<Rightarrow> db \<Rightarrow> bool" where
  "ingested tn p m d =
     (p = ''whatsapp_cloud'' \<and> (tn, p, im_external m) \<in> inbound_keys d \<and> (\<exists>i. has_lead tn (im_from m) i d))"

lemma in_key_row [simp]: "in_key (inbound_row now tn p l m) = (tn, p, im_external m)"
  by (simp add: in_key_def inbound_row_def)

lemma ingested_again:
  assumes "ingested tn p m d"
  shows "\<exists>l. ingest_inbound_message now tn p m d = Inr (d, False, l)"
proof -
  obtain i where "has_lead tn (im_from m) i d" and k: "(tn, p, im_external m) \<in> inbound_keys d"
    and p: "p = ''whatsapp_cloud''"
    using assms by (auto simp: ingested_def)
  then obtain l where l: "find_or_create_lead_by_address now tn p (im_from m) d = Inr (d, l)"
    using find_existing_lead [of tn "im_from m" i d now] by auto
  have "insert_inbound (inbound_row now tn p (ld_id l) m) d = (d, None)"
    by (rule inb.ins_dup) (simp add: k)
  then show ?thesis using l by (simp add: ingest_inbound_message_def)
qed

lemma ingest_makes_ingested:
  assumes "ingest_inbound_message now tn p m d = Inr (d', q, l)"
  shows "ingested tn p m d' \<and> (\<forall>m'. ingested tn p m' d \<longrightarrow> ingested tn p m' d')"
proof -
  obtain d1 ld where f: "find_or_create_lead_by_address now tn p (im_from m) d = Inr (d1, ld)"
    and d': "d' = fst (insert_inbound (inbound_row now tn p (ld_id ld) m) d1)"
    using assms by (rule ingest_decompose)
  have lead: "has_lead tn a i d' \<longleftrightarrow> has_lead tn a i d1" for a i
    by (simp add: d' has_lead_def)
  have keys: "inbound_keys d' = insert (tn, p, im_external m) (inbound_keys d1)"
    unfolding d' by (simp add: inb.keys_ins)
  have "inbound_keys d1 = inbound_keys d"
    using create_has_lead [OF f] by (simp add: inbound_keys_def)
  then show ?thesis
    using create_has_lead [OF f] lead keys unfolding ingested_def by fastforce
qed

lemma ingest_all_known:
  "\<forall>m \<in> set ms. ingested tn p m d \<Longrightarrow> ingest_all now tn p ms (d, ls) = Inr (d, ls)"
proof (induction ms)
  case Nil
  then show ?case by simp
next
  case (Cons m ms)
  then show ?case using ingested_again [of tn p m d now] by auto
qed

lemma ingest_all_ingested:
  "ingest_all now tn p ms (d, ls) = Inr (d', ls') \<Longrightarrow>
   (\<forall>m \<in> set ms. ingested tn p m d') \<and> (\<forall>m. ingested tn p m d \<longrightarrow> ingested tn p m d')"
proof (induction ms arbitrary: d ls)
  case Nil
  then show ?case by simp
next
  case (Cons m ms)
  then obtain d1 q l where i: "ingest_inbound_message now tn p m d = Inr (d1, q, l)"
    and rest: "ingest_all now tn p ms (d1, if q then AList.update l (take 120 (im_text m)) ls else ls) = Inr (d', ls')"
    by (auto split: sum.splits prod.splits)
  show ?case using ingest_makes_ingested [OF i] Cons.IH [OF rest] by auto
qed

lemma ingest_all_inbound_only:
  "ingest_all now tn p ms (d, ls) = Inr (d', ls') \<Longrightarrow>
   \<exists>rows. db_inbound d' = db_inbound d @ rows \<and> (\<forall>r \<in> set rows. in_status r = Queued \<and> in_tenant r = tn)"
proof (induction ms arbitrary: d ls)
  case Nil
  then show ?case by simp
next
  case (Cons m ms)
  then obtain d1 q l where i: "ingest_inbound_message now tn p m d = Inr (d1, q, l)"
    and rest: "ingest_all now tn p ms (d1, if q then AList.update l (take 120 (im_text m)) ls else ls) = Inr (d', ls')"
    by (auto split: sum.splits prod.splits)
  obtain d0 ld where f: "find_or_create_lead_by_address now tn p (im_from m) d = Inr (d0, ld)"
    and d1: "d1 = fst (insert_inbound (inbound_row now tn p (ld_id ld) m) d0)"
    using i by (rule ingest_decompose)
  have "\<exists>rows. db_inbound d1 = db_inbound d @ rows \<and> (\<forall>r \<in> set rows. in_status r = Queued \<and> in_tenant r = tn)"
    using create_has_lead [OF f] unfolding d1 by (auto simp: insert_inbound_def inbound_row_def)
  then show ?case using Cons.IH [OF rest] by fastforce
qed

end
