(* ===== verification/Whatsapp_Cloud.thy ===== *)
theory Whatsapp_Cloud
  imports Channel
begin

text \<open>
  \<open>messaging/whatsapp_cloud.py\<close>: the adapter for the WhatsApp Cloud API.  The HTTP client is a
  function on a world \<open>'h\<close>; it returns a response, or the name of a network exception.  The retry
  loop of tenacity (three attempts, only on transient errors, the last error raised again) is the
  recursion \<open>wa_attempts\<close>.  \<open>hmac\<close> and \<open>json_loads\<close> stand for the HMAC-SHA-256 in hexadecimal and
  for \<open>json.loads\<close>.
\<close>

record wa_config =
  wa_phone :: string
  wa_token :: string
  wa_verify :: string
  wa_secret :: string
  wa_version :: string

record http_response =
  hr_status :: int
  hr_json :: "jval option"
  hr_retry_after :: "string option"
  hr_content :: string

datatype http_request =
    HttpPost string jval
  | HttpUpload string string string
  | HttpGet string

type_synonym 'h http = "http_request \<Rightarrow> 'h \<Rightarrow> (string + http_response) \<times> 'h"

subsection \<open>Classification of errors\<close>

definition code_is :: "jval option \<Rightarrow> int \<Rightarrow> bool" where
  "code_is c n = (case c of Some (JInt k) \<Rightarrow> k = n | Some (JFloat r) \<Rightarrow> r = of_int n | _ \<Rightarrow> False)"

text \<open>The exception; using a truthy error that is no object as one raises \<open>AttributeError\<close>.\<close>

definition classify_error :: "(rat \<Rightarrow> string) \<Rightarrow> int \<Rightarrow> jval \<Rightarrow> int option \<Rightarrow> pyexn" where
  "classify_error fr status err retry_after =
     (case py_get (if truthy err then err else JObj []) ''code'' of
        Inl e \<Rightarrow> e
      | Inr c \<Rightarrow>
          if status = 401 \<or> status = 403 \<or> code_is c 190
            then Messaging AuthError (''WhatsApp auth error: '' @ py_repr fr err)
          else if status = 400 then
            (if code_is c 131026 \<or> code_is c 131051
               then Messaging RecipientUnreachable (''recipient unreachable: '' @ py_repr fr err)
             else if code_is c 131047
               then Messaging WindowExpiredError (''24h window expired: '' @ py_repr fr err)
             else if code_is c 131048 \<or> code_is c 131049
               then Messaging PolicyError (''policy violation: '' @ py_repr fr err)
             else Messaging PolicyError
               (''unknown 4xx: status='' @ str_int status @ '' body='' @ py_repr fr err))
          else if status = 429 then
            (let s = (case retry_after of None \<Rightarrow> 60 | Some n \<Rightarrow> if n = 0 then 60 else n)
             in Messaging (RateLimitError s) (''rate limited; retry_after_s='' @ str_int s))
          else if 500 \<le> status \<and> status < 600
            then Messaging TransientError
              (''5xx from WhatsApp: status='' @ str_int status @ '' body='' @ py_repr fr err)
          else Messaging TransientError
            (''unexpected status '' @ str_int status @ '': '' @ py_repr fr err))"

subsection \<open>Inbound\<close>

definition wa_verification_challenge :: "wa_config \<Rightarrow> string dict \<Rightarrow> pyexn + string option" where
  "wa_verification_challenge cfg ps =
     (if map_of ps ''hub.mode'' \<noteq> Some ''subscribe'' then Inr None
      else if map_of ps ''hub.verify_token'' \<noteq> Some (wa_verify cfg)
        then Inl (Messaging SignatureError ''verify token mismatch'')
      else Inr (map_of ps ''hub.challenge''))"

definition get_default :: "jval \<Rightarrow> string \<Rightarrow> jval \<Rightarrow> pyexn + jval" where
  "get_default x k dflt = bindE (py_get x k) (\<lambda>v. Inr (case v of None \<Rightarrow> dflt | Some y \<Rightarrow> y))"

definition parse_message :: "jval \<Rightarrow> pyexn + inbound_msg option" where
  "parse_message m =
     bindE (py_get m ''type'') (\<lambda>ty.
     if ty = Some (JStr ''text'') \<or> ty = Some (JStr ''audio'') then
       bindE (if ty = Some (JStr ''text'')
              then bindE (py_get m ''text'') (\<lambda>t.
                   bindE (get_default (if truthy_opt t then the t else JObj []) ''body'' (JStr [])) (\<lambda>b.
                   bindE (as_str b) (\<lambda>s. Inr (s, None))))
              else bindE (py_get m ''audio'') (\<lambda>au.
                   bindE (py_get (if truthy_opt au then the au else JObj []) ''id'') (\<lambda>i. Inr ([], i)))) (\<lambda>(body, ref).
       bindE (bindE (py_getitem m ''timestamp'') py_int) (\<lambda>ts.
       bindE (bindE (py_getitem m ''id'') as_str) (\<lambda>i.
       bindE (py_getitem m ''from'') (\<lambda>f.
       case f of
         JStr from_addr \<Rightarrow>
           Inr (Some \<lparr>im_external = i, im_from = CHR ''+'' # from_addr, im_text = body,
                      im_received = ts * 1000000, im_raw = m,
                      im_media = (if ty = Some (JStr ''audio'') then MAudio else MText),
                      im_media_ref = ref\<rparr>)
       | _ \<Rightarrow> Inl TypeError))))
     else Inr None)"

definition parse_payload :: "jval \<Rightarrow> pyexn + inbound_msg list" where
  "parse_payload payload =
     bindE (bindE (get_default payload ''entry'' (JList [])) py_iter) (\<lambda>entries.
     bindE (mapE (\<lambda>e.
       bindE (bindE (get_default e ''changes'' (JList [])) py_iter) (\<lambda>changes.
       bindE (mapE (\<lambda>c.
         bindE (get_default c ''value'' (JObj [])) (\<lambda>v.
         bindE (bindE (get_default v ''messages'' (JList [])) py_iter) (mapE parse_message))) changes) (\<lambda>r.
       Inr (concat r)))) entries) (\<lambda>r.
     Inr (List.map_filter id (concat r))))"

definition wa_handle_inbound ::
  "(string \<Rightarrow> string \<Rightarrow> string) \<Rightarrow> (string \<Rightarrow> jval option) \<Rightarrow> wa_config \<Rightarrow> string \<Rightarrow> string dict \<Rightarrow>
   pyexn + inbound_msg list" where
  "wa_handle_inbound hmac json_loads cfg body headers =
     (let sig = (case find (\<lambda>kv. py_lower (fst kv) = ''x-hub-signature-256'') headers of
                   None \<Rightarrow> [] | Some kv \<Rightarrow> snd kv)
      in if \<not> starts_with ''sha256='' sig
           then Inl (Messaging SignatureError ''missing or malformed X-Hub-Signature-256 header'')
         else if \<exists>c \<in> set sig. 128 \<le> code c then Inl TypeError
         else if ''sha256='' @ hmac (wa_secret cfg) body \<noteq> sig
           then Inl (Messaging SignatureError ''HMAC mismatch'')
         else (case json_loads body of
                 None \<Rightarrow> Inl (ValueError ''JSONDecodeError'')
               | Some payload \<Rightarrow> parse_payload payload))"

subsection \<open>Outbound\<close>

definition wa_url :: "wa_config \<Rightarrow> string \<Rightarrow> string" where
  "wa_url cfg what =
     ''https://graph.facebook.com/'' @ wa_version cfg @ ''/'' @ wa_phone cfg @ ''/'' @ what"

definition lstrip_plus :: "string \<Rightarrow> string" where
  "lstrip_plus s = dropWhile (\<lambda>c. c = CHR ''+'') s"

definition first_message_id :: "http_response \<Rightarrow> pyexn + string" where
  "first_message_id r =
     (case hr_json r of
        None \<Rightarrow> Inl (ValueError ''JSONDecodeError'')
      | Some data \<Rightarrow>
          bindE (py_getitem data ''messages'') (\<lambda>ms.
          case ms of
            JList (m # _) \<Rightarrow> bindE (py_getitem m ''id'') as_str
          | JList [] \<Rightarrow> Inl (OtherError ''IndexError'')
          | _ \<Rightarrow> Inl TypeError))"

definition error_body :: "http_response \<Rightarrow> jval" where
  \<comment> \<open>\<open>response.json().get("error")\<close>, or \<open>None\<close> on any exception\<close>
  "error_body r =
     (case hr_json r of Some (JObj d) \<Rightarrow> (case map_of d ''error'' of None \<Rightarrow> JNull | Some e \<Rightarrow> e) | _ \<Rightarrow> JNull)"

definition response_error :: "(rat \<Rightarrow> string) \<Rightarrow> http_response \<Rightarrow> pyexn" where
  "response_error fr r =
     (case hr_retry_after r of
        None \<Rightarrow> classify_error fr (hr_status r) (error_body r) None
      | Some s \<Rightarrow>
          if s = [] then classify_error fr (hr_status r) (error_body r) None
          else (case int_of_str s of
                  None \<Rightarrow> ValueError ''int''
                | Some n \<Rightarrow> classify_error fr (hr_status r) (error_body r) (Some n)))"

definition wa_max_attempts :: nat where
  "wa_max_attempts = 3"

fun wa_attempts ::
  "(rat \<Rightarrow> string) \<Rightarrow> 'h http \<Rightarrow> http_request \<Rightarrow> nat \<Rightarrow> 'h \<Rightarrow> (pyexn + string) \<times> 'h" where
  "wa_attempts fr http req 0 h = (Inl (OtherError ''RuntimeError''), h)"
| "wa_attempts fr http req (Suc n) h =
     (case http req h of
        (Inl e, h1) \<Rightarrow> (Inl (OtherError e), h1)
      | (Inr r, h1) \<Rightarrow>
          if hr_status r = 200 then (first_message_id r, h1)
          else (let e = response_error fr r in
                if is_transient e \<and> n \<noteq> 0 then wa_attempts fr http req n h1 else (Inl e, h1)))"

definition text_body :: "string \<Rightarrow> string \<Rightarrow> jval" where
  "text_body to t =
     JObj [(''messaging_product'', JStr ''whatsapp''), (''to'', JStr (lstrip_plus to)),
           (''type'', JStr ''text''), (''text'', JObj [(''body'', JStr t)])]"

definition wa_send_text ::
  "(rat \<Rightarrow> string) \<Rightarrow> 'h http \<Rightarrow> wa_config \<Rightarrow> string option \<Rightarrow> string \<Rightarrow> 'h \<Rightarrow> (pyexn + string) \<times> 'h" where
  "wa_send_text fr http cfg to t h =
     (case to of
        None \<Rightarrow> (Inl AttributeError, h)
      | Some addr \<Rightarrow>
          wa_attempts fr http (HttpPost (wa_url cfg ''messages'') (text_body addr t)) wa_max_attempts h)"

definition template_body :: "string \<Rightarrow> string \<Rightarrow> string \<Rightarrow> string list \<Rightarrow> jval" where
  "template_body to ref lang ps =
     JObj [(''messaging_product'', JStr ''whatsapp''), (''to'', JStr (lstrip_plus to)),
           (''type'', JStr ''template''),
           (''template'', JObj ([(''name'', JStr ref), (''language'', JObj [(''code'', JStr lang)])] @
              (if ps = [] then []
               else [(''components'', JList [JObj [(''type'', JStr ''body''),
                       (''parameters'', JList (map (\<lambda>p. JObj [(''type'', JStr ''text''), (''text'', JStr p)]) ps))]])])))]"

definition wa_send_template ::
  "(rat \<Rightarrow> string) \<Rightarrow> 'h http \<Rightarrow> wa_config \<Rightarrow> string option \<Rightarrow> string \<Rightarrow> string \<Rightarrow> string list \<Rightarrow> 'h \<Rightarrow>
   (pyexn + string) \<times> 'h" where
  "wa_send_template fr http cfg to ref lang ps h =
     (case to of
        None \<Rightarrow> (Inl AttributeError, h)
      | Some addr \<Rightarrow>
          wa_attempts fr http (HttpPost (wa_url cfg ''messages'') (template_body addr ref lang ps))
            wa_max_attempts h)"

text \<open>\<open>(x.json() or {}).get("error")\<close>, raising when the body is no JSON object.\<close>

definition strict_error_body :: "http_response \<Rightarrow> pyexn + jval" where
  "strict_error_body r =
     (case hr_json r of
        None \<Rightarrow> Inl (ValueError ''JSONDecodeError'')
      | Some v \<Rightarrow> bindE (py_get (if truthy v then v else JObj []) ''error'')
                   (\<lambda>e. Inr (case e of None \<Rightarrow> JNull | Some x \<Rightarrow> x)))"

definition strict_error :: "(rat \<Rightarrow> string) \<Rightarrow> http_response \<Rightarrow> pyexn" where
  "strict_error fr r =
     (case strict_error_body r of Inl e \<Rightarrow> e | Inr b \<Rightarrow> classify_error fr (hr_status r) b None)"

definition wa_send_audio ::
  "(rat \<Rightarrow> string) \<Rightarrow> 'h http \<Rightarrow> wa_config \<Rightarrow> string option \<Rightarrow> string \<Rightarrow> string \<Rightarrow> 'h \<Rightarrow> (pyexn + string) \<times> 'h" where
  "wa_send_audio fr http cfg to audio ctype h =
     (case http (HttpUpload (wa_url cfg ''media'') ctype audio) h of
        (Inl e, h1) \<Rightarrow> (Inl (OtherError e), h1)
      | (Inr up, h1) \<Rightarrow>
          if hr_status up \<noteq> 200 then (Inl (strict_error fr up), h1)
          else (case bindE (case hr_json up of None \<Rightarrow> Inl (ValueError ''JSONDecodeError'')
                            | Some v \<Rightarrow> py_getitem v ''id'') (\<lambda>mid.
                     case to of None \<Rightarrow> Inl AttributeError
                     | Some addr \<Rightarrow>
                         Inr (JObj [(''messaging_product'', JStr ''whatsapp''), (''to'', JStr (lstrip_plus addr)),
                                    (''type'', JStr ''audio''), (''audio'', JObj [(''id'', mid)])])) of
                  Inl e \<Rightarrow> (Inl e, h1)
                | Inr body \<Rightarrow>
                    (case http (HttpPost (wa_url cfg ''messages'') body) h1 of
                       (Inl e, h2) \<Rightarrow> (Inl (OtherError e), h2)
                     | (Inr r, h2) \<Rightarrow>
                         if hr_status r \<noteq> 200 then (Inl (strict_error fr r), h2)
                         else (first_message_id r, h2))))"

definition wa_download_media ::
  "(rat \<Rightarrow> string) \<Rightarrow> 'h http \<Rightarrow> wa_config \<Rightarrow> string \<Rightarrow> 'h \<Rightarrow> (pyexn + string \<times> string) \<times> 'h" where
  "wa_download_media fr http cfg ref h =
     (case http (HttpGet (''https://graph.facebook.com/'' @ wa_version cfg @ ''/'' @ ref)) h of
        (Inl e, h1) \<Rightarrow> (Inl (OtherError e), h1)
      | (Inr meta, h1) \<Rightarrow>
          if hr_status meta \<noteq> 200 then (Inl (strict_error fr meta), h1)
          else (case hr_json meta of
                  None \<Rightarrow> (Inl (ValueError ''JSONDecodeError''), h1)
                | Some info \<Rightarrow>
                    (case bindE (py_getitem info ''url'') as_str of
                       Inl e \<Rightarrow> (Inl e, h1)
                     | Inr url \<Rightarrow>
                         (case http (HttpGet url) h1 of
                            (Inl e, h2) \<Rightarrow> (Inl (OtherError e), h2)
                          | (Inr blob, h2) \<Rightarrow>
                              if hr_status blob \<noteq> 200
                              then (Inl (classify_error fr (hr_status blob) JNull None), h2)
                              else (bindE (bindE (get_default info ''mime_type'' (JStr ''audio/ogg'')) as_str)
                                      (\<lambda>mime. Inr (hr_content blob, mime)), h2)))))"

definition wa_mark_as_typing :: "'h http \<Rightarrow> wa_config \<Rightarrow> string option \<Rightarrow> 'h \<Rightarrow> (pyexn + unit) \<times> 'h" where
  "wa_mark_as_typing http cfg to h =
     (case to of
        None \<Rightarrow> (Inl AttributeError, h)
      | Some addr \<Rightarrow>
          (Inr (), snd (http (HttpPost (wa_url cfg ''messages'')
             (JObj [(''messaging_product'', JStr ''whatsapp''), (''to'', JStr (lstrip_plus addr)),
                    (''typing_indicator'', JObj [(''type'', JStr ''text'')])])) h)))"

definition wa_adapter :: "(rat \<Rightarrow> string) \<Rightarrow> 'h http \<Rightarrow> wa_config \<Rightarrow> 'h adapter" where
  "wa_adapter fr http cfg =
     \<lparr>ad_send_text = wa_send_text fr http cfg, ad_send_template = wa_send_template fr http cfg,
      ad_send_audio = wa_send_audio fr http cfg, ad_download = wa_download_media fr http cfg,
      ad_typing = wa_mark_as_typing http cfg\<rparr>"

subsection \<open>Properties\<close>

text \<open>The classification as a table of the HTTP status and the provider's error code.\<close>

definition error_kind :: "int \<Rightarrow> jval option \<Rightarrow> int option \<Rightarrow> msg_error" where
  "error_kind status c ra =
     (if status \<in> {401, 403} \<or> code_is c 190 then AuthError
      else if status = 400 then
        (if code_is c 131026 \<or> code_is c 131051 then RecipientUnreachable
         else if code_is c 131047 then WindowExpiredError else PolicyError)
      else if status = 429 then RateLimitError (case ra of None \<Rightarrow> 60 | Some n \<Rightarrow> if n = 0 then 60 else n)
      else TransientError)"

lemma classify_error_object:
  "\<exists>msg. classify_error fr status (JObj d) ra = Messaging (error_kind status (map_of d ''code'') ra) msg"
proof -
  define c where "c = map_of d ''code''"
  have c: "py_get (if truthy (JObj d) then JObj d else JObj []) ''code'' = Inr c"
    by (simp add: py_get_def c_def)
  consider "status \<in> {401, 403} \<or> code_is c 190"
    | "\<not> (status \<in> {401, 403} \<or> code_is c 190)" "status = 400" "code_is c 131026 \<or> code_is c 131051"
    | "\<not> (status \<in> {401, 403} \<or> code_is c 190)" "status = 400" "\<not> (code_is c 131026 \<or> code_is c 131051)" "code_is c 131047"
    | "\<not> (status \<in> {401, 403} \<or> code_is c 190)" "status = 400" "\<not> (code_is c 131026 \<or> code_is c 131051)" "\<not> code_is c 131047"
    | "\<not> (status \<in> {401, 403} \<or> code_is c 190)" "status = 429"
    | "\<not> (status \<in> {401, 403} \<or> code_is c 190)" "status \<noteq> 400" "status \<noteq> 429"
    by blast
  then show ?thesis
    unfolding classify_error_def c sum.case error_kind_def c_def [symmetric]
    by cases (simp_all add: Let_def)
qed

lemma error_kind_transient:
  "is_transient (Messaging (error_kind status c ra) msg) \<longleftrightarrow>
   status \<notin> {400, 401, 403} \<and> \<not> code_is c 190"
  by (simp add: error_kind_def is_transient_def)

text \<open>
  A send issues the same request at least once and at most three times, in any world that counts
  the requests.
\<close>

lemma wa_attempts_count:
  assumes count: "\<And>h. cnt (snd (http req h)) = cnt h + (1::nat)" and n: "0 < n"
  shows "cnt h < cnt (snd (wa_attempts fr http req n h)) \<and> cnt (snd (wa_attempts fr http req n h)) \<le> cnt h + n"
  using n
proof (induction n arbitrary: h)
  case 0
  then show ?case by simp
next
  case (Suc n)
  obtain r h1 where r: "http req h = (r, h1)" by fastforce
  have c1: "cnt h1 = cnt h + 1" using count [of h] r by simp
  show ?case
  proof (cases "\<exists>x. r = Inr x \<and> hr_status x \<noteq> 200 \<and> is_transient (response_error fr x) \<and> n \<noteq> 0")
    case True
    then show ?thesis using Suc.IH [of h1] r c1 by (auto simp: Let_def)
  next
    case False
    then show ?thesis using r c1 by (cases r) (auto simp: Let_def)
  qed
qed

text \<open>
  Against a server that answers with a given sequence of responses, the result of a send is that of
  the first response that is not a transient error, or of the third one.
\<close>

fun script_http :: "http_response list http" where
  "script_http req [] = (Inl ''ConnectError'', [])"
| "script_http req (r # rs) = (Inr r, rs)"

definition retryable :: "(rat \<Rightarrow> string) \<Rightarrow> http_response \<Rightarrow> bool" where
  "retryable fr r = (hr_status r \<noteq> 200 \<and> is_transient (response_error fr r))"

definition outcome :: "(rat \<Rightarrow> string) \<Rightarrow> http_response \<Rightarrow> pyexn + string" where
  "outcome fr r = (if hr_status r = 200 then first_message_id r else Inl (response_error fr r))"

lemma wa_attempts_script:
  "0 < n \<Longrightarrow> n \<le> length rs \<Longrightarrow>
   (let k = min (n - 1) (length (takeWhile (retryable fr) rs))
    in wa_attempts fr script_http req n rs = (outcome fr (rs ! k), drop (Suc k) rs))"
proof (induction n arbitrary: rs)
  case 0
  then show ?case by simp
next
  case (Suc n)
  then obtain r rs' where rs: "rs = r # rs'" by (cases rs) auto
  show ?case
  proof (cases "retryable fr r \<and> n \<noteq> 0")
    case True
    define k where "k = min (n - 1) (length (takeWhile (retryable fr) rs'))"
    have k: "min n (length (takeWhile (retryable fr) rs)) = Suc k"
      using True by (cases n) (auto simp: rs k_def)
    have "wa_attempts fr script_http req (Suc n) rs = wa_attempts fr script_http req n rs'"
      using True by (simp add: rs retryable_def Let_def)
    also have "\<dots> = (outcome fr (rs' ! k), drop (Suc k) rs')"
      using Suc.IH [of rs'] Suc.prems True by (simp add: rs k_def Let_def)
    finally show ?thesis using k by (simp add: rs)
  next
    case False
    have "min n (length (takeWhile (retryable fr) rs)) = 0"
      using False by (auto simp: rs)
    then show ?thesis using False by (auto simp: rs retryable_def outcome_def Let_def)
  qed
qed

end
