(* ===== verification/Channel_Laws.thy ===== *)
theory Channel_Laws
  imports Webhook Whatsapp_Cloud Pipeline_Laws
begin

text \<open>
  The theorems about the boundary: the errors and retries of the WhatsApp Cloud adapter, the webhook
  and what a message of an unknown sender meets in the pipeline.
\<close>

subsection \<open>The WhatsApp Cloud adapter\<close>

text \<open>
  A refused send is classified by the HTTP status and the provider's error code exactly as the
  table \<open>error_kind\<close> says, whatever else the error body contains.
\<close>

theorem error_classification:
  "\<exists>msg. classify_error fr status (JObj d) ra = Messaging (error_kind status (map_of d ''code'') ra) msg"
  by (rule classify_error_object)

text \<open>
  \<open>send_text\<close> retries transient errors only, and at most twice: against a server that answers
  with a given sequence of responses, its result is that of the first response that is not a
  transient error, or of the third one, and it consumes exactly the responses up to that one.
\<close>

theorem send_text_retries:
  assumes "3 \<le> length rs"
  shows "let k = min 2 (length (takeWhile (retryable fr) rs))
    in wa_send_text fr script_http cfg (Some to) t rs = (outcome fr (rs ! k), drop (Suc k) rs)"
  using wa_attempts_script [of wa_max_attempts rs fr "HttpPost (wa_url cfg ''messages'') (text_body to t)"] assms
  by (simp add: wa_send_text_def wa_max_attempts_def)

definition http_reply :: "int \<Rightarrow> jval \<Rightarrow> http_response" where
  "http_reply n v = \<lparr>hr_status = n, hr_json = Some v, hr_retry_after = None, hr_content = []\<rparr>"

definition sample_wa :: wa_config where
  "sample_wa = \<lparr>wa_phone = ''1'', wa_token = ''t'', wa_verify = ''v'', wa_secret = ''s'', wa_version = ''v20.0''\<rparr>"

definition flaky :: "http_response list" where
  "flaky = [http_reply 503 JNull, http_reply 200 (JObj [(''messages'', JList [JObj [(''id'', JStr ''wamid'')]])]),
            http_reply 503 JNull]"

definition sample_msg :: inbound_msg where
  "sample_msg =
     \<lparr>im_external = ''wamid.1'', im_from = ''+5522'', im_text = ''oi'', im_received = 900, im_raw = JNull,
      im_media = MText, im_media_ref = None\<rparr>"

definition sample_registry :: registry where
  "sample_registry t p =
     (if p = ''whatsapp_cloud''
      then Some \<lparr>pe_inbound = (\<lambda>body headers. Inr [sample_msg]), pe_challenge = (\<lambda>ps. Inr None)\<rparr>
      else None)"

definition signed_registry :: registry where
  "signed_registry t p =
     Some \<lparr>pe_inbound = wa_handle_inbound (\<lambda>k b. ''ab'') (\<lambda>b. None) sample_wa, pe_challenge = (\<lambda>ps. Inr None)\<rparr>"

definition after_webhook :: "webhook_result \<times> db" where
  "after_webhook = webhook_ingest sample_registry 900 ''avelum'' ''whatsapp_cloud'' [] [] sample_db"

theorem send_text_retries_witness:
  "fst (wa_send_text (\<lambda>r. []) script_http sample_wa (Some ''+55'') ''oi'' flaky) = Inr ''wamid''"
proof -
  have 1: "length flaky = 3" "length (takeWhile (retryable (\<lambda>r. [])) flaky) = 1"
    "outcome (\<lambda>r. []) (flaky ! 1) = Inr ''wamid''"
    by code_simp+
  show ?thesis
    using send_text_retries [of flaky "\<lambda>r. []" sample_wa "''+55''" "''oi''"] 1 by simp
qed

subsection \<open>The webhook\<close>

lemma webhook_ok_cases:
  assumes "webhook_ingest reg now slug provider body headers d = (res, d')" and "wh_response res = Status 200 []"
  obtains (empty) t pe where "load_tenant slug d = Some t" "reg t provider = Some pe"
      "pe_inbound pe body headers = Inr []" "d' = d" "res = \<lparr>wh_response = Status 200 [], wh_jobs = [], wh_published = []\<rparr>"
    | (stored) t pe m ms leads where "load_tenant slug d = Some t" "reg t provider = Some pe"
      "pe_inbound pe body headers = Inr (m # ms)" "ingest_all now (tn_id t) provider (m # ms) (d, []) = Inr (d', leads)"
  using assms
  by (auto simp: webhook_ingest_def Let_def split: option.splits sum.splits list.splits if_splits)

lemma ingest_all_tenants:
  "ingest_all now tn p ms (d, ls) = Inr (d', ls') \<Longrightarrow> db_tenants d' = db_tenants d"
proof (induction ms arbitrary: d ls)
  case Nil
  then show ?case by simp
next
  case (Cons m ms)
  then obtain d1 q l where i: "ingest_inbound_message now tn p m d = Inr (d1, q, l)"
    and rest: "ingest_all now tn p ms (d1, if q then AList.update l (take 120 (im_text m)) ls else ls) = Inr (d', ls')"
    by (auto split: sum.splits prod.splits)
  obtain d0 ld where f: "find_or_create_lead_by_address now tn p (im_from m) d = Inr (d0, ld)"
    and d1: "d1 = fst (insert_inbound (inbound_row now tn p (ld_id ld) m) d0)"
    using i by (rule ingest_decompose)
  have "db_tenants d0 = db_tenants d"
    using f by (auto simp: find_or_create_lead_by_address_def bindE_eq_Inr insert_lead_def Let_def
        split: if_splits option.splits)
  then have "db_tenants d1 = db_tenants d" by (simp add: d1 insert_inbound_def)
  then show ?case using Cons.IH [OF rest] by simp
qed

text \<open>
  C17: Webhook deliveries are idempotent: when the provider delivers again a payload that was accepted,
  it is accepted again, nothing is stored, no job is enqueued and nothing is published.
\<close>

theorem webhook_redelivery:
  assumes "webhook_ingest reg now slug provider body headers d = (res, d')" and "wh_response res = Status 200 []"
  shows "webhook_ingest reg now' slug provider body headers d' =
    (\<lparr>wh_response = Status 200 [], wh_jobs = [], wh_published = []\<rparr>, d')"
  using assms
proof (cases rule: webhook_ok_cases)
  case (empty t pe)
  then show ?thesis by (simp add: webhook_ingest_def)
next
  case (stored t pe m ms leads)
  have "\<forall>m' \<in> set (m # ms). ingested (tn_id t) provider m' d'"
    using ingest_all_ingested [OF stored(4)] by blast
  then have "ingest_all now' (tn_id t) provider (m # ms) (d', []) = Inr (d', [])"
    by (rule ingest_all_known)
  moreover have "load_tenant slug d' = Some t"
    using ingest_all_tenants [OF stored(4)] stored(1) by (simp add: load_tenant_def)
  ultimately show ?thesis
    using stored by (simp add: webhook_ingest_def del: ingest_all.simps)
qed

text \<open>
  A request whose signature is missing, malformed or not the HMAC of its body is answered with 401
  and changes nothing.
\<close>

theorem forged_request_rejected:
  assumes "load_tenant slug d = Some t" and "reg t provider = Some pe"
    and "pe_inbound pe = wa_handle_inbound hmac json_loads cfg"
    and "\<forall>kv \<in> set headers. \<forall>c \<in> set (snd kv). code c < 128"
    and "\<forall>kv \<in> set headers. py_lower (fst kv) = ''x-hub-signature-256'' \<longrightarrow>
      snd kv \<noteq> ''sha256='' @ hmac (wa_secret cfg) body"
  shows "webhook_ingest reg now slug provider body headers d =
    (\<lparr>wh_response = Status 401 ''invalid signature'', wh_jobs = [], wh_published = []\<rparr>, d)"
proof -
  define sig where "sig = (case find (\<lambda>kv. py_lower (fst kv) = ''x-hub-signature-256'') headers of
                   None \<Rightarrow> [] | Some kv \<Rightarrow> snd kv)"
  have "sig \<noteq> ''sha256='' @ hmac (wa_secret cfg) body \<and> (\<forall>c \<in> set sig. code c < 128)"
  proof (cases "find (\<lambda>kv. py_lower (fst kv) = ''x-hub-signature-256'') headers")
    case None
    then show ?thesis by (simp add: sig_def)
  next
    case (Some kv)
    then have "kv \<in> set headers" "py_lower (fst kv) = ''x-hub-signature-256''"
      by (auto simp: find_Some_iff)
    then show ?thesis using assms(4,5) Some by (auto simp: sig_def)
  qed
  then have "\<exists>m. wa_handle_inbound hmac json_loads cfg body headers = Inl (Messaging SignatureError m)"
    unfolding wa_handle_inbound_def Let_def sig_def [symmetric]
    by (cases "starts_with ''sha256='' sig") (auto simp: not_le [symmetric])
  then show ?thesis
    using assms(1-3) by (auto simp: webhook_ingest_def is_signature_error_def)
qed

theorem forged_request_rejected_witness:
  "webhook_ingest signed_registry 900 ''avelum'' ''whatsapp_cloud'' ''{}'' [(''X-Hub-Signature-256'', ''sha256=00'')] sample_db =
    (\<lparr>wh_response = Status 401 ''invalid signature'', wh_jobs = [], wh_published = []\<rparr>, sample_db)"
proof (rule forged_request_rejected [of "''avelum''" sample_db sample_tenant signed_registry "''whatsapp_cloud''" _
      "\<lambda>k b. ''ab''" "\<lambda>b. None" sample_wa])
  show "load_tenant ''avelum'' sample_db = Some sample_tenant" by code_simp
  show "signed_registry sample_tenant ''whatsapp_cloud'' =
      Some \<lparr>pe_inbound = wa_handle_inbound (\<lambda>k b. ''ab'') (\<lambda>b. None) sample_wa, pe_challenge = (\<lambda>ps. Inr None)\<rparr>"
    by (simp add: signed_registry_def)
  show "\<forall>kv \<in> set [(''X-Hub-Signature-256'', ''sha256=00'')]. \<forall>c \<in> set (snd kv). code c < 128" by code_simp
qed simp_all

theorem webhook_redelivery_witness:
  "webhook_ingest sample_registry 950 ''avelum'' ''whatsapp_cloud'' [] [] (snd after_webhook) =
    (\<lparr>wh_response = Status 200 [], wh_jobs = [], wh_published = []\<rparr>, snd after_webhook)"
proof -
  have "wh_response (fst after_webhook) = Status 200 []" by code_simp
  then show ?thesis
    by (intro webhook_redelivery [of sample_registry 900 _ _ _ _ sample_db "fst after_webhook"])
      (simp_all add: after_webhook_def)
qed

text \<open>
  C34: A lead that writes for the first time through the webhook cannot be answered: the webhook stores
  its number but no channel identifier, so its first turn tries to create the lead a second time and
  violates the unique index.
\<close>

theorem webhook_lead_fails:
  assumes "\<forall>l \<in> set (db_leads d). ld_tenant l = tn_id tn \<longrightarrow>
      ld_e164 l \<noteq> Some (in_from m) \<and> map_of (ld_channels l) ''whatsapp'' \<noteq> Some (JStr (in_from m))"
    and "ingest_inbound_message now (tn_id tn) provider msg d = Inr (d', queued, lead_id)"
    and "im_from msg = in_from m" and "\<not> match_opt_out (inbound_text m) keywords"
  shows "resolve_pipeline_context now' tn tf ver keywords m d' = Inl IntegrityError"
proof -
  obtain d1 l where f: "find_or_create_lead_by_address now (tn_id tn) provider (in_from m) d = Inr (d1, l)"
    and d': "d' = fst (insert_inbound (inbound_row now (tn_id tn) provider (ld_id l) msg) d1)"
    using ingest_decompose [OF assms(2)] assms(3) by metis
  have none: "filter (\<lambda>l. ld_tenant l = tn_id tn \<and> ld_e164 l = Some (in_from m)) (db_leads d) = []"
    using assms(1) by (auto simp: filter_empty_conv)
  define nl where "nl = (new_lead now (tn_id tn) (in_from m) [] PendingAssignment)\<lparr>ld_id := db_next d\<rparr>"
  have "db_leads d1 = db_leads d @ [nl]"
    using f none by (auto simp: find_or_create_lead_by_address_def scalar_one_or_none_def insert_lead_def
        Let_def nl_def split: if_splits)
  then have leads: "db_leads d' = db_leads d @ [nl]" by (simp add: d')
  have nl: "ld_tenant nl = tn_id tn" "ld_e164 nl = Some (in_from m)" "ld_channels nl = []"
    by (simp_all add: nl_def new_lead_def)
  have "resolve_lead now' tn m d' = Inl IntegrityError"
    by (rule resolve_lead_duplicate [of _ _ _ nl]) (use assms(1) leads nl in auto)
  then show ?thesis using assms(4) by (simp add: resolve_pipeline_context_def)
qed

theorem webhook_lead_fails_witness:
  "resolve_pipeline_context 5000 sample_tenant sample_tree sample_version [''sair'']
     ((sample_inbound 11 ''oi'')\<lparr>in_from := ''+5522''\<rparr>) (snd after_webhook) = Inl IntegrityError"
proof -
  have 1: "\<forall>l \<in> set (db_leads sample_db). ld_tenant l = 1 \<longrightarrow>
      ld_e164 l \<noteq> Some ''+5522'' \<and> map_of (ld_channels l) ''whatsapp'' \<noteq> Some (JStr ''+5522'')" by code_simp
  have 2: "ingest_inbound_message 900 1 ''whatsapp_cloud'' sample_msg sample_db = Inr (snd after_webhook, True, 10)"
    by code_simp
  have 3: "\<not> match_opt_out (inbound_text ((sample_inbound 11 ''oi'')\<lparr>in_from := ''+5522''\<rparr>)) [''sair'']" by code_simp
  show ?thesis
    by (rule webhook_lead_fails [of sample_db _ _ 900 "''whatsapp_cloud''" sample_msg])
      (use 1 2 3 in \<open>simp_all add: sample_tenant_def sample_msg_def\<close>)
qed

end
