(* ===== verification/Py_Numeral.thy ===== *)
theory Py_Numeral
  imports Py_Repr
begin

text \<open>
  Reading back what \<open>str\<close> writes: the decimal numeral of a number consists of digits only and
  \<open>int\<close> yields the number again.
\<close>

lemma code_digit_char: "d < 10 \<Longrightarrow> code (digit_char d) = 48 + d"
  by (simp add: digit_char_def)

lemma is_digit_char [simp]: "d < 10 \<Longrightarrow> is_digit (digit_char d)"
  by (simp add: is_digit_def code_digit_char)

lemma int_body_digits_go: "int_body 0 (digits_go n acc) = int_body (int n) acc"
proof (induction n acc rule: digits_go.induct)
  case (1 n acc)
  show ?case
  proof (cases "n < 10")
    case True
    then show ?thesis by (simp add: digits_go.simps [of n acc] code_digit_char)
  next
    case False
    have "10 * int (n div 10) + int (n mod 10) = int n" by presburger
    then show ?thesis
      using False 1 by (simp add: digits_go.simps [of n acc] code_digit_char)
  qed
qed

lemma digits_go_digits: "(\<And>c. c \<in> set acc \<Longrightarrow> is_digit c) \<Longrightarrow> c \<in> set (digits_go n acc) \<Longrightarrow> is_digit c"
proof (induction n acc rule: digits_go.induct)
  case (1 n acc)
  show ?case
  proof (cases "n < 10")
    case True
    then show ?thesis using 1 by (auto simp: digits_go.simps [of n acc])
  next
    case False
    have "is_digit x" if "x \<in> set (digit_char (n mod 10) # acc)" for x
      using that 1(2) by auto
    then show ?thesis using 1(1) [OF False] 1(3) False by (simp add: digits_go.simps [of n acc])
  qed
qed

lemma digits_go_not_Nil: "digits_go n acc \<noteq> []"
proof (induction n acc rule: digits_go.induct)
  case (1 n acc)
  then show ?case by (cases "n < 10") (simp_all add: digits_go.simps [of n acc])
qed

lemma str_nat_digits: "c \<in> set (str_nat n) \<Longrightarrow> is_digit c"
  unfolding str_nat_def by (rule digits_go_digits [of "[]"]) simp_all

lemma str_nat_not_Nil [simp]: "str_nat n \<noteq> []"
  by (simp add: str_nat_def digits_go_not_Nil)

lemma int_unsigned_str_nat [simp]: "int_unsigned (str_nat n) = Some (int n)"
proof (cases "str_nat n")
  case (Cons c cs)
  then have "is_digit c" using str_nat_digits [of c n] by simp
  then show ?thesis
    using Cons int_body_digits_go [of n "[]"] by (simp add: int_unsigned_def str_nat_def)
qed simp

lemma str_nat_inject [simp]: "str_nat m = str_nat n \<longleftrightarrow> m = n"
  by (metis int_unsigned_str_nat of_nat_eq_iff option.inject)

lemma digit_not_space: "is_digit c \<Longrightarrow> \<not> py_isspace c"
  by (auto simp: is_digit_def py_isspace_def)

lemma strip_no_space: "(\<And>c. c \<in> set s \<Longrightarrow> \<not> py_isspace c) \<Longrightarrow> strip s = s"
proof -
  assume s: "\<And>c. c \<in> set s \<Longrightarrow> \<not> py_isspace c"
  have "dropWhile py_isspace t = t" if "set t \<subseteq> set s" for t
    using that s by (cases t) auto
  then show ?thesis by (simp add: strip_def lstrip_def)
qed

lemma int_of_str_str_int [simp]: "int_of_str (str_int z) = Some z"
proof -
  have d: "strip (str_nat n) = str_nat n" for n
    using str_nat_digits digit_not_space by (blast intro: strip_no_space)
  have m: "strip (CHR ''-'' # str_nat n) = CHR ''-'' # str_nat n" for n
    using str_nat_digits digit_not_space by (intro strip_no_space) (auto simp: py_isspace_def)
  show ?thesis
  proof (cases "z < 0")
    case True
    then show ?thesis by (simp add: int_of_str_def str_int_def m)
  next
    case False
    obtain c cs where c: "str_nat (nat z) = c # cs" by (cases "str_nat (nat z)") simp_all
    then have "is_digit c" using str_nat_digits [of c "nat z"] by simp
    then have "c \<noteq> CHR ''-''" "c \<noteq> CHR ''+''" by (auto simp: is_digit_def)
    then show ?thesis
      using False c int_unsigned_str_nat [of "nat z"] d [of "nat z"] by (simp add: int_of_str_def str_int_def)
  qed
qed

end
