(* ===== verification/Realtime.thy ===== *)
theory Realtime
  imports Sdr_Models Py_Numeral
begin

text \<open>
  The live inbox: the events and their producers (\<open>realtime/events.py\<close>, \<open>realtime/producers.py\<close>), and
  the hub that fans them out to the operators' sockets (\<open>realtime/hub.py\<close>, the connection class of
  \<open>api/routes/ws_inbox.py\<close>).  Redis is a parameter: \<open>rd_incr\<close> and \<open>rd_publish\<close> act on its state.  The
  data of a message is the JSON value that \<open>json.dumps\<close> writes and \<open>json.loads\<close> reads, \<open>None\<close> for
  bytes that are not JSON; an id is written with \<open>str_nat\<close> and read back with \<open>uuid_of_json\<close>.
\<close>

subsection \<open>Events\<close>

record instance_row =
  is_id :: uuid
  is_tenant :: uuid
  is_channel :: string

record 'r redis =
  rd_incr :: "string \<Rightarrow> 'r \<Rightarrow> (pyexn + int) \<times> 'r"
  rd_publish :: "string \<Rightarrow> jval \<Rightarrow> 'r \<Rightarrow> (pyexn + unit) \<times> 'r"

definition channel_for :: "uuid \<Rightarrow> string" where
  "channel_for i = ''inst:'' @ str_nat i"

definition envelope :: "int \<Rightarrow> string \<Rightarrow> uuid \<Rightarrow> uuid option \<Rightarrow> jval \<Rightarrow> jval" where
  "envelope n ty i lead_id payload =
     JObj [(''seq'', JInt n), (''type'', JStr ty), (''instance_id'', JStr (str_nat i)),
           (''lead_id'', (case lead_id of None \<Rightarrow> JNull | Some l \<Rightarrow> JStr (str_nat l))), (''payload'', payload)]"

definition publish_inbox_event ::
  "'r redis \<Rightarrow> uuid \<Rightarrow> string \<Rightarrow> uuid option \<Rightarrow> jval \<Rightarrow> 'r \<Rightarrow> (pyexn + int) \<times> 'r" where
  "publish_inbox_event R i ty lead_id payload s =
     (case rd_incr R (''seq:inst:'' @ str_nat i) s of
        (Inl e, s1) \<Rightarrow> (Inl e, s1)
      | (Inr n, s1) \<Rightarrow>
          (case rd_publish R (channel_for i) (envelope n ty i lead_id payload) s1 of
             (Inl e, s2) \<Rightarrow> (Inl e, s2)
           | (Inr _, s2) \<Rightarrow> (Inr n, s2)))"

definition resolve_instance_id :: "instance_row list \<Rightarrow> uuid \<Rightarrow> string \<Rightarrow> pyexn + uuid option" where
  "resolve_instance_id insts tenant_id label =
     bindE (scalar_one_or_none (filter (\<lambda>i. is_tenant i = tenant_id \<and> is_channel i = label) insts))
       (\<lambda>r. Inr (map_option is_id r))"

definition publish_message_created ::
  "'r redis \<Rightarrow> instance_row list \<Rightarrow> uuid \<Rightarrow> lead \<Rightarrow> string \<Rightarrow> 'r \<Rightarrow> (pyexn + unit) \<times> 'r" where
  "publish_message_created R insts tenant_id l preview s =
     (case resolve_instance_id insts tenant_id (ld_channel_label l) of
        Inl e \<Rightarrow> (Inl e, s)
      | Inr None \<Rightarrow> (Inr (), s)
      | Inr (Some i) \<Rightarrow>
          let lead_id = JStr (str_nat (ld_id l)) in
          (case publish_inbox_event R i ''message.created'' (Some (ld_id l))
                  (JObj [(''lead_id'', lead_id), (''preview'', JStr preview)]) s of
             (Inl e, s1) \<Rightarrow> (Inl e, s1)
           | (Inr _, s1) \<Rightarrow>
               (case publish_inbox_event R i ''contact.updated'' (Some (ld_id l))
                       (JObj [(''lead_id'', lead_id)]) s1 of
                  (Inl e, s2) \<Rightarrow> (Inl e, s2)
                | (Inr _, s2) \<Rightarrow> (Inr (), s2))))"

subsection \<open>The hub\<close>

text \<open>
  \<open>hb_conns\<close> is the dictionary from instances to sets of connections, \<open>hb_queues\<close> the bounded
  \<open>asyncio.Queue\<close> of each connection, oldest frame first.
\<close>

type_synonym conn = nat

record hub =
  hb_conns :: "(uuid \<times> conn list) list"
  hb_queues :: "conn \<Rightarrow> jval list"

definition conns_of :: "uuid \<Rightarrow> hub \<Rightarrow> conn list" where
  "conns_of i h = (case map_of (hb_conns h) i of None \<Rightarrow> [] | Some cs \<Rightarrow> cs)"

definition register :: "uuid \<Rightarrow> conn \<Rightarrow> hub \<Rightarrow> hub" where
  "register i c h = h\<lparr>hb_conns := AList.update i (List.insert c (conns_of i h)) (hb_conns h)\<rparr>"

definition unregister :: "uuid \<Rightarrow> conn \<Rightarrow> hub \<Rightarrow> hub" where
  "unregister i c h =
     (case map_of (hb_conns h) i of
        None \<Rightarrow> h
      | Some cs \<Rightarrow>
          let cs' = removeAll c cs in
          h\<lparr>hb_conns := (if cs' = [] then AList.delete i (hb_conns h) else AList.update i cs' (hb_conns h))\<rparr>)"

definition queue_size :: nat where
  "queue_size = 100"

definition offer :: "conn \<Rightarrow> jval \<Rightarrow> hub \<Rightarrow> bool \<times> hub" where
  "offer c env h =
     (if length (hb_queues h c) \<ge> queue_size then (False, h)
      else (True, h\<lparr>hb_queues := (hb_queues h)(c := hb_queues h c @ [env])\<rparr>))"

text \<open>The loop over the connections collects the dead ones, which are unregistered after it.\<close>

fun fan_out :: "jval \<Rightarrow> conn list \<Rightarrow> hub \<Rightarrow> conn list \<times> hub" where
  "fan_out env [] h = ([], h)"
| "fan_out env (c # cs) h =
     (let (ok, h1) = offer c env h; (dead, h2) = fan_out env cs h1
      in (if ok then dead else c # dead, h2))"

text \<open>
  \<open>uuid.UUID(env["instance_id"])\<close>.  \<open>UUID(None)\<close> raises \<open>TypeError\<close>, a value of another type
  \<open>AttributeError\<close>.
\<close>

definition uuid_of_json :: "jval \<Rightarrow> pyexn + uuid" where
  "uuid_of_json v =
     (case v of
        JStr s \<Rightarrow> (case int_unsigned s of None \<Rightarrow> Inl (ValueError ''badly formed'') | Some n \<Rightarrow> Inr (nat n))
      | JNull \<Rightarrow> Inl TypeError
      | _ \<Rightarrow> Inl AttributeError)"

definition env_instance :: "jval option \<Rightarrow> pyexn + uuid" where
  "env_instance data =
     (case data of
        None \<Rightarrow> Inl (ValueError ''JSONDecodeError'')
      | Some env \<Rightarrow> bindE (py_getitem env ''instance_id'') uuid_of_json)"

text \<open>
  One message of the subscription: \<open>None\<close> when the exception is not one of those the loop catches, so
  the reader ends.
\<close>

record pubsub_message =
  pm_type :: string
  pm_data :: "jval option"

definition caught_malformed :: "pyexn \<Rightarrow> bool" where
  "caught_malformed e = (case e of ValueError _ \<Rightarrow> True | KeyError _ \<Rightarrow> True | TypeError \<Rightarrow> True | _ \<Rightarrow> False)"

definition hub_message :: "pubsub_message \<Rightarrow> hub \<Rightarrow> hub option" where
  "hub_message m h =
     (if pm_type m \<noteq> ''pmessage'' then Some h
      else case env_instance (pm_data m) of
             Inl e \<Rightarrow> if caught_malformed e then Some h else None
           | Inr i \<Rightarrow>
               let (dead, h1) = fan_out (the (pm_data m)) (conns_of i h) h
               in Some (foldl (\<lambda>h c. unregister i c h) h1 dead))"

fun hub_reader :: "pubsub_message list \<Rightarrow> hub \<Rightarrow> hub" where
  "hub_reader [] h = h"
| "hub_reader (m # ms) h = (case hub_message m h of None \<Rightarrow> h | Some h' \<Rightarrow> hub_reader ms h')"

subsection \<open>Registration\<close>

definition hub_wf :: "hub \<Rightarrow> bool" where
  "hub_wf h = (distinct (map fst (hb_conns h)) \<and> (\<forall>ic \<in> set (hb_conns h). snd ic \<noteq> [] \<and> distinct (snd ic)))"

lemma conns_of_register: "conns_of j (register i c h) = (if j = i then List.insert c (conns_of i h) else conns_of j h)"
  by (simp add: conns_of_def register_def update_conv')

lemma conns_of_unregister: "conns_of j (unregister i c h) = (if j = i then removeAll c (conns_of i h) else conns_of j h)"
  by (auto simp: conns_of_def unregister_def update_conv' delete_conv' Let_def split: option.split)

lemma unregister_queues [simp]: "hb_queues (unregister i c h) = hb_queues h"
  by (simp add: unregister_def Let_def split: option.split)

lemma hub_wf_register:
  assumes "hub_wf h" shows "hub_wf (register i c h)"
proof -
  have "distinct (conns_of i h)"
    using assms by (auto simp: conns_of_def hub_wf_def split: option.split dest: map_of_SomeD)
  moreover have "kv \<in> set (AList.update i v d) \<Longrightarrow> kv = (i, v) \<or> kv \<in> set d" for kv v and d :: "(uuid \<times> conn list) list"
    by (induction d) (auto split: if_splits)
  ultimately show ?thesis
    using assms by (fastforce simp: hub_wf_def register_def distinct_update List.insert_def)
qed

lemma hub_wf_unregister:
  assumes "hub_wf h" shows "hub_wf (unregister i c h)"
proof (cases "map_of (hb_conns h) i")
  case None
  then show ?thesis using assms by (simp add: unregister_def)
next
  case (Some cs)
  have d: "distinct cs" using assms Some by (auto simp: hub_wf_def dest: map_of_SomeD)
  have m: "kv \<in> set (AList.update i v d) \<Longrightarrow> kv = (i, v) \<or> kv \<in> set d" for kv v and d :: "(uuid \<times> conn list) list"
    by (induction d) (auto split: if_splits)
  show ?thesis
  proof (cases "removeAll c cs = []")
    case True
    then show ?thesis
      using assms Some by (auto simp: hub_wf_def unregister_def AList.delete_eq distinct_map_filter)
  next
    case False
    then show ?thesis
      using assms Some d by (auto simp: hub_wf_def unregister_def distinct_update distinct_removeAll dest!: m)
  qed
qed

subsection \<open>Delivery to one connection\<close>

lemma offer_conns [simp]: "hb_conns (snd (offer c env h)) = hb_conns h"
  by (simp add: offer_def)

lemma fan_out_conns: "hb_conns (snd (fan_out env cs h)) = hb_conns h"
  by (induction cs arbitrary: h) (simp_all add: split_beta)

lemma fan_out_effect:
  assumes "distinct cs"
  shows "set (fst (fan_out env cs h)) = {c \<in> set cs. length (hb_queues h c) \<ge> queue_size} \<and>
    hb_queues (snd (fan_out env cs h)) c =
      (if c \<in> set cs \<and> length (hb_queues h c) < queue_size then hb_queues h c @ [env] else hb_queues h c)"
  using assms
proof (induction cs arbitrary: h c)
  case Nil
  then show ?case by simp
next
  case (Cons a cs)
  obtain ok h1 where o: "offer a env h = (ok, h1)" by fastforce
  have ok: "ok = (length (hb_queues h a) < queue_size)"
    and q: "hb_queues h1 x = (if x = a \<and> ok then hb_queues h a @ [env] else hb_queues h x)" for x
    using o by (auto simp: offer_def split: if_splits)
  obtain dead h2 where f: "fan_out env cs h1 = (dead, h2)" by fastforce
  have a: "a \<notin> set cs" "distinct cs" using Cons.prems by simp_all
  have "set dead = {c \<in> set cs. length (hb_queues h c) \<ge> queue_size}"
    using Cons.IH [OF a(2), of h1 c] a(1) unfolding f q by (auto split: if_splits)
  moreover have "hb_queues h2 c = (if c \<in> set cs \<and> length (hb_queues h1 c) < queue_size then hb_queues h1 c @ [env] else hb_queues h1 c)"
    using Cons.IH [OF a(2), of h1 c] unfolding f by simp
  ultimately show ?case using a(1) o f ok q by auto
qed

lemma unregister_all:
  "hb_queues (foldl (\<lambda>h c. unregister i c h) h dead) = hb_queues h \<and>
   set (conns_of j (foldl (\<lambda>h c. unregister i c h) h dead)) =
     (if j = i then set (conns_of i h) - set dead else set (conns_of j h)) \<and>
   (hub_wf h \<longrightarrow> hub_wf (foldl (\<lambda>h c. unregister i c h) h dead))"
  by (induction dead arbitrary: h) (auto simp: conns_of_unregister hub_wf_unregister)

lemma hub_wf_queues [simp]: "hub_wf (h\<lparr>hb_queues := q\<rparr>) = hub_wf h"
  by (simp add: hub_wf_def)

lemma conns_of_cong: "hb_conns h = hb_conns h' \<Longrightarrow> conns_of i h = conns_of i h' \<and> hub_wf h = hub_wf h'"
  by (simp add: conns_of_def hub_wf_def)

definition event_for :: "uuid \<Rightarrow> pubsub_message \<Rightarrow> bool" where
  "event_for i m = (pm_type m = ''pmessage'' \<and> env_instance (pm_data m) = Inr i)"

text \<open>The effect of one message on one connection of one instance.\<close>

lemma hub_message_effect:
  assumes msg: "hub_message m h = Some h'" and wf: "hub_wf h"
    and only: "\<forall>j. c \<in> set (conns_of j h) \<longrightarrow> j = i"
  shows "hub_wf h' \<and> (\<forall>j. c \<in> set (conns_of j h') \<longrightarrow> j = i) \<and>
    (c \<in> set (conns_of i h') \<longleftrightarrow> c \<in> set (conns_of i h) \<and> \<not> (event_for i m \<and> queue_size \<le> length (hb_queues h c))) \<and>
    hb_queues h' c = (if c \<in> set (conns_of i h) \<and> event_for i m \<and> length (hb_queues h c) < queue_size
                      then hb_queues h c @ [the (pm_data m)] else hb_queues h c)"
proof (cases "pm_type m = ''pmessage'' \<and> (\<exists>j. env_instance (pm_data m) = Inr j)")
  case False
  then have "h' = h" "\<not> event_for i m"
    using msg by (auto simp: hub_message_def event_for_def split: if_splits sum.splits)
  then show ?thesis using wf only by auto
next
  case True
  then obtain k where k: "pm_type m = ''pmessage''" "env_instance (pm_data m) = Inr k" by blast
  obtain dead h1 where f: "fan_out (the (pm_data m)) (conns_of k h) h = (dead, h1)" by fastforce
  have h': "h' = foldl (\<lambda>h c. unregister k c h) h1 dead" using msg k f by (simp add: hub_message_def)
  have d: "distinct (conns_of k h)"
    using wf by (auto simp: conns_of_def hub_wf_def split: option.split dest: map_of_SomeD)
  note e = fan_out_effect [OF d, of "the (pm_data m)" h c, unfolded f, simplified]
  have c1: "conns_of j h1 = conns_of j h \<and> hub_wf h1 = hub_wf h" for j
    using fan_out_conns [of "the (pm_data m)" "conns_of k h" h] f conns_of_cong by (metis snd_conv)
  note u = unregister_all [of k h1 dead]
  have sets: "set (conns_of j h') = (if j = k then set (conns_of k h) - set dead else set (conns_of j h))" for j
    unfolding h' using u [of j] c1 by simp
  have "hub_wf h'" unfolding h' using u c1 wf by simp
  moreover have "hb_queues h' c = hb_queues h1 c" unfolding h' using u by simp
  moreover have ev: "event_for i m \<longleftrightarrow> k = i" using k by (auto simp: event_for_def)
  moreover have "\<forall>j. c \<in> set (conns_of j h') \<longrightarrow> j = i" using sets only by (auto split: if_splits)
  moreover have "c \<in> set (conns_of i h') \<longleftrightarrow>
      c \<in> set (conns_of i h) \<and> \<not> (event_for i m \<and> queue_size \<le> length (hb_queues h c))"
    using sets [of i] e ev by (cases "k = i") auto
  moreover have "c \<in> set (conns_of k h) \<Longrightarrow> k = i" using only by blast
  ultimately show ?thesis using e by (cases "k = i") auto
qed

subsection \<open>Delivery of a stream of messages\<close>

definition readable :: "pubsub_message \<Rightarrow> bool" where
  \<comment> \<open>the reader survives the message\<close>
  "readable m =
     (pm_type m = ''pmessage'' \<longrightarrow>
      (case env_instance (pm_data m) of Inl e \<Rightarrow> caught_malformed e | Inr _ \<Rightarrow> True))"

lemma readable_iff: "readable m \<longleftrightarrow> hub_message m h \<noteq> None"
  by (auto simp: readable_def hub_message_def split: sum.split prod.split)

definition events_of :: "uuid \<Rightarrow> pubsub_message list \<Rightarrow> jval list" where
  "events_of i ms = map (\<lambda>m. the (pm_data m)) (filter (event_for i) ms)"

lemma hub_reader_dropped:
  assumes "hub_wf h" "\<forall>j. c \<notin> set (conns_of j h)" "\<forall>m \<in> set ms. readable m"
  shows "hb_queues (hub_reader ms h) c = hb_queues h c \<and> (\<forall>j. c \<notin> set (conns_of j (hub_reader ms h)))"
  using assms
proof (induction ms arbitrary: h)
  case Nil
  then show ?case by simp
next
  case (Cons m ms)
  obtain h' where h': "hub_message m h = Some h'" using Cons.prems(3) readable_iff [of m h] by auto
  have none: "\<forall>j. c \<in> set (conns_of j h) \<longrightarrow> j = i" for i using Cons.prems(2) by blast
  note e = hub_message_effect [OF h' Cons.prems(1) none]
  have "hub_wf h'" "hb_queues h' c = hb_queues h c" using conjunct1 [OF e [of 0]] conjunct2 [OF conjunct2 [OF e [of 0]]] Cons.prems(2) by simp_all
  moreover have "\<forall>j. c \<notin> set (conns_of j h')"
  proof
    fix j
    show "c \<notin> set (conns_of j h')" using conjunct2 [OF conjunct2 [OF e [of j]]] Cons.prems(2) by blast
  qed
  ultimately show ?case using Cons.IH [of h'] Cons.prems(3) h' by simp
qed

lemma hub_reader_stream:
  assumes "hub_wf h" "c \<in> set (conns_of i h)" "\<forall>j. c \<in> set (conns_of j h) \<longrightarrow> j = i"
    "length (hb_queues h c) \<le> queue_size" "\<forall>m \<in> set ms. readable m"
  shows "hb_queues (hub_reader ms h) c = take queue_size (hb_queues h c @ events_of i ms) \<and>
    (c \<in> set (conns_of i (hub_reader ms h)) \<longleftrightarrow> length (hb_queues h c @ events_of i ms) \<le> queue_size)"
  using assms
proof (induction ms arbitrary: h)
  case Nil
  show ?case using Nil.prems(2,4) by (simp add: events_of_def)
next
  case (Cons m ms)
  obtain h' where h': "hub_message m h = Some h'" using Cons.prems(5) readable_iff [of m h] by auto
  note e = hub_message_effect [OF h' Cons.prems(1,3)]
  have wf': "hub_wf h'" and only': "\<forall>j. c \<in> set (conns_of j h') \<longrightarrow> j = i" 
    by (rule conjunct1 [OF e], rule conjunct1 [OF conjunct2 [OF e]])
  have reg: "c \<in> set (conns_of i h') \<longleftrightarrow> \<not> (event_for i m \<and> queue_size \<le> length (hb_queues h c))"
    and q: "hb_queues h' c = (if event_for i m \<and> length (hb_queues h c) < queue_size
              then hb_queues h c @ [the (pm_data m)] else hb_queues h c)"
    using conjunct2 [OF conjunct2 [OF e]] Cons.prems(2) by simp_all
  show ?case
  proof (cases "event_for i m \<and> queue_size \<le> length (hb_queues h c)")
    case True
    have "hb_queues (hub_reader ms h') c = hb_queues h' c \<and> (\<forall>j. c \<notin> set (conns_of j (hub_reader ms h')))"
      by (rule hub_reader_dropped [OF wf']) (use only' reg True Cons.prems(5) in auto)
    then show ?thesis using True h' q Cons.prems(4) by (simp add: events_of_def)
  next
    case False
    have "hb_queues h' c @ events_of i ms = hb_queues h c @ events_of i (m # ms)"
      using q False by (auto simp: not_le events_of_def)
    moreover have "hb_queues (hub_reader ms h') c = take queue_size (hb_queues h' c @ events_of i ms) \<and>
        (c \<in> set (conns_of i (hub_reader ms h')) \<longleftrightarrow> length (hb_queues h' c @ events_of i ms) \<le> queue_size)"
      by (rule Cons.IH [OF wf' _ only']) (use reg q False Cons.prems(4,5) in \<open>auto split: if_splits\<close>)
    ultimately show ?thesis using h' by (metis hub_reader.simps(2) option.simps(5))
  qed
qed

lemma event_for_envelope:
  "event_for j \<lparr>pm_type = ''pmessage'', pm_data = Some (envelope n ty i l p)\<rparr> \<longleftrightarrow> j = i"
  by (auto simp: event_for_def env_instance_def envelope_def py_getitem_def uuid_of_json_def)

subsection \<open>Properties\<close>


definition sample_hub :: hub where
  "sample_hub = register 7 1 (register 8 2 \<lparr>hb_conns = [], hb_queues = (\<lambda>_. [])\<rparr>)"

definition sample_frames :: "pubsub_message list" where
  "sample_frames =
     map (\<lambda>i. \<lparr>pm_type = ''pmessage'', pm_data = Some (envelope 1 ''contact.updated'' i None JNull)\<rparr>) [7, 8, 7]"


end
