(* ===== verification/Worker_Inbound.thy ===== *)
theory Worker_Inbound
  imports Pipeline_Laws Realtime "HOL-Library.Word"
begin

unbundle bit_operations_syntax

text \<open>
  The worker job that drains the queued messages of one lead: the advisory lock keys
  (\<open>worker/jobs/inbound.py\<close>, \<open>db/advisory_lock.py\<close>), the normalizer of audio messages
  (\<open>voice/normalizer.py\<close>) and the loop of \<open>_run_v2_inbox\<close>.  SHA-256 is a parameter.  A row that an
  exception leaves uncommitted is gone: \<open>drain_step\<close> returns the database as the last commit left
  it.  Rows received at the same instant are taken in the order of the table.
\<close>

subsection \<open>Lock keys\<close>

definition from_bytes_big :: "8 word list \<Rightarrow> int" where
  "from_bytes_big bs = foldl (\<lambda>a b. 256 * a + uint b) 0 bs"

definition stable_lock_key :: "(string \<Rightarrow> 8 word list) \<Rightarrow> string \<Rightarrow> string \<Rightarrow> int" where
  "stable_lock_key sha256 tenant_id lead_id =
     from_bytes_big (take 8 (sha256 (tenant_id @ '':'' @ lead_id))) AND 0x7FFFFFFFFFFFFFFF"

definition lock_key :: "(string \<Rightarrow> 8 word list) \<Rightarrow> uuid \<Rightarrow> uuid \<Rightarrow> int" where
  "lock_key sha256 tenant_id lead_id =
     (let n = from_bytes_big (take 8 (sha256 (str_nat tenant_id @ '':'' @ str_nat lead_id)))
      in n AND 0x7FFFFFFFFFFFFFFF)"

subsection \<open>Audio messages\<close>

record transcription =
  trs_text :: string
  trs_confidence :: rat
  trs_provider :: string

type_synonym 'a transcriber = "string \<Rightarrow> string \<Rightarrow> 'a \<Rightarrow> (pyexn + transcription) \<times> 'a"

datatype normalize_outcome = NormProcessed | NormLowConfidence | NormUnprocessable

definition media_ref_of :: "jval \<Rightarrow> pyexn + string option" where
  \<comment> \<open>\<open>(raw.get("audio") or {}).get("id")\<close>, \<open>None\<close> when it is falsy\<close>
  "media_ref_of raw =
     bindE (py_get raw ''audio'') (\<lambda>au.
     bindE (py_get (if truthy_opt au then the au else JObj []) ''id'') (\<lambda>i.
     if truthy_opt i then bindE (as_str (the i)) (\<lambda>s. Inr (Some s)) else Inr None))"

definition archive_audio :: "'a storage \<Rightarrow> string \<Rightarrow> string \<Rightarrow> inbound \<Rightarrow> 'a \<Rightarrow> inbound \<times> 'a" where
  "archive_audio store audio ctype m a =
     (let key = ''inbound/'' @ str_nat (in_id m) @ ''.ogg'' in
      case store key audio ctype a of
        (Inl _, a1) \<Rightarrow> (m, a1)
      | (Inr url, a1) \<Rightarrow> (m\<lparr>in_media_key := Some key, in_audio_url := Some url\<rparr>, a1))"

definition normalize_inbound ::
  "'a adapter \<Rightarrow> 'a transcriber \<Rightarrow> 'a storage \<Rightarrow> transcription_cfg \<Rightarrow> inbound \<Rightarrow> 'a \<Rightarrow>
   (pyexn + normalize_outcome \<times> inbound) \<times> 'a" where
  "normalize_inbound ad tr store cfg m a =
     (if in_media m \<noteq> MAudio then (Inr (NormProcessed, m), a)
      else case media_ref_of (in_raw m) of
        Inl e \<Rightarrow> (Inl e, a)
      | Inr None \<Rightarrow> (Inr (NormUnprocessable, m), a)
      | Inr (Some ref) \<Rightarrow>
          (case ad_download ad ref a of
             (Inl _, a1) \<Rightarrow> (Inr (NormUnprocessable, m), a1)
           | (Inr (audio, ctype), a1) \<Rightarrow>
               let (m1, a2) = archive_audio store audio ctype m a1 in
               (case tr audio (tc_language cfg) a2 of
                  (Inl e, a3) \<Rightarrow> (Inl e, a3)
                | (Inr t, a3) \<Rightarrow>
                    let m2 = m1\<lparr>in_transcription := Some (trs_text t), in_confidence := Some (trs_confidence t),
                                in_transcriber := Some (trs_provider t)\<rparr> in
                    (Inr (if trs_confidence t < tc_min_confidence cfg then NormLowConfidence else NormProcessed, m2), a3))))"

subsection \<open>The queue of a lead\<close>

definition is_pending :: "uuid \<Rightarrow> inbound \<Rightarrow> bool" where
  "is_pending l m = (in_lead m = Some l \<and> in_status m = Queued)"

definition fetch_next_queued :: "uuid \<Rightarrow> db \<Rightarrow> inbound option" where
  "fetch_next_queued l d = first_min in_received (is_pending l) (db_inbound d)"

definition concat_window_seconds :: "string option \<Rightarrow> int" where
  \<comment> \<open>the argument is the environment variable\<close>
  "concat_window_seconds v =
     (case int_of_str (case v of None \<Rightarrow> ''2'' | Some s \<Rightarrow> s) of None \<Rightarrow> 2 | Some n \<Rightarrow> n)"

definition fetch_window_companions :: "uuid \<Rightarrow> inbound \<Rightarrow> int \<Rightarrow> db \<Rightarrow> inbound list" where
  "fetch_window_companions l head window d =
     sort_key in_received
       (filter (\<lambda>m. is_pending l m \<and> in_processed_at m = None \<and> in_received head \<le> in_received m \<and>
                    in_received m \<le> in_received head + window * 1000000)
          (db_inbound d))"

definition consolidate_inbound_text :: "inbound list \<Rightarrow> string" where
  "consolidate_inbound_text rows = py_join [CHR 10] (filter (\<lambda>b. b \<noteq> []) (map inbound_text rows))"

definition mark_queued_as_skipped :: "uuid \<Rightarrow> string \<Rightarrow> db \<Rightarrow> db" where
  "mark_queued_as_skipped l reason d =
     d\<lparr>db_inbound := update_where (is_pending l)
        (\<lambda>m. m\<lparr>in_status := InError, in_error := Some (''skipped: '' @ reason)\<rparr>) (db_inbound d)\<rparr>"

subsection \<open>The parameters and the state of the job\<close>

record ('l, 'a, 'r) inbox_env =
  ie_turn :: "('l, 'a) turn_env"
  ie_window :: "string option"
  ie_transcriber :: "'a transcriber option"
  ie_redis :: "'r redis option"
  ie_instances :: "instance_row list"

record ('l, 'a, 'r) inbox_state =
  ix_world :: "('l, 'a) world"
  ix_redis :: 'r

definition ix_db :: "('l, 'a, 'r) inbox_state \<Rightarrow> db" where
  "ix_db s = w_db (ix_world s)"

definition set_db :: "db \<Rightarrow> ('l, 'a, 'r) inbox_state \<Rightarrow> ('l, 'a, 'r) inbox_state" where
  "set_db d s = s\<lparr>ix_world := (ix_world s)\<lparr>w_db := d\<rparr>\<rparr>"

definition set_ad :: "'a \<Rightarrow> ('l, 'a, 'r) inbox_state \<Rightarrow> ('l, 'a, 'r) inbox_state" where
  "set_ad a s = s\<lparr>ix_world := (ix_world s)\<lparr>w_ad := a\<rparr>\<rparr>"

datatype 's step = Finished 's | Raised pyexn 's | Again 's

subsection \<open>One iteration\<close>

definition outcome_name :: "turn_outcome \<Rightarrow> string" where
  "outcome_name u =
     (case u of
        Sent \<Rightarrow> ''sent'' | Escalated \<Rightarrow> ''escalated'' | OptOut \<Rightarrow> ''opt_out'' | LeadBanned \<Rightarrow> ''lead_banned''
      | SkippedHuman \<Rightarrow> ''skipped_human'')"

text \<open>The two handlers of messaging errors: the head gets its own text back and is marked.\<close>

definition turn_failed :: "lead \<Rightarrow> inbound \<Rightarrow> inbound \<Rightarrow> msg_error \<Rightarrow> string \<Rightarrow> db \<Rightarrow> db" where
  "turn_failed l head m k err d =
     (if k = RecipientUnreachable
      then put_inbound (m\<lparr>in_text := in_text head, in_status := InError, in_error := Some (''unreachable: '' @ err)\<rparr>)
             (d\<lparr>db_leads := update_where (\<lambda>r. ld_id r = ld_id l)
                 (\<lambda>r. r\<lparr>ld_status := Unreachable, ld_unreachable_reason := Some (''unreachable: '' @ err)\<rparr>) (db_leads d)\<rparr>)
      else put_inbound (m\<lparr>in_text := in_text head, in_status := InError,
                          in_error := Some (msg_error_name k @ '': '' @ err)\<rparr>) d)"

definition turn_done :: "time \<Rightarrow> turn_outcome \<Rightarrow> inbound \<Rightarrow> inbound" where
  "turn_done now u m =
     (if u = Sent then m\<lparr>in_status := Processed, in_processed_at := Some now\<rparr>
      else if u = OptOut \<or> u = LeadBanned \<or> u = Escalated
        then m\<lparr>in_status := Processed, in_processed_at := Some now, in_error := Some (''v2_outcome: '' @ outcome_name u)\<rparr>
      else m\<lparr>in_status := InError, in_error := Some (''v2_outcome: '' @ outcome_name u)\<rparr>)"

definition companion_done :: "time \<Rightarrow> inbound \<Rightarrow> inbound" where
  "companion_done now r =
     r\<lparr>in_status := Processed, in_processed_at := Some now, in_error := Some ''concatenated_with_head''\<rparr>"

definition publish_reply ::
  "('l, 'a, 'r) inbox_env \<Rightarrow> lead \<Rightarrow> turn_result \<Rightarrow> ('l, 'a, 'r) inbox_state \<Rightarrow> ('l, 'a, 'r) inbox_state" where
  "publish_reply env l r s =
     (case ie_redis env of
        None \<Rightarrow> s
      | Some R \<Rightarrow>
          if tu_outcome r = Sent
          then s\<lparr>ix_redis := snd (publish_message_created R (ie_instances env) (tn_id (te_tenant (ie_turn env))) l
                   (take 120 (str_or (tu_text r) [])) (ix_redis s))\<rparr>
          else s)"

text \<open>
  The turn of a head and its companions.  \<open>run_turn\<close> commits what the session holds, the text of the
  head included, once the preprocessing has succeeded; an exception that is not a messaging error
  leaves the loop, and the job rolls back what is not committed.
\<close>

definition answer_head ::
  "('l, 'a, 'r) inbox_env \<Rightarrow> lead \<Rightarrow> inbound \<Rightarrow> inbound list \<Rightarrow> inbound \<Rightarrow> ('l, 'a, 'r) inbox_state \<Rightarrow>
   ('l, 'a, 'r) inbox_state step" where
  "answer_head env l head extras m s =
     (let te = ie_turn env; now = te_now te; d0 = put_inbound m (ix_db s) in
      case run_turn te m (ix_world (set_db d0 s)) of
        (Inl (Messaging k err), w) \<Rightarrow>
          Finished (s\<lparr>ix_world := w\<lparr>w_db := turn_failed l head m k err (w_db w)\<rparr>\<rparr>)
      | (Inl e, w) \<Rightarrow>
          Raised e (s\<lparr>ix_world := w\<lparr>w_db :=
            (case resolve_pipeline_context now (te_tenant te) (te_treeflow te) (te_version te) (te_optout te) m d0 of
               Inl _ \<Rightarrow> ix_db s
             | Inr _ \<Rightarrow> w_db w)\<rparr>\<rparr>)
      | (Inr r, w) \<Rightarrow>
          Again (publish_reply env l r
            (s\<lparr>ix_world := w\<lparr>w_db :=
               foldl (\<lambda>d r. put_inbound (companion_done now r) d)
                 (put_inbound (turn_done now (tu_outcome r) m) (w_db w)) extras\<rparr>\<rparr>)))"

definition ask_for_text :: string where
  "ask_for_text =
     ''N'' @ [CHR 0xE3] @ ''o consegui entender o '' @ [CHR 0xE1] @ ''udio, pode mandar por escrito?''"

text \<open>
  The head's audio, if any, is turned into text first; a message that cannot be understood is
  answered with a request to write and taken off the queue alone.
\<close>

definition hear_head ::
  "('l, 'a, 'r) inbox_env \<Rightarrow> lead \<Rightarrow> inbound \<Rightarrow> inbound list \<Rightarrow> inbound \<Rightarrow> ('l, 'a, 'r) inbox_state \<Rightarrow>
   ('l, 'a, 'r) inbox_state step" where
  "hear_head env l head extras m s =
     (let te = ie_turn env in
      case (ie_transcriber env, te_storage te) of
        (Some tr, Some store) \<Rightarrow>
          if in_media m = MAudio
          then (case Option.bind (te_voice te) vc_transcription of
                  None \<Rightarrow> Raised AttributeError s
                | Some cfg \<Rightarrow>
                    (case normalize_inbound (te_adapter te) tr store cfg m (w_ad (ix_world s)) of
                       (Inl e, a) \<Rightarrow> Raised e (set_ad a s)
                     | (Inr (u, m1), a) \<Rightarrow>
                         if u = NormProcessed then answer_head env l head extras m1 (set_ad a s)
                         else (case ad_send_text (te_adapter te) (Some (in_from m1)) ask_for_text a of
                                 (Inl e, a1) \<Rightarrow> Raised e (set_ad a1 s)
                               | (Inr _, a1) \<Rightarrow>
                                   Again (set_db (put_inbound (m1\<lparr>in_status := Processed, in_processed_at := Some (te_now te)\<rparr>)
                                            (ix_db s)) (set_ad a1 s)))))
          else answer_head env l head extras m s
      | _ \<Rightarrow> answer_head env l head extras m s)"

definition companions_of :: "('l, 'a, 'r) inbox_env \<Rightarrow> lead \<Rightarrow> inbound \<Rightarrow> ('l, 'a, 'r) inbox_state \<Rightarrow> inbound list" where
  "companions_of env l head s =
     fetch_window_companions (ld_id l) head (concat_window_seconds (ie_window env)) (ix_db s)"

definition extras_of :: "('l, 'a, 'r) inbox_env \<Rightarrow> lead \<Rightarrow> inbound \<Rightarrow> ('l, 'a, 'r) inbox_state \<Rightarrow> inbound list" where
  "extras_of env l head s = filter (\<lambda>r. in_id r \<noteq> in_id head) (companions_of env l head s)"

definition drain_step ::
  "('l, 'a, 'r) inbox_env \<Rightarrow> lead \<Rightarrow> ('l, 'a, 'r) inbox_state \<Rightarrow> ('l, 'a, 'r) inbox_state step" where
  "drain_step env l s =
     (case fetch_next_queued (ld_id l) (ix_db s) of
        None \<Rightarrow> Finished s
      | Some head \<Rightarrow>
          let extras = extras_of env l head s in
          hear_head env l head extras
            (if extras \<noteq> [] then head\<lparr>in_text := consolidate_inbound_text (companions_of env l head s)\<rparr> else head) s)"

subsection \<open>An iteration shortens the queue\<close>

definition pending :: "uuid \<Rightarrow> db \<Rightarrow> inbound list" where
  "pending l d = filter (is_pending l) (db_inbound d)"

lemma ix_db_simps [simp]:
  "ix_db (set_db d s) = d" "ix_db (set_ad a s) = ix_db s"
  "ix_world (set_db d s) = (ix_world s)\<lparr>w_db := d\<rparr>"
  "ix_db (s\<lparr>ix_world := w\<rparr>) = w_db w" "ix_db (publish_reply env l r s) = ix_db s"
  by (simp_all add: ix_db_def set_db_def set_ad_def publish_reply_def split: option.split)

text \<open>
  What no iteration changes of a message, and the frame of the job: a row of the message table stays
  as it is, or it was pending for the lead and is still the same message.
\<close>

definition same_message :: "inbound \<Rightarrow> inbound \<Rightarrow> bool" where
  "same_message r r' =
     (in_id r' = in_id r \<and> in_tenant r' = in_tenant r \<and> in_provider r' = in_provider r \<and>
      in_external r' = in_external r \<and> in_lead r' = in_lead r \<and> in_from r' = in_from r \<and>
      in_received r' = in_received r \<and> in_raw r' = in_raw r)"

definition settles :: "uuid \<Rightarrow> inbound list \<Rightarrow> inbound list \<Rightarrow> bool" where
  "settles l = list_all2 (\<lambda>r r'. r' = r \<or> is_pending l r \<and> same_message r r' \<and> \<not> is_pending l r')"

definition touches :: "uuid \<Rightarrow> inbound list \<Rightarrow> inbound list \<Rightarrow> bool" where
  "touches l = list_all2 (\<lambda>r r'. r' = r \<or> is_pending l r \<and> same_message r r')"

definition put_row :: "inbound \<Rightarrow> inbound list \<Rightarrow> inbound list" where
  "put_row m = update_where (\<lambda>r. in_id r = in_id m) (\<lambda>_. m)"

lemma put_inbound_rows [simp]: "db_inbound (put_inbound m d) = put_row m (db_inbound d)"
  by (simp add: put_inbound_def put_row_def)

lemma foldl_put_inbound [simp]:
  "db_inbound (foldl (\<lambda>d r. put_inbound (f r) d) d rs) = foldl (\<lambda>rows r. put_row (f r) rows) (db_inbound d) rs"
  by (induction rs arbitrary: d) simp_all

lemma same_message_refl [simp]: "same_message r r"
  by (simp add: same_message_def)

lemma touches_refl [simp]: "touches l rows rows"
  by (simp add: touches_def list_all2_refl)

lemma touches_trans: "touches l a b \<Longrightarrow> touches l b c \<Longrightarrow> touches l a c"
  unfolding touches_def
  by (rule list_all2_trans) (auto simp: same_message_def is_pending_def)

lemma touches_ids: "touches l a b \<Longrightarrow> map in_id b = map in_id a"
  unfolding touches_def by (induction rule: list_all2_induct) (auto simp: same_message_def)

lemma settles_touches: "settles l a b \<Longrightarrow> touches l a b"
  unfolding settles_def touches_def by (erule list_all2_mono) blast

lemma settles_refl [simp]: "settles l rows rows"
  by (simp add: settles_def list_all2_refl)

lemma settles_pending: "settles l a b \<Longrightarrow> set (filter (is_pending l) b) \<subseteq> set (filter (is_pending l) a)"
  unfolding settles_def by (induction rule: list_all2_induct) auto

lemma put_row_ids: "map in_id (put_row m rows) = map in_id rows"
  by (simp add: put_row_def update_where_def)

lemma put_row_list_all2:
  assumes "distinct (map in_id a)" "list_all2 P a b" "map in_id b = map in_id a"
    and "x \<in> set a" "in_id m = in_id x" "P x m"
  shows "list_all2 P a (put_row m b)"
proof -
  have "r = x" if "r \<in> set a" "in_id r = in_id m" for r
    using that assms by (metis distinct_map inj_onD)
  moreover have "list_all2 (\<lambda>r r'. in_id r' = in_id r) a b"
    using assms(3) by (auto simp: list_all2_conv_all_nth dest: map_eq_imp_length_eq) (metis length_map nth_map)
  ultimately show ?thesis
    using assms(2,6) unfolding put_row_def update_where_def list_all2_conv_all_nth
    by auto (metis nth_mem)
qed

lemma put_row_touches:
  assumes "distinct (map in_id a)" "touches l a b" "x \<in> set a" "is_pending l x" "same_message x m"
  shows "touches l a (put_row m b)"
  using assms put_row_list_all2 [OF assms(1) assms(2) [unfolded touches_def] touches_ids [OF assms(2)] assms(3)]
  unfolding touches_def by (simp add: same_message_def)

lemma put_row_settles:
  assumes "distinct (map in_id a)" "settles l a b" "x \<in> set a" "is_pending l x" "same_message x m" "\<not> is_pending l m"
  shows "settles l a (put_row m b)"
  using assms put_row_list_all2 [OF assms(1) assms(2) [unfolded settles_def] touches_ids [OF settles_touches [OF assms(2)]] assms(3)]
  unfolding settles_def by (simp add: same_message_def)

lemma foldl_put_row_settles:
  assumes "distinct (map in_id a)" "settles l a b"
    and "\<And>x. x \<in> set xs \<Longrightarrow> x \<in> set a \<and> is_pending l x \<and> same_message x (f x) \<and> \<not> is_pending l (f x)"
  shows "settles l a (foldl (\<lambda>rows r. put_row (f r) rows) b xs)"
  using assms(2,3)
proof (induction xs arbitrary: b)
  case Nil
  then show ?case by simp
next
  case (Cons x xs)
  have "settles l a (put_row (f x) b)"
    by (rule put_row_settles [OF assms(1) Cons.prems(1), of x]) (use Cons.prems(2) in auto)
  then show ?case using Cons.IH [of "put_row (f x) b"] Cons.prems(2) by simp
qed

lemma put_row_length_le: "\<not> p m \<Longrightarrow> length (filter p (put_row m rows)) \<le> length (filter p rows)"
  unfolding put_row_def update_where_def by (rule length_filter_map_le) (auto split: if_splits)

lemma put_row_length_less:
  "\<not> p m \<Longrightarrow> x \<in> set rows \<Longrightarrow> p x \<Longrightarrow> in_id x = in_id m \<Longrightarrow>
   length (filter p (put_row m rows)) < length (filter p rows)"
  unfolding put_row_def update_where_def by (rule length_filter_map_less) (auto split: if_splits)

lemma put_row_pre_length:
  "p m \<Longrightarrow> (\<And>r. r \<in> set rows \<Longrightarrow> in_id r = in_id m \<Longrightarrow> p r) \<Longrightarrow>
   length (filter p (put_row m rows)) = length (filter p rows)"
  by (induction rows) (auto simp: put_row_def update_where_def)

lemma put_row_put_row: "in_id m = in_id m' \<Longrightarrow> put_row m' (put_row m rows) = put_row m' rows"
  by (induction rows) (auto simp: put_row_def update_where_def)

lemma foldl_put_row_le:
  "(\<And>r. r \<in> set rs \<Longrightarrow> \<not> p (f r)) \<Longrightarrow>
   length (filter p (foldl (\<lambda>rows r. put_row (f r) rows) rows rs)) \<le> length (filter p rows)"
proof (induction rs arbitrary: rows)
  case Nil
  then show ?case by simp
next
  case (Cons r rs)
  then show ?case
    using put_row_length_le [of p "f r" rows] by simp (meson le_trans)
qed

lemma normalize_same:
  assumes "normalize_inbound ad tr store cfg m a = (Inr (u, m'), a')"
  shows "same_message m m' \<and> in_status m' = in_status m \<and> in_text m' = in_text m"
  using assms
  by (auto simp: normalize_inbound_def archive_audio_def same_message_def Let_def
      split: if_splits sum.splits option.splits prod.splits)

subsection \<open>Cases of an iteration\<close>

lemma fetch_next_Some:
  "fetch_next_queued l d = Some m \<Longrightarrow> m \<in> set (pending l d) \<and> (\<forall>r \<in> set (pending l d). in_received m \<le> in_received r)"
  by (auto simp: fetch_next_queued_def pending_def dest: first_min_Some)

lemma fetch_next_None: "fetch_next_queued l d = None \<longleftrightarrow> pending l d = []"
  by (auto simp: fetch_next_queued_def first_min_None pending_def filter_empty_conv)

lemma extras_pending: "r \<in> set (extras_of env l head s) \<Longrightarrow> r \<in> set (pending (ld_id l) (ix_db s)) \<and> in_id r \<noteq> in_id head"
  by (auto simp: extras_of_def companions_of_def fetch_window_companions_def pending_def)

lemma hear_head_cases:
  obtains (answer) m' a where "same_message m m'" "in_status m' = in_status m" "in_text m' = in_text m"
      "hear_head env l head extras m s = answer_head env l head extras m' (set_ad a s)"
  | (unclear) m' a where "same_message m m'"
      "hear_head env l head extras m s =
         Again (set_db (put_inbound (m'\<lparr>in_status := Processed, in_processed_at := Some (te_now (ie_turn env))\<rparr>) (ix_db s))
           (set_ad a s))"
  | (raised) e a where "hear_head env l head extras m s = Raised e (set_ad a s)"
proof (cases "\<exists>tr store. ie_transcriber env = Some tr \<and> te_storage (ie_turn env) = Some store \<and> in_media m = MAudio")
  case False
  then have "hear_head env l head extras m s = answer_head env l head extras m (set_ad (w_ad (ix_world s)) s)"
    by (auto simp: hear_head_def set_ad_def Let_def split: option.split)
  then show ?thesis using answer [of m] by simp
next
  case True
  then obtain tr store where v: "ie_transcriber env = Some tr" "te_storage (ie_turn env) = Some store" "in_media m = MAudio"
    by blast
  note unf = hear_head_def v Let_def prod.case option.case simp_thms if_True
  show ?thesis
  proof (cases "Option.bind (te_voice (ie_turn env)) vc_transcription")
    case None
    then have "hear_head env l head extras m s = Raised AttributeError (set_ad (w_ad (ix_world s)) s)"
      by (simp add: unf set_ad_def)
    then show ?thesis by (rule raised)
  next
    case (Some cfg)
    obtain r a where n: "normalize_inbound (te_adapter (ie_turn env)) tr store cfg m (w_ad (ix_world s)) = (r, a)"
      by fastforce
    show ?thesis
    proof (cases r)
      case (Inl e)
      then have "hear_head env l head extras m s = Raised e (set_ad a s)" by (simp add: unf Some n)
      then show ?thesis by (rule raised)
    next
      case (Inr p)
      obtain u m1 where p: "p = (u, m1)" by fastforce
      note same = normalize_same [OF n [unfolded Inr p]]
      obtain r2 a2 where t: "ad_send_text (te_adapter (ie_turn env)) (Some (in_from m1)) ask_for_text a = (r2, a2)"
        by fastforce
      show ?thesis
        using answer [of m1 a] unclear [of m1 a2] raised [of _ a2] same
        by (cases "u = NormProcessed"; cases r2) (simp_all add: unf Some n Inr p t)
    qed
  qed
qed

lemma drain_step_cases:
  obtains (drained) "pending (ld_id l) (ix_db s) = []" "drain_step env l s = Finished s"
  | (answer) head m a where "fetch_next_queued (ld_id l) (ix_db s) = Some head" "same_message head m" "in_status m = in_status head"
      "in_text m = (if extras_of env l head s \<noteq> [] then consolidate_inbound_text (companions_of env l head s) else in_text head)"
      "drain_step env l s = answer_head env l head (extras_of env l head s) m (set_ad a s)"
  | (unclear) head m a where "fetch_next_queued (ld_id l) (ix_db s) = Some head" "same_message head m"
      "drain_step env l s = Again (set_db (put_inbound (m\<lparr>in_status := Processed, in_processed_at := Some (te_now (ie_turn env))\<rparr>)
         (ix_db s)) (set_ad a s))"
  | (raised) e a where "drain_step env l s = Raised e (set_ad a s)"
proof (cases "fetch_next_queued (ld_id l) (ix_db s)")
  case None
  then have "pending (ld_id l) (ix_db s) = []" "drain_step env l s = Finished s"
    by (simp_all add: drain_step_def fetch_next_None [symmetric])
  then show ?thesis by (rule drained)
next
  case (Some head)
  define m where "m = (if extras_of env l head s \<noteq> []
    then head\<lparr>in_text := consolidate_inbound_text (companions_of env l head s)\<rparr> else head)"
  have m: "same_message head m" "in_status m = in_status head"
    "in_text m = (if extras_of env l head s \<noteq> [] then consolidate_inbound_text (companions_of env l head s) else in_text head)"
    by (simp_all add: m_def same_message_def)
  have eq: "drain_step env l s = hear_head env l head (extras_of env l head s) m s"
    by (simp add: drain_step_def Some m_def)
  show ?thesis
  proof (cases rule: hear_head_cases [of m env l head "extras_of env l head s" s])
    case (answer m' a)
    have "same_message head m'" using m(1) answer(1) by (simp add: same_message_def)
    then show ?thesis using that(2) [OF Some, of m' a] answer m eq by simp
  next
    case (unclear m' a)
    have "same_message head m'" using m(1) unclear(1) by (simp add: same_message_def)
    then show ?thesis using that(3) [OF Some, of m' a] unclear eq by simp
  next
    case (raised e a)
    then show ?thesis using that(4) eq by simp
  qed
qed

lemma answer_head_cases:
  fixes env :: "('l, 'a, 'r) inbox_env"
  obtains (failed) k err w where
      "run_turn (ie_turn env) m (ix_world (set_db (put_inbound m (ix_db s)) s)) = (Inl (Messaging k err), w)"
      "answer_head env l head extras m s = Finished (s\<lparr>ix_world := w\<lparr>w_db := turn_failed l head m k err (w_db w)\<rparr>\<rparr>)"
  | (raised) e w d where
      "run_turn (ie_turn env) m (ix_world (set_db (put_inbound m (ix_db s)) s)) = (Inl e, w)" "\<not> is_messaging e"
      "d = ix_db s \<or> d = w_db w"
      "answer_head env l head extras m s = Raised e (s\<lparr>ix_world := w\<lparr>w_db := d\<rparr>\<rparr>)"
  | (answered) r w where
      "run_turn (ie_turn env) m (ix_world (set_db (put_inbound m (ix_db s)) s)) = (Inr r, w)"
      "answer_head env l head extras m s = Again (publish_reply env l r
         (s\<lparr>ix_world := w\<lparr>w_db := foldl (\<lambda>d r. put_inbound (companion_done (te_now (ie_turn env)) r) d)
             (put_inbound (turn_done (te_now (ie_turn env)) (tu_outcome r) m) (w_db w)) extras\<rparr>\<rparr>))"
proof -
  obtain r w where run: "run_turn (ie_turn env) m (ix_world (set_db (put_inbound m (ix_db s)) s)) = (r, w)" by fastforce
  show ?thesis
  proof (cases r)
    case (Inl e)
    show ?thesis
    proof (cases "is_messaging e")
      case True
      then obtain k err where "e = Messaging k err" by (auto simp: is_messaging_def split: pyexn.splits)
      then show ?thesis using failed run Inl by (simp add: answer_head_def Let_def)
    next
      case False
      define d where "d = (case resolve_pipeline_context (te_now (ie_turn env)) (te_tenant (ie_turn env)) (te_treeflow (ie_turn env))
                (te_version (ie_turn env)) (te_optout (ie_turn env)) m (put_inbound m (ix_db s)) of
               Inl _ \<Rightarrow> ix_db s
             | Inr _ \<Rightarrow> w_db w)"
      have "d = ix_db s \<or> d = w_db w" by (simp add: d_def split: sum.split)
      moreover have "answer_head env l head extras m s = Raised e (s\<lparr>ix_world := w\<lparr>w_db := d\<rparr>\<rparr>)"
        using run Inl False by (cases e) (simp_all add: answer_head_def Let_def is_messaging_def d_def)
      ultimately show ?thesis by (rule raised [OF run [unfolded Inl] False])
    qed
  next
    case (Inr res)
    then show ?thesis using answered run by (simp add: answer_head_def Let_def)
  qed
qed

subsection \<open>The effect of an iteration on the queue\<close>

lemma turn_done_simps [simp]:
  "same_message r (turn_done now u r)" "\<not> is_pending l (turn_done now u r)" "in_id (turn_done now u r) = in_id r"
  by (auto simp: turn_done_def same_message_def is_pending_def)

lemma companion_done_simps [simp]:
  "same_message r (companion_done now r)" "\<not> is_pending l (companion_done now r)" "in_id (companion_done now r) = in_id r"
  by (auto simp: companion_done_def same_message_def is_pending_def)

lemma same_message_id: "same_message r r' \<Longrightarrow> in_id r' = in_id r"
  by (simp add: same_message_def)

lemma same_message_trans: "same_message a b \<Longrightarrow> same_message b c \<Longrightarrow> same_message a c"
  by (simp add: same_message_def)

lemma run_turn_rows:
  assumes "run_turn te m (ix_world (set_db (put_inbound m (ix_db s)) s)) = (r, w)"
  shows "db_inbound (w_db w) = put_row m (db_inbound (ix_db s))"
  using run_turn_inbound [OF assms] by simp

lemma answered_rows:
  assumes "run_turn te m (ix_world (set_db (put_inbound m (ix_db s)) s)) = (r, w)"
  shows "db_inbound (foldl (\<lambda>d r. put_inbound (companion_done now r) d) (put_inbound (turn_done now u m) (w_db w)) extras) =
    foldl (\<lambda>rows r. put_row (companion_done now r) rows) (put_row (turn_done now u m) (db_inbound (ix_db s))) extras"
  by (simp add: run_turn_rows [OF assms] put_row_put_row)

lemma pending_set: "x \<in> set (pending l d) \<longleftrightarrow> x \<in> set (db_inbound d) \<and> is_pending l x"
  by (auto simp: pending_def)

lemma drain_step_again:
  assumes "drain_step env l s = Again s'"
  shows "length (pending (ld_id l) (ix_db s')) < length (pending (ld_id l) (ix_db s))"
proof (cases rule: drain_step_cases [of l s env])
  case (answer head m a)
  have head: "head \<in> set (db_inbound (ix_db s))" "is_pending (ld_id l) head" "in_id head = in_id m"
    using fetch_next_Some [OF answer(1)] answer(2) by (auto simp: pending_set same_message_def)
  show ?thesis
  proof (cases rule: answer_head_cases [of env m "set_ad a s" l head "extras_of env l head s"])
    case (answered r w)
    let ?m = "turn_done (te_now (ie_turn env)) (tu_outcome r) m"
    have "length (filter (is_pending (ld_id l)) (foldl (\<lambda>rows r. put_row (companion_done (te_now (ie_turn env)) r) rows)
        (put_row ?m (db_inbound (ix_db s))) (extras_of env l head s))) \<le>
      length (filter (is_pending (ld_id l)) (put_row ?m (db_inbound (ix_db s))))"
      by (rule foldl_put_row_le) simp
    also have "\<dots> < length (filter (is_pending (ld_id l)) (db_inbound (ix_db s)))"
      by (rule put_row_length_less [where x = head]) (simp_all add: head)
    finally show ?thesis
      using assms answer(5) answered(2) answered_rows [OF answered(1)]
      by (auto simp: pending_def simp del: foldl_put_inbound)
  qed (use assms answer(5) in auto)
next
  case (unclear head m a)
  have head: "head \<in> set (db_inbound (ix_db s))" "is_pending (ld_id l) head" "in_id head = in_id m"
    using fetch_next_Some [OF unclear(1)] unclear(2) by (auto simp: pending_set same_message_def)
  have "length (filter (is_pending (ld_id l)) (put_row (m\<lparr>in_status := Processed, in_processed_at := Some (te_now (ie_turn env))\<rparr>)
      (db_inbound (ix_db s)))) < length (filter (is_pending (ld_id l)) (db_inbound (ix_db s)))"
    by (rule put_row_length_less [where x = head]) (use head in \<open>simp_all add: is_pending_def\<close>)
  then show ?thesis using assms unclear(3) by (auto simp: pending_def)
qed (use assms in auto)

subsection \<open>The loop\<close>

function drain ::
  "('l, 'a, 'r) inbox_env \<Rightarrow> lead \<Rightarrow> ('l, 'a, 'r) inbox_state \<Rightarrow> pyexn option \<times> ('l, 'a, 'r) inbox_state" where
  "drain env l s =
     (case drain_step env l s of
        Finished s' \<Rightarrow> (None, s')
      | Raised e s' \<Rightarrow> (Some e, s')
      | Again s' \<Rightarrow> drain env l s')"
  by pat_completeness auto
termination
  by (relation "measure (\<lambda>(env, l, s). length (pending (ld_id l) (ix_db s)))") (auto dest: drain_step_again)

declare drain.simps [simp del]

definition failure_detail :: "msg_error \<Rightarrow> string \<Rightarrow> string" where
  "failure_detail k err = (if k = RecipientUnreachable then ''unreachable'' else msg_error_name k) @ '': '' @ err"

lemma turn_failed_rows:
  "db_inbound (turn_failed l head m k err d) =
   put_row (m\<lparr>in_text := in_text head, in_status := InError, in_error := Some (failure_detail k err)\<rparr>) (db_inbound d)"
  by (simp add: turn_failed_def failure_detail_def)

lemma drain_step_settles:
  assumes st: "drain_step env l s = Again s'" and ids: "distinct (map in_id (db_inbound (ix_db s)))"
  shows "settles (ld_id l) (db_inbound (ix_db s)) (db_inbound (ix_db s'))"
proof (cases rule: drain_step_cases [of l s env])
  case (answer head m a)
  have head: "head \<in> set (db_inbound (ix_db s))" "is_pending (ld_id l) head"
    using fetch_next_Some [OF answer(1)] by (auto simp: pending_set)
  show ?thesis
  proof (cases rule: answer_head_cases [of env m "set_ad a s" l head "extras_of env l head s"])
    case (answered r w)
    let ?m = "turn_done (te_now (ie_turn env)) (tu_outcome r) m"
    have "settles (ld_id l) (db_inbound (ix_db s)) (put_row ?m (db_inbound (ix_db s)))"
      by (rule put_row_settles [OF ids settles_refl head]) (use answer(2) same_message_trans in auto)
    then have "settles (ld_id l) (db_inbound (ix_db s)) (foldl (\<lambda>rows r. put_row (companion_done (te_now (ie_turn env)) r) rows)
        (put_row ?m (db_inbound (ix_db s))) (extras_of env l head s))"
      by (rule foldl_put_row_settles [OF ids]) (auto dest!: extras_pending simp: pending_set)
    then show ?thesis
      using st answer(5) answered(2) answered_rows [OF answered(1)] by (auto simp del: foldl_put_inbound)
  qed (use st answer(5) in auto)
next
  case (unclear head m a)
  have head: "head \<in> set (db_inbound (ix_db s))" "is_pending (ld_id l) head"
    using fetch_next_Some [OF unclear(1)] by (auto simp: pending_set)
  have "settles (ld_id l) (db_inbound (ix_db s))
      (put_row (m\<lparr>in_status := Processed, in_processed_at := Some (te_now (ie_turn env))\<rparr>) (db_inbound (ix_db s)))"
    by (rule put_row_settles [OF ids settles_refl head]) (use unclear(2) in \<open>auto simp: same_message_def is_pending_def\<close>)
  then show ?thesis using st unclear(3) by auto
qed (use st in auto)

lemma drain_step_finished:
  assumes st: "drain_step env l s = Finished s'" and ids: "distinct (map in_id (db_inbound (ix_db s)))"
  shows "(pending (ld_id l) (ix_db s) = [] \<and> s' = s) \<or>
    settles (ld_id l) (db_inbound (ix_db s)) (db_inbound (ix_db s')) \<and>
    (\<exists>m \<in> set (pending (ld_id l) (ix_db s)). \<exists>m' \<in> set (db_inbound (ix_db s')).
       same_message m m' \<and> in_text m' = in_text m \<and> in_status m' = InError \<and>
       (\<exists>k err. in_error m' = Some (failure_detail k err)))"
proof (cases rule: drain_step_cases [of l s env])
  case (answer head m a)
  have head: "head \<in> set (db_inbound (ix_db s))" "is_pending (ld_id l) head"
    using fetch_next_Some [OF answer(1)] by (auto simp: pending_set)
  show ?thesis
  proof (cases rule: answer_head_cases [of env m "set_ad a s" l head "extras_of env l head s"])
    case (failed k err w)
    let ?m = "m\<lparr>in_text := in_text head, in_status := InError, in_error := Some (failure_detail k err)\<rparr>"
    have rows: "db_inbound (ix_db s') = put_row ?m (db_inbound (ix_db s))"
      using st answer(5) failed(2) by (auto simp: turn_failed_rows run_turn_rows [OF failed(1)] put_row_put_row)
    have same: "same_message head ?m" using answer(2) by (simp add: same_message_def)
    have "settles (ld_id l) (db_inbound (ix_db s)) (put_row ?m (db_inbound (ix_db s)))"
      by (rule put_row_settles [OF ids settles_refl head same]) (simp add: is_pending_def)
    moreover have "?m \<in> set (put_row ?m (db_inbound (ix_db s)))"
      using head(1) same_message_id [OF same] by (auto simp: put_row_def update_where_def image_iff intro!: bexI [of _ head])
    moreover have "head \<in> set (pending (ld_id l) (ix_db s))" using head by (simp add: pending_set)
    ultimately show ?thesis
      unfolding rows using same
      by (intro disjI2 conjI) (assumption, rule bexI [of _ head], rule bexI [of _ ?m], auto)
  qed (use st answer(5) in auto)
qed (use st in auto)

lemma drain_step_raised:
  assumes st: "drain_step env l s = Raised e s'" and ids: "distinct (map in_id (db_inbound (ix_db s)))"
  shows "touches (ld_id l) (db_inbound (ix_db s)) (db_inbound (ix_db s'))"
proof (cases rule: drain_step_cases [of l s env])
  case (answer head m a)
  have head: "head \<in> set (db_inbound (ix_db s))" "is_pending (ld_id l) head"
    using fetch_next_Some [OF answer(1)] by (auto simp: pending_set)
  show ?thesis
  proof (cases rule: answer_head_cases [of env m "set_ad a s" l head "extras_of env l head s"])
    case (raised e' w d)
    have "touches (ld_id l) (db_inbound (ix_db s)) (put_row m (db_inbound (ix_db s)))"
      by (rule put_row_touches [OF ids touches_refl head answer(2)])
    then show ?thesis
      using st answer(5) raised(3,4) run_turn_rows [OF raised(1)] by auto
  qed (use st answer(5) in auto)
qed (use st in auto)

text \<open>The induction over the loop.\<close>

lemma drain_induct:
  assumes dr: "drain env l s = (r, s')" and ids: "distinct (map in_id (db_inbound (ix_db s)))"
  shows "touches (ld_id l) (db_inbound (ix_db s)) (db_inbound (ix_db s')) \<and>
    (r = None \<longrightarrow> pending (ld_id l) (ix_db s') = [] \<or>
      (\<exists>m \<in> set (pending (ld_id l) (ix_db s)). \<exists>m' \<in> set (db_inbound (ix_db s')).
         same_message m m' \<and> in_text m' = in_text m \<and> in_status m' = InError \<and>
         (\<exists>k err. in_error m' = Some (failure_detail k err))))"
  using dr ids
proof (induction env l s rule: drain.induct)
  case (1 env l s)
  show ?case
  proof (cases "drain_step env l s")
    case (Finished t)
    then have "r = None" "s' = t" using 1(2) by (simp_all add: drain.simps [of env l s])
    then show ?thesis using drain_step_finished [OF Finished 1(3)] settles_touches by auto
  next
    case (Raised e t)
    then have "r = Some e" "s' = t" using 1(2) by (simp_all add: drain.simps [of env l s])
    then show ?thesis using drain_step_raised [OF Raised 1(3)] by simp
  next
    case (Again t)
    note se = drain_step_settles [OF Again 1(3)]
    have ids: "distinct (map in_id (db_inbound (ix_db t)))"
      using touches_ids [OF settles_touches [OF se]] 1(3) by simp
    have sub: "set (pending (ld_id l) (ix_db t)) \<subseteq> set (pending (ld_id l) (ix_db s))"
      using settles_pending [OF se] by (simp add: pending_def)
    have "drain env l t = (r, s')" using 1(2) Again by (simp add: drain.simps [of env l s])
    from 1(1) [OF Again this ids]
    have ih: "touches (ld_id l) (db_inbound (ix_db t)) (db_inbound (ix_db s'))"
      "r = None \<longrightarrow> pending (ld_id l) (ix_db s') = [] \<or>
      (\<exists>m \<in> set (pending (ld_id l) (ix_db t)). \<exists>m' \<in> set (db_inbound (ix_db s')).
         same_message m m' \<and> in_text m' = in_text m \<and> in_status m' = InError \<and>
         (\<exists>k err. in_error m' = Some (failure_detail k err)))" by simp_all
    show ?thesis
      using touches_trans [OF settles_touches [OF se] ih(1)] ih(2) sub by blast
  qed
qed

subsection \<open>Lock keys\<close>

lemma masked_bounds: "0 \<le> (n AND 0x7FFFFFFFFFFFFFFF :: int) \<and> (n AND 0x7FFFFFFFFFFFFFFF) < 2 ^ 63"
proof -
  have "(0x7FFFFFFFFFFFFFFF :: int) = mask 63" by (simp add: mask_eq_exp_minus_1)
  then have "n AND 0x7FFFFFFFFFFFFFFF = take_bit 63 n" by (simp add: take_bit_eq_mask)
  then show ?thesis using take_bit_int_less_exp [of 63 n] by simp
qed

subsection \<open>Properties\<close>

text \<open>
  The session-level lock of the worker job and the transaction-level lock of a turn use the same
  key for the same tenant and lead, and the key fits into a non-negative PostgreSQL \<open>bigint\<close>.
\<close>

theorem lock_keys_agree:
  "stable_lock_key sha (str_nat t) (str_nat l) = lock_key sha t l \<and>
   0 \<le> lock_key sha t l \<and> lock_key sha t l < 2 ^ 63"
  using masked_bounds [of "from_bytes_big (take 8 (sha (str_nat t @ '':'' @ str_nat l)))"]
  by (simp add: stable_lock_key_def lock_key_def Let_def)

text \<open>
  C8: When the loop of the worker ends without an exception, the queue of the lead is empty, or one of
  the messages that were waiting could not be answered because the messaging provider refused: this
  message is marked as an error with the class and the text of the refusal and keeps its own text.
\<close>

theorem drain_ends:
  fixes env :: "('l, 'a, 'r) inbox_env"
  assumes "drain env l s = (None, s')" and "distinct (map in_id (db_inbound (ix_db s)))"
  shows "pending (ld_id l) (ix_db s') = [] \<or>
    (\<exists>m \<in> set (pending (ld_id l) (ix_db s)). \<exists>m' \<in> set (db_inbound (ix_db s')).
       same_message m m' \<and> in_text m' = in_text m \<and> in_status m' = InError \<and>
       (\<exists>k err. in_error m' = Some (failure_detail k err)))"
  using drain_induct [OF assms] by simp

text \<open>
  C9: The job of a lead, however it ends, changes only messages that were waiting for this lead: every
  other row of the message table stays as it is, no row is added or lost, and a message keeps its
  identity, sender and payload.
\<close>

theorem drain_frame:
  fixes env :: "('l, 'a, 'r) inbox_env"
  assumes "drain env l s = (r, s')" and "distinct (map in_id (db_inbound (ix_db s)))"
  shows "list_all2 (\<lambda>m m'. m' = m \<or> is_pending (ld_id l) m \<and> same_message m m')
    (db_inbound (ix_db s)) (db_inbound (ix_db s'))"
  using drain_induct [OF assms] by (simp add: touches_def)

definition sample_inbox :: "(script, fake_state, unit) inbox_env" where
  "sample_inbox =
     \<lparr>ie_turn = sample_env, ie_window = None, ie_transcriber = None, ie_redis = None, ie_instances = []\<rparr>"

definition burst_db :: db where
  \<comment> \<open>two messages of the lead within one second, and one of another lead\<close>
  "burst_db = sample_db\<lparr>db_inbound :=
     [sample_inbound 4 ''oi'', (sample_inbound 5 ''quero'')\<lparr>in_received := 2000\<rparr>,
      (sample_inbound 6 ''alo'')\<lparr>in_lead := Some 99\<rparr>]\<rparr>"

definition burst_drain :: "turn_decision list \<Rightarrow> db \<Rightarrow> pyexn option \<times> (script, fake_state, unit) inbox_state" where
  "burst_drain ds d = drain sample_inbox sample_lead \<lparr>ix_world = sample_world ds d, ix_redis = ()\<rparr>"

lemma burst_drain_run:
  "fst (burst_drain [sample_decision] burst_db) = None \<and>
   map (\<lambda>m. (in_text m, in_status m)) (db_inbound (ix_db (snd (burst_drain [sample_decision] burst_db)))) =
     [(''oi'' @ [CHR 10] @ ''quero'', Processed), (''quero'', Processed), (''alo'', Queued)]"
  by code_simp

lemma burst_ids: "distinct (map in_id (db_inbound burst_db))"
  by code_simp

theorem drain_ends_witness:
  "pending 3 (ix_db (snd (burst_drain [sample_decision] burst_db))) = [] \<or>
    (\<exists>m \<in> set (pending 3 burst_db). \<exists>m' \<in> set (db_inbound (ix_db (snd (burst_drain [sample_decision] burst_db)))).
       same_message m m' \<and> in_text m' = in_text m \<and> in_status m' = InError \<and>
       (\<exists>k err. in_error m' = Some (failure_detail k err)))"
proof -
  have "burst_drain [sample_decision] burst_db = (None, snd (burst_drain [sample_decision] burst_db))"
    using burst_drain_run by (metis prod.collapse)
  then show ?thesis
    using drain_ends [of sample_inbox sample_lead "\<lparr>ix_world = sample_world [sample_decision] burst_db, ix_redis = ()\<rparr>"
        "snd (burst_drain [sample_decision] burst_db)"] burst_ids
    by (simp add: burst_drain_def ix_db_def sample_world_def sample_lead_def)
qed

theorem drain_frame_witness:
  "list_all2 (\<lambda>m m'. m' = m \<or> is_pending 3 m \<and> same_message m m')
    (db_inbound burst_db) (db_inbound (ix_db (snd (burst_drain [] burst_db))))"
  using drain_frame [of sample_inbox sample_lead "\<lparr>ix_world = sample_world [] burst_db, ix_redis = ()\<rparr>"
      "fst (burst_drain [] burst_db)" "snd (burst_drain [] burst_db)"] burst_ids
  by (simp add: burst_drain_def ix_db_def sample_world_def sample_lead_def)

text \<open>
  A burst of messages is answered in one turn on their joined text.  When this turn fails for a
  reason that is not a messaging error, the joined text stays on the first message, which is still
  queued with the others: the next run of the job joins them once more, and the model reads the later
  messages twice.
\<close>

theorem retry_repeats_text:
  "map (\<lambda>m. (in_text m, in_status m)) (db_inbound (ix_db (snd (burst_drain [] burst_db)))) =
     [(''oi'' @ [CHR 10] @ ''quero'', Queued), (''quero'', Queued), (''alo'', Queued)] \<and>
   map in_text (db_inbound (ix_db (snd (burst_drain [sample_decision] (ix_db (snd (burst_drain [] burst_db))))))) =
     [''oi'' @ [CHR 10] @ ''quero'' @ [CHR 10] @ ''quero'', ''quero'', ''alo'']"
  by code_simp

end
