(* ===== verification/Worker_Snapshot.thy ===== *)
theory Worker_Snapshot
  imports Worker_Inbound
begin

text \<open>
  The frame of the worker's loop (\<open>_run_v2_inbox\<close> of \<open>worker/jobs/inbound.py\<close>): the tree of the
  conversation is the snapshot of the open talk, or the tenant's latest version when there is none; a
  snapshot that is gone or cannot be loaded puts the talk up for review and takes the queue down.  The
  environment of the loop is given with any tree and version, which are replaced by the resolved ones.
\<close>

subsection \<open>Resolution of the tree\<close>

definition skip_for_review :: "time \<Rightarrow> lead \<Rightarrow> talk option \<Rightarrow> string \<Rightarrow> string \<Rightarrow> db \<Rightarrow> db" where
  "skip_for_review now l t detail reason d =
     mark_queued_as_skipped (ld_id l) reason
       (case t of
          None \<Rightarrow> d
        | Some t \<Rightarrow> put_talk (escalate now TreeflowVersionMissing (''treeflow_version_missing: '' @ detail) t) d)"

definition latest_version :: "uuid \<Rightarrow> db \<Rightarrow> treeflow_version option" where
  "latest_version tenant_id d = first_max tv_created (\<lambda>v. tv_tenant v = tenant_id) (db_versions d)"

definition with_tree :: "treeflow_version \<Rightarrow> treeflow \<Rightarrow> ('l, 'a, 'r) inbox_env \<Rightarrow> ('l, 'a, 'r) inbox_env" where
  "with_tree v tf env = env\<lparr>ie_turn := (ie_turn env)\<lparr>te_version := v, te_treeflow := tf\<rparr>\<rparr>"

definition is_load_error :: "pyexn \<Rightarrow> bool" where
  "is_load_error e = (case e of TreeflowLoadError _ \<Rightarrow> True | _ \<Rightarrow> False)"

definition run_version ::
  "('l, 'a, 'r) inbox_env \<Rightarrow> lead \<Rightarrow> treeflow_version \<Rightarrow> ('l, 'a, 'r) inbox_state \<Rightarrow>
   pyexn option \<times> ('l, 'a, 'r) inbox_state" where
  "run_version env l v s =
     (let te = ie_turn env in
      case load_treeflow_v2 (te_ext te) (tv_yaml v) of
        Inr tf \<Rightarrow> drain (with_tree v tf env) l s
      | Inl e \<Rightarrow>
          if is_load_error e
          then (None, set_db (skip_for_review (te_now te) l
                  (find_active_for_lead (tn_id (te_tenant te)) (ld_id l) (ix_db s))
                  (exn_text e) (''treeflow_load_failed: '' @ exn_text e) (ix_db s)) s)
          else (Some e, s))"

definition run_v2_inbox ::
  "('l, 'a, 'r) inbox_env \<Rightarrow> lead \<Rightarrow> ('l, 'a, 'r) inbox_state \<Rightarrow> pyexn option \<times> ('l, 'a, 'r) inbox_state" where
  "run_v2_inbox env l s =
     (let te = ie_turn env; d = ix_db s in
      case find_active_for_lead (tn_id (te_tenant te)) (ld_id l) d of
        Some t \<Rightarrow>
          (case find_row tv_id (tk_version t) (db_versions d) of
             None \<Rightarrow> (None, set_db (skip_for_review (te_now te) l (Some t) ''snapshot row gone''
                               ''treeflow_version_snapshot_missing'' d) s)
           | Some v \<Rightarrow> run_version env l v s)
      | None \<Rightarrow>
          (case latest_version (tn_id (te_tenant te)) d of
             None \<Rightarrow> (None, s)
           | Some v \<Rightarrow> run_version env l v s))"

subsection \<open>Properties\<close>

lemma skipped_rows:
  "db_inbound (skip_for_review now l t detail reason d) =
   update_where (is_pending (ld_id l)) (\<lambda>m. m\<lparr>in_status := InError, in_error := Some (''skipped: '' @ reason)\<rparr>)
     (db_inbound d)"
  by (simp add: skip_for_review_def mark_queued_as_skipped_def put_talk_frame split: option.split)

lemma skipped_pending: "pending (ld_id l) (skip_for_review now l t detail reason d) = []"
proof -
  have "\<not> is_pending k (if is_pending k r then r\<lparr>in_status := InError, in_error := e\<rparr> else r)" for k r e
    by (simp add: is_pending_def)
  then show ?thesis
    by (auto simp: pending_def skipped_rows filter_empty_conv in_set_update_where)
qed

lemma skipped_talks:
  "db_talks (skip_for_review now l (Some t) detail reason d) =
   update_where (\<lambda>r. tk_id r = tk_id t)
     (\<lambda>_. escalate now TreeflowVersionMissing (''treeflow_version_missing: '' @ detail) t) (db_talks d)"
  by (simp add: skip_for_review_def mark_queued_as_skipped_def put_talk_talks escalate_def)

lemma set_db_world: "w_llm (ix_world (set_db d s)) = w_llm (ix_world s) \<and> w_ad (ix_world (set_db d s)) = w_ad (ix_world s) \<and>
    w_queue (ix_world (set_db d s)) = w_queue (ix_world s) \<and> ix_redis (set_db d s) = ix_redis s"
  by (simp add: set_db_def)

text \<open>
  What an unusable snapshot of an open talk leads to: nothing is sent, the model is not called, the
  talk waits for review with the reason, and no message of the lead stays queued.
\<close>

definition taken_down ::
  "talk \<Rightarrow> lead \<Rightarrow> ('l, 'a, 'r) inbox_state \<Rightarrow> pyexn option \<times> ('l, 'a, 'r) inbox_state \<Rightarrow> bool" where
  "taken_down t l s r =
     (fst r = None \<and> w_llm (ix_world (snd r)) = w_llm (ix_world s) \<and> w_ad (ix_world (snd r)) = w_ad (ix_world s) \<and>
      pending (ld_id l) (ix_db (snd r)) = [] \<and>
      (\<exists>t' \<in> set (db_talks (ix_db (snd r))). tk_id t' = tk_id t \<and> tk_status t' = RequiresReview \<and>
         tk_review_reason t' = Some TreeflowVersionMissing))"

lemma taken_down_skip:
  assumes "t \<in> set (db_talks (ix_db s))"
  shows "taken_down t l s (None, set_db (skip_for_review now l (Some t) detail reason (ix_db s)) s)"
proof -
  let ?t = "escalate now TreeflowVersionMissing (''treeflow_version_missing: '' @ detail) t"
  have "?t \<in> set (db_talks (skip_for_review now l (Some t) detail reason (ix_db s)))"
    using assms by (auto simp: skipped_talks in_set_update_where)
  then show ?thesis
    using set_db_world [of "skip_for_review now l (Some t) detail reason (ix_db s)" s]
    by (auto simp: taken_down_def skipped_pending escalate_def intro!: bexI [of _ ?t])
qed

text \<open>
  C27: When the snapshot version of the lead's open talk is gone or cannot be loaded, the job neither
  calls the model nor sends anything; it puts the talk up for review as \<open>treeflow_version_missing\<close> and
  leaves no message of the lead queued.
\<close>

theorem unusable_snapshot:
  fixes env :: "('l, 'a, 'r) inbox_env"
  assumes "find_active_for_lead (tn_id (te_tenant (ie_turn env))) (ld_id l) (ix_db s) = Some t"
    and "case find_row tv_id (tk_version t) (db_versions (ix_db s)) of
           None \<Rightarrow> True
         | Some v \<Rightarrow> (\<exists>m. load_treeflow_v2 (te_ext (ie_turn env)) (tv_yaml v) = Inl (TreeflowLoadError m))"
  shows "taken_down t l s (run_v2_inbox env l s)"
proof -
  have t: "t \<in> set (db_talks (ix_db s))" using find_active_Some [OF assms(1)] by simp
  show ?thesis
  proof (cases "find_row tv_id (tk_version t) (db_versions (ix_db s))")
    case None
    then show ?thesis using taken_down_skip [OF t] assms(1) by (simp add: run_v2_inbox_def Let_def)
  next
    case (Some v)
    then obtain m where "load_treeflow_v2 (te_ext (ie_turn env)) (tv_yaml v) = Inl (TreeflowLoadError m)"
      using assms(2) by auto
    then show ?thesis
      using taken_down_skip [OF t] assms(1) Some by (simp add: run_v2_inbox_def run_version_def Let_def is_load_error_def)
  qed
qed

definition talk_db :: db where
  \<comment> \<open>an open talk whose version has been deleted, and a new message\<close>
  "talk_db =
     (let d = w_db (snd (sample_run [sample_decision]))
      in d\<lparr>db_versions := [], db_inbound := [sample_inbound 5 ''alo'']\<rparr>)"

theorem unusable_snapshot_witness:
  "taken_down (hd (db_talks talk_db)) sample_lead \<lparr>ix_world = sample_world [] talk_db, ix_redis = ()\<rparr>
     (run_v2_inbox sample_inbox sample_lead \<lparr>ix_world = sample_world [] talk_db, ix_redis = ()\<rparr>)"
proof -
  have 1: "map tk_id (db_talks talk_db) = [10]" "db_versions talk_db = []"
    "map_option tk_id (find_active_for_lead 1 3 talk_db) = Some 10"
    by code_simp+
  obtain t where t: "find_active_for_lead 1 3 talk_db = Some t" using 1(3) by auto
  have "t = hd (db_talks talk_db)"
    using 1(1) find_active_Some [OF t] by (cases "db_talks talk_db") auto
  then show ?thesis
    using unusable_snapshot [of sample_inbox sample_lead "\<lparr>ix_world = sample_world [] talk_db, ix_redis = ()\<rparr>" t] t 1(2)
    by (simp add: ix_db_def sample_world_def sample_inbox_def sample_env_def sample_tenant_def sample_lead_def find_row_def)
qed

end
