(* ===== verification/Treeflow_V1.thy ===== *)
theory Treeflow_V1
  imports Sdr_Models Py_Numeral
begin

text \<open>
  The static tree of the engine v1: the schema with its validators (\<open>schemas/treeflow_yaml.py\<close>,
  \<open>schemas/llm_yaml.py\<close>, \<open>follow_up/duration.py\<close>), the evaluator of expressions
  (\<open>treeflow/expressions.py\<close>) and the routing (\<open>_exit_satisfied\<close> and \<open>_route\<close> of
  \<open>treeflow/compiler.py\<close>).  Reading the fields of a YAML mapping into the declared types is Pydantic's
  part and a parameter; the constraints the schemas declare and their validators are modelled.
\<close>

subsection \<open>Durations\<close>

definition parse_duration :: "ext \<Rightarrow> string \<Rightarrow> pyexn + duration" where
  "parse_duration E s =
     (if s = [] then Inl (ValueError ''empty duration string'')
      else case iso_duration E s of
             IsoDelta d \<Rightarrow> Inr d
           | IsoBad \<Rightarrow> Inl (ValueError ''invalid ISO-8601 duration'')
           | IsoCalendar \<Rightarrow> Inl (ValueError ''month/year-relative durations not supported''))"

subsection \<open>The schema\<close>

datatype collect_type = CtText | CtNumber | CtBoolean | CtEmail | CtPhone

record collect_v1 =
  cl_field :: string
  cl_type :: collect_type
  cl_hint :: "string option"
  cl_required :: bool
  cl_validation :: "jval option"

datatype exit_type = ExAllFields | ExRule | ExCombined

record exit_v1 =
  ec_type :: exit_type
  ec_expression :: "string option"
  ec_judge :: bool

record transition_v1 =
  tv1_condition :: string
  tv1_target :: string

record follow_up_step =
  fs_after :: string
  fs_template :: string
  fs_language :: string
  fs_params :: "string list"

record follow_up_config =
  fc_enabled :: bool
  fc_max :: int
  fc_sequence :: "follow_up_step list"

record objection_v1 =
  o1_id :: string
  o1_kb :: string
  o1_description :: string
  o1_subnode :: "string option"

record kb_ref =
  kr_id :: string
  kr_top :: int
  kr_min :: rat

record llm_config =
  lc_provider :: string
  lc_model :: string
  lc_temperature :: "rat option"
  lc_max :: "int option"
  lc_key :: string

record node_v1 =
  n1_id :: string
  n1_prompt :: string
  n1_llm :: "llm_config option"
  n1_collects :: "collect_v1 list"
  n1_exit :: exit_v1
  n1_next :: "transition_v1 list"
  n1_kb :: "kb_ref list option"
  n1_objections :: "objection_v1 list"
  n1_crm :: "string option"
  n1_critical :: bool

record treeflow_v1 =
  f1_id :: string
  f1_version :: string
  f1_name :: string
  f1_follow_up :: "follow_up_config option"
  f1_globals :: "objection_v1 list"
  f1_entry :: string
  f1_nodes :: "node_v1 list"

definition end_sentinel :: string where
  "end_sentinel = ''END''"

definition back_to_origin :: string where
  "back_to_origin = ''BACK_TO_ORIGIN''"

subsection \<open>The constraints\<close>

definition is_lower :: "char \<Rightarrow> bool" where
  "is_lower c = (97 \<le> code c \<and> code c \<le> 122)"

text \<open>
  \<open>^[a-z][a-z0-9_]{0,62}[a-z0-9]$\<close>; the \<open>$\<close> of Python also matches before a final newline.
\<close>

definition slug_char :: "char \<Rightarrow> bool" where
  "slug_char c = (is_lower c \<or> is_digit c \<or> c = CHR ''_'')"

definition is_slug :: "string \<Rightarrow> bool" where
  "is_slug s =
     (2 \<le> length s \<and> length s \<le> 64 \<and> is_lower (hd s) \<and> list_all slug_char s \<and> last s \<noteq> CHR ''_'')"

definition node_id_re :: "string \<Rightarrow> bool" where
  "node_id_re s = (is_slug s \<or> s \<noteq> [] \<and> last s = CHR 10 \<and> is_slug (butlast s))"

definition ends_with :: "string \<Rightarrow> string \<Rightarrow> bool" where
  "ends_with suffix s = starts_with (rev suffix) (rev s)"

definition node_id_valid :: "string \<Rightarrow> bool" where
  "node_id_valid s = (node_id_re s \<and> \<not> ends_with ''__classifier'' s \<and> \<not> ends_with ''__inline'' s)"

text \<open>\<open>^\d+\.\d+\.\d+$\<close>, anchored at the end of the text.\<close>

definition version_valid :: "string \<Rightarrow> bool" where
  "version_valid s =
     (let parts = py_split ''.'' s
      in length parts = 3 \<and> (\<forall>p \<in> set parts. p \<noteq> [] \<and> list_all is_digit p))"

definition collect_valid :: "collect_v1 \<Rightarrow> bool" where
  "collect_valid c = (cl_field c \<noteq> [] \<and> length (cl_field c) \<le> 64)"

definition exit_valid :: "exit_v1 \<Rightarrow> bool" where
  "exit_valid e = (ec_type e \<in> {ExRule, ExCombined} \<longrightarrow> str_or (ec_expression e) [] \<noteq> [])"

definition transition_valid :: "transition_v1 \<Rightarrow> bool" where
  "transition_valid t = (tv1_condition t \<noteq> [] \<and> tv1_target t \<noteq> [])"

definition returns_value :: "pyexn + 'a \<Rightarrow> bool" where
  "returns_value m = (case m of Inl _ \<Rightarrow> False | Inr _ \<Rightarrow> True)"

definition follow_up_step_valid :: "ext \<Rightarrow> follow_up_step \<Rightarrow> bool" where
  "follow_up_step_valid E s = (fs_template s \<noteq> [] \<and> returns_value (parse_duration E (fs_after s)))"

definition follow_up_valid :: "ext \<Rightarrow> follow_up_config \<Rightarrow> bool" where
  "follow_up_valid E c =
     (1 \<le> fc_max c \<and> fc_max c \<le> 10 \<and> list_all (follow_up_step_valid E) (fc_sequence c) \<and>
      \<not> (fc_enabled c \<and> int (length (fc_sequence c)) < fc_max c))"

definition objection_valid :: "objection_v1 \<Rightarrow> bool" where
  "objection_valid o' =
     (o1_id o' \<noteq> [] \<and> o1_kb o' \<noteq> [] \<and> 10 \<le> length (o1_description o') \<and> length (o1_description o') \<le> 300 \<and>
      o1_subnode o' \<noteq> Some [])"

definition kb_ref_valid :: "kb_ref \<Rightarrow> bool" where
  "kb_ref_valid k = (kr_id k \<noteq> [] \<and> 1 \<le> kr_top k \<and> kr_top k \<le> 20 \<and> 0 \<le> kr_min k \<and> kr_min k \<le> 1)"

definition llm_config_valid :: "llm_config \<Rightarrow> bool" where
  "llm_config_valid c =
     (lc_provider c \<noteq> [] \<and> lc_model c \<noteq> [] \<and>
      (\<forall>t \<in> set_option (lc_temperature c). 0 \<le> t \<and> t \<le> 2) \<and>
      (\<forall>n \<in> set_option (lc_max c). 0 < n \<and> n \<le> 64000) \<and> starts_with ''secrets/'' (lc_key c))"

definition node_valid :: "node_v1 \<Rightarrow> bool" where
  "node_valid n =
     (node_id_valid (n1_id n) \<and> n1_prompt n \<noteq> [] \<and> (\<forall>c \<in> set_option (n1_llm n). llm_config_valid c) \<and>
      list_all collect_valid (n1_collects n) \<and> exit_valid (n1_exit n) \<and> n1_next n \<noteq> [] \<and>
      list_all transition_valid (n1_next n) \<and>
      (\<forall>ks \<in> set_option (n1_kb n). list_all kb_ref_valid ks) \<and>
      list_all objection_valid (n1_objections n) \<and> distinct (map o1_id (n1_objections n)))"

definition node_ids :: "treeflow_v1 \<Rightarrow> string list" where
  "node_ids tf = map n1_id (f1_nodes tf)"

text \<open>The objections with the node that declares them, \<open>None\<close> for a global one.\<close>

definition all_objections :: "treeflow_v1 \<Rightarrow> (objection_v1 \<times> string option) list" where
  "all_objections tf =
     map (\<lambda>o'. (o', None)) (f1_globals tf) @
     concat (map (\<lambda>n. map (\<lambda>o'. (o', Some (n1_id n))) (n1_objections n)) (f1_nodes tf))"

definition graph_consistent :: "treeflow_v1 \<Rightarrow> bool" where
  "graph_consistent tf =
     (distinct (node_ids tf) \<and> f1_entry tf \<in> set (node_ids tf) \<and>
      (\<forall>n \<in> set (f1_nodes tf). \<forall>t \<in> set (n1_next n).
         tv1_target t \<in> set (node_ids tf) \<union> {end_sentinel, back_to_origin}) \<and>
      distinct (map o1_id (f1_globals tf)) \<and>
      (\<forall>od \<in> set (all_objections tf). \<forall>sn \<in> set_option (o1_subnode (fst od)).
         sn \<in> set (node_ids tf) \<and> snd od \<noteq> Some sn))"

definition treeflow_v1_valid :: "ext \<Rightarrow> treeflow_v1 \<Rightarrow> bool" where
  "treeflow_v1_valid E tf =
     (f1_id tf \<noteq> [] \<and> version_valid (f1_version tf) \<and> f1_name tf \<noteq> [] \<and>
      (\<forall>c \<in> set_option (f1_follow_up tf). follow_up_valid E c) \<and> list_all objection_valid (f1_globals tf) \<and>
      f1_nodes tf \<noteq> [] \<and> list_all node_valid (f1_nodes tf) \<and> graph_consistent tf)"

definition model_validate :: "ext \<Rightarrow> (jval \<Rightarrow> treeflow_v1 option) \<Rightarrow> jval \<Rightarrow> pyexn + treeflow_v1" where
  "model_validate E reader data =
     (case reader data of
        None \<Rightarrow> Inl (ValueError ''ValidationError'')
      | Some tf \<Rightarrow> if treeflow_v1_valid E tf then Inr tf else Inl (ValueError ''ValidationError''))"

subsection \<open>Expressions\<close>

text \<open>
  The evaluator of \<open>simpleeval\<close> with its names and the helper \<open>is_set\<close>; an outcome is a truth value,
  an unknown name, one of the exceptions that are turned into \<open>ExpressionError\<close>, or another exception.
\<close>

datatype eval_outcome = EvValue bool | EvUnknownName | EvRejected | EvRaises pyexn

type_synonym evaluator = "jval dict \<Rightarrow> (string \<Rightarrow> bool) \<Rightarrow> string \<Rightarrow> eval_outcome"

definition is_set :: "jval dict \<Rightarrow> string \<Rightarrow> bool" where
  "is_set ctx name = (case map_of ctx name of None \<Rightarrow> False | Some v \<Rightarrow> v \<noteq> JNull)"

definition expression_error :: "pyexn + 'a" where
  "expression_error = Inl (OtherError ''ExpressionError'')"

definition eval_bool_v1 :: "evaluator \<Rightarrow> string \<Rightarrow> jval dict \<Rightarrow> pyexn + bool" where
  "eval_bool_v1 ev expr ctx =
     (if contains_str ''__'' expr then expression_error
      else case ev (dict_merge [(''true'', JBool True), (''false'', JBool False)] ctx) (is_set ctx) expr of
             EvValue b \<Rightarrow> Inr b
           | EvUnknownName \<Rightarrow> Inr False
           | EvRejected \<Rightarrow> expression_error
           | EvRaises e \<Rightarrow> Inl e)"

subsection \<open>Routing\<close>

definition required_filled :: "node_v1 \<Rightarrow> jval dict \<Rightarrow> bool" where
  "required_filled n collected = (\<forall>c \<in> set (n1_collects n). cl_required c \<longrightarrow> is_set collected (cl_field c))"

definition exit_satisfied_v1 :: "evaluator \<Rightarrow> node_v1 \<Rightarrow> jval dict \<Rightarrow> pyexn + bool" where
  "exit_satisfied_v1 ev n collected =
     (let ec = n1_exit n in
      case ec_type ec of
        ExAllFields \<Rightarrow> Inr (required_filled n collected)
      | ExRule \<Rightarrow>
          (case ec_expression ec of
             None \<Rightarrow> Inl AssertionError
           | Some e \<Rightarrow> eval_bool_v1 ev e collected)
      | ExCombined \<Rightarrow>
          (case ec_expression ec of
             None \<Rightarrow> Inl AssertionError
           | Some e \<Rightarrow> if required_filled n collected then eval_bool_v1 ev e collected else Inr False))"

fun first_transition :: "evaluator \<Rightarrow> jval dict \<Rightarrow> transition_v1 list \<Rightarrow> pyexn + string option" where
  "first_transition ev collected [] = Inr None"
| "first_transition ev collected (t # ts) =
     bindE (eval_bool_v1 ev (tv1_condition t) collected)
       (\<lambda>b. if b then Inr (Some (tv1_target t)) else first_transition ev collected ts)"

text \<open>
  The result is the next current node, whether the conversation is complete, and whether the origin
  is to be cleared.
\<close>

definition route_v1 ::
  "evaluator \<Rightarrow> node_v1 \<Rightarrow> jval dict \<Rightarrow> string option \<Rightarrow> string \<Rightarrow> pyexn + string \<times> bool \<times> bool" where
  "route_v1 ev n collected origin entry =
     bindE (exit_satisfied_v1 ev n collected) (\<lambda>ok.
     if \<not> ok then Inr (n1_id n, False, False)
     else bindE (first_transition ev collected (n1_next n)) (\<lambda>target.
       case target of
         None \<Rightarrow> Inr (n1_id n, False, False)
       | Some t \<Rightarrow>
           if t = end_sentinel then Inr (end_sentinel, True, False)
           else if t = back_to_origin
             then (case origin of
                     None \<Rightarrow> Inr (entry, False, False)
                   | Some o' \<Rightarrow> Inr (o', False, True))
           else Inr (t, False, False)))"

subsection \<open>What validation guarantees of the routing\<close>

lemma first_transition_target:
  "first_transition ev collected ts = Inr (Some t) \<Longrightarrow> t \<in> tv1_target ` set ts"
proof (induction ts)
  case Nil
  then show ?case by simp
next
  case (Cons x xs)
  then show ?case by (auto simp: bindE_eq_Inr split: if_splits)
qed

lemma find_distinct: "distinct (map f xs) \<Longrightarrow> x \<in> set xs \<Longrightarrow> find (\<lambda>y. f y = f x) xs = Some x"
  by (induction xs) (auto simp: image_iff)

definition node_of :: "treeflow_v1 \<Rightarrow> string \<Rightarrow> node_v1 option" where
  "node_of tf i = find (\<lambda>n. n1_id n = i) (f1_nodes tf)"

lemma node_of_Some: "node_of tf i = Some n \<Longrightarrow> n \<in> set (f1_nodes tf) \<and> n1_id n = i"
  by (auto simp: node_of_def find_Some_iff)

lemma node_of_id: "graph_consistent tf \<Longrightarrow> n \<in> set (f1_nodes tf) \<Longrightarrow> node_of tf (n1_id n) = Some n"
  by (simp add: node_of_def graph_consistent_def node_ids_def find_distinct)

lemma node_of_None: "node_of tf i = None \<longleftrightarrow> i \<notin> set (node_ids tf)"
  by (auto simp: node_of_def find_None_iff node_ids_def)

lemma route_cases:
  assumes r: "route_v1 ev n collected origin entry = Inr (next, completed, clear)"
  obtains (stay) "next = n1_id n" "\<not> completed" "\<not> clear"
  | (final) "next = end_sentinel" "completed" "\<not> clear" "end_sentinel \<in> tv1_target ` set (n1_next n)"
  | (orphan) "next = entry" "\<not> completed" "\<not> clear" "origin = None"
  | (returned) "origin = Some next" "\<not> completed" "clear"
  | (forward) "next \<in> tv1_target ` set (n1_next n)" "next \<noteq> end_sentinel" "next \<noteq> back_to_origin" "\<not> completed" "\<not> clear"
proof -
  obtain ok where ok: "exit_satisfied_v1 ev n collected = Inr ok" using r by (auto simp: route_v1_def bindE_eq_Inr)
  show ?thesis
  proof (cases ok)
    case False
    then show ?thesis using stay r ok by (simp add: route_v1_def)
  next
    case True
    obtain target where t: "first_transition ev collected (n1_next n) = Inr target"
      using r ok True by (auto simp: route_v1_def bindE_eq_Inr)
    show ?thesis
    proof (cases target)
      case None
      then show ?thesis using stay r ok True t by (simp add: route_v1_def)
    next
      case (Some x)
      have mem: "x \<in> tv1_target ` set (n1_next n)" using first_transition_target t Some by blast
      have eq: "(if x = end_sentinel then Inr (end_sentinel, True, False)
           else if x = back_to_origin
             then (case origin of None \<Rightarrow> Inr (entry, False, False) | Some o' \<Rightarrow> Inr (o', False, True))
           else Inr (x, False, False)) = (Inr (next, completed, clear) :: pyexn + string \<times> bool \<times> bool)"
        using r ok True t Some by (simp add: route_v1_def)
      show ?thesis
        using eq final orphan returned forward mem by (cases origin) (auto split: if_splits)
    qed
  qed
qed

lemma route_target:
  assumes tf: "graph_consistent tf" and n: "n \<in> set (f1_nodes tf)"
    and o': "\<forall>x \<in> set_option origin. x \<in> set (node_ids tf)"
    and r: "route_v1 ev n collected origin (f1_entry tf) = Inr (next, completed, clear)"
  shows "next \<in> set (node_ids tf) \<union> {end_sentinel}"
proof -
  have id: "n1_id n \<in> set (node_ids tf)" using n by (simp add: node_ids_def)
  have entry: "f1_entry tf \<in> set (node_ids tf)" using tf by (simp add: graph_consistent_def)
  have tgt: "t \<in> set (node_ids tf) \<union> {end_sentinel, back_to_origin}" if "t \<in> tv1_target ` set (n1_next n)" for t
    using that tf n unfolding graph_consistent_def by blast
  from r show ?thesis
  proof (cases rule: route_cases)
    case forward
    then show ?thesis using tgt by blast
  qed (use id entry o' in auto)
qed

end
