(* ===== verification/Guardrails_V1.thy ===== *)
theory Guardrails_V1
  imports Treeflow_V1 "HOL-Library.List_Lexorder" "HOL-Library.Char_ord"
begin

text \<open>
  The guardrails of the engine v1: the whitelist over the prices and products that the model says it
  mentioned (\<open>guardrails/whitelist.py\<close>) and the loop that asks the model again with the correction and
  falls back to the tenant's text (\<open>guardrails/runner.py\<close>).  The model call \<open>inner\<close> and the critic are
  parameters with a state; a list of messages is given by the correction appended to the base
  messages, \<open>None\<close> when there is none.
\<close>

record guardrails_v1 =
  gv_enabled :: bool
  gv_prices :: "int list"
  gv_products :: "string list"
  gv_critic :: bool
  gv_fallback :: string
  gv_retries :: int
  gv_pattern :: string

definition guardrails_v1_valid :: "guardrails_v1 \<Rightarrow> bool" where
  "guardrails_v1_valid g =
     (1 \<le> gv_retries g \<and> gv_retries g \<le> 5 \<and>
      (gv_enabled g \<longrightarrow> gv_products g \<noteq> [] \<and> 10 \<le> length (gv_fallback g)))"

record verdict =
  vd_passed :: bool
  vd_reason :: "string option"
  vd_fix :: "string option"

subsection \<open>The whitelist\<close>

definition py_set :: "'a :: linorder list \<Rightarrow> 'a list" where
  \<comment> \<open>\<open>sorted({\<dots>})\<close>\<close>
  "py_set xs = sort (remdups xs)"

definition py_list :: "string list \<Rightarrow> string" where
  "py_list xs = ''['' @ py_join '', '' xs @ '']''"

definition whitelist_reason :: "int list \<Rightarrow> string list \<Rightarrow> string" where
  "whitelist_reason prices products =
     py_join ''; ''
       ((if prices = [] then []
         else [''valor(es) n'' @ [CHR 0xE3] @ ''o autorizado(s): '' @ py_list (map str_int prices)]) @
        (if products = [] then []
         else [''produto(s) n'' @ [CHR 0xE3] @ ''o autorizado(s): '' @ py_list (map repr_str products)]))"

definition validate_whitelist :: "int list \<Rightarrow> string list \<Rightarrow> guardrails_v1 \<Rightarrow> verdict" where
  "validate_whitelist prices products g =
     (if \<not> gv_enabled g then \<lparr>vd_passed = True, vd_reason = None, vd_fix = None\<rparr>
      else
        (let allowed = map py_lower (gv_products g);
             bad_prices = py_set (filter (\<lambda>p. p \<notin> set (gv_prices g)) prices);
             bad_products = py_set (filter (\<lambda>p. py_lower p \<notin> set allowed) products);
             reason = whitelist_reason bad_prices bad_products
         in if bad_prices = [] \<and> bad_products = []
            then \<lparr>vd_passed = True, vd_reason = None, vd_fix = None\<rparr>
            else \<lparr>vd_passed = False, vd_reason = Some reason,
                  vd_fix = Some (''Sua resposta mencionou '' @ reason @ ''. Valores permitidos: '' @
                    py_list (map str_int (gv_prices g)) @ ''. Produtos permitidos: '' @
                    py_list (map repr_str (gv_products g)) @
                    ''. Refa'' @ [CHR 0xE7] @ ''a a resposta SEM mencionar valores ou produtos fora dessas listas.'')\<rparr>))"

definition whitelisted :: "int list \<Rightarrow> string list \<Rightarrow> guardrails_v1 \<Rightarrow> bool" where
  "whitelisted prices products g =
     (set prices \<subseteq> set (gv_prices g) \<and> py_lower ` set products \<subseteq> py_lower ` set (gv_products g))"

lemma py_set_Nil [simp]: "py_set xs = [] \<longleftrightarrow> xs = []"
  by (metis py_set_def set_empty set_remdups set_sort)

lemma validate_whitelist_iff:
  "vd_passed (validate_whitelist prices products g) \<longleftrightarrow> (gv_enabled g \<longrightarrow> whitelisted prices products g)"
  by (auto simp: validate_whitelist_def Let_def whitelisted_def filter_empty_conv)

subsection \<open>The loop\<close>

record extract_result =
  er_text :: string
  er_dump :: "jval dict"
  er_prices :: "int list"
  er_products :: "string list"

record guardrails_result =
  gr_text :: string
  gr_collected :: "jval dict"
  gr_blocked :: bool
  gr_attempts :: int

type_synonym 'l inner = "string option \<Rightarrow> 'l \<Rightarrow> (pyexn + extract_result) \<times> 'l"
type_synonym 'l critic = "string \<Rightarrow> 'l \<Rightarrow> (pyexn + verdict) \<times> 'l"

text \<open>
  \<open>er_dump\<close> is \<open>model_dump()\<close> without the text and the mentions; a nested \<open>collected\<close> is merged.
\<close>

definition collect_entry :: "jval dict \<Rightarrow> string \<times> jval \<Rightarrow> jval dict" where
  "collect_entry out kv =
     (if fst kv \<in> {''response_text'', ''prices_mentioned'', ''products_mentioned''} \<or> snd kv = JNull then out
      else case snd kv of
             JObj d \<Rightarrow> if fst kv = ''collected'' then dict_merge out d else dict_put (fst kv) (JObj d) out
           | v \<Rightarrow> dict_put (fst kv) v out)"

definition collected_from_result :: "extract_result \<Rightarrow> jval dict" where
  "collected_from_result r = foldl collect_entry [] (er_dump r)"

definition default_fallback :: string where
  "default_fallback = ''Deixa eu confirmar e j'' @ [CHR 0xE1] @ '' te respondo.''"

definition handle_exhausted :: "guardrails_v1 option \<Rightarrow> int \<Rightarrow> guardrails_result" where
  "handle_exhausted g retries =
     \<lparr>gr_text = (case g of Some c \<Rightarrow> gv_fallback c | None \<Rightarrow> default_fallback), gr_collected = [], gr_blocked = True,
      gr_attempts = retries + 1\<rparr>"

text \<open>What one answer of the model leads to: it is accepted, or refused with a correction.\<close>

definition whitelist_fix :: "verdict \<Rightarrow> string" where
  "whitelist_fix v = str_or (vd_fix v) (''Refa'' @ [CHR 0xE7] @ ''a respeitando a whitelist.'')"

definition critic_fix :: "verdict \<Rightarrow> string" where
  "critic_fix v = str_or (vd_fix v) (''Refa'' @ [CHR 0xE7] @ ''a com base no critic.'')"

definition review_answer ::
  "guardrails_v1 option \<Rightarrow> bool \<Rightarrow> 'l critic \<Rightarrow> extract_result \<Rightarrow> 'l \<Rightarrow> (pyexn + string option) \<times> 'l" where
  \<comment> \<open>\<open>Inr (Some corr)\<close> is a refusal\<close>
  "review_answer g critical cp r s =
     (case g of
        None \<Rightarrow> (Inr None, s)
      | Some c \<Rightarrow>
          if \<not> gv_enabled c then (Inr None, s)
          else
            (let v = validate_whitelist (er_prices r) (er_products r) c in
             if \<not> vd_passed v then (Inr (Some (whitelist_fix v)), s)
             else if critical \<and> gv_critic c
               then (case cp (er_text r) s of
                       (Inl e, s1) \<Rightarrow> (Inl e, s1)
                     | (Inr vc, s1) \<Rightarrow> (Inr (if vd_passed vc then None else Some (critic_fix vc)), s1))
               else (Inr None, s)))"

text \<open>\<open>attempts_loop g critical inner cp n retries corr\<close>: \<open>n\<close> more attempts after this one.\<close>

fun attempts_loop ::
  "guardrails_v1 option \<Rightarrow> bool \<Rightarrow> 'l inner \<Rightarrow> 'l critic \<Rightarrow> nat \<Rightarrow> int \<Rightarrow> string option \<Rightarrow> 'l \<Rightarrow>
   (pyexn + guardrails_result) \<times> 'l" where
  "attempts_loop g critical inner cp n retries corr s =
     (case inner corr s of
        (Inl e, s1) \<Rightarrow> (Inl e, s1)
      | (Inr r, s1) \<Rightarrow>
          (case review_answer g critical cp r s1 of
             (Inl e, s2) \<Rightarrow> (Inl e, s2)
           | (Inr None, s2) \<Rightarrow>
               (Inr \<lparr>gr_text = er_text r, gr_collected = collected_from_result r, gr_blocked = False,
                     gr_attempts = retries - int n\<rparr>, s2)
           | (Inr (Some f), s2) \<Rightarrow>
               (case n of
                  0 \<Rightarrow> (Inr (handle_exhausted g retries), s2)
                | Suc k \<Rightarrow> attempts_loop g critical inner cp k retries (Some f) s2)))"

definition run_with_guardrails ::
  "guardrails_v1 option \<Rightarrow> bool \<Rightarrow> 'l inner \<Rightarrow> 'l critic \<Rightarrow> 'l \<Rightarrow> (pyexn + guardrails_result) \<times> 'l" where
  "run_with_guardrails g critical inner cp s =
     (let retries = (case g of Some c \<Rightarrow> gv_retries c | None \<Rightarrow> 2)
      in if retries < 0 then (Inr (handle_exhausted g retries), s)
         else attempts_loop g critical inner cp (nat retries) retries None s)"

subsection \<open>What the loop guarantees\<close>

declare attempts_loop.simps [simp del]

lemma attempts_loop_cases:
  assumes "attempts_loop g critical inner cp n retries corr s = (Inr res, s')"
  obtains (accepted) r s1 where "inner corr s = (Inr r, s1)" "review_answer g critical cp r s1 = (Inr None, s')"
      "res = \<lparr>gr_text = er_text r, gr_collected = collected_from_result r, gr_blocked = False, gr_attempts = retries - int n\<rparr>"
  | (exhausted) "n = 0" "res = handle_exhausted g retries"
  | (again) k f s2 where "n = Suc k" "attempts_loop g critical inner cp k retries (Some f) s2 = (Inr res, s')"
  using assms
  by (subst (asm) attempts_loop.simps) (auto split: prod.splits sum.splits option.splits nat.splits)

text \<open>
  An answer that is let through has passed the whitelist, and the critic when the node is critical; a
  blocked one is the fallback text with nothing collected.
\<close>

definition let_through :: "guardrails_v1 option \<Rightarrow> bool \<Rightarrow> 'l inner \<Rightarrow> 'l critic \<Rightarrow> guardrails_result \<Rightarrow> bool" where
  "let_through g critical inner cp res =
     (\<exists>corr s r s1. inner corr s = (Inr r, s1) \<and> gr_text res = er_text r \<and> gr_collected res = collected_from_result r \<and>
        (\<forall>c. g = Some c \<and> gv_enabled c \<longrightarrow> whitelisted (er_prices r) (er_products r) c \<and>
           (critical \<and> gv_critic c \<longrightarrow> (\<exists>v s2. cp (er_text r) s1 = (Inr v, s2) \<and> vd_passed v))))"

lemma review_passed:
  assumes "review_answer g critical cp r s = (Inr None, s')" "g = Some c" "gv_enabled c"
  shows "whitelisted (er_prices r) (er_products r) c \<and>
    (critical \<and> gv_critic c \<longrightarrow> (\<exists>v s2. cp (er_text r) s = (Inr v, s2) \<and> vd_passed v))"
proof -
  have v: "vd_passed (validate_whitelist (er_prices r) (er_products r) c)"
    using assms by (auto simp: review_answer_def Let_def split: if_splits)
  then have "whitelisted (er_prices r) (er_products r) c" using validate_whitelist_iff assms(3) by blast
  then show ?thesis
    using assms v by (auto simp: review_answer_def Let_def split: if_splits prod.splits sum.splits)
qed

lemma attempts_loop_result:
  assumes "attempts_loop g critical inner cp n retries corr s = (Inr res, s')" "int n \<le> retries"
  shows "(gr_blocked res \<and> res = handle_exhausted g retries \<or> \<not> gr_blocked res \<and> let_through g critical inner cp res) \<and>
    0 \<le> gr_attempts res \<and> gr_attempts res \<le> retries + 1"
  using assms
proof (induction n arbitrary: corr s)
  case 0
  from 0(1) show ?case
  proof (cases rule: attempts_loop_cases)
    case (accepted r s1)
    then have "let_through g critical inner cp res"
      using review_passed [OF accepted(2)] unfolding let_through_def by force
    then show ?thesis using accepted(3) 0(2) by simp
  next
    case exhausted
    then show ?thesis using 0(2) by (simp add: handle_exhausted_def)
  qed simp
next
  case (Suc n)
  from Suc.prems(1) show ?case
  proof (cases rule: attempts_loop_cases)
    case (accepted r s1)
    then have "let_through g critical inner cp res"
      using review_passed [OF accepted(2)] unfolding let_through_def by force
    then show ?thesis using accepted(3) Suc.prems(2) by simp
  next
    case (again k f s2)
    then show ?thesis using Suc.IH Suc.prems(2) by simp
  qed simp
qed

lemma attempts_loop_calls:
  fixes cnt :: "'l \<Rightarrow> nat"
  assumes i: "\<And>corr s. cnt (snd (inner corr s)) = cnt s + 1" and c: "\<And>t s. cnt (snd (cp t s)) = cnt s"
  shows "cnt (snd (attempts_loop g critical inner cp n retries corr s)) \<le> cnt s + n + 1"
proof (induction n arbitrary: corr s)
  case 0
  have "cnt (snd (review_answer g critical cp r s)) = cnt s" for r s
    using c [of "er_text r" s] by (auto simp: review_answer_def Let_def split: option.split prod.split sum.split)
  moreover obtain x s1 where x: "inner corr s = (x, s1)" by fastforce
  moreover have "cnt s1 = cnt s + 1" using i [of corr s] x by simp
  ultimately show ?case
    by (subst attempts_loop.simps) (auto split: prod.split sum.split option.split dest!: arg_cong [where f = "\<lambda>p. cnt (snd p)"])
next
  case (Suc n)
  have rv: "cnt (snd (review_answer g critical cp r s)) = cnt s" for r s
    using c [of "er_text r" s] by (auto simp: review_answer_def Let_def split: option.split prod.split sum.split)
  obtain x s1 where x: "inner corr s = (x, s1)" by fastforce
  have s1: "cnt s1 = cnt s + 1" using i [of corr s] x by simp
  show ?case
  proof (cases x)
    case (Inl e)
    then show ?thesis using x s1 by (simp add: attempts_loop.simps)
  next
    case (Inr r)
    obtain y s2 where y: "review_answer g critical cp r s1 = (y, s2)" by fastforce
    have "cnt s2 = cnt s + 1" using rv [of r s1] y s1 by simp
    then show ?thesis
      using x Inr y Suc.IH [of _ s2] by (auto simp: attempts_loop.simps [of _ _ _ _ "Suc n"] split: sum.split option.split)
  qed
qed

end
