(* ===== verification/Engine_V1.thy ===== *)
theory Engine_V1
  imports Guardrails_V1
begin

text \<open>
  The engine v1: the graph that \<open>treeflow/compiler.py\<close> builds from a tree, the objection classifier
  (\<open>treeflow/classifier.py\<close>, \<open>treeflow/objection_response.py\<close>, \<open>treeflow/state.py\<close>) and one step of the
  runtime (\<open>TalkFlowRuntime.step\<close> of \<open>treeflow/runtime.py\<close>).

  LangGraph is a parameter in two respects that its documentation states: the graph is run vertex by
  vertex from \<open>START\<close> until \<open>END\<close>, each vertex returning an update of the state that the
  checkpointer saves, and a run of more than \<open>limit\<close> steps raises \<open>GraphRecursionError\<close>.  The model,
  the critic, the classifier's model and the retrieval are functions with a state.
\<close>

subsection \<open>The state of a conversation\<close>

record objection_record =
  or_objection :: string
  or_node :: string
  or_turn :: int
  or_quote :: string

record classifier_result =
  cr_objection :: "string option"
  cr_confidence :: rat
  cr_quote :: string

text \<open>\<open>v1_node\<close> is empty when the key is absent.\<close>

record v1_state =
  v1_node :: string
  v1_collected :: "jval dict"
  v1_messages :: "(role \<times> string) list"
  v1_input :: string
  v1_reply :: string
  v1_done :: bool
  v1_handled :: "objection_record list"
  v1_origin :: "string option"
  v1_active :: "objection_v1 option"
  v1_result :: "classifier_result option"

definition v1_initial :: "treeflow_v1 \<Rightarrow> string \<Rightarrow> v1_state" where
  "v1_initial tf input =
     \<lparr>v1_node = f1_entry tf, v1_collected = [], v1_messages = [], v1_input = input, v1_reply = [],
      v1_done = False, v1_handled = [], v1_origin = None, v1_active = None, v1_result = None\<rparr>"

subsection \<open>The parameters\<close>

record objections_cfg =
  oc_enabled :: bool
  oc_min_confidence :: rat
  oc_max_handled :: int
  oc_window :: int

record retrieved_chunk =
  rc_kb :: string
  rc_heading :: "string option"
  rc_content :: string
  rc_score :: rat

text \<open>
  What the model is shown: the persona, the further system blocks, the conversation.  The fixed
  instructions of an objection are constructors.
\<close>

datatype v1_block = BlockText string | ObjectionInstruction string string | KbEmptyFallback

record v1_prompt =
  vp_persona :: string
  vp_blocks :: "v1_block list"
  vp_history :: "(role \<times> string) list"
  vp_correction :: "string option"

record classify_request =
  cq_objections :: "(string \<times> string) list"
  cq_history :: "(role \<times> string) list"
  cq_handled :: "string list"

record 'l v1_env =
  ve_tree :: treeflow_v1
  ve_eval :: evaluator
  ve_guardrails :: "guardrails_v1 option"
  ve_objections :: objections_cfg
  ve_has_kb :: bool
  ve_retrieve :: "kb_ref list \<Rightarrow> string \<Rightarrow> 'l \<Rightarrow> (pyexn + retrieved_chunk list) \<times> 'l"
  ve_extract :: "node_v1 \<Rightarrow> v1_prompt \<Rightarrow> 'l \<Rightarrow> (pyexn + extract_result) \<times> 'l"
  ve_critic :: "node_v1 \<Rightarrow> retrieved_chunk list \<Rightarrow> (role \<times> string) list \<Rightarrow> 'l critic"
  ve_classify :: "classify_request \<Rightarrow> 'l \<Rightarrow> (pyexn + classifier_result) \<times> 'l"
  ve_score :: "rat \<Rightarrow> string"

subsection \<open>The classifier\<close>

text \<open>A dictionary by id: global objections first, the node's own ones overwrite them in place.\<close>

definition put_objection :: "objection_v1 \<Rightarrow> objection_v1 dict \<Rightarrow> objection_v1 dict" where
  "put_objection o' d = dict_put (o1_id o') o' d"

definition applicable_objections :: "treeflow_v1 \<Rightarrow> node_v1 \<Rightarrow> objection_v1 list" where
  "applicable_objections tf n =
     map snd (fold put_objection (n1_objections n) (fold put_objection (f1_globals tf) []))"

definition conversation :: "v1_state \<Rightarrow> (role \<times> string) list" where
  "conversation st = v1_messages st @ (if v1_input st \<noteq> [] then [(RUser, v1_input st)] else [])"

definition take_last_int :: "int \<Rightarrow> 'a list \<Rightarrow> 'a list" where
  \<comment> \<open>\<open>xs[-n:]\<close>: all of \<open>xs\<close> for \<open>n = 0\<close>, \<open>xs[|n|:]\<close> for a negative \<open>n\<close>\<close>
  "take_last_int n xs = (if n > 0 then take_last (nat n) xs else drop (nat (- n)) xs)"

definition classify :: "'l v1_env \<Rightarrow> objection_v1 list \<Rightarrow> v1_state \<Rightarrow> 'l \<Rightarrow> (pyexn + classifier_result) \<times> 'l" where
  "classify E objs st s =
     (if objs = [] then (Inr \<lparr>cr_objection = None, cr_confidence = 0, cr_quote = []\<rparr>, s)
      else ve_classify E
             \<lparr>cq_objections = map (\<lambda>o'. (o1_id o', o1_description o')) objs,
              cq_history = take_last_int (oc_window (ve_objections E)) (conversation st),
              cq_handled = map or_objection (v1_handled st)\<rparr> s)"

datatype vertex = VClassifier string | VNode string | VInline string | VEnd

definition handled_record :: "v1_state \<Rightarrow> node_v1 \<Rightarrow> objection_v1 \<Rightarrow> string \<Rightarrow> objection_record" where
  "handled_record st n o' quote =
     \<lparr>or_objection = o1_id o', or_node = n1_id n, or_turn = int (length (v1_messages st) div 2), or_quote = quote\<rparr>"

definition detected :: "'l v1_env \<Rightarrow> objection_v1 list \<Rightarrow> classifier_result \<Rightarrow> objection_v1 option" where
  "detected E objs r =
     (case cr_objection r of
        None \<Rightarrow> None
      | Some i \<Rightarrow> if cr_confidence r < oc_min_confidence (ve_objections E) then None
                  else find (\<lambda>o'. o1_id o' = i) objs)"

definition classifier_fn :: "'l v1_env \<Rightarrow> node_v1 \<Rightarrow> v1_state \<Rightarrow> 'l \<Rightarrow> (vertex \<times> v1_state) \<times> 'l" where
  "classifier_fn E n st s =
     (let objs = applicable_objections (ve_tree E) n in
      if objs = [] \<or> \<not> oc_enabled (ve_objections E) then ((VNode (n1_id n), st), s)
      else case classify E objs st s of
             (Inl _, s1) \<Rightarrow> ((VNode (n1_id n), st), s1)
           | (Inr r, s1) \<Rightarrow>
               (case detected E objs r of
                  None \<Rightarrow> ((VNode (n1_id n), st), s1)
                | Some o' \<Rightarrow>
                    (case o1_subnode o' of
                       None \<Rightarrow> ((VInline (n1_id n), st\<lparr>v1_active := Some o', v1_result := Some r\<rparr>), s1)
                     | Some sn \<Rightarrow>
                         ((VClassifier sn,
                           st\<lparr>v1_origin := Some (n1_id n),
                              v1_handled := v1_handled st @ [handled_record st n o' (cr_quote r)]\<rparr>), s1))))"

subsection \<open>The node of a turn\<close>

definition chunk_block :: "(rat \<Rightarrow> string) \<Rightarrow> nat \<times> retrieved_chunk \<Rightarrow> string" where
  "chunk_block score ic =
     ''['' @ str_nat (fst ic) @ ''] '' @ str_or (rc_heading (snd ic)) ''(sem heading)'' @ '' (score '' @
     score (rc_score (snd ic)) @ '') ['' @ rc_kb (snd ic) @ '']'' @ [CHR 10] @ rc_content (snd ic)"

definition chunk_blocks :: "(rat \<Rightarrow> string) \<Rightarrow> retrieved_chunk list \<Rightarrow> string" where
  "chunk_blocks score cs = py_join [CHR 10, CHR 10] (map (chunk_block score) (zip [1..<length cs + 1] cs))"

definition render_kb_block :: "(rat \<Rightarrow> string) \<Rightarrow> retrieved_chunk list \<Rightarrow> string" where
  "render_kb_block score cs =
     ''<knowledge_base>'' @ [CHR 10] @ chunk_blocks score cs @ [CHR 10] @ ''</knowledge_base>''"

text \<open>\<open>build_structured_model\<close> refuses collect fields with a reserved name.\<close>

definition reserved_field :: "guardrails_v1 option \<Rightarrow> string \<Rightarrow> bool" where
  "reserved_field g f =
     (f = ''response_text'' \<or>
      (\<exists>c \<in> set_option g. gv_enabled c \<and> f \<in> {''prices_mentioned'', ''products_mentioned''}))"

definition structured_model :: "guardrails_v1 option \<Rightarrow> node_v1 \<Rightarrow> pyexn + unit" where
  "structured_model g n =
     (if \<exists>c \<in> set (n1_collects n). reserved_field g (cl_field c)
      then Inl (ValueError ''reserved collect-field name'') else Inr ())"

definition say :: "v1_state \<Rightarrow> string \<Rightarrow> v1_state" where
  \<comment> \<open>the messages of a turn, with the input consumed\<close>
  "say st reply =
     st\<lparr>v1_messages := v1_messages st @ (if v1_input st \<noteq> [] then [(RUser, v1_input st)] else []) @ [(RAssistant, reply)],
        v1_reply := reply, v1_input := []\<rparr>"

definition guarded_answer ::
  "'l v1_env \<Rightarrow> node_v1 \<Rightarrow> retrieved_chunk list \<Rightarrow> v1_block list \<Rightarrow> v1_state \<Rightarrow> 'l \<Rightarrow>
   (pyexn + guardrails_result) \<times> 'l" where
  "guarded_answer E n chunks blocks st s =
     (case structured_model (ve_guardrails E) n of
        Inl e \<Rightarrow> (Inl e, s)
      | Inr _ \<Rightarrow>
          run_with_guardrails (ve_guardrails E) (n1_critical n)
            (\<lambda>corr. ve_extract E n
               \<lparr>vp_persona = n1_prompt n, vp_blocks = blocks, vp_history = conversation st, vp_correction = corr\<rparr>)
            (ve_critic E n chunks (take_last 4 (v1_messages st))) s)"

definition node_answered :: "'l v1_env \<Rightarrow> node_v1 \<Rightarrow> v1_state \<Rightarrow> guardrails_result \<Rightarrow> pyexn + v1_state" where
  "node_answered E n st g =
     (let collected = dict_merge (v1_collected st) (gr_collected g) in
      bindE (route_v1 (ve_eval E) n collected (v1_origin st) (f1_entry (ve_tree E))) (\<lambda>(nxt, completed, clear).
      Inr ((say st (gr_text g))
             \<lparr>v1_collected := collected, v1_node := nxt, v1_done := completed,
              v1_origin := (if clear then None else v1_origin st)\<rparr>)))"

definition node_fn :: "'l v1_env \<Rightarrow> node_v1 \<Rightarrow> v1_state \<Rightarrow> 'l \<Rightarrow> (pyexn + v1_state) \<times> 'l" where
  "node_fn E n st s =
     (let refs = (case n1_kb n of None \<Rightarrow> [] | Some ks \<Rightarrow> ks) in
      case (if refs \<noteq> [] \<and> v1_input st \<noteq> [] then ve_retrieve E refs (v1_input st) s else (Inr [], s)) of
        (Inl e, s1) \<Rightarrow> (Inl e, s1)
      | (Inr chunks, s1) \<Rightarrow>
          (case guarded_answer E n chunks (if chunks = [] then [] else [BlockText (render_kb_block (ve_score E) chunks)]) st s1 of
             (Inl e, s2) \<Rightarrow> (Inl e, s2)
           | (Inr g, s2) \<Rightarrow> (node_answered E n st g, s2)))"

subsection \<open>The inline answer to an objection\<close>

definition objection_text :: "objection_v1 \<Rightarrow> v1_block" where
  "objection_text o' = ObjectionInstruction (o1_id o') (o1_description o')"

definition kb_block :: "string \<Rightarrow> v1_block" where
  "kb_block content =
     (if strip content \<noteq> []
      then BlockText (''<knowledge_base>'' @ [CHR 10] @ content @ [CHR 10] @ ''</knowledge_base>'')
      else KbEmptyFallback)"

text \<open>A retrieval that fails or finds nothing leaves the block empty.\<close>

definition inline_kb :: "'l v1_env \<Rightarrow> objection_v1 \<Rightarrow> string \<Rightarrow> 'l \<Rightarrow> string \<times> 'l" where
  "inline_kb E o' query s =
     (if \<not> ve_has_kb E then ([], s)
      else case ve_retrieve E [\<lparr>kr_id = o1_kb o', kr_top = 3, kr_min = 7 / 10\<rparr>] query s of
             (Inl _, s1) \<Rightarrow> ([], s1)
           | (Inr cs, s1) \<Rightarrow> (chunk_blocks (ve_score E) cs, s1))"

definition inline_fn :: "'l v1_env \<Rightarrow> node_v1 \<Rightarrow> v1_state \<Rightarrow> 'l \<Rightarrow> (pyexn + v1_state) \<times> 'l" where
  "inline_fn E n st s =
     (case v1_active st of
        None \<Rightarrow> (Inl AssertionError, s)
      | Some o' \<Rightarrow>
          let (kb, s1) = inline_kb E o' (v1_input st) s in
          (case guarded_answer E n [] [objection_text o', kb_block kb] st s1 of
             (Inl e, s2) \<Rightarrow> (Inl e, s2)
           | (Inr g, s2) \<Rightarrow>
               (Inr ((say st (gr_text g))
                  \<lparr>v1_handled := v1_handled st @
                     [handled_record st n o' (case v1_result st of None \<Rightarrow> [] | Some r \<Rightarrow> cr_quote r)],
                   v1_active := None, v1_result := None\<rparr>), s2)))"

subsection \<open>The graph\<close>

definition registered :: "treeflow_v1 \<Rightarrow> vertex \<Rightarrow> bool" where
  "registered tf v =
     (case v of
        VEnd \<Rightarrow> True
      | VClassifier i \<Rightarrow> i \<in> set (node_ids tf)
      | VNode i \<Rightarrow> i \<in> set (node_ids tf)
      | VInline i \<Rightarrow>
          (\<exists>n \<in> set (f1_nodes tf). n1_id n = i \<and>
             (\<exists>o' \<in> set (n1_objections n) \<union> set (f1_globals tf). o1_subnode o' = None)))"

definition start_router :: "treeflow_v1 \<Rightarrow> v1_state \<Rightarrow> pyexn + vertex" where
  "start_router tf st =
     (let nid = (if v1_node st \<noteq> [] then v1_node st else f1_entry tf) in
      if nid = end_sentinel then Inr VEnd
      else if nid \<notin> set (node_ids tf) then Inl (ValueError ''state.current_node not in TreeFlow'')
      else Inr (VClassifier nid))"

text \<open>A goto to a vertex that is not in the graph is an error of LangGraph.\<close>

definition run_vertex :: "'l v1_env \<Rightarrow> vertex \<Rightarrow> v1_state \<Rightarrow> 'l \<Rightarrow> (pyexn + vertex \<times> v1_state) \<times> 'l" where
  "run_vertex E v st s =
     (if \<not> registered (ve_tree E) v then (Inl (OtherError ''InvalidUpdateError''), s)
      else case v of
        VEnd \<Rightarrow> (Inr (VEnd, st), s)
      | VClassifier i \<Rightarrow>
          (case node_of (ve_tree E) i of
             None \<Rightarrow> (Inl (KeyError i), s)
           | Some n \<Rightarrow> let (r, s1) = classifier_fn E n st s in (Inr r, s1))
      | VNode i \<Rightarrow>
          (case node_of (ve_tree E) i of
             None \<Rightarrow> (Inl (KeyError i), s)
           | Some n \<Rightarrow>
               (case node_fn E n st s of
                  (Inl e, s1) \<Rightarrow> (Inl e, s1)
                | (Inr st', s1) \<Rightarrow> (Inr (VEnd, st'), s1)))
      | VInline i \<Rightarrow>
          (case node_of (ve_tree E) i of
             None \<Rightarrow> (Inl (KeyError i), s)
           | Some n \<Rightarrow>
               (case inline_fn E n st s of
                  (Inl e, s1) \<Rightarrow> (Inl e, s1)
                | (Inr st', s1) \<Rightarrow> (Inr (VEnd, st'), s1))))"

fun run_graph ::
  "'l v1_env \<Rightarrow> nat \<Rightarrow> vertex \<Rightarrow> v1_state \<Rightarrow> 'l \<Rightarrow> pyexn option \<times> v1_state \<times> 'l" where
  "run_graph E limit v st s =
     (if v = VEnd then (None, st, s)
      else case limit of
             0 \<Rightarrow> (Some (OtherError ''GraphRecursionError''), st, s)
           | Suc k \<Rightarrow>
               (case run_vertex E v st s of
                  (Inl e, s1) \<Rightarrow> (Some e, st, s1)
                | (Inr (v', st'), s1) \<Rightarrow> run_graph E k v' st' s1))"

declare run_graph.simps [simp del]

text \<open>
  One step of the runtime on the checkpoint of the thread, \<open>None\<close> before the first turn; the new
  checkpoint is returned with the result.
\<close>

definition compile_ok :: "'l v1_env \<Rightarrow> bool" where
  "compile_ok E =
     ((\<exists>n \<in> set (f1_nodes (ve_tree E)). case n1_kb n of None \<Rightarrow> False | Some ks \<Rightarrow> ks \<noteq> []) \<longrightarrow> ve_has_kb E)"

definition runtime_step ::
  "'l v1_env \<Rightarrow> nat \<Rightarrow> v1_state option \<Rightarrow> string \<Rightarrow> 'l \<Rightarrow> pyexn option \<times> v1_state option \<times> 'l" where
  "runtime_step E limit checkpoint input s =
     (if \<not> compile_ok E then (Some (ValueError ''compile_treeflow''), checkpoint, s)
      else
        (let st = (case checkpoint of
                     None \<Rightarrow> v1_initial (ve_tree E) input
                   | Some st \<Rightarrow> st\<lparr>v1_input := input\<rparr>)
         in case start_router (ve_tree E) st of
              Inl e \<Rightarrow> (Some e, Some st, s)
            | Inr v \<Rightarrow> (case run_graph E limit v st s of (e, st', s') \<Rightarrow> (e, Some st', s'))))"

subsection \<open>Every vertex that is reached is in the graph\<close>

definition v1_state_wf :: "treeflow_v1 \<Rightarrow> v1_state \<Rightarrow> bool" where
  "v1_state_wf tf st =
     ((v1_node st = [] \<or> v1_node st = end_sentinel \<or> v1_node st \<in> set (node_ids tf)) \<and>
      (\<forall>o' \<in> set_option (v1_origin st). o' \<in> set (node_ids tf)))"

text \<open>The steps of the graph as a relation on configurations.\<close>

inductive v1_step :: "'l v1_env \<Rightarrow> vertex \<times> v1_state \<times> 'l \<Rightarrow> vertex \<times> v1_state \<times> 'l \<Rightarrow> bool" for E where
  vertex: "v \<noteq> VEnd \<Longrightarrow> run_vertex E v st s = (Inr (v', st'), s') \<Longrightarrow> v1_step E (v, st, s) (v', st', s')"

inductive_cases v1_stepE: "v1_step E c c'"

definition config_ok :: "treeflow_v1 \<Rightarrow> vertex \<times> v1_state \<times> 'l \<Rightarrow> bool" where
  "config_ok tf c = (case c of (v, st, s) \<Rightarrow> registered tf v \<and> v1_state_wf tf st)"

lemma fold_put_objection:
  "o' \<in> snd ` set (fold put_objection os d) \<Longrightarrow> o' \<in> set os \<or> o' \<in> snd ` set d"
proof (induction os arbitrary: d)
  case Nil
  then show ?case by simp
next
  case (Cons x os)
  have "o' \<in> set os \<or> o' \<in> snd ` set (put_objection x d)" using Cons by simp
  then show ?case by (auto simp: put_objection_def dest!: in_set_dict_put)
qed

lemma applicable_from:
  assumes "o' \<in> set (applicable_objections tf n)"
  shows "o' \<in> set (n1_objections n) \<union> set (f1_globals tf)"
proof -
  have "o' \<in> snd ` set (fold put_objection (n1_objections n) (fold put_objection (f1_globals tf) []))"
    using assms by (simp add: applicable_objections_def)
  from fold_put_objection [OF this] show ?thesis
    using fold_put_objection [of o' "f1_globals tf" "[]"] by auto
qed

lemma subnode_declared:
  assumes tf: "graph_consistent tf" and n: "n \<in> set (f1_nodes tf)"
    and o': "o' \<in> set (n1_objections n) \<union> set (f1_globals tf)" "o1_subnode o' = Some sn"
  shows "sn \<in> set (node_ids tf)"
proof -
  have "\<exists>d. (o', d) \<in> set (all_objections tf)"
    using n o'(1) by (auto simp: all_objections_def)
  then show ?thesis using tf o'(2) unfolding graph_consistent_def by fastforce
qed

lemma detected_from: "detected E objs r = Some o' \<Longrightarrow> o' \<in> set objs"
  by (auto simp: detected_def find_Some_iff split: option.splits if_splits)

lemma classifier_ok:
  assumes tf: "graph_consistent (ve_tree E)" and n: "n \<in> set (f1_nodes (ve_tree E))"
    and st: "v1_state_wf (ve_tree E) st" and c: "classifier_fn E n st s = ((v, st'), s')"
  shows "registered (ve_tree E) v \<and> v1_state_wf (ve_tree E) st'"
proof -
  let ?objs = "applicable_objections (ve_tree E) n"
  have id: "n1_id n \<in> set (node_ids (ve_tree E))" using n by (simp add: node_ids_def)
  have stay: "registered (ve_tree E) (VNode (n1_id n))" using id by (simp add: registered_def)
  show ?thesis
  proof (cases "?objs = [] \<or> \<not> oc_enabled (ve_objections E)")
    case True
    then show ?thesis using c stay st by (auto simp: classifier_fn_def)
  next
    case False
    obtain r s1 where cl: "classify E ?objs st s = (r, s1)" by fastforce
    show ?thesis
    proof (cases "\<exists>x o'. r = Inr x \<and> detected E ?objs x = Some o'")
      case False
      then have "v = VNode (n1_id n)" "st' = st"
        using c cl \<open>\<not> (?objs = [] \<or> \<not> oc_enabled (ve_objections E))\<close>
        by (cases r; auto simp: classifier_fn_def Let_def split: option.splits)+
      then show ?thesis using stay st by simp
    next
      case True
      then obtain x o' where x: "r = Inr x" "detected E ?objs x = Some o'" by blast
      have mem: "o' \<in> set (n1_objections n) \<union> set (f1_globals (ve_tree E))"
        using applicable_from detected_from [OF x(2)] by blast
      show ?thesis
      proof (cases "o1_subnode o'")
        case None
        then have v: "v = VInline (n1_id n)" "st' = st\<lparr>v1_active := Some o', v1_result := Some x\<rparr>"
          using c cl False x by (auto simp: classifier_fn_def Let_def)
        have "registered (ve_tree E) (VInline (n1_id n))"
          using n mem None by (auto simp: registered_def)
        then show ?thesis using v st by (simp add: v1_state_wf_def)
      next
        case (Some sn)
        then have v: "v = VClassifier sn" "v1_origin st' = Some (n1_id n)" "v1_node st' = v1_node st"
          using c cl False x by (auto simp: classifier_fn_def Let_def)
        then show ?thesis
          using st id subnode_declared [OF tf n mem Some] by (simp add: v1_state_wf_def registered_def)
      qed
    qed
  qed
qed

lemma say_simps [simp]:
  "v1_node (say st t) = v1_node st" "v1_origin (say st t) = v1_origin st" "v1_reply (say st t) = t"
  by (simp_all add: say_def)

lemma node_ok:
  assumes tf: "graph_consistent (ve_tree E)" and n: "n \<in> set (f1_nodes (ve_tree E))"
    and st: "v1_state_wf (ve_tree E) st" and f: "node_fn E n st s = (Inr st', s')"
  shows "v1_state_wf (ve_tree E) st'"
proof -
  obtain g where g: "node_answered E n st g = Inr st'"
    using f by (auto simp: node_fn_def Let_def split: prod.splits sum.splits)
  then obtain nxt completed clear where r: "route_v1 (ve_eval E) n (dict_merge (v1_collected st) (gr_collected g)) (v1_origin st)
      (f1_entry (ve_tree E)) = Inr (nxt, completed, clear)"
    and st': "v1_node st' = nxt" "v1_origin st' = (if clear then None else v1_origin st)"
    by (auto simp: node_answered_def Let_def bindE_eq_Inr)
  have "nxt \<in> set (node_ids (ve_tree E)) \<union> {end_sentinel}"
    by (rule route_target [OF tf n _ r]) (use st in \<open>simp add: v1_state_wf_def\<close>)
  then show ?thesis using st st' by (auto simp: v1_state_wf_def)
qed

lemma run_vertex_ok:
  assumes tf: "graph_consistent (ve_tree E)" and st: "v1_state_wf (ve_tree E) st"
    and r: "run_vertex E v st s = (Inr (v', st'), s')"
  shows "registered (ve_tree E) v' \<and> v1_state_wf (ve_tree E) st'"
proof (cases v)
  case (VClassifier i)
  obtain n where n: "node_of (ve_tree E) i = Some n" "classifier_fn E n st s = ((v', st'), s')"
    using r VClassifier by (auto simp: run_vertex_def split: if_splits option.splits prod.splits)
  show ?thesis by (rule classifier_ok [OF tf _ st n(2)]) (use node_of_Some [OF n(1)] in simp)
next
  case (VNode i)
  obtain n where n: "node_of (ve_tree E) i = Some n" "node_fn E n st s = (Inr st', s')" "v' = VEnd"
    using r VNode by (auto simp: run_vertex_def split: if_splits option.splits prod.splits sum.splits)
  then show ?thesis using node_ok [OF tf _ st n(2)] node_of_Some [OF n(1)] by (simp add: registered_def)
next
  case (VInline i)
  obtain n where n: "node_of (ve_tree E) i = Some n" "inline_fn E n st s = (Inr st', s')" "v' = VEnd"
    using r VInline by (auto simp: run_vertex_def split: if_splits option.splits prod.splits sum.splits)
  have "v1_node st' = v1_node st" "v1_origin st' = v1_origin st"
    using n(2) by (auto simp: inline_fn_def split: option.splits prod.splits sum.splits)
  then show ?thesis using n(3) st by (simp add: registered_def v1_state_wf_def)
next
  case VEnd
  then show ?thesis using r st by (auto simp: run_vertex_def split: if_splits)
qed

lemma v1_step_ok: "v1_step E c c' \<Longrightarrow> graph_consistent (ve_tree E) \<Longrightarrow> config_ok (ve_tree E) c \<Longrightarrow> config_ok (ve_tree E) c'"
  by (elim v1_stepE) (auto simp: config_ok_def dest: run_vertex_ok)

lemma v1_steps_ok:
  assumes "(v1_step E)\<^sup>*\<^sup>* c c'" "graph_consistent (ve_tree E)" "config_ok (ve_tree E) c"
  shows "config_ok (ve_tree E) c'"
  using assms by (induction rule: rtranclp_induct) (auto dest: v1_step_ok)

text \<open>The run of the graph follows the relation.\<close>

lemma run_graph_steps:
  assumes "run_graph E limit v st s = (e, st', s')"
  shows "\<exists>v' s0. (v1_step E)\<^sup>*\<^sup>* (v, st, s) (v', st', s0) \<and> (e = None \<longrightarrow> v' = VEnd)"
  using assms
proof (induction limit arbitrary: v st s)
  case 0
  have "st' = st \<and> (e = None \<longrightarrow> v = VEnd)" using 0 by (auto simp: run_graph.simps [of E 0] split: if_splits)
  then show ?case by blast
next
  case (Suc k)
  show ?case
  proof (cases "v = VEnd")
    case True
    then show ?thesis using Suc.prems by (auto simp: run_graph.simps [of E "Suc k"])
  next
    case False
    obtain r s1 where r: "run_vertex E v st s = (r, s1)" by fastforce
    show ?thesis
    proof (cases r)
      case (Inl x)
      then have "st' = st \<and> e \<noteq> None" using Suc.prems False r by (auto simp: run_graph.simps [of E "Suc k"])
      then show ?thesis by blast
    next
      case (Inr p)
      obtain v1 st1 where p: "p = (v1, st1)" by fastforce
      then have "run_graph E k v1 st1 s1 = (e, st', s')"
        using Suc.prems False r Inr by (simp add: run_graph.simps [of E "Suc k"])
      moreover have "v1_step E (v, st, s) (v1, st1, s1)" using False r Inr p by (auto intro: v1_step.vertex)
      ultimately show ?thesis using Suc.IH by (meson converse_rtranclp_into_rtranclp)
    qed
  qed
qed

lemma start_router_ok:
  assumes "graph_consistent tf" "v1_state_wf tf st"
  shows "\<exists>v. start_router tf st = Inr v \<and> registered tf v"
  using assms by (auto simp: start_router_def v1_state_wf_def graph_consistent_def registered_def Let_def)

lemma runtime_step_wf:
  assumes tf: "graph_consistent (ve_tree E)" and st: "\<forall>st \<in> set_option checkpoint. v1_state_wf (ve_tree E) st"
    and r: "runtime_step E limit checkpoint input s = (e, checkpoint', s')"
  shows "\<forall>st \<in> set_option checkpoint'. v1_state_wf (ve_tree E) st"
proof (cases "compile_ok E")
  case False
  then show ?thesis using r st by (simp add: runtime_step_def)
next
  case True
  define st0 where "st0 = (case checkpoint of None \<Rightarrow> v1_initial (ve_tree E) input | Some st \<Rightarrow> st\<lparr>v1_input := input\<rparr>)"
  have wf: "v1_state_wf (ve_tree E) st0"
    using st tf by (auto simp: st0_def v1_initial_def v1_state_wf_def graph_consistent_def split: option.split)
  obtain v where v: "start_router (ve_tree E) st0 = Inr v" "registered (ve_tree E) v"
    using start_router_ok [OF tf wf] by blast
  obtain e1 st1 s1 where g: "run_graph E limit v st0 s = (e1, st1, s1)" by (metis prod_cases3)
  obtain v' s0 where "(v1_step E)\<^sup>*\<^sup>* (v, st0, s) (v', st1, s0)"
    using run_graph_steps [OF g] by blast
  then have "v1_state_wf (ve_tree E) st1"
    using v1_steps_ok [OF _ tf] v(2) wf by (fastforce simp: config_ok_def)
  moreover have "checkpoint' = Some st1"
    using r True v(1) g by (simp add: runtime_step_def st0_def [symmetric])
  ultimately show ?thesis by simp
qed

subsection \<open>A sample tree\<close>

definition sample_node_v1 :: "string \<Rightarrow> string \<Rightarrow> node_v1" where
  "sample_node_v1 i target =
     \<lparr>n1_id = i, n1_prompt = ''Ola'', n1_llm = None, n1_collects = [],
      n1_exit = \<lparr>ec_type = ExAllFields, ec_expression = None, ec_judge = False\<rparr>,
      n1_next = [\<lparr>tv1_condition = ''true'', tv1_target = target\<rparr>], n1_kb = None, n1_objections = [],
      n1_crm = None, n1_critical = False\<rparr>"

definition sample_v1_tree :: treeflow_v1 where
  "sample_v1_tree =
     \<lparr>f1_id = ''funil'', f1_version = ''1.0.0'', f1_name = ''Funil'', f1_follow_up = None,
      f1_globals = [\<lparr>o1_id = ''preco'', o1_kb = ''faq'', o1_description = ''acha o preco alto'', o1_subnode = Some ''trata''\<rparr>],
      f1_entry = ''inicio'',
      f1_nodes = [sample_node_v1 ''inicio'' ''END'', sample_node_v1 ''trata'' ''BACK_TO_ORIGIN'']\<rparr>"

definition sample_eval :: evaluator where
  "sample_eval names f e = (case map_of names e of Some v \<Rightarrow> EvValue (truthy v) | None \<Rightarrow> EvUnknownName)"

definition sample_v1_env :: "(string \<Rightarrow> bool) \<Rightarrow> nat v1_env" where
  \<comment> \<open>the classifier reports the price objection for the inputs given by the argument; the state counts
    the calls of the model and of the classifier\<close>
  "sample_v1_env objects =
     \<lparr>ve_tree = sample_v1_tree, ve_eval = sample_eval, ve_guardrails = None,
      ve_objections = \<lparr>oc_enabled = True, oc_min_confidence = 6 / 10, oc_max_handled = 10, oc_window = 4\<rparr>,
      ve_has_kb = False, ve_retrieve = (\<lambda>_ _ n. (Inr [], n)),
      ve_extract = (\<lambda>_ _ n. (Inr \<lparr>er_text = ''Obrigado!'', er_dump = [], er_prices = [], er_products = []\<rparr>, n + 1)),
      ve_critic = (\<lambda>_ _ _ _ n. (Inr \<lparr>vd_passed = True, vd_reason = None, vd_fix = None\<rparr>, n)),
      ve_classify = (\<lambda>q n. (Inr \<lparr>cr_objection = (if \<exists>m \<in> set (cq_history q). objects (snd m) then Some ''preco'' else None),
                                cr_confidence = 1, cr_quote = []\<rparr>, n + 1)),
      ve_score = (\<lambda>_. ''1.00'')\<rparr>"

definition v1_start :: "string \<Rightarrow> v1_state" where
  "v1_start input = v1_initial sample_v1_tree input"

lemma sample_v1_valid: "graph_consistent sample_v1_tree" "list_all node_valid (f1_nodes sample_v1_tree)"
  by code_simp+

subsection \<open>Properties\<close>

text \<open>
  C14: The checkpoint of a conversation on a valid tree never gets lost: after any sequence of turns,
  whether they answer or raise, the current node is a node of the tree or the end, the origin of a
  subnode is a node of the tree, and the next turn finds a vertex to start from that is in the graph.
\<close>

theorem v1_never_lost:
  assumes "graph_consistent (ve_tree E)" and "\<forall>st \<in> set_option checkpoint. v1_state_wf (ve_tree E) st"
    and "runtime_step E limit checkpoint input s = (e, Some st, s')"
  shows "v1_state_wf (ve_tree E) st \<and> (\<exists>v. start_router (ve_tree E) st = Inr v \<and> registered (ve_tree E) v)"
  using runtime_step_wf [OF assms] start_router_ok [OF assms(1)] by simp

lemma sample_v1_step:
  "\<exists>st. runtime_step (sample_v1_env (\<lambda>_. False)) 25 None ''oi'' 0 = (None, Some st, 2) \<and> v1_reply st = ''Obrigado!'' \<and>
    v1_node st = ''END'' \<and> v1_done st"
proof -
  have "map_prod id (map_prod (map_option (\<lambda>st. (v1_reply st, v1_node st, v1_done st))) id)
      (runtime_step (sample_v1_env (\<lambda>_. False)) 25 None ''oi'' 0) =
      (None, Some (''Obrigado!'', ''END'', True), 2)"
    by code_simp
  then show ?thesis by (auto simp: map_prod_def split: prod.splits)
qed

theorem v1_never_lost_witness:
  "\<exists>st. runtime_step (sample_v1_env (\<lambda>_. False)) 25 None ''oi'' 0 = (None, Some st, 2) \<and>
     v1_state_wf sample_v1_tree st \<and> (\<exists>v. start_router sample_v1_tree st = Inr v \<and> registered sample_v1_tree v)"
proof -
  obtain st where "runtime_step (sample_v1_env (\<lambda>_. False)) 25 None ''oi'' 0 = (None, Some st, 2)"
    using sample_v1_step by blast
  with v1_never_lost [OF _ _ this] sample_v1_valid show ?thesis
    by (simp add: sample_v1_env_def)
qed

text \<open>
  A conversation that has reached the end answers every further message of the lead with the reply
  it gave last, without calling the model.
\<close>

theorem v1_end_repeats:
  assumes "v1_node st = end_sentinel" and "compile_ok E"
  shows "runtime_step E limit (Some st) input s = (None, Some (st\<lparr>v1_input := input\<rparr>), s)"
  using assms by (simp add: runtime_step_def start_router_def end_sentinel_def run_graph.simps)

theorem v1_end_repeats_witness:
  "\<exists>st. runtime_step (sample_v1_env (\<lambda>_. False)) 25 None ''oi'' 0 = (None, Some st, 2) \<and>
     (\<exists>st'. runtime_step (sample_v1_env (\<lambda>_. False)) 25 (Some st) ''obrigado, tchau'' 2 = (None, Some st', 2) \<and>
       v1_reply st' = v1_reply st)"
proof -
  obtain st where st: "runtime_step (sample_v1_env (\<lambda>_. False)) 25 None ''oi'' 0 = (None, Some st, 2)"
    and nd: "v1_node st = end_sentinel"
    using sample_v1_step by (auto simp: end_sentinel_def)
  have ok: "compile_ok (sample_v1_env (\<lambda>_. False))" by code_simp
  show ?thesis
    using st v1_end_repeats [OF nd ok, of 25 "''obrigado, tchau''" 2] by auto
qed

lemma sample_classifier_goto:
  assumes n: "n \<in> set (f1_nodes sample_v1_tree)" and m: "(RUser, ''caro'') \<in> set (conversation st)"
    and short: "length (conversation st) \<le> 4"
  shows "\<exists>st' k'. classifier_fn (sample_v1_env (\<lambda>t. t = ''caro'')) n st k = ((VClassifier ''trata'', st'), k') \<and>
    conversation st' = conversation st"
proof -
  let ?o = "\<lparr>o1_id = ''preco'', o1_kb = ''faq'', o1_description = ''acha o preco alto'', o1_subnode = Some ''trata''\<rparr>"
  have ap: "applicable_objections sample_v1_tree n = [?o]"
    using n by (auto simp: applicable_objections_def sample_v1_tree_def sample_node_v1_def put_objection_def dict_put_def)
  have hist: "take_last_int 4 (conversation st) = conversation st"
    using short by (simp add: take_last_int_def take_last_short)
  have "\<exists>x \<in> set (conversation st). snd x = ''caro''" using m by force
  then have "classifier_fn (sample_v1_env (\<lambda>t. t = ''caro'')) n st k =
      ((VClassifier ''trata'', st\<lparr>v1_origin := Some (n1_id n), v1_handled := v1_handled st @ [handled_record st n ?o []]\<rparr>), k + 1)"
    by (simp add: classifier_fn_def sample_v1_env_def ap classify_def hist detected_def)
  moreover have "conversation (st\<lparr>v1_origin := a, v1_handled := b\<rparr>) = conversation st" for a b
    by (simp add: conversation_def)
  ultimately show ?thesis by blast
qed

lemma sample_graph_loops:
  assumes "i \<in> {''inicio'', ''trata''}" "(RUser, ''caro'') \<in> set (conversation st)" "length (conversation st) \<le> 4"
  shows "fst (run_graph (sample_v1_env (\<lambda>t. t = ''caro'')) limit (VClassifier i) st k) = Some (OtherError ''GraphRecursionError'')"
  using assms
proof (induction limit arbitrary: i st k)
  case 0
  then show ?case by (simp add: run_graph.simps)
next
  case (Suc limit)
  let ?E = "sample_v1_env (\<lambda>t. t = ''caro'')"
  obtain n where n: "node_of sample_v1_tree i = Some n" "n \<in> set (f1_nodes sample_v1_tree)"
    using Suc.prems(1) by (auto simp: node_of_def sample_v1_tree_def sample_node_v1_def)
  obtain st' k' where c: "classifier_fn ?E n st k = ((VClassifier ''trata'', st'), k')"
    "conversation st' = conversation st"
    using sample_classifier_goto [OF n(2) Suc.prems(2,3)] by blast
  have t: "ve_tree ?E = sample_v1_tree" by (simp add: sample_v1_env_def)
  have "registered sample_v1_tree (VClassifier i)"
    using Suc.prems(1) by (auto simp: registered_def node_ids_def sample_v1_tree_def sample_node_v1_def)
  then have "run_vertex ?E (VClassifier i) st k = (Inr (VClassifier ''trata'', st'), k')"
    using c n by (simp add: run_vertex_def t)
  then show ?case
    using Suc.IH [of "''trata''" st' k'] Suc.prems c(2) by (simp add: run_graph.simps [of _ "Suc limit"])
qed

text \<open>
  A global objection that is treated in a subnode can trap the graph: the subnode has a classifier
  of its own with the same global objections and the same message, so a classifier that insists on its
  finding leads back to the subnode, and the turn ends in \<open>GraphRecursionError\<close> whatever the limit is.
\<close>

theorem v1_subnode_loop:
  "\<forall>limit. fst (runtime_step (sample_v1_env (\<lambda>t. t = ''caro'')) limit None ''caro'' 0) =
     Some (OtherError ''GraphRecursionError'')"
proof
  fix limit
  let ?E = "sample_v1_env (\<lambda>t. t = ''caro'')"
  have ok: "compile_ok ?E" by (simp add: compile_ok_def sample_v1_env_def sample_v1_tree_def sample_node_v1_def)
  have t: "ve_tree ?E = sample_v1_tree" by (simp add: sample_v1_env_def)
  have st: "start_router sample_v1_tree (v1_initial sample_v1_tree ''caro'') = Inr (VClassifier ''inicio'')"
    by code_simp
  have "fst (run_graph ?E limit (VClassifier ''inicio'') (v1_initial sample_v1_tree ''caro'') 0) =
      Some (OtherError ''GraphRecursionError'')"
    by (rule sample_graph_loops) (simp_all add: conversation_def v1_initial_def)
  then show "fst (runtime_step ?E limit None ''caro'' 0) = Some (OtherError ''GraphRecursionError'')"
    using ok st
    by (cases "run_graph ?E limit (VClassifier ''inicio'') (v1_initial sample_v1_tree ''caro'') 0")
      (simp add: runtime_step_def t)
qed

end
