(* ===== verification/Follow_Up.thy ===== *)
theory Follow_Up
  imports Treeflow_V1 Channel Renderer
begin

text \<open>
  Follow-ups of the engine v1: the tables of conversations and of scheduled follow-ups
  (\<open>models/talkflow.py\<close>, \<open>models/follow_up_job.py\<close>), the scheduler (\<open>follow_up/scheduler.py\<close>), the
  rendering of template parameters (\<open>follow_up/jinja.py\<close>), the loader of the configuration
  (\<open>follow_up/treeflow_loader.py\<close>), the audit rows (\<open>observability/outbound_audit.py\<close>) and the scanner
  (\<open>worker/jobs/follow_up_scanner.py\<close>).  Advisory locks are the set of keys that other sessions hold.
\<close>

subsection \<open>Tables\<close>

datatype flow_status = FlowActive | FlowCompleted | FlowCold

record talkflow =
  wf_id :: uuid
  wf_tenant :: uuid
  wf_lead :: uuid
  wf_version :: uuid
  wf_status :: flow_status
  wf_agent_at :: "time option"
  wf_lead_at :: "time option"
  wf_attempt :: int

datatype job_status = JobPending | JobCompleted | JobCancelled | JobError

record follow_up_job =
  fj_id :: uuid
  fj_tenant :: uuid
  fj_talkflow :: uuid
  fj_lead :: uuid
  fj_attempt :: int
  fj_at :: time
  fj_status :: job_status
  fj_fired :: "time option"
  fj_external :: "string option"
  fj_error :: "string option"

record legacy_db =
  lg_db :: db
  lg_talkflows :: "talkflow list"
  lg_jobs :: "follow_up_job list"

definition put_talkflow :: "talkflow \<Rightarrow> legacy_db \<Rightarrow> legacy_db" where
  "put_talkflow t d = d\<lparr>lg_talkflows := update_where (\<lambda>r. wf_id r = wf_id t) (\<lambda>_. t) (lg_talkflows d)\<rparr>"

definition put_job :: "follow_up_job \<Rightarrow> legacy_db \<Rightarrow> legacy_db" where
  "put_job j d = d\<lparr>lg_jobs := update_where (\<lambda>r. fj_id r = fj_id j) (\<lambda>_. j) (lg_jobs d)\<rparr>"

definition on_db :: "(db \<Rightarrow> db) \<Rightarrow> legacy_db \<Rightarrow> legacy_db" where
  "on_db f d = d\<lparr>lg_db := f (lg_db d)\<rparr>"

subsection \<open>The scheduler\<close>

definition cancel_pending_for_lead :: "uuid \<Rightarrow> string \<Rightarrow> legacy_db \<Rightarrow> legacy_db \<times> nat" where
  "cancel_pending_for_lead l reason d =
     (let p = (\<lambda>j. fj_lead j = l \<and> fj_status j = JobPending)
      in (d\<lparr>lg_jobs := update_where p (\<lambda>j. j\<lparr>fj_status := JobCancelled, fj_error := Some reason\<rparr>) (lg_jobs d)\<rparr>,
          length (filter p (lg_jobs d))))"

text \<open>\<open>xs[i]\<close> with an integer index.\<close>

definition py_index :: "'a list \<Rightarrow> int \<Rightarrow> 'a option" where
  "py_index xs i =
     (let k = (if i < 0 then i + int (length xs) else i)
      in if 0 \<le> k \<and> k < int (length xs) then Some (xs ! nat k) else None)"

definition new_job :: "db \<Rightarrow> talkflow \<Rightarrow> lead \<Rightarrow> tenant \<Rightarrow> int \<Rightarrow> time \<Rightarrow> follow_up_job" where
  "new_job d t l tn attempt scheduled =
     \<lparr>fj_id = db_next d, fj_tenant = tn_id tn, fj_talkflow = wf_id t, fj_lead = ld_id l, fj_attempt = attempt,
      fj_at = scheduled, fj_status = JobPending, fj_fired = None, fj_external = None, fj_error = None\<rparr>"

definition schedule_next_followup ::
  "ext \<Rightarrow> time \<Rightarrow> talkflow \<Rightarrow> lead \<Rightarrow> tenant \<Rightarrow> follow_up_config \<Rightarrow> int \<Rightarrow> legacy_db \<Rightarrow> pyexn + legacy_db" where
  "schedule_next_followup E now t l tn c attempt d =
     (case py_index (fc_sequence c) (attempt - 1) of
        None \<Rightarrow> Inl (OtherError ''IndexError'')
      | Some step \<Rightarrow>
          bindE (parse_duration E (fs_after step)) (\<lambda>delta.
          Inr (d\<lparr>lg_jobs := lg_jobs d @ [new_job (lg_db d) t l tn attempt (now + delta)],
                 lg_db := (lg_db d)\<lparr>db_next := Suc (db_next (lg_db d))\<rparr>\<rparr>)))"

definition mark_cold_if_exhausted :: "talkflow \<Rightarrow> follow_up_config \<Rightarrow> int \<Rightarrow> talkflow \<times> bool" where
  "mark_cold_if_exhausted t c attempt =
     (if attempt \<ge> fc_max c then (t\<lparr>wf_status := FlowCold\<rparr>, True) else (t, False))"

subsection \<open>Configuration and templates\<close>

record 'a fu_env =
  fe_ext :: ext
  fe_reader :: "jval \<Rightarrow> treeflow_v1 option"
  fe_render :: "string \<Rightarrow> lead \<Rightarrow> tenant \<Rightarrow> pyexn + string"
  fe_adapter :: "tenant \<Rightarrow> pyexn + 'a adapter"
  fe_now :: time
  fe_key :: "uuid \<Rightarrow> uuid \<Rightarrow> int"

definition load_treeflow_follow_up :: "'a fu_env \<Rightarrow> talkflow \<Rightarrow> db \<Rightarrow> pyexn + follow_up_config option" where
  "load_treeflow_follow_up F t d =
     (case find_row tv_id (wf_version t) (db_versions d) of
        None \<Rightarrow> Inr None
      | Some v \<Rightarrow>
          (case yaml_load (fe_ext F) (tv_yaml v) of
             None \<Rightarrow> Inl (OtherError ''YAMLError'')
           | Some data \<Rightarrow>
               bindE (model_validate (fe_ext F) (fe_reader F) data) (\<lambda>tf. Inr (f1_follow_up tf))))"

definition render_template_params :: "'a fu_env \<Rightarrow> string list \<Rightarrow> lead \<Rightarrow> tenant \<Rightarrow> pyexn + string list" where
  "render_template_params F ps l tn = mapE (\<lambda>p. fe_render F p l tn) ps"

subsection \<open>Audit rows\<close>

record send_audit =
  sa_type :: outbound_type
  sa_trigger :: trigger
  sa_body :: "string option"
  sa_template :: "string option"
  sa_language :: "string option"
  sa_params :: "string list option"
  sa_inbound :: "uuid option"
  sa_job :: "uuid option"

definition legacy_audit_row ::
  "tenant \<Rightarrow> talkflow \<Rightarrow> lead \<Rightarrow> string \<Rightarrow> send_audit \<Rightarrow> outbound_status \<Rightarrow> string option \<Rightarrow> string option \<Rightarrow> time \<Rightarrow>
   uuid \<Rightarrow> outbound" where
  "legacy_audit_row tn t l provider a status external err now i =
     \<lparr>ob_id = i, ob_tenant = tn_id tn, ob_talk = wf_id t, ob_lead = ld_id l, ob_provider = provider,
      ob_type = sa_type a, ob_body = sa_body a, ob_template = sa_template a, ob_language = sa_language a,
      ob_params = (case sa_params a of None \<Rightarrow> JNull | Some ps \<Rightarrow> JList (map JStr ps)), ob_status = status,
      ob_external = external, ob_error = err, ob_trigger = sa_trigger a, ob_inbound = sa_inbound a,
      ob_follow_up = sa_job a, ob_client_id = None, ob_sent = now, ob_media = MText, ob_media_key = None,
      ob_audio_url = None, ob_audio_ms = None, ob_voice_id = None, ob_emotion = None\<rparr>"

definition add_outbound :: "(uuid \<Rightarrow> outbound) \<Rightarrow> db \<Rightarrow> db" where
  "add_outbound row d = d\<lparr>db_outbound := db_outbound d @ [row (db_next d)], db_next := Suc (db_next d)\<rparr>"

definition record_outbound_sent ::
  "tenant \<Rightarrow> talkflow \<Rightarrow> lead \<Rightarrow> string \<Rightarrow> send_audit \<Rightarrow> string \<Rightarrow> time \<Rightarrow> legacy_db \<Rightarrow> legacy_db" where
  "record_outbound_sent tn t l provider a external now d =
     on_db (add_outbound (legacy_audit_row tn t l provider a OutSent (Some external) None now)) d"

definition record_outbound_failed ::
  "tenant \<Rightarrow> talkflow \<Rightarrow> lead \<Rightarrow> string \<Rightarrow> send_audit \<Rightarrow> string \<Rightarrow> time \<Rightarrow> legacy_db \<Rightarrow> legacy_db" where
  "record_outbound_failed tn t l provider a err now d =
     on_db (add_outbound (legacy_audit_row tn t l provider a OutFailed None (Some err) now)) d"

subsection \<open>One follow-up\<close>

definition class_and_text :: "msg_error \<Rightarrow> string \<Rightarrow> string" where
  "class_and_text k err = msg_error_name k @ '': '' @ err"

definition step_audit :: "follow_up_job \<Rightarrow> follow_up_step \<Rightarrow> string list \<Rightarrow> send_audit" where
  "step_audit j step ps =
     \<lparr>sa_type = OutTemplate, sa_trigger = TrigFollowUp, sa_body = None, sa_template = Some (fs_template step),
      sa_language = Some (fs_language step), sa_params = Some ps, sa_inbound = None, sa_job = Some (fj_id j)\<rparr>"

definition end_job :: "job_status \<Rightarrow> string \<Rightarrow> follow_up_job \<Rightarrow> follow_up_job" where
  "end_job s detail j = j\<lparr>fj_status := s, fj_error := Some detail\<rparr>"

definition send_failed ::
  "'a fu_env \<Rightarrow> tenant \<Rightarrow> talkflow \<Rightarrow> lead \<Rightarrow> follow_up_job \<Rightarrow> send_audit \<Rightarrow> msg_error \<Rightarrow> string \<Rightarrow> legacy_db \<Rightarrow> legacy_db" where
  "send_failed F tn t l j a k err d =
     (let d1 = (if k = RecipientUnreachable
                then (on_db (\<lambda>d. d\<lparr>db_leads := update_where (\<lambda>r. ld_id r = ld_id l)
                              (\<lambda>r. r\<lparr>ld_status := Unreachable, ld_unreachable_reason := Some err\<rparr>) (db_leads d)\<rparr>)
                        (fst (cancel_pending_for_lead (ld_id l) ''lead unreachable'' d)))
                else d);
          detail = (if k = RecipientUnreachable then ''unreachable: '' @ err else class_and_text k err)
      in record_outbound_failed tn t l ''whatsapp_cloud'' a (class_and_text k err) (fe_now F)
           (put_job (end_job JobError detail j) d1))"

definition send_done ::
  "'a fu_env \<Rightarrow> tenant \<Rightarrow> talkflow \<Rightarrow> lead \<Rightarrow> follow_up_job \<Rightarrow> send_audit \<Rightarrow> follow_up_config \<Rightarrow> string \<Rightarrow> legacy_db \<Rightarrow>
   pyexn + legacy_db" where
  "send_done F tn t l j a c external d =
     (let d1 = record_outbound_sent tn t l ''whatsapp_cloud'' a external (fe_now F) d;
          j1 = j\<lparr>fj_status := JobCompleted, fj_fired := Some (fe_now F), fj_external := Some external\<rparr>;
          (t1, cold) = mark_cold_if_exhausted (t\<lparr>wf_agent_at := Some (fe_now F), wf_attempt := fj_attempt j\<rparr>) c (fj_attempt j);
          d2 = put_talkflow t1 (put_job j1 d1)
      in if cold then Inr d2
         else schedule_next_followup (fe_ext F) (fe_now F) t1 l tn c (fj_attempt j + 1) d2)"

definition fire_step ::
  "'a fu_env \<Rightarrow> tenant \<Rightarrow> talkflow \<Rightarrow> lead \<Rightarrow> follow_up_job \<Rightarrow> follow_up_config \<Rightarrow> follow_up_step \<Rightarrow> legacy_db \<Rightarrow> 'a \<Rightarrow>
   (pyexn + legacy_db) \<times> 'a" where
  "fire_step F tn t l j c step d a =
     (case bindE (render_template_params F (fs_params step) l tn) (\<lambda>ps. bindE (fe_adapter F tn) (\<lambda>ad. Inr (ps, ad))) of
        Inl e \<Rightarrow> (Inl e, a)
      | Inr (ps, ad) \<Rightarrow>
          (case ad_send_template ad (ld_e164 l) (fs_template step) (fs_language step) ps a of
             (Inl (Messaging k err), a1) \<Rightarrow> (Inr (send_failed F tn t l j (step_audit j step ps) k err d), a1)
           | (Inl e, a1) \<Rightarrow> (Inl e, a1)
           | (Inr i, a1) \<Rightarrow> (send_done F tn t l j (step_audit j step ps) c i d, a1)))"

definition flow_status_name :: "flow_status \<Rightarrow> string" where
  "flow_status_name s = (case s of FlowActive \<Rightarrow> ''active'' | FlowCompleted \<Rightarrow> ''completed'' | FlowCold \<Rightarrow> ''cold'')"

definition fire_body :: "'a fu_env \<Rightarrow> uuid \<Rightarrow> legacy_db \<Rightarrow> 'a \<Rightarrow> (pyexn + legacy_db) \<times> 'a" where
  "fire_body F job_id d a =
     (case find_row fj_id job_id (lg_jobs d) of
        None \<Rightarrow> (Inr d, a)
      | Some j \<Rightarrow>
          if fj_status j \<noteq> JobPending then (Inr d, a)
          else
            (let cancel = (\<lambda>detail. (Inr (put_job (end_job JobCancelled detail j) d), a)) in
             case (find_row wf_id (fj_talkflow j) (lg_talkflows d), find_row ld_id (fj_lead j) (db_leads (lg_db d)),
                   find_row tn_id (fj_tenant j) (db_tenants (lg_db d))) of
               (Some t, Some l, Some tn) \<Rightarrow>
                 if \<exists>x \<in> set_option (wf_lead_at t). x > fj_at j then cancel ''lead responded after scheduling''
                 else if wf_status t \<in> {FlowCold, FlowCompleted} then cancel (''talkflow '' @ flow_status_name (wf_status t))
                 else (case load_treeflow_follow_up F t (lg_db d) of
                         Inl e \<Rightarrow> (Inl e, a)
                       | Inr None \<Rightarrow> cancel ''treeflow follow_up disabled''
                       | Inr (Some c) \<Rightarrow>
                           if \<not> fc_enabled c then cancel ''treeflow follow_up disabled''
                           else (case py_index (fc_sequence c) (fj_attempt j - 1) of
                                   None \<Rightarrow>
                                     (Inr (put_job (end_job JobError
                                        (''attempt_number '' @ str_int (fj_attempt j) @ '' > sequence length '' @
                                         str_nat (length (fc_sequence c))) j) d), a)
                                 | Some step \<Rightarrow> fire_step F tn t l j c step d a))
             | _ \<Rightarrow> cancel ''missing parent row''))"

text \<open>
  The job under the lead's lock: a lock that another session holds ends it; an exception rolls the
  database back.
\<close>

definition fire_follow_up ::
  "'a fu_env \<Rightarrow> int set \<Rightarrow> uuid \<Rightarrow> uuid \<Rightarrow> uuid \<Rightarrow> legacy_db \<Rightarrow> 'a \<Rightarrow> pyexn option \<times> legacy_db \<times> 'a" where
  "fire_follow_up F locks job_id tenant_id lead_id d a =
     (if fe_key F tenant_id lead_id \<in> locks then (None, d, a)
      else case fire_body F job_id d a of
             (Inl e, a1) \<Rightarrow> (Some e, d, a1)
           | (Inr d1, a1) \<Rightarrow> (None, d1, a1))"

subsection \<open>The scanner\<close>

definition batch_size :: nat where
  "batch_size = 200"

definition due_jobs :: "time \<Rightarrow> legacy_db \<Rightarrow> follow_up_job list" where
  "due_jobs now d =
     take batch_size (sort_key fj_at (filter (\<lambda>j. fj_status j = JobPending \<and> fj_at j \<le> now) (lg_jobs d)))"

fun fire_all :: "'a fu_env \<Rightarrow> int set \<Rightarrow> follow_up_job list \<Rightarrow> legacy_db \<times> 'a \<Rightarrow> legacy_db \<times> 'a" where
  "fire_all F locks [] w = w"
| "fire_all F locks (j # js) (d, a) =
     (case fire_follow_up F locks (fj_id j) (fj_tenant j) (fj_lead j) d a of (_, d1, a1) \<Rightarrow> fire_all F locks js (d1, a1))"

definition follow_up_scanner :: "'a fu_env \<Rightarrow> int set \<Rightarrow> legacy_db \<times> 'a \<Rightarrow> legacy_db \<times> 'a" where
  "follow_up_scanner F locks w = fire_all F locks (due_jobs (fe_now F) (fst w)) w"

subsection \<open>The next follow-up can always be scheduled\<close>

lemma py_index_Some: "py_index xs i = Some x \<Longrightarrow> x \<in> set xs"
  by (auto simp: py_index_def Let_def split: if_splits)

lemma py_index_next:
  assumes "py_index xs (i - 1) \<noteq> None" "i < int (length xs)"
  shows "py_index xs i \<noteq> None"
  using assms by (auto simp: py_index_def Let_def split: if_splits)

lemma load_follow_up_valid:
  assumes "load_treeflow_follow_up F t d = Inr (Some c)"
  shows "follow_up_valid (fe_ext F) c"
  using assms
  by (auto simp: load_treeflow_follow_up_def model_validate_def bindE_eq_Inr treeflow_v1_valid_def
      split: option.splits if_splits)

lemma send_done_returns:
  assumes c: "follow_up_valid (fe_ext F) c" "fc_enabled c" and step: "py_index (fc_sequence c) (fj_attempt j - 1) = Some step"
  shows "\<exists>d'. send_done F tn t l j a c external d = Inr d' \<and>
    map fj_id (lg_jobs d') = map fj_id (lg_jobs d) @ (if fj_attempt j \<ge> fc_max c then [] else [db_next (lg_db d) + 1]) \<and>
    (\<forall>j0 \<in> set (lg_jobs d). fj_id j0 = fj_id j \<longrightarrow>
       (\<exists>j1 \<in> set (lg_jobs d'). fj_id j1 = fj_id j \<and> fj_status j1 = JobCompleted)) \<and>
    lg_jobs d' = update_where (\<lambda>r. fj_id r = fj_id j)
        (\<lambda>_. j\<lparr>fj_status := JobCompleted, fj_fired := Some (fe_now F), fj_external := Some external\<rparr>) (lg_jobs d) @
      drop (length (lg_jobs d)) (lg_jobs d')"
proof -
  let ?j = "j\<lparr>fj_status := JobCompleted, fj_fired := Some (fe_now F), fj_external := Some external\<rparr>"
  have j1: "\<exists>j1 \<in> set (update_where (\<lambda>r. fj_id r = fj_id j) (\<lambda>_. ?j) (lg_jobs d) @ xs). fj_id j1 = fj_id j \<and> fj_status j1 = JobCompleted"
    if "j0 \<in> set (lg_jobs d)" "fj_id j0 = fj_id j" for j0 xs
    using that by (intro bexI [of _ ?j]) (auto simp: in_set_update_where)
  have ids: "map fj_id (update_where (\<lambda>r. fj_id r = fj_id j) (\<lambda>_. ?j) (lg_jobs d)) = map fj_id (lg_jobs d)"
    by (simp add: update_where_def)
  show ?thesis
  proof (cases "fj_attempt j \<ge> fc_max c")
    case True
    then show ?thesis
      using j1 [where xs = "[]"] ids
      by (auto simp: send_done_def mark_cold_if_exhausted_def record_outbound_sent_def on_db_def add_outbound_def put_job_def
          put_talkflow_def Let_def)
  next
    case False
    have "fj_attempt j < int (length (fc_sequence c))"
      using False c by (simp add: follow_up_valid_def)
    then obtain step' where s': "py_index (fc_sequence c) (fj_attempt j) = Some step'"
      using py_index_next [of "fc_sequence c" "fj_attempt j"] step by auto
    then have "follow_up_step_valid (fe_ext F) step'"
      using py_index_Some c by (fastforce simp: follow_up_valid_def list_all_iff)
    then obtain delta where "parse_duration (fe_ext F) (fs_after step') = Inr delta"
      by (auto simp: follow_up_step_valid_def returns_value_def split: sum.splits)
    then show ?thesis
      using False s' j1 ids
      by (auto simp: send_done_def mark_cold_if_exhausted_def record_outbound_sent_def on_db_def add_outbound_def put_job_def
          put_talkflow_def Let_def schedule_next_followup_def new_job_def)
  qed
qed

subsection \<open>Template messages\<close>

locale template_channel = channel +
  assumes template_ok: "ad_send_template ad to r lang ps a = (Inr i, a') \<Longrightarrow>
      delivered a' = delivered a @ [TemplateTo to r lang ps]"
    and template_fail: "ad_send_template ad to r lang ps a = (Inl e, a') \<Longrightarrow> delivered a' = delivered a"
begin

lemma fire_step_once:
  assumes f: "fire_step F tn t l j c step d a = (r, a')" and ad: "fe_adapter F tn = Inr ad"
    and c: "follow_up_valid (fe_ext F) c" "fc_enabled c" "py_index (fc_sequence c) (fj_attempt j - 1) = Some step"
    and j: "j \<in> set (lg_jobs d)"
  shows "delivered a' = delivered a \<or>
    (\<exists>to n lang ps d'. delivered a' = delivered a @ [TemplateTo to n lang ps] \<and> r = Inr d' \<and>
       (\<exists>j' \<in> set (lg_jobs d'). fj_id j' = fj_id j \<and> fj_status j' = JobCompleted))"
proof (cases "render_template_params F (fs_params step) l tn")
  case (Inl e)
  then show ?thesis using f by (simp add: fire_step_def)
next
  case (Inr ps)
  obtain x a1 where s: "ad_send_template ad (ld_e164 l) (fs_template step) (fs_language step) ps a = (x, a1)" by fastforce
  show ?thesis
  proof (cases x)
    case (Inl e)
    then have "a' = a1" using f Inr ad s by (cases e) (simp_all add: fire_step_def)
    then show ?thesis using template_fail s Inl by blast
  next
    case i: (Inr i)
    have "\<exists>d'. send_done F tn t l j (step_audit j step ps) c i d = Inr d' \<and>
        (\<exists>j1 \<in> set (lg_jobs d'). fj_id j1 = fj_id j \<and> fj_status j1 = JobCompleted)"
      using send_done_returns [OF c, of tn t l "step_audit j step ps" i d] j by blast
    then show ?thesis using f Inr ad s i template_ok [OF s [unfolded i]] by (auto simp: fire_step_def)
  qed
qed

lemma fire_body_once:
  assumes f: "fire_body F i d a = (r, a')" and ad: "\<forall>tn. fe_adapter F tn = Inr ad"
  shows "delivered a' = delivered a \<or>
    (\<exists>to n lang ps d'. delivered a' = delivered a @ [TemplateTo to n lang ps] \<and> r = Inr d' \<and>
       (\<exists>j' \<in> set (lg_jobs d'). fj_id j' = i \<and> fj_status j' = JobCompleted))"
proof (cases "\<exists>j t l tn c step. find_row fj_id i (lg_jobs d) = Some j \<and> fc_enabled c \<and>
    load_treeflow_follow_up F t (lg_db d) = Inr (Some c) \<and> py_index (fc_sequence c) (fj_attempt j - 1) = Some step \<and>
    fire_body F i d a = fire_step F tn t l j c step d a")
  case True
  then obtain j t l tn c step where s: "find_row fj_id i (lg_jobs d) = Some j" "fc_enabled c"
    "load_treeflow_follow_up F t (lg_db d) = Inr (Some c)" "py_index (fc_sequence c) (fj_attempt j - 1) = Some step"
    "fire_step F tn t l j c step d a = (r, a')" using f by auto
  have "j \<in> set (lg_jobs d)" "fj_id j = i" using find_row_Some [OF s(1)] by simp_all
  then show ?thesis
    using fire_step_once [OF s(5) _ load_follow_up_valid [OF s(3)] s(2,4)] ad by auto
next
  case False
  have "snd (fire_body F i d a) = a"
  proof (cases "find_row fj_id i (lg_jobs d)")
    case None
    then show ?thesis by (simp add: fire_body_def)
  next
    case (Some j)
    then show ?thesis
      using False
      by (auto simp: fire_body_def Let_def split: option.split sum.split if_splits) blast
  qed
  then show ?thesis using f by simp
qed

lemma fire_once:
  assumes "fire_follow_up F locks i tn l d a = (e, d', a')" and "\<forall>tn. fe_adapter F tn = Inr ad"
  shows "delivered a' = delivered a \<or>
    (\<exists>to n lang ps. delivered a' = delivered a @ [TemplateTo to n lang ps] \<and> e = None \<and>
       (\<exists>j' \<in> set (lg_jobs d'). fj_id j' = i \<and> fj_status j' = JobCompleted))"
proof (cases "fe_key F tn l \<in> locks")
  case True
  then show ?thesis using assms(1) by (simp add: fire_follow_up_def)
next
  case False
  obtain r a1 where b: "fire_body F i d a = (r, a1)" by fastforce
  then show ?thesis
    using fire_body_once [OF b assms(2)] assms(1) False by (cases r) (auto simp: fire_follow_up_def)
qed

end

interpretation fakef: template_channel fake_adapter fk_sent
  by unfold_locales (auto simp: fake_adapter_def fake_send_template_def split: option.splits)

end
