(* ===== verification/Worker_Jobs.thy ===== *)
theory Worker_Jobs
  imports Worker_Snapshot Engine_V1 Follow_Up
begin

text \<open>
  The job \<open>process_lead_inbox\<close> of \<open>worker/jobs/inbound.py\<close>: the guards under the lead's lock, the
  dispatch to the engine v2, and the loop of the engine v1 with its error handling, its audit rows and
  its follow-ups.  \<open>legacy_db\<close> is what a rollback restores; \<open>Inl\<close> is an exception that leaves the job.
\<close>

subsection \<open>One message of the engine v1\<close>

record reengagement =
  rt_template :: string
  rt_language :: string
  rt_params :: "string list"

record ('a, 't) v1_worker_env =
  vw_fu :: "'a fu_env"
  vw_runtime :: "tenant \<Rightarrow> talkflow \<Rightarrow> string \<Rightarrow> 't \<Rightarrow> (pyexn + string \<times> bool) \<times> 't"
  vw_provider :: string
  vw_reengage :: "reengagement option"

definition reply_audit :: "inbound \<Rightarrow> string \<Rightarrow> send_audit" where
  "reply_audit m body =
     \<lparr>sa_type = OutText, sa_trigger = TrigInbound, sa_body = Some body, sa_template = None, sa_language = None,
      sa_params = None, sa_inbound = Some (in_id m), sa_job = None\<rparr>"

definition reengage_audit :: "inbound \<Rightarrow> reengagement \<Rightarrow> string list \<Rightarrow> send_audit" where
  "reengage_audit m r ps =
     \<lparr>sa_type = OutTemplate, sa_trigger = TrigWindowExpired, sa_body = None, sa_template = Some (rt_template r),
      sa_language = Some (rt_language r), sa_params = Some ps, sa_inbound = Some (in_id m), sa_job = None\<rparr>"

definition put_msg :: "inbound \<Rightarrow> legacy_db \<Rightarrow> legacy_db" where
  "put_msg m = on_db (put_inbound m)"

definition v1_sent ::
  "('a, 't) v1_worker_env \<Rightarrow> tenant \<Rightarrow> lead \<Rightarrow> talkflow \<Rightarrow> inbound \<Rightarrow> string \<Rightarrow> string \<Rightarrow> legacy_db \<Rightarrow>
   pyexn + talkflow \<times> legacy_db" where
  "v1_sent W tn l t m reply external d =
     (let F = vw_fu W; now = fe_now F;
          d1 = put_msg (m\<lparr>in_status := Processed, in_processed_at := Some now\<rparr>) d;
          d2 = record_outbound_sent tn t l (in_provider m) (reply_audit m reply) external now d1;
          t1 = t\<lparr>wf_agent_at := Some now, wf_lead_at := Some (in_received m)\<rparr>;
          d3 = put_talkflow t1 d2
      in bindE (load_treeflow_follow_up F t1 (lg_db d3)) (\<lambda>c.
         case c of
           None \<Rightarrow> Inr (t1, d3)
         | Some c \<Rightarrow>
             if fc_enabled c \<and> fc_sequence c \<noteq> []
             then bindE (schedule_next_followup (fe_ext F) now t1 l tn c 1 d3) (\<lambda>d4. Inr (t1, d4))
             else Inr (t1, d3)))"

text \<open>
  The recovery of an expired window.  When the rendering of the parameters raises, the handler reads
  the variable \<open>params\<close> before it is assigned.
\<close>

definition window_recovery ::
  "('a, 't) v1_worker_env \<Rightarrow> 'a adapter \<Rightarrow> tenant \<Rightarrow> lead \<Rightarrow> talkflow \<Rightarrow> inbound \<Rightarrow> reengagement \<Rightarrow> legacy_db \<Rightarrow> 'a \<Rightarrow>
   (pyexn + legacy_db) \<times> 'a" where
  "window_recovery W ad tn l t m r d a =
     (let F = vw_fu W; now = fe_now F in
      case render_template_params F (rt_params r) l tn of
        Inl _ \<Rightarrow> (Inl (OtherError ''UnboundLocalError''), a)
      | Inr ps \<Rightarrow>
          (case ad_send_template ad (Some (in_from m)) (rt_template r) (rt_language r) ps a of
             (Inl e2, a1) \<Rightarrow>
               (Inr (record_outbound_failed tn t l (vw_provider W) (reengage_audit m r ps)
                  (''reengagement_failed: '' @ exn_text e2) now
                  (put_msg (m\<lparr>in_status := InError, in_error := Some (''window_expired; reengagement failed: '' @ exn_text e2)\<rparr>) d)),
                a1)
           | (Inr i, a1) \<Rightarrow>
               (Inr (record_outbound_sent tn t l (vw_provider W) (reengage_audit m r ps) i now
                  (put_talkflow (t\<lparr>wf_agent_at := Some now\<rparr>)
                     (put_msg (m\<lparr>in_status := Processed, in_processed_at := Some now,
                                in_error := Some ''window_expired; recovered via reengagement template''\<rparr>) d))), a1)))"

definition v1_refused ::
  "('a, 't) v1_worker_env \<Rightarrow> 'a adapter \<Rightarrow> tenant \<Rightarrow> lead \<Rightarrow> talkflow \<Rightarrow> inbound \<Rightarrow> string \<Rightarrow> msg_error \<Rightarrow> string \<Rightarrow>
   legacy_db \<Rightarrow> 'a \<Rightarrow> (pyexn + legacy_db) \<times> 'a" where
  "v1_refused W ad tn l t m reply k err d a =
     (let now = fe_now (vw_fu W);
          failed = (\<lambda>provider d. record_outbound_failed tn t l provider (reply_audit m reply) (class_and_text k err) now d);
          in_err = (\<lambda>detail. put_msg (m\<lparr>in_status := InError, in_error := Some detail\<rparr>))
      in if k = RecipientUnreachable
         then (Inr (failed (in_provider m) (in_err (''unreachable: '' @ err)
                 (on_db (\<lambda>d. d\<lparr>db_leads := update_where (\<lambda>r. ld_id r = ld_id l)
                    (\<lambda>r. r\<lparr>ld_status := Unreachable, ld_unreachable_reason := Some (''unreachable: '' @ err)\<rparr>) (db_leads d)\<rparr>) d))), a)
         else if k = WindowExpiredError
           then (case vw_reengage W of
                   None \<Rightarrow> (Inr (in_err (''window_expired: '' @ err) (failed (vw_provider W) d)), a)
                 | Some r \<Rightarrow> window_recovery W ad tn l t m r (failed (vw_provider W) d) a)
         else (Inr (failed (in_provider m) (in_err (class_and_text k err) d)), a))"

subsection \<open>The loop of the engine v1\<close>

record ('a, 't) v1_world =
  vx_data :: legacy_db
  vx_ad :: 'a
  vx_rt :: 't

text \<open>
  One iteration on the working copy \<open>d\<close> and the conversation \<open>t\<close> held in memory; \<open>vx_data\<close> is the last
  commit.
\<close>

definition v1_iteration ::
  "('a, 't) v1_worker_env \<Rightarrow> 'a adapter \<Rightarrow> tenant \<Rightarrow> lead \<Rightarrow> talkflow \<Rightarrow> legacy_db \<Rightarrow> ('a, 't) v1_world \<Rightarrow>
   (talkflow \<times> ('a, 't) v1_world) step" where
  "v1_iteration W ad tn l t d w =
     (case fetch_next_queued (ld_id l) (lg_db d) of
        None \<Rightarrow> Finished (t, w)
      | Some m \<Rightarrow>
          (case vw_runtime W tn t (in_text m) (vx_rt w) of
             (Inl e, rt) \<Rightarrow> Raised e (t, w\<lparr>vx_rt := rt\<rparr>)
           | (Inr (reply, completed), rt) \<Rightarrow>
               let t1 = (if completed then t\<lparr>wf_status := FlowCompleted\<rparr> else t); d1 = put_talkflow t1 d in
               (case ad_send_text ad (Some (in_from m)) reply (vx_ad w) of
                  (Inr i, a1) \<Rightarrow>
                    (case v1_sent W tn l t1 m reply i d1 of
                       Inl e \<Rightarrow> Raised e (t, w\<lparr>vx_rt := rt, vx_ad := a1\<rparr>)
                     | Inr (t2, d2) \<Rightarrow> Again (t2, \<lparr>vx_data = d2, vx_ad = a1, vx_rt = rt\<rparr>))
                | (Inl (Messaging k err), a1) \<Rightarrow>
                    (case v1_refused W ad tn l t1 m reply k err d1 a1 of
                       (Inl e, a2) \<Rightarrow> Raised e (t, w\<lparr>vx_rt := rt, vx_ad := a2\<rparr>)
                     | (Inr d2, a2) \<Rightarrow> Finished (t1, \<lparr>vx_data = d2, vx_ad = a2, vx_rt = rt\<rparr>))
                | (Inl e, a1) \<Rightarrow> Raised e (t, w\<lparr>vx_rt := rt, vx_ad := a1\<rparr>))))"

lemma legacy_rows [simp]:
  "db_inbound (lg_db (put_talkflow t d)) = db_inbound (lg_db d)"
  "db_inbound (lg_db (put_msg m d)) = put_row m (db_inbound (lg_db d))"
  "db_inbound (lg_db (record_outbound_sent tn t l p a i now d)) = db_inbound (lg_db d)"
  "db_inbound (lg_db (record_outbound_failed tn t l p a e now d)) = db_inbound (lg_db d)"
  by (simp_all add: put_talkflow_def put_msg_def on_db_def record_outbound_sent_def record_outbound_failed_def
      add_outbound_def)

lemma schedule_rows:
  "returns (schedule_next_followup E now t l tn c n d) (\<lambda>d'. db_inbound (lg_db d') = db_inbound (lg_db d))"
  unfolding schedule_next_followup_def by (intro returns_intro) simp

lemma v1_sent_rows:
  assumes "v1_sent W tn l t m reply i d = Inr (t', d')"
  shows "db_inbound (lg_db d') =
    put_row (m\<lparr>in_status := Processed, in_processed_at := Some (fe_now (vw_fu W))\<rparr>) (db_inbound (lg_db d))"
proof -
  have "returns (v1_sent W tn l t m reply i d) (\<lambda>r. db_inbound (lg_db (snd r)) =
    put_row (m\<lparr>in_status := Processed, in_processed_at := Some (fe_now (vw_fu W))\<rparr>) (db_inbound (lg_db d)))"
    unfolding v1_sent_def Let_def
    by (intro returns_intro) (auto dest: returnsD [OF schedule_rows])
  from returnsD [OF this assms] show ?thesis by simp
qed

lemma v1_iteration_shrinks:
  assumes "v1_iteration W ad tn l t d w = Again (t', w')"
  shows "length (pending (ld_id l) (lg_db (vx_data w'))) < length (pending (ld_id l) (lg_db d))"
proof -
  obtain m where m: "fetch_next_queued (ld_id l) (lg_db d) = Some m"
    using assms by (auto simp: v1_iteration_def split: option.splits)
  obtain t1 reply i where s: "v1_sent W tn l t1 m reply i (put_talkflow t1 d) = Inr (t', vx_data w')"
    using assms m
    by (auto simp: v1_iteration_def Let_def split: option.splits prod.splits sum.splits pyexn.splits)
  have mem: "m \<in> set (db_inbound (lg_db d))" "is_pending (ld_id l) m"
    using fetch_next_Some [OF m] by (auto simp: pending_set)
  have "length (filter (is_pending (ld_id l)) (put_row (m\<lparr>in_status := Processed, in_processed_at := Some (fe_now (vw_fu W))\<rparr>)
      (db_inbound (lg_db d)))) < length (filter (is_pending (ld_id l)) (db_inbound (lg_db d)))"
    by (rule put_row_length_less [where x = m]) (use mem in \<open>simp_all add: is_pending_def\<close>)
  then show ?thesis using v1_sent_rows [OF s] by (simp add: pending_def put_talkflow_def)
qed

function v1_loop ::
  "('a, 't) v1_worker_env \<Rightarrow> 'a adapter \<Rightarrow> tenant \<Rightarrow> lead \<Rightarrow> talkflow \<Rightarrow> legacy_db \<Rightarrow> ('a, 't) v1_world \<Rightarrow>
   pyexn option \<times> ('a, 't) v1_world" where
  "v1_loop W ad tn l t d w =
     (case v1_iteration W ad tn l t d w of
        Finished (_, w') \<Rightarrow> (None, w')
      | Raised e (_, w') \<Rightarrow> (Some e, w')
      | Again (t', w') \<Rightarrow> v1_loop W ad tn l t' (vx_data w') w')"
  by pat_completeness auto
termination
  by (relation "measure (\<lambda>(W, ad, tn, l, t, d, w). length (pending (ld_id l) (lg_db d)))")
    (auto dest: v1_iteration_shrinks)

declare v1_loop.simps [simp del]

text \<open>
  The follow-ups of a lead that answers are cancelled and a cold conversation is active again; these
  changes are committed with the first message.
\<close>

definition run_v1_inbox ::
  "('a, 't) v1_worker_env \<Rightarrow> 'a adapter \<Rightarrow> tenant \<Rightarrow> lead \<Rightarrow> talkflow \<Rightarrow> ('a, 't) v1_world \<Rightarrow>
   pyexn option \<times> ('a, 't) v1_world" where
  "run_v1_inbox W ad tn l t w =
     (let d1 = fst (cancel_pending_for_lead (ld_id l) ''lead responded'' (vx_data w));
          t1 = t\<lparr>wf_attempt := 0, wf_status := (if wf_status t = FlowCold then FlowActive else wf_status t)\<rparr>
      in v1_loop W ad tn l t1 (put_talkflow t1 d1) w)"

subsection \<open>The job\<close>

record ('l, 'a, 'r, 't) worker =
  wk_data :: legacy_db
  wk_queue :: "uuid list"
  wk_llm :: 'l
  wk_ad :: 'a
  wk_redis :: 'r
  wk_rt :: 't

record ('l, 'a, 'r, 't) job_env =
  je_v1 :: "('a, 't) v1_worker_env"
  je_v2 :: "tenant \<Rightarrow> pyexn + ('l, 'a, 'r) inbox_env"
  je_sha :: "string \<Rightarrow> 8 word list"

definition job_key :: "('l, 'a, 'r, 't) job_env \<Rightarrow> uuid \<Rightarrow> uuid \<Rightarrow> int" where
  "job_key J tn l = stable_lock_key (je_sha J) (str_nat tn) (str_nat l)"

definition to_inbox :: "('l, 'a, 'r, 't) worker \<Rightarrow> ('l, 'a, 'r) inbox_state" where
  "to_inbox w =
     \<lparr>ix_world = \<lparr>w_db = lg_db (wk_data w), w_queue = wk_queue w, w_llm = wk_llm w, w_ad = wk_ad w\<rparr>,
      ix_redis = wk_redis w\<rparr>"

definition of_inbox :: "('l, 'a, 'r, 't) worker \<Rightarrow> ('l, 'a, 'r) inbox_state \<Rightarrow> ('l, 'a, 'r, 't) worker" where
  "of_inbox w s =
     w\<lparr>wk_data := (wk_data w)\<lparr>lg_db := w_db (ix_world s)\<rparr>, wk_queue := w_queue (ix_world s),
       wk_llm := w_llm (ix_world s), wk_ad := w_ad (ix_world s), wk_redis := ix_redis s\<rparr>"

definition scalar_one :: "'a list \<Rightarrow> pyexn + 'a" where
  "scalar_one rows =
     (case rows of [] \<Rightarrow> Inl (OtherError ''NoResultFound'') | [r] \<Rightarrow> Inr r | _ \<Rightarrow> Inl MultipleResultsFound)"

definition dispatch_engine ::
  "('l, 'a, 'r, 't) job_env \<Rightarrow> tenant \<Rightarrow> lead \<Rightarrow> talkflow \<Rightarrow> 'a adapter \<Rightarrow> ('l, 'a, 'r, 't) worker \<Rightarrow>
   pyexn option \<times> ('l, 'a, 'r, 't) worker" where
  "dispatch_engine J tn l t ad w =
     (if tn_architecture tn = 2
      then (case je_v2 J tn of
              Inl e \<Rightarrow> (Some e, w)
            | Inr env \<Rightarrow>
                (case run_v2_inbox (env\<lparr>ie_turn := (ie_turn env)\<lparr>te_tenant := tn, te_adapter := ad\<rparr>\<rparr>) l (to_inbox w) of
                   (r, s) \<Rightarrow> (r, of_inbox w s)))
      else (case run_v1_inbox (je_v1 J) ad tn l t \<lparr>vx_data = wk_data w, vx_ad = wk_ad w, vx_rt = wk_rt w\<rparr> of
              (r, x) \<Rightarrow> (r, w\<lparr>wk_data := vx_data x, wk_ad := vx_ad x, wk_rt := vx_rt x\<rparr>)))"

definition inbox_body ::
  "('l, 'a, 'r, 't) job_env \<Rightarrow> uuid \<Rightarrow> uuid \<Rightarrow> ('l, 'a, 'r, 't) worker \<Rightarrow> pyexn option \<times> ('l, 'a, 'r, 't) worker" where
  "inbox_body J tenant_id lead_id w =
     (let d = lg_db (wk_data w) in
      case (scalar_one (filter (\<lambda>t. tn_id t = tenant_id) (db_tenants d)),
            scalar_one (filter (\<lambda>l. ld_id l = lead_id) (db_leads d))) of
        (Inl e, _) \<Rightarrow> (Some e, w)
      | (Inr _, Inl e) \<Rightarrow> (Some e, w)
      | (Inr tn, Inr l) \<Rightarrow>
          if ld_status l = PendingAssignment then (None, w)
          else if ld_status l = Unreachable
            then (None, w\<lparr>wk_data := on_db (mark_queued_as_skipped (ld_id l) ''lead_unreachable'') (wk_data w)\<rparr>)
          else (case scalar_one_or_none (filter (\<lambda>t. wf_lead t = ld_id l) (lg_talkflows (wk_data w))) of
                  Inl e \<Rightarrow> (Some e, w)
                | Inr None \<Rightarrow> (None, w)
                | Inr (Some t) \<Rightarrow>
                    (case fe_adapter (vw_fu (je_v1 J)) tn of
                       Inl e \<Rightarrow> (Some e, w)
                     | Inr ad \<Rightarrow> dispatch_engine J tn l t ad w)))"

text \<open>\<open>pg_try_advisory_lock\<close>: \<open>locks\<close> are the keys other sessions hold.\<close>

definition process_lead_inbox ::
  "('l, 'a, 'r, 't) job_env \<Rightarrow> int set \<Rightarrow> uuid \<Rightarrow> uuid \<Rightarrow> ('l, 'a, 'r, 't) worker \<Rightarrow>
   pyexn option \<times> ('l, 'a, 'r, 't) worker" where
  "process_lead_inbox J locks tenant_id lead_id w =
     (if job_key J tenant_id lead_id \<in> locks then (None, w) else inbox_body J tenant_id lead_id w)"

subsection \<open>A sample worker of the engine v1\<close>

definition sample_follow_up :: follow_up_config where
  "sample_follow_up =
     \<lparr>fc_enabled = True, fc_max = 2,
      fc_sequence = [\<lparr>fs_after = ''P1D'', fs_template = ''lembrete'', fs_language = ''pt_BR'', fs_params = [''lead'']\<rparr>,
                     \<lparr>fs_after = ''P2D'', fs_template = ''ultimo'', fs_language = ''pt_BR'', fs_params = []\<rparr>]\<rparr>"

definition sample_fu_env :: "fake_state fu_env" where
  "sample_fu_env =
     \<lparr>fe_ext = sample_ext\<lparr>iso_duration := (\<lambda>_. IsoDelta 86400000000), yaml_load := (\<lambda>_. Some JNull)\<rparr>,
      fe_reader = (\<lambda>_. Some (sample_v1_tree\<lparr>f1_follow_up := Some sample_follow_up\<rparr>)),
      fe_render = (\<lambda>p l tn. if p = ''lead'' then Inr (str_or (ld_e164 l) []) else Inl (OtherError ''UndefinedError'')),
      fe_adapter = (\<lambda>_. Inr fake_adapter), fe_now = 5000, fe_key = (\<lambda>t l. int (t + l))\<rparr>"

definition sample_v1_worker_env :: "(fake_state, nat) v1_worker_env" where
  "sample_v1_worker_env =
     \<lparr>vw_fu = sample_fu_env, vw_runtime = (\<lambda>tn t txt n. (Inr (''Certo!'', False), n + 1)), vw_provider = ''whatsapp_cloud'',
      vw_reengage = Some \<lparr>rt_template = ''volta'', rt_language = ''pt_BR'', rt_params = [''nome'']\<rparr>\<rparr>"

definition sample_talkflow :: talkflow where
  "sample_talkflow =
     \<lparr>wf_id = 20, wf_tenant = 1, wf_lead = 3, wf_version = 2, wf_status = FlowActive, wf_agent_at = None,
      wf_lead_at = None, wf_attempt = 0\<rparr>"

definition sample_legacy :: "db \<Rightarrow> legacy_db" where
  "sample_legacy d =
     \<lparr>lg_db = d\<lparr>db_tenants := [sample_tenant\<lparr>tn_architecture := 1\<rparr>], db_next := 30\<rparr>, lg_talkflows = [sample_talkflow],
      lg_jobs = []\<rparr>"

definition sample_job_env :: "(script, fake_state, unit, nat) job_env" where
  "sample_job_env =
     \<lparr>je_v1 = sample_v1_worker_env, je_v2 = (\<lambda>_. Inr sample_inbox), je_sha = (\<lambda>s. map (\<lambda>c. word_of_nat (code c)) s)\<rparr>"

definition sample_worker :: "fake_state \<Rightarrow> db \<Rightarrow> (script, fake_state, unit, nat) worker" where
  "sample_worker a d =
     \<lparr>wk_data = sample_legacy d, wk_queue = [], wk_llm = (0, []), wk_ad = a, wk_redis = (), wk_rt = 0\<rparr>"

definition sample_job :: "fake_state \<Rightarrow> db \<Rightarrow> pyexn option \<times> (script, fake_state, unit, nat) worker" where
  "sample_job a d = process_lead_inbox sample_job_env {} 1 3 (sample_worker a d)"

subsection \<open>Properties\<close>

text \<open>
  The job of a lead that is not active touches neither the model nor the messaging provider: a lead
  that waits for its assignment keeps its queue, the queue of an unreachable lead is emptied.
\<close>

theorem inactive_lead_silent:
  fixes J :: "('l, 'a, 'r, 't) job_env"
  assumes "filter (\<lambda>t. tn_id t = tenant_id) (db_tenants (lg_db (wk_data w))) = [tn]"
    and "filter (\<lambda>l. ld_id l = lead_id) (db_leads (lg_db (wk_data w))) = [l]" and "ld_status l \<noteq> LeadActive"
    and "job_key J tenant_id lead_id \<notin> locks" and "process_lead_inbox J locks tenant_id lead_id w = (r, w')"
  shows "r = None \<and> wk_ad w' = wk_ad w \<and> wk_llm w' = wk_llm w \<and> wk_rt w' = wk_rt w \<and>
    (if ld_status l = PendingAssignment then w' = w else pending lead_id (lg_db (wk_data w')) = [])"
proof -
  have "l \<in> set (filter (\<lambda>l. ld_id l = lead_id) (db_leads (lg_db (wk_data w))))" using assms(2) by simp
  then have l: "ld_id l = lead_id" by simp
  have none: "pending lead_id (mark_queued_as_skipped lead_id reason d) = []" for reason d
  proof -
    have "\<not> is_pending lead_id (if is_pending lead_id r then r\<lparr>in_status := InError, in_error := e\<rparr> else r)" for r e
      by (simp add: is_pending_def)
    then show ?thesis
      by (auto simp: pending_def mark_queued_as_skipped_def filter_empty_conv in_set_update_where)
  qed
  show ?thesis
  proof (cases "ld_status l")
    case PendingAssignment
    then show ?thesis using assms by (simp add: process_lead_inbox_def inbox_body_def scalar_one_def)
  next
    case Unreachable
    then show ?thesis
      using assms l none by (auto simp: process_lead_inbox_def inbox_body_def scalar_one_def on_db_def)
  qed (use assms(3) in simp)
qed

definition unreachable_db :: db where
  "unreachable_db = burst_db\<lparr>db_leads := [sample_lead\<lparr>ld_status := Unreachable\<rparr>]\<rparr>"

theorem inactive_lead_silent_witness:
  "fst (sample_job fake_init unreachable_db) = None \<and> wk_ad (snd (sample_job fake_init unreachable_db)) = fake_init \<and>
   pending 3 (lg_db (wk_data (snd (sample_job fake_init unreachable_db)))) = []"
  using inactive_lead_silent [of 1 "sample_worker fake_init unreachable_db" "sample_tenant\<lparr>tn_architecture := 1\<rparr>" 3
      "sample_lead\<lparr>ld_status := Unreachable\<rparr>" sample_job_env "{}" "fst (sample_job fake_init unreachable_db)"
      "snd (sample_job fake_init unreachable_db)"]
  by (simp add: sample_job_def sample_worker_def sample_legacy_def unreachable_db_def burst_db_def sample_db_def
      sample_tenant_def sample_lead_def)


definition due_legacy :: legacy_db where
  "due_legacy = (sample_legacy sample_db)\<lparr>lg_jobs :=
     [\<lparr>fj_id = 25, fj_tenant = 1, fj_talkflow = 20, fj_lead = 3, fj_attempt = 1, fj_at = 4000, fj_status = JobPending,
       fj_fired = None, fj_external = None, fj_error = None\<rparr>]\<rparr>"

definition closed_window :: fake_state where
  "closed_window = fake_fail_next_send (Messaging WindowExpiredError ''24h'') fake_init"

lemma due_fired:
  "fk_sent (snd (snd (fire_follow_up sample_fu_env {} 25 1 3 due_legacy fake_init))) =
     [TemplateTo (Some ''+5511999'') ''lembrete'' ''pt_BR'' [''+5511999'']]"
  by code_simp


text \<open>
  Every message that the engine v1 answers starts a follow-up sequence of its own: two messages
  answered by one run of the job leave two first follow-ups pending for the same conversation, and the
  lead will receive every template twice.
\<close>

theorem burst_doubles_follow_ups:
  "map (\<lambda>j. (fj_talkflow j, fj_attempt j, fj_status j)) (lg_jobs (wk_data (snd (sample_job fake_init burst_db)))) =
     [(20, 1, JobPending), (20, 1, JobPending)]"
  by code_simp

text \<open>
  When the messaging window is closed and a parameter of the tenant's re-engagement template cannot
  be rendered, the handler itself raises: the job is rolled back, the message stays queued without an
  audit row, and the same happens to it on every further run.
\<close>

theorem reengagement_render_sticks:
  "fst (sample_job closed_window sample_db) = Some (OtherError ''UnboundLocalError'') \<and>
   map in_status (db_inbound (lg_db (wk_data (snd (sample_job closed_window sample_db))))) = [Queued] \<and>
   db_outbound (lg_db (wk_data (snd (sample_job closed_window sample_db)))) = []"
  by code_simp

end
