(* ===== verification/Scan_Talks.thy ===== *)
theory Scan_Talks
  imports Post_Processing Sample_Turn
begin

text \<open>
  The cron job \<open>worker/jobs/scan_talks.py\<close>, which closes talks by inactivity or duration.  Its first
  phase reads the candidates of all tenants in one query; its second phase is one transaction per
  talk.  Between them other sessions commit: \<open>others i d\<close> is the database as the transaction of the
  candidate \<open>i\<close> finds it, with the rows that another session holds locked.  The order of the rows of
  the join, which SQL leaves open, is the one of the table.
\<close>

subsection \<open>Phase A\<close>

record scan_row =
  sc_talk :: uuid
  sc_yaml :: string
  sc_last :: time
  sc_created :: time

definition scannable :: "talk \<Rightarrow> bool" where
  "scannable t \<longleftrightarrow> tk_status t = Active \<and> tk_mode t = ModeAi"

definition scan_row_of :: "db \<Rightarrow> talk \<Rightarrow> scan_row option" where
  "scan_row_of d t =
     (if scannable t
      then map_option (\<lambda>v. \<lparr>sc_talk = tk_id t, sc_yaml = tv_yaml v, sc_last = tk_last_message t, sc_created = tk_created t\<rparr>)
             (find_row tv_id (tk_version t) (db_versions d))
      else None)"

definition scan_candidates :: "db \<Rightarrow> scan_row list" where
  "scan_candidates d = List.map_filter (scan_row_of d) (db_talks d)"

subsection \<open>Phase B\<close>

text \<open>A limit of zero is false in Python, so it never applies.\<close>

definition limit_passed :: "time \<Rightarrow> duration option \<Rightarrow> time \<Rightarrow> bool" where
  "limit_passed now limit since = (\<exists>l \<in> set_option limit. l \<noteq> 0 \<and> since < now - l)"

definition close_status :: "time \<Rightarrow> talk_lifecycle \<Rightarrow> time \<Rightarrow> time \<Rightarrow> talk_status option" where
  "close_status now lc last_at created =
     (if limit_passed now (tl_inactivity lc) last_at then Some ClosedInactivity
      else if limit_passed now (tl_duration lc) created then Some ClosedDuration
      else None)"

definition scan_reason :: "talk_status \<Rightarrow> string" where
  "scan_reason s = (if s = ClosedInactivity then ''closed_inactivity'' else ''closed_duration'')"

definition scan_close :: "time \<Rightarrow> talk_status \<Rightarrow> talk \<Rightarrow> talk" where
  "scan_close now s t =
     t\<lparr>tk_status := s, tk_closed_at := Some now, tk_closed_reason := Some (scan_reason s), tk_closed_by := Some ByScanJob\<rparr>"

definition lock_talk :: "uuid \<Rightarrow> uuid set \<Rightarrow> db \<Rightarrow> talk option" where
  \<comment> \<open>\<open>SELECT \<dots> FOR UPDATE SKIP LOCKED\<close>\<close>
  "lock_talk i locked d = find (\<lambda>t. tk_id t = i \<and> scannable t \<and> tk_id t \<notin> locked) (db_talks d)"

record scan_result =
  inactive_closed :: nat
  duration_closed :: nat

definition count_close :: "talk_status \<Rightarrow> scan_result \<Rightarrow> scan_result" where
  "count_close s r =
     (if s = ClosedInactivity then r\<lparr>inactive_closed := Suc (inactive_closed r)\<rparr>
      else r\<lparr>duration_closed := Suc (duration_closed r)\<rparr>)"

type_synonym others = "uuid \<Rightarrow> db \<Rightarrow> uuid set \<times> db"

text \<open>
  The loop over the candidates.  Only \<open>TreeflowLoadError\<close> is caught; another exception of the loader
  leaves the function, and what was committed before stands.
\<close>

fun scan_rows ::
  "ext \<Rightarrow> time \<Rightarrow> others \<Rightarrow> scan_row list \<Rightarrow> scan_result \<Rightarrow> db \<Rightarrow> pyexn option \<times> scan_result \<times> db" where
  "scan_rows E now others [] r d = (None, r, d)"
| "scan_rows E now others (c # cs) r d =
     (case load_treeflow_v2 E (sc_yaml c) of
        Inl (TreeflowLoadError _) \<Rightarrow> scan_rows E now others cs r d
      | Inl e \<Rightarrow> (Some e, r, d)
      | Inr tf \<Rightarrow>
          (case Option.bind (tf_lifecycle tf) (\<lambda>lc. close_status now lc (sc_last c) (sc_created c)) of
             None \<Rightarrow> scan_rows E now others cs r d
           | Some s \<Rightarrow>
               (let (locked, d1) = others (sc_talk c) d in
                case lock_talk (sc_talk c) locked d1 of
                  None \<Rightarrow> scan_rows E now others cs r d1
                | Some t \<Rightarrow> scan_rows E now others cs (count_close s r) (put_talk (scan_close now s t) d1))))"

definition scan_active_talks :: "ext \<Rightarrow> time \<Rightarrow> others \<Rightarrow> db \<Rightarrow> pyexn option \<times> scan_result \<times> db" where
  "scan_active_talks E now others d =
     scan_rows E now others (scan_candidates d) \<lparr>inactive_closed = 0, duration_closed = 0\<rparr> d"

subsection \<open>The specification of an undisturbed scan\<close>

definition talk_due :: "ext \<Rightarrow> time \<Rightarrow> db \<Rightarrow> talk \<Rightarrow> talk_status option" where
  "talk_due E now d t =
     (if tk_status t \<noteq> Active \<or> tk_mode t \<noteq> ModeAi then None
      else case find_row tv_id (tk_version t) (db_versions d) of
          None \<Rightarrow> None
        | Some v \<Rightarrow>
            (case load_treeflow_v2 E (tv_yaml v) of
               Inl _ \<Rightarrow> None
             | Inr tf \<Rightarrow>
                 (case tf_lifecycle tf of
                    None \<Rightarrow> None
                  | Some lc \<Rightarrow>
                      if \<exists>l \<in> set_option (tl_inactivity lc). l \<noteq> 0 \<and> tk_last_message t + l < now then Some ClosedInactivity
                      else if \<exists>l \<in> set_option (tl_duration lc). l \<noteq> 0 \<and> tk_created t + l < now then Some ClosedDuration
                      else None)))"

definition scanned :: "ext \<Rightarrow> time \<Rightarrow> db \<Rightarrow> talk \<Rightarrow> talk" where
  "scanned E now d t =
     (case talk_due E now d t of
        None \<Rightarrow> t
      | Some s \<Rightarrow>
          t\<lparr>tk_status := s, tk_closed_at := Some now, tk_closed_by := Some ByScanJob,
            tk_closed_reason := Some (if s = ClosedInactivity then ''closed_inactivity'' else ''closed_duration'')\<rparr>)"

lemma limit_passed_iff: "limit_passed now limit since \<longleftrightarrow> (\<exists>l \<in> set_option limit. l \<noteq> 0 \<and> since + l < now)"
  by (auto simp: limit_passed_def)

lemma talk_due_def': "talk_due E now d t =
     Option.bind (scan_row_of d t) (\<lambda>c.
       case load_treeflow_v2 E (sc_yaml c) of
         Inl _ \<Rightarrow> None
       | Inr tf \<Rightarrow> Option.bind (tf_lifecycle tf) (\<lambda>lc. close_status now lc (sc_last c) (sc_created c)))"
  by (auto simp: talk_due_def scan_row_of_def scannable_def close_status_def limit_passed_iff split: option.split sum.split)

lemma scanned_def': "scanned E now d t = (case talk_due E now d t of None \<Rightarrow> t | Some s \<Rightarrow> scan_close now s t)"
  by (simp add: scanned_def scan_close_def scan_reason_def split: option.split)

definition alone :: others where
  "alone i d = ({}, d)"

lemma scan_close_id [simp]: "tk_id (scan_close now s t) = tk_id t"
  by (simp add: scan_close_def)

lemma scanned_id [simp]: "tk_id (scanned E now d t) = tk_id t"
  by (simp add: scanned_def' split: option.split)

lemma scan_row_of_Some:
  "scan_row_of d t = Some c \<longleftrightarrow> scannable t \<and> (\<exists>v. find_row tv_id (tk_version t) (db_versions d) = Some v \<and>
     c = \<lparr>sc_talk = tk_id t, sc_yaml = tv_yaml v, sc_last = tk_last_message t, sc_created = tk_created t\<rparr>)"
  by (auto simp: scan_row_of_def)

lemma scan_row_of_versions: "db_versions d' = db_versions d \<Longrightarrow> scan_row_of d' = scan_row_of d"
  by (simp add: scan_row_of_def fun_eq_iff)

lemma lock_talk_middle:
  assumes "tk_id t \<notin> tk_id ` set xs" and "scannable t"
  shows "lock_talk (tk_id t) {} (d\<lparr>db_talks := xs @ t # ys\<rparr>) = Some t"
  using assms by (induction xs) (auto simp: lock_talk_def)

lemma put_talk_middle:
  assumes "tk_id t' = tk_id t" and "tk_id t \<notin> tk_id ` set xs" and "tk_id t \<notin> tk_id ` set ys"
  shows "put_talk t' (d\<lparr>db_talks := xs @ t # ys\<rparr>) = d\<lparr>db_talks := xs @ t' # ys\<rparr>"
proof -
  have same: "update_where (\<lambda>r. tk_id r = tk_id t') (\<lambda>_. t') zs = zs" if "tk_id t \<notin> tk_id ` set zs" for zs
    by (rule update_where_none) (metis assms(1) image_eqI that)
  have "update_where (\<lambda>r. tk_id r = tk_id t') (\<lambda>_. t') (xs @ t # ys) = xs @ t' # ys"
    using same [OF assms(2)] same [OF assms(3)] assms(1) by (simp add: update_where_def)
  then show ?thesis by (simp add: put_talk_def)
qed

lemma scan_rows_alone:
  assumes "distinct (map tk_id (xs @ ts))"
    and "\<forall>v \<in> set (db_versions d). \<forall>e. load_treeflow_v2 E (tv_yaml v) = Inl e \<longrightarrow> (\<exists>m. e = TreeflowLoadError m)"
  shows "\<exists>r'. scan_rows E now alone (List.map_filter (scan_row_of d) ts) r (d\<lparr>db_talks := xs @ ts\<rparr>) =
      (None, r', d\<lparr>db_talks := xs @ map (scanned E now d) ts\<rparr>) \<and>
    inactive_closed r' = inactive_closed r + length (filter (\<lambda>t. talk_due E now d t = Some ClosedInactivity) ts) \<and>
    duration_closed r' = duration_closed r + length (filter (\<lambda>t. talk_due E now d t = Some ClosedDuration) ts)"
  using assms(1)
proof (induction ts arbitrary: xs r)
  case Nil
  show ?case by (simp add: map_filter_simps)
next
  case (Cons t ts)
  note step = Cons.IH [of "xs @ [scanned E now d t]"]
  have dist: "distinct (map tk_id ((xs @ [scanned E now d t]) @ ts))" using Cons.prems by simp
  have due: "s = ClosedInactivity \<or> s = ClosedDuration" if "close_status now lc a b = Some s" for lc a b s
    using that by (auto simp: close_status_def split: if_splits)
  show ?case
  proof (cases "scan_row_of d t")
    case None
    then have "talk_due E now d t = None" by (simp add: talk_due_def')
    then show ?thesis using step [OF dist] None by (simp add: map_filter_simps scanned_def')
  next
    case (Some c)
    then obtain v where v: "scannable t" "find_row tv_id (tk_version t) (db_versions d) = Some v"
        "sc_talk c = tk_id t" "sc_yaml c = tv_yaml v" by (auto simp: scan_row_of_Some)
    have load: "\<exists>m. e = TreeflowLoadError m" if "load_treeflow_v2 E (sc_yaml c) = Inl e" for e
      using assms(2) find_row_Some [OF v(2)] that v(4) by auto
    have lock: "lock_talk (tk_id t) {} (d\<lparr>db_talks := xs @ t # ts\<rparr>) = Some t"
      by (rule lock_talk_middle) (use Cons.prems v(1) in auto)
    have put: "put_talk (scan_close now s t) (d\<lparr>db_talks := xs @ t # ts\<rparr>) = d\<lparr>db_talks := xs @ scan_close now s t # ts\<rparr>" for s
      by (rule put_talk_middle) (use Cons.prems in auto)
    show ?thesis
    proof (cases "talk_due E now d t")
      case None
      then have "scan_rows E now alone (List.map_filter (scan_row_of d) (t # ts)) r (d\<lparr>db_talks := xs @ t # ts\<rparr>) =
          scan_rows E now alone (List.map_filter (scan_row_of d) ts) r (d\<lparr>db_talks := xs @ t # ts\<rparr>)"
        using Some load by (auto simp: map_filter_simps talk_due_def' split: sum.splits option.splits)
      then show ?thesis using step [OF dist] None by (simp add: scanned_def')
    next
      case Some': (Some s)
      then have "scan_rows E now alone (List.map_filter (scan_row_of d) (t # ts)) r (d\<lparr>db_talks := xs @ t # ts\<rparr>) =
          scan_rows E now alone (List.map_filter (scan_row_of d) ts) (count_close s r)
            (d\<lparr>db_talks := xs @ scan_close now s t # ts\<rparr>)"
        using Some v(3) lock put
        by (auto simp: map_filter_simps talk_due_def' alone_def split: sum.splits)
      moreover have "s = ClosedInactivity \<or> s = ClosedDuration"
        using Some' Some due by (auto simp: talk_due_def' bind_eq_Some_conv split: sum.splits)
      ultimately show ?thesis
        using step [OF dist, of "count_close s r"] Some' by (auto simp: scanned_def' count_close_def)
    qed
  qed
qed

subsection \<open>A talk that is not the scanner's\<close>

lemma lock_talk_Some: "lock_talk i locked d = Some t \<Longrightarrow> t \<in> set (db_talks d) \<and> tk_id t = i \<and> scannable t \<and> i \<notin> locked"
  by (auto simp: lock_talk_def find_Some_iff dest: nth_mem)

lemma find_put_other: "tk_id t' \<noteq> i \<Longrightarrow> find_row tk_id i (db_talks (put_talk t' d)) = find_row tk_id i (db_talks d)"
  by (simp add: put_talk_def find_row_put)

lemma lock_talk_row:
  assumes "lock_talk i locked d = Some t" and "distinct (map tk_id (db_talks d))"
  shows "find_row tk_id i (db_talks d) = Some t"
proof -
  from assms(1) have t: "t \<in> set (db_talks d)" "tk_id t = i" by (auto dest: lock_talk_Some)
  then obtain t' where t': "find_row tk_id i (db_talks d) = Some t'"
    using find_row_None [of tk_id i] by fastforce
  then show ?thesis using t assms(2) find_row_Some [OF t'] by (metis distinct_map inj_onD)
qed

text \<open>
  What the other sessions may do for the property below: the ids of the talks stay unique, and the
  talk \<open>i\<close>, as long as it is not the scanner's to close, is changed by nobody.
\<close>

definition leaves_talk :: "uuid \<Rightarrow> talk \<Rightarrow> others \<Rightarrow> bool" where
  "leaves_talk i t others \<longleftrightarrow>
     (\<forall>k d. distinct (map tk_id (db_talks d)) \<and> find_row tk_id i (db_talks d) = Some t \<longrightarrow>
        distinct (map tk_id (db_talks (snd (others k d)))) \<and>
        find_row tk_id i (db_talks (snd (others k d))) = Some t)"

lemma put_talk_ids: "map tk_id (db_talks (put_talk t d)) = map tk_id (db_talks d)"
  by (auto simp: put_talk_def update_where_def)

lemma scan_rows_leaves:
  assumes "\<not> scannable t" and "leaves_talk i t others" and "distinct (map tk_id (db_talks d))"
    and "find_row tk_id i (db_talks d) = Some t" and "scan_rows E now others cs r d = (e, r', d')"
  shows "find_row tk_id i (db_talks d') = Some t"
  using assms(3,4,5)
proof (induction cs arbitrary: r d)
  case Nil
  then show ?case by simp
next
  case (Cons c cs)
  show ?case
  proof (cases "load_treeflow_v2 E (sc_yaml c)")
    case (Inl a)
    then show ?thesis using Cons by (cases a) auto
  next
    case (Inr tf)
    show ?thesis
    proof (cases "Option.bind (tf_lifecycle tf) (\<lambda>lc. close_status now lc (sc_last c) (sc_created c))")
      case None
      then show ?thesis using Cons Inr by simp
    next
      case (Some s)
      obtain locked d1 where o: "others (sc_talk c) d = (locked, d1)" by fastforce
      then have d1: "distinct (map tk_id (db_talks d1))" "find_row tk_id i (db_talks d1) = Some t"
        using assms(2) Cons.prems(1,2) by (metis leaves_talk_def snd_conv)+
      show ?thesis
      proof (cases "lock_talk (sc_talk c) locked d1")
        case None
        then show ?thesis using Cons.IH [OF d1] Cons.prems(3) Inr Some o by simp
      next
        case Some': (Some t')
        have "sc_talk c \<noteq> i" using lock_talk_row [OF Some' d1(1)] d1(2) lock_talk_Some [OF Some'] assms(1) by auto
        then have "find_row tk_id i (db_talks (put_talk (scan_close now s t') d1)) = Some t"
          using d1(2) lock_talk_Some [OF Some'] by (simp add: find_put_other)
        then show ?thesis using Cons.IH [of "put_talk (scan_close now s t') d1"] d1(1) Cons.prems(3) Inr Some o Some'
          by (simp add: put_talk_ids)
      qed
    qed
  qed
qed

subsection \<open>Properties\<close>


definition open_db :: db where
  "open_db = fst (create_talk 5000 1 3 ''captacao'' 2 sample_db)"

definition held_open_db :: db where
  "held_open_db = open_db\<lparr>db_talks := map (\<lambda>t. t\<lparr>tk_mode := ModeHuman\<rparr>) (db_talks open_db)\<rparr>"

definition lead_writes :: "time \<Rightarrow> others" where
  "lead_writes now i d = ({}, d\<lparr>db_talks := map (\<lambda>t. if tk_id t = i then t\<lparr>tk_last_message := now\<rparr> else t) (db_talks d)\<rparr>)"

definition calendar_ext :: ext where
  "calendar_ext = sample_ext\<lparr>yaml_load := (\<lambda>s.
     if s = ''mensal.yaml''
     then map_option (\<lambda>v. case v of
            JObj kvs \<Rightarrow> JObj (AList.update ''talk_lifecycle'' (JObj [(''close_after_inactivity'', JStr ''P1M'')]) kvs)
          | w \<Rightarrow> w) (yaml_load sample_ext ''captacao.yaml'')
     else yaml_load sample_ext s)\<rparr>"

definition mixed_db :: db where
  "mixed_db =
     (let t = hd (db_talks open_db) in
      open_db\<lparr>db_versions := [sample_version, sample_version\<lparr>tv_id := 40, tv_tenant := 9, tv_yaml := ''mensal.yaml''\<rparr>],
              db_talks := [t\<lparr>tk_id := 41, tk_tenant := 9, tk_version := 40\<rparr>, t]\<rparr>)"


text \<open>
  Whatever other sessions commit while the scan runs, a talk that they keep in the hands of a human
  operator, or closed, is still exactly the same row when the scan has ended.
\<close>

theorem scan_leaves_held:
  assumes "\<not> scannable t" and "leaves_talk i t others" and "distinct (map tk_id (db_talks d))"
    and "find_row tk_id i (db_talks d) = Some t" and "scan_active_talks E now others d = (e, r, d')"
  shows "find_row tk_id i (db_talks d') = Some t"
  using scan_rows_leaves [OF assms(1-4)] assms(5) by (simp add: scan_active_talks_def)

theorem scan_leaves_held_witness:
  "find_row tk_id 10 (db_talks (snd (snd (scan_active_talks sample_ext (5000 + hours 49) alone held_open_db)))) =
   Some (hd (db_talks held_open_db))"
proof -
  have 1: "\<not> scannable (hd (db_talks held_open_db))" "distinct (map tk_id (db_talks held_open_db))"
    "find_row tk_id 10 (db_talks held_open_db) = Some (hd (db_talks held_open_db))"
    by code_simp+
  have 2: "leaves_talk 10 (hd (db_talks held_open_db)) alone" by (simp add: leaves_talk_def alone_def)
  show ?thesis
    by (rule scan_leaves_held [OF 1(1) 2 1(2,3),
          of sample_ext "5000 + hours 49" "fst (scan_active_talks sample_ext (5000 + hours 49) alone held_open_db)"
             "fst (snd (scan_active_talks sample_ext (5000 + hours 49) alone held_open_db))"]) simp
qed

text \<open>
  The recheck under the row lock does not look at the time of the last message: when the lead
  writes again between the two phases, the talk is closed for inactivity all the same.
\<close>

theorem scan_closes_fresh_talk:
  "map (\<lambda>t. (tk_status t, tk_last_message t))
     (db_talks (snd (snd (scan_active_talks sample_ext (5000 + hours 49) (lead_writes (5000 + hours 49)) open_db)))) =
   [(ClosedInactivity, 5000 + hours 49)]"
  by code_simp

text \<open>
  One published tree with a calendar duration (\<open>P1M\<close>), whose comparison raises \<open>TypeError\<close>, stops
  the scan at the first open talk on this tree: the talks after it stay open however long they are
  overdue, those of other tenants included.
\<close>

theorem scan_stopped_by_tree:
  "fst (scan_active_talks calendar_ext (5000 + hours 49) alone mixed_db) = Some TypeError \<and>
   map (\<lambda>t. talk_due calendar_ext (5000 + hours 49) mixed_db t) (db_talks mixed_db) = [None, Some ClosedInactivity] \<and>
   map tk_status (db_talks (snd (snd (scan_active_talks calendar_ext (5000 + hours 49) alone mixed_db)))) = [Active, Active]"
  by code_simp

end
