(* ===== verification/Web_Auth.thy ===== *)
theory Web_Auth
  imports Realtime "HOL-Library.List_Lexorder" "HOL-Library.Char_ord"
begin

text \<open>
  The authentication boundary of the console: signed session cookies and the access dependencies of
  the routes (\<open>web/auth.py\<close>), login (\<open>web/login.py\<close>, \<open>web/passwords.py\<close>), the list of one's tenants
  (\<open>api/routes/console_me.py\<close>, \<open>web/routes.py\<close>) and the access check of the live inbox
  (\<open>api/routes/ws_inbox.py\<close>).  The time stamped serializer of \<open>itsdangerous\<close>, \<open>bcrypt\<close> and the
  reading of a tenant's configuration are parameters; times of this theory are in seconds, as the
  serializer counts.
\<close>

subsection \<open>Parameters and tables\<close>

datatype load_result = LoadOk jval | LoadBad | LoadExpired

record signer =
  sg_dumps :: "string \<Rightarrow> int \<Rightarrow> jval \<Rightarrow> string"
  sg_loads :: "string \<Rightarrow> int \<Rightarrow> string \<Rightarrow> int \<Rightarrow> load_result"

record web_env =
  we_signer :: signer
  we_secret :: "string option"
  we_bcrypt :: "string \<Rightarrow> string \<Rightarrow> pyexn + bool"
  we_console :: "string \<Rightarrow> pyexn + bool option"

record user =
  us_id :: uuid
  us_name :: string
  us_hash :: string
  us_admin :: bool
  us_last_login :: "int option"

text \<open>\<open>dr_grants\<close> holds the key of \<open>user_tenant_access\<close>, a user and a tenant.\<close>

record directory =
  dr_users :: "user list"
  dr_tenants :: "tenant list"
  dr_grants :: "(uuid \<times> uuid) list"
  dr_instances :: "instance_row list"

text \<open>What a route answers: its result, an \<open>HTTPException\<close>, or an exception that nobody handles.\<close>

datatype 'a reply = Reply 'a | HttpError nat string | Crashed pyexn

subsection \<open>Session cookies\<close>

definition session_secret :: "web_env \<Rightarrow> pyexn + string" where
  "session_secret W =
     (let k = str_or (we_secret W) []
      in if length k < 32 then Inl (OtherError ''RuntimeError'') else Inr k)"

definition session_payload :: "uuid \<Rightarrow> jval" where
  "session_payload i = JObj [(''user_id'', JStr (str_nat i))]"

definition sign_session_cookie :: "web_env \<Rightarrow> int \<Rightarrow> uuid \<Rightarrow> pyexn + string" where
  "sign_session_cookie W now i =
     bindE (session_secret W) (\<lambda>k. Inr (sg_dumps (we_signer W) k now (session_payload i)))"

definition verify_session_cookie :: "web_env \<Rightarrow> int \<Rightarrow> string \<Rightarrow> int \<Rightarrow> pyexn + jval option" where
  "verify_session_cookie W now cookie max_age =
     (if cookie = [] then Inr None
      else bindE (session_secret W) (\<lambda>k.
        Inr (case sg_loads (we_signer W) k now cookie max_age of LoadOk p \<Rightarrow> Some p | LoadBad \<Rightarrow> None | LoadExpired \<Rightarrow> None)))"

definition cookie_max_age :: int where
  "cookie_max_age = 12 * 60 * 60"

subsection \<open>The dependencies of the routes\<close>

definition payload_user :: "jval \<Rightarrow> pyexn + uuid" where
  "payload_user p = bindE (py_getitem p ''user_id'') uuid_of_json"

definition caught_payload :: "pyexn \<Rightarrow> bool" where
  "caught_payload e = (case e of KeyError _ \<Rightarrow> True | ValueError _ \<Rightarrow> True | _ \<Rightarrow> False)"

definition redirect_to_login :: "'a reply" where
  "redirect_to_login = HttpError 303 ''/console/login''"

definition require_console_user :: "web_env \<Rightarrow> directory \<Rightarrow> int \<Rightarrow> string option \<Rightarrow> user reply" where
  "require_console_user W D now cookie =
     (case verify_session_cookie W now (str_or cookie []) cookie_max_age of
        Inl e \<Rightarrow> Crashed e
      | Inr None \<Rightarrow> redirect_to_login
      | Inr (Some p) \<Rightarrow>
          (case payload_user p of
             Inl e \<Rightarrow> if caught_payload e then redirect_to_login else Crashed e
           | Inr i \<Rightarrow> (case find_row us_id i (dr_users D) of None \<Rightarrow> redirect_to_login | Some u \<Rightarrow> Reply u)))"

definition granted :: "directory \<Rightarrow> user \<Rightarrow> uuid \<Rightarrow> bool" where
  "granted D u tenant_id \<longleftrightarrow> us_admin u \<or> (us_id u, tenant_id) \<in> set (dr_grants D)"

definition require_tenant_access ::
  "web_env \<Rightarrow> directory \<Rightarrow> int \<Rightarrow> string option \<Rightarrow> string \<Rightarrow> (tenant \<times> user) reply" where
  "require_tenant_access W D now cookie slug =
     (case require_console_user W D now cookie of
        HttpError s m \<Rightarrow> HttpError s m
      | Crashed e \<Rightarrow> Crashed e
      | Reply u \<Rightarrow>
          (case scalar_one_or_none (filter (\<lambda>t. tn_slug t = slug) (dr_tenants D)) of
             Inl e \<Rightarrow> Crashed e
           | Inr None \<Rightarrow> HttpError 404 ''tenant not found''
           | Inr (Some tn) \<Rightarrow>
               (case we_console W slug of
                  Inl e \<Rightarrow> Crashed e
                | Inr c \<Rightarrow>
                    if c \<noteq> Some True then HttpError 404 ''console disabled for this tenant''
                    else if granted D u (tn_id tn) then Reply (tn, u)
                    else HttpError 403 ''no access to this tenant'')))"

text \<open>The check of the websocket, \<open>_resolve_access\<close>.\<close>

definition resolve_ws_access :: "web_env \<Rightarrow> directory \<Rightarrow> int \<Rightarrow> uuid \<Rightarrow> string option \<Rightarrow> pyexn + bool" where
  "resolve_ws_access W D now instance_id cookie =
     (case verify_session_cookie W now (str_or cookie []) cookie_max_age of
        Inl e \<Rightarrow> Inl e
      | Inr None \<Rightarrow> Inr False
      | Inr (Some p) \<Rightarrow>
          (case payload_user p of
             Inl e \<Rightarrow> if caught_payload e then Inr False else Inl e
           | Inr i \<Rightarrow>
               (case find_row us_id i (dr_users D) of
                  None \<Rightarrow> Inr False
                | Some u \<Rightarrow>
                    (case find_row is_id instance_id (dr_instances D) of
                       None \<Rightarrow> Inr False
                     | Some ins \<Rightarrow> Inr (granted D u (is_tenant ins))))))"

subsection \<open>Login and the list of tenants\<close>

definition verify_password :: "web_env \<Rightarrow> string \<Rightarrow> string \<Rightarrow> pyexn + bool" where
  "verify_password W plain hashed =
     (case we_bcrypt W plain hashed of
        Inl e \<Rightarrow> (case e of ValueError _ \<Rightarrow> Inr False | TypeError \<Rightarrow> Inr False | _ \<Rightarrow> Inl e)
      | Inr b \<Rightarrow> Inr b)"

definition member_tenants :: "directory \<Rightarrow> user \<Rightarrow> tenant list" where
  "member_tenants D u = filter (\<lambda>t. granted D u (tn_id t)) (dr_tenants D)"

definition tenants_visible_to :: "directory \<Rightarrow> user \<Rightarrow> tenant list" where
  "tenants_visible_to D u = sort_key tn_slug (member_tenants D u)"

definition get_me :: "web_env \<Rightarrow> directory \<Rightarrow> int \<Rightarrow> string option \<Rightarrow> (user \<times> string list) reply" where
  "get_me W D now cookie =
     (case require_console_user W D now cookie of
        Reply u \<Rightarrow> Reply (u, map tn_slug (member_tenants D u))
      | HttpError s m \<Rightarrow> HttpError s m
      | Crashed e \<Rightarrow> Crashed e)"

datatype login_reply = LoginPage nat string | LoggedIn string string

definition find_username :: "string \<Rightarrow> directory \<Rightarrow> pyexn + user option" where
  "find_username name D = scalar_one_or_none (filter (\<lambda>u. py_lower (us_name u) = py_lower name) (dr_users D))"

definition login_submit :: "web_env \<Rightarrow> int \<Rightarrow> string \<Rightarrow> string \<Rightarrow> directory \<Rightarrow> (pyexn + login_reply) \<times> directory" where
  "login_submit W now name password D =
     (case find_username name D of
        Inl e \<Rightarrow> (Inl e, D)
      | Inr None \<Rightarrow> (Inr (LoginPage 401 ''senha incorreta''), D)
      | Inr (Some u) \<Rightarrow>
          (case verify_password W password (us_hash u) of
             Inl e \<Rightarrow> (Inl e, D)
           | Inr False \<Rightarrow> (Inr (LoginPage 401 ''senha incorreta''), D)
           | Inr True \<Rightarrow>
               (let D1 = D\<lparr>dr_users := update_where (\<lambda>r. us_id r = us_id u) (\<lambda>r. r\<lparr>us_last_login := Some now\<rparr>) (dr_users D)\<rparr> in
                case tenants_visible_to D u of
                  [] \<Rightarrow> (Inr (LoginPage 403 ''sem acesso''), D1)
                | tn # _ \<Rightarrow> (bindE (sign_session_cookie W now (us_id u)) (\<lambda>c. Inr (LoggedIn (tn_slug tn) c)), D1))))"

subsection \<open>What the serializer promises\<close>

text \<open>
  The documented behaviour of the serializer that the console relies on: a signed session is read
  back as long as it is not too old, and a cookie that is accepted was signed with the key, which
  only \<open>sign_session_cookie\<close> does.
\<close>

definition signer_law :: "signer \<Rightarrow> string \<Rightarrow> bool" where
  "signer_law S k \<longleftrightarrow>
     (\<forall>t now age i. sg_dumps S k t (session_payload i) \<noteq> [] \<and>
        sg_loads S k now (sg_dumps S k t (session_payload i)) age =
          (if 0 \<le> now - t \<and> now - t \<le> age then LoadOk (session_payload i) else LoadExpired))"

definition only_sessions :: "signer \<Rightarrow> string \<Rightarrow> bool" where
  "only_sessions S k \<longleftrightarrow>
     (\<forall>now c age p. sg_loads S k now c age = LoadOk p \<longrightarrow> (\<exists>t i. c = sg_dumps S k t (session_payload i)))"

lemma payload_user_session [simp]: "payload_user (session_payload i) = Inr i"
  by (simp add: payload_user_def session_payload_def py_getitem_def uuid_of_json_def)

lemma verify_signed:
  assumes "session_secret W = Inr k" and "signer_law (we_signer W) k" and "sign_session_cookie W t i = Inr c"
  shows "verify_session_cookie W now c age =
    Inr (if 0 \<le> now - t \<and> now - t \<le> age then Some (session_payload i) else None)"
  using assms by (auto simp: verify_session_cookie_def sign_session_cookie_def signer_law_def)

lemma verify_Some:
  assumes "session_secret W = Inr k" and "signer_law (we_signer W) k" and "only_sessions (we_signer W) k"
    and "verify_session_cookie W now c age = Inr (Some p)"
  obtains t i where "p = session_payload i" "sign_session_cookie W t i = Inr c" "0 \<le> now - t" "now - t \<le> age"
proof -
  have ld: "sg_loads (we_signer W) k now c age = LoadOk p"
    using assms(1,4) by (auto simp: verify_session_cookie_def split: if_splits load_result.splits)
  then obtain t i where c: "c = sg_dumps (we_signer W) k t (session_payload i)"
    using assms(3) ld unfolding only_sessions_def by metis
  then have ld': "LoadOk p = (if 0 \<le> now - t \<and> now - t \<le> age then LoadOk (session_payload i) else LoadExpired)"
    using ld assms(2) unfolding signer_law_def by metis
  show thesis
    by (rule that [of i t]) (use ld' c assms(1) in \<open>auto simp: sign_session_cookie_def split: if_splits\<close>)
qed

lemma console_user_signed:
  assumes "session_secret W = Inr k" and "signer_law (we_signer W) k" and "sign_session_cookie W t i = Inr c"
    and "0 \<le> now - t" and "now - t \<le> cookie_max_age" and "find_row us_id i (dr_users D) = Some u"
  shows "require_console_user W D now (Some c) = Reply u"
proof -
  have "c \<noteq> []" using assms(1,2,3) by (auto simp: sign_session_cookie_def signer_law_def)
  then have "str_or (Some c) [] = c" by (simp add: str_or_def)
  then show ?thesis using assms verify_signed [OF assms(1-3)] by (simp add: require_console_user_def)
qed

lemma resolve_ws_user:
  "resolve_ws_access W D now i cookie =
    (case require_console_user W D now cookie of
       Reply u \<Rightarrow> Inr (\<exists>ins. find_row is_id i (dr_instances D) = Some ins \<and> granted D u (is_tenant ins))
     | HttpError _ _ \<Rightarrow> Inr False
     | Crashed e \<Rightarrow> Inl e)"
  by (auto simp: resolve_ws_access_def require_console_user_def redirect_to_login_def split: sum.splits option.splits)

subsection \<open>Properties\<close>

text \<open>
  A request counts as a request of a console user exactly when it carries a cookie that was signed
  for the id of this user at most twelve hours ago and the user still exists.
\<close>

theorem console_user_iff:
  assumes "session_secret W = Inr k" and "signer_law (we_signer W) k" and "only_sessions (we_signer W) k"
  shows "require_console_user W D now cookie = Reply u \<longleftrightarrow>
    find_row us_id (us_id u) (dr_users D) = Some u \<and>
    (\<exists>t c. cookie = Some c \<and> sign_session_cookie W t (us_id u) = Inr c \<and> 0 \<le> now - t \<and> now - t \<le> cookie_max_age)"
proof
  assume user: "require_console_user W D now cookie = Reply u"
  then obtain p i where ver: "verify_session_cookie W now (str_or cookie []) cookie_max_age = Inr (Some p)"
      and i: "payload_user p = Inr i" and u: "find_row us_id i (dr_users D) = Some u"
    by (auto simp: require_console_user_def redirect_to_login_def split: sum.splits option.splits if_splits)
  from verify_Some [OF assms ver] obtain t j where j: "p = session_payload j"
      "sign_session_cookie W t j = Inr (str_or cookie [])" "0 \<le> now - t" "now - t \<le> cookie_max_age" .
  then have "i = j" "us_id u = i" using i find_row_Some [OF u] by simp_all
  moreover have "cookie = Some (str_or cookie [])"
    using ver by (cases cookie) (auto simp: str_or_def verify_session_cookie_def split: if_splits)
  ultimately show "find_row us_id (us_id u) (dr_users D) = Some u \<and>
    (\<exists>t c. cookie = Some c \<and> sign_session_cookie W t (us_id u) = Inr c \<and> 0 \<le> now - t \<and> now - t \<le> cookie_max_age)"
    using u j by metis
qed (use console_user_signed [OF assms(1,2)] in blast)

lemma find_row_touched:
  assumes "distinct (map us_id (dr_users D))" and "u \<in> set (dr_users D)"
  shows "find_row us_id (us_id u) (update_where (\<lambda>r. us_id r = us_id u) (\<lambda>r. r\<lparr>us_last_login := x\<rparr>) (dr_users D)) =
    Some (u\<lparr>us_last_login := x\<rparr>)"
proof -
  obtain u' where u': "find_row us_id (us_id u) (dr_users D) = Some u'"
    using assms(2) find_row_None [of us_id "us_id u"] by fastforce
  then have "u' = u" using find_row_Some [OF u'] assms by (metis distinct_map inj_onD)
  then show ?thesis using u' by (simp add: find_row_update)
qed

text \<open>
  C20: A login that succeeds opens a session: it found a user with this name and a matching password, and
  for twelve hours the cookie it sets is a request of this user, for whom the tenant of the landing
  page is listed among the tenants.
\<close>

theorem login_opens_session:
  assumes "session_secret W = Inr k" and "signer_law (we_signer W) k" and "distinct (map us_id (dr_users D))"
    and "login_submit W t name password D = (Inr (LoggedIn slug c), D')" and "0 \<le> now - t" and "now - t \<le> cookie_max_age"
  shows "\<exists>u tns. find_username name D = Inr (Some u) \<and> verify_password W password (us_hash u) = Inr True \<and>
    get_me W D' now (Some c) = Reply (u\<lparr>us_last_login := Some t\<rparr>, tns) \<and> slug \<in> set tns"
proof -
  from assms(4) obtain u tn rest where u: "find_username name D = Inr (Some u)" "verify_password W password (us_hash u) = Inr True"
      and tn: "tenants_visible_to D u = tn # rest" "slug = tn_slug tn" and c: "sign_session_cookie W t (us_id u) = Inr c"
      and D': "D' = D\<lparr>dr_users := update_where (\<lambda>r. us_id r = us_id u) (\<lambda>r. r\<lparr>us_last_login := Some t\<rparr>) (dr_users D)\<rparr>"
    by (auto simp: login_submit_def Let_def bindE_eq_Inr split: sum.splits option.splits bool.splits list.splits)
  have "u \<in> set (dr_users D)"
    using u(1) by (auto simp: find_username_def scalar_one_or_none_def split: list.splits dest: filter_eq_ConsD)
  then have "find_row us_id (us_id u) (dr_users D') = Some (u\<lparr>us_last_login := Some t\<rparr>)"
    using find_row_touched [OF assms(3)] D' by simp
  then have "require_console_user W D' now (Some c) = Reply (u\<lparr>us_last_login := Some t\<rparr>)"
    by (rule console_user_signed [OF assms(1,2) c assms(5,6)])
  moreover have "tn \<in> set (member_tenants D u)" using tn(1) by (metis list.set_intros(1) set_sort tenants_visible_to_def)
  ultimately show ?thesis using u tn(2) D' by (auto simp: get_me_def member_tenants_def granted_def)
qed

text \<open>
  The live inbox and the routes of a tenant admit the same users, but for one switch: a user may open
  the websocket of an instance exactly when the routes of its tenant would admit him if the console of
  the tenant were enabled.  A tenant that switches its console off keeps its websockets.
\<close>

theorem ws_access_agrees:
  assumes "find_row is_id i (dr_instances D) = Some ins" and "filter (\<lambda>t. tn_slug t = slug) (dr_tenants D) = [tn]"
    and "tn_id tn = is_tenant ins" and "we_console W slug = Inr c"
  shows "(\<exists>u. require_tenant_access W D now cookie slug = Reply (tn, u)) \<longleftrightarrow>
    resolve_ws_access W D now i cookie = Inr True \<and> c = Some True"
  using assms by (auto simp: resolve_ws_user require_tenant_access_def scalar_one_or_none_def split: reply.splits)

subsection \<open>An instance of the serializer\<close>

text \<open>A stand-in for the serializer, which writes the time and the payload in clear behind the key.\<close>

definition plain_signer :: signer where
  "plain_signer =
     \<lparr>sg_dumps = (\<lambda>k t p. case p of JObj [(_, JStr s)] \<Rightarrow> s @ ''.'' @ str_int t | _ \<Rightarrow> []),
      sg_loads = (\<lambda>k now c age.
        case (int_unsigned (takeWhile (\<lambda>x. x \<noteq> CHR ''.'') c), int_of_str (tl (dropWhile (\<lambda>x. x \<noteq> CHR ''.'') c))) of
          (Some n, Some t) \<Rightarrow>
            if c = str_nat (nat n) @ ''.'' @ str_int t
            then (if 0 \<le> now - t \<and> now - t \<le> age then LoadOk (session_payload (nat n)) else LoadExpired)
            else LoadBad
        | _ \<Rightarrow> LoadBad)\<rparr>"

lemma str_nat_no_dot: "x \<in> set (str_nat n) \<Longrightarrow> x \<noteq> CHR ''.''"
  using str_nat_digits by (fastforce simp: is_digit_def)

lemma split_at_dot: "takeWhile (\<lambda>x. x \<noteq> CHR ''.'') (str_nat n @ CHR ''.'' # s) = str_nat n"
  "dropWhile (\<lambda>x. x \<noteq> CHR ''.'') (str_nat n @ CHR ''.'' # s) = CHR ''.'' # s"
  using str_nat_no_dot by (auto simp: takeWhile_append dropWhile_append)

lemma plain_signer_law: "signer_law plain_signer k"
  by (simp add: signer_law_def plain_signer_def session_payload_def split_at_dot)

lemma plain_only_sessions: "only_sessions plain_signer k"
  by (force simp: only_sessions_def plain_signer_def session_payload_def
      split: option.splits prod.splits if_splits)

definition sample_web :: web_env where
  "sample_web =
     \<lparr>we_signer = plain_signer, we_secret = Some (replicate 32 (CHR ''k'')), we_bcrypt = (\<lambda>p h. Inr (p = h)),
      we_console = (\<lambda>s. Inr (if s = ''avelum'' then Some True else None))\<rparr>"

definition sample_directory :: directory where
  "sample_directory =
     \<lparr>dr_users = [\<lparr>us_id = 6, us_name = ''Ana'', us_hash = ''segredo'', us_admin = False, us_last_login = None\<rparr>],
      dr_tenants = [\<lparr>tn_id = 1, tn_slug = ''avelum'', tn_architecture = 2\<rparr>, \<lparr>tn_id = 9, tn_slug = ''outro'', tn_architecture = 2\<rparr>],
      dr_grants = [(6, 1)],
      dr_instances = [\<lparr>is_id = 7, is_tenant = 1, is_channel = ''main''\<rparr>, \<lparr>is_id = 8, is_tenant = 9, is_channel = ''main''\<rparr>]\<rparr>"

lemma sample_secret: "session_secret sample_web = Inr (replicate 32 (CHR ''k''))"
  by code_simp

theorem console_user_iff_witness:
  "(\<exists>c. sign_session_cookie sample_web 1000 6 = Inr c \<and>
     require_console_user sample_web sample_directory 2000 (Some c) = Reply (hd (dr_users sample_directory)))"
proof -
  have law: "signer_law (we_signer sample_web) k" "only_sessions (we_signer sample_web) k" for k
    using plain_signer_law plain_only_sessions by (simp_all add: sample_web_def)
  have u: "find_row us_id (us_id (hd (dr_users sample_directory))) (dr_users sample_directory) = Some (hd (dr_users sample_directory))"
    "us_id (hd (dr_users sample_directory)) = 6"
    by (simp_all add: sample_directory_def find_row_def)
  obtain c where c: "sign_session_cookie sample_web 1000 6 = Inr c" by (simp add: sign_session_cookie_def sample_secret)
  have "require_console_user sample_web sample_directory 2000 (Some c) = Reply (hd (dr_users sample_directory))"
    unfolding console_user_iff [OF sample_secret law]
    using u c by (intro conjI exI [of _ "1000::int"] exI [of _ c]) (simp_all add: cookie_max_age_def)
  with c show ?thesis by blast
qed

theorem login_opens_session_witness:
  "\<exists>c D'. login_submit sample_web 1000 ''ana'' ''segredo'' sample_directory = (Inr (LoggedIn ''avelum'' c), D') \<and>
     get_me sample_web D' 2000 (Some c) = Reply (hd (dr_users D'), [''avelum''])"
proof -
  have law: "signer_law (we_signer sample_web) k" for k
    using plain_signer_law by (simp add: sample_web_def)
  have ids: "distinct (map us_id (dr_users sample_directory))" by code_simp
  have "map_prod (map_sum id (\<lambda>r. case r of LoggedIn s c \<Rightarrow> Some s | _ \<Rightarrow> None)) id
      (login_submit sample_web 1000 ''ana'' ''segredo'' sample_directory) =
    (Inr (Some ''avelum''), sample_directory\<lparr>dr_users := map (\<lambda>r. r\<lparr>us_last_login := Some 1000\<rparr>) (dr_users sample_directory)\<rparr>)"
    by code_simp
  then obtain c D' where c: "login_submit sample_web 1000 ''ana'' ''segredo'' sample_directory = (Inr (LoggedIn ''avelum'' c), D')"
      and D': "D' = sample_directory\<lparr>dr_users := map (\<lambda>r. r\<lparr>us_last_login := Some 1000\<rparr>) (dr_users sample_directory)\<rparr>"
    by (cases "login_submit sample_web 1000 ''ana'' ''segredo'' sample_directory")
      (auto split: login_reply.splits sum.splits simp: map_sum_def)
  from login_opens_session [OF sample_secret law ids c, of 2000] obtain u tns where
      u: "find_username ''ana'' sample_directory = Inr (Some u)" "get_me sample_web D' 2000 (Some c) = Reply (u\<lparr>us_last_login := Some 1000\<rparr>, tns)"
    by (auto simp: cookie_max_age_def)
  have "find_username ''ana'' sample_directory = Inr (Some (hd (dr_users sample_directory)))" by code_simp
  moreover have "map tn_slug (member_tenants D' (hd (dr_users D'))) = [''avelum'']" unfolding D' by code_simp
  ultimately show ?thesis using c u D'
    by (auto simp: get_me_def sample_directory_def split: reply.splits)
qed

theorem ws_access_agrees_witness:
  "\<exists>c. sign_session_cookie sample_web 1000 6 = Inr c \<and>
     ((\<exists>u. require_tenant_access sample_web sample_directory 2000 (Some c) ''avelum'' = Reply (hd (dr_tenants sample_directory), u)) \<longleftrightarrow>
        resolve_ws_access sample_web sample_directory 2000 7 (Some c) = Inr True)"
proof -
  obtain c where c: "sign_session_cookie sample_web 1000 6 = Inr c" by (simp add: sign_session_cookie_def sample_secret)
  have "(\<exists>u. require_tenant_access sample_web sample_directory 2000 (Some c) ''avelum'' = Reply (hd (dr_tenants sample_directory), u)) \<longleftrightarrow>
      resolve_ws_access sample_web sample_directory 2000 7 (Some c) = Inr True \<and> Some True = Some True"
    by (rule ws_access_agrees [of 7 sample_directory "hd (dr_instances sample_directory)"])
      (simp_all add: sample_directory_def sample_web_def find_row_def)
  with c show ?thesis by simp
qed

end
