(* ===== verification/Inbox_Repository.thy ===== *)
theory Inbox_Repository
  imports Web_Auth Repositories
begin

text \<open>
  The queries behind the operator's inbox (\<open>repositories/inbox_repository.py\<close>): the contact list of an
  instance and the message stream of a lead.  The SQL statement of the list is translated column by
  column; \<open>NULL\<close> is \<open>None\<close>, and a comparison with \<open>NULL\<close> keeps no row.  Rows with equal sort keys,
  whose order SQL leaves open, keep the order of their table.
\<close>

subsection \<open>The console's tables\<close>

record read_marker =
  rm_tenant :: uuid
  rm_user :: uuid
  rm_lead :: uuid
  rm_last_read :: time
  rm_last_message :: time

record console_db =
  cd_db :: db
  cd_markers :: "read_marker list"

subsection \<open>The state of a contact\<close>

datatype contact_state = CsAwaiting | CsReview | CsHuman | CsAi | CsClosed

definition state_name :: "contact_state \<Rightarrow> string" where
  "state_name s =
     (case s of
        CsAwaiting \<Rightarrow> ''awaiting'' | CsReview \<Rightarrow> ''requires_review'' | CsHuman \<Rightarrow> ''human'' | CsAi \<Rightarrow> ''ai''
      | CsClosed \<Rightarrow> ''closed'')"

definition derive_state :: "talk option \<Rightarrow> contact_state" where
  "derive_state t =
     (case t of
        None \<Rightarrow> CsAwaiting
      | Some t \<Rightarrow>
          if tk_status t = RequiresReview then CsReview
          else if tk_mode t = ModeHuman then CsHuman
          else if tk_status t = Active then CsAi
          else CsClosed)"

subsection \<open>The columns of the list\<close>

definition max_opt :: "time list \<Rightarrow> time option" where
  "max_opt ts = (case ts of [] \<Rightarrow> None | t # ts' \<Rightarrow> Some (fold max ts' t))"

definition greatest :: "time option \<Rightarrow> time option \<Rightarrow> time option" where
  "greatest a b = (case (a, b) of (Some x, Some y) \<Rightarrow> Some (max x y) | (None, _) \<Rightarrow> b | _ \<Rightarrow> a)"

definition inbound_of :: "uuid \<Rightarrow> uuid \<Rightarrow> db \<Rightarrow> inbound list" where
  "inbound_of tenant_id l d = filter (\<lambda>m. in_lead m = Some l \<and> in_tenant m = tenant_id) (db_inbound d)"

definition outbound_of :: "uuid \<Rightarrow> uuid \<Rightarrow> db \<Rightarrow> outbound list" where
  "outbound_of tenant_id l d = filter (\<lambda>m. ob_lead m = l \<and> ob_tenant m = tenant_id) (db_outbound d)"

definition inbound_max :: "uuid \<Rightarrow> uuid \<Rightarrow> db \<Rightarrow> time option" where
  "inbound_max tenant_id l d = max_opt (map in_received (inbound_of tenant_id l d))"

definition outbound_max :: "uuid \<Rightarrow> uuid \<Rightarrow> db \<Rightarrow> time option" where
  "outbound_max tenant_id l d = max_opt (map ob_sent (outbound_of tenant_id l d))"

definition last_message_at :: "uuid \<Rightarrow> uuid \<Rightarrow> db \<Rightarrow> time option" where
  "last_message_at tenant_id l d = greatest (inbound_max tenant_id l d) (outbound_max tenant_id l d)"

definition latest_inbound_text :: "uuid \<Rightarrow> uuid \<Rightarrow> db \<Rightarrow> string option" where
  "latest_inbound_text tenant_id l d = map_option in_text (first_max in_received (\<lambda>_. True) (inbound_of tenant_id l d))"

definition latest_outbound_text :: "uuid \<Rightarrow> uuid \<Rightarrow> db \<Rightarrow> string option" where
  "latest_outbound_text tenant_id l d =
     Option.bind (first_max ob_sent (\<lambda>_. True) (outbound_of tenant_id l d)) ob_body"

definition preview_of :: "uuid \<Rightarrow> uuid \<Rightarrow> db \<Rightarrow> string option" where
  "preview_of tenant_id l d =
     (case (inbound_max tenant_id l d, outbound_max tenant_id l d) of
        (Some i, Some u) \<Rightarrow> if i \<ge> u then latest_inbound_text tenant_id l d else latest_outbound_text tenant_id l d
      | (Some i, None) \<Rightarrow> latest_inbound_text tenant_id l d
      | (None, Some u) \<Rightarrow> latest_outbound_text tenant_id l d
      | (None, None) \<Rightarrow> None)"

definition marker_of :: "uuid \<Rightarrow> uuid \<Rightarrow> uuid \<Rightarrow> console_db \<Rightarrow> read_marker option" where
  "marker_of user_id l tenant_id c =
     find (\<lambda>r. rm_user r = user_id \<and> rm_lead r = l \<and> rm_tenant r = tenant_id) (cd_markers c)"

text \<open>Without a marker the epoch, time zero, stands for the last read message.\<close>

definition unread_count :: "uuid \<Rightarrow> uuid \<Rightarrow> uuid \<Rightarrow> console_db \<Rightarrow> nat" where
  "unread_count tenant_id user_id l c =
     (let seen = (case marker_of user_id l tenant_id c of None \<Rightarrow> 0 | Some r \<Rightarrow> rm_last_message r)
      in length (filter (\<lambda>m. in_received m > seen) (inbound_of tenant_id l (cd_db c))))"

definition active_talk_of :: "uuid \<Rightarrow> uuid \<Rightarrow> db \<Rightarrow> talk option" where
  "active_talk_of tenant_id l d =
     first_max tk_created (\<lambda>t. tk_lead t = l \<and> tk_tenant t = tenant_id \<and> tk_status t \<in> {Active, RequiresReview}) (db_talks d)"

definition funnel_node_of :: "talk option \<Rightarrow> db \<Rightarrow> string option" where
  "funnel_node_of t d =
     (case t of
        None \<Rightarrow> None
      | Some t \<Rightarrow> Some (case load_state (tk_id t) d of Some s \<Rightarrow> st_node s | None \<Rightarrow> tk_treeflow t))"

definition has_closed_talk :: "uuid \<Rightarrow> uuid \<Rightarrow> db \<Rightarrow> bool" where
  "has_closed_talk tenant_id l d =
     (\<exists>t \<in> set (db_talks d). tk_lead t = l \<and> tk_tenant t = tenant_id \<and> is_closed (tk_status t))"

record contact_row =
  ct_lead :: lead
  ct_state :: contact_state
  ct_last :: "time option"
  ct_preview :: "string option"
  ct_talk :: "talk option"
  ct_funnel :: "string option"
  ct_unread :: nat

definition contact_row_of :: "uuid \<Rightarrow> uuid \<Rightarrow> console_db \<Rightarrow> lead \<Rightarrow> contact_row" where
  "contact_row_of tenant_id user_id c l =
     (let d = cd_db c; t = active_talk_of tenant_id (ld_id l) d in
      \<lparr>ct_lead = l,
       ct_state = (if t \<noteq> None then derive_state t else if has_closed_talk tenant_id (ld_id l) d then CsClosed else CsAwaiting),
       ct_last = last_message_at tenant_id (ld_id l) d, ct_preview = preview_of tenant_id (ld_id l) d, ct_talk = t,
       ct_funnel = funnel_node_of t d, ct_unread = unread_count tenant_id user_id (ld_id l) c\<rparr>)"

subsection \<open>The filters\<close>

definition status_filter :: "string \<Rightarrow> talk option \<Rightarrow> bool \<Rightarrow> bool" where
  "status_filter s t has_closed =
     (if s = ''awaiting'' then t = None \<and> \<not> has_closed
      else if s = ''ai'' then (\<exists>x \<in> set_option t. tk_status x = Active \<and> tk_mode x = ModeAi)
      else if s = ''requires_review'' then (\<exists>x \<in> set_option t. tk_status x = RequiresReview)
      else if s = ''human'' then (\<exists>x \<in> set_option t. tk_mode x = ModeHuman)
      else if s = ''closed'' then t = None \<and> has_closed
      else True)"

text \<open>
  \<open>ILIKE\<close>: a percent sign stands for any text, an underscore for any character, and a backslash takes
  the next character as it is.
\<close>

fun like :: "string \<Rightarrow> string \<Rightarrow> bool" where
  "like [] s = (s = [])"
| "like (p # ps) s =
     (if p = CHR ''%'' then like ps s \<or> (case s of [] \<Rightarrow> False | _ # s' \<Rightarrow> like (p # ps) s')
      else case s of
        [] \<Rightarrow> False
      | c # s' \<Rightarrow>
          if p = CHR ''_'' then like ps s'
          else if p = CHR 0x5C then (case ps of [] \<Rightarrow> False | q # qs \<Rightarrow> q = c \<and> like qs s')
          else p = c \<and> like ps s')"

definition ilike :: "string option \<Rightarrow> string \<Rightarrow> bool" where
  "ilike v pat = (case v of None \<Rightarrow> False | Some s \<Rightarrow> like (py_lower pat) (py_lower s))"

record contact_query =
  qu_status :: "string option"
  qu_funnel :: "string option"
  qu_text :: "string option"
  qu_before :: "time option"

definition contact_kept :: "contact_query \<Rightarrow> uuid \<Rightarrow> console_db \<Rightarrow> lead \<Rightarrow> bool" where
  "contact_kept Q tenant_id c l =
     (let d = cd_db c; t = active_talk_of tenant_id (ld_id l) d in
      (case qu_before Q of
         None \<Rightarrow> True
       | Some b \<Rightarrow> (\<exists>x \<in> set_option (last_message_at tenant_id (ld_id l) d). x < b)) \<and>
      (case qu_status Q of None \<Rightarrow> True | Some s \<Rightarrow> status_filter s t (has_closed_talk tenant_id (ld_id l) d)) \<and>
      (case qu_funnel Q of None \<Rightarrow> True | Some f \<Rightarrow> (\<exists>x \<in> set_option t. tk_treeflow x = f)) \<and>
      (case qu_text Q of
         None \<Rightarrow> True
       | Some q \<Rightarrow> ilike (ld_display_name l) (''%'' @ q @ ''%'') \<or> ilike (ld_e164 l) (''%'' @ q @ ''%'')))"

text \<open>\<open>ORDER BY msg_last_at DESC NULLS LAST\<close>.\<close>

definition newest_first :: "('r \<Rightarrow> time option) \<Rightarrow> 'r list \<Rightarrow> 'r list" where
  "newest_first key rs =
     sort_key (\<lambda>r. - the (key r)) (filter (\<lambda>r. key r \<noteq> None) rs) @ filter (\<lambda>r. key r = None) rs"

definition list_contacts ::
  "uuid \<Rightarrow> string \<Rightarrow> uuid \<Rightarrow> contact_query \<Rightarrow> nat \<Rightarrow> console_db \<Rightarrow> contact_row list" where
  "list_contacts tenant_id channel_label user_id Q limit c =
     take limit (newest_first ct_last (map (contact_row_of tenant_id user_id c)
       (filter (\<lambda>l. ld_tenant l = tenant_id \<and> ld_channel_label l = channel_label \<and> contact_kept Q tenant_id c l)
          (db_leads (cd_db c)))))"

subsection \<open>The message stream\<close>

datatype direction = DirIn | DirOut

record message_row =
  ms_id :: uuid
  ms_direction :: direction
  ms_text :: "string option"
  ms_media :: media_type
  ms_audio :: "string option"
  ms_at :: time
  ms_trigger :: "trigger option"

definition inbound_message :: "inbound \<Rightarrow> message_row" where
  "inbound_message m =
     \<lparr>ms_id = in_id m, ms_direction = DirIn, ms_text = Some (in_text m), ms_media = in_media m, ms_audio = in_audio_url m,
      ms_at = in_received m, ms_trigger = None\<rparr>"

definition outbound_message :: "outbound \<Rightarrow> message_row" where
  "outbound_message m =
     \<lparr>ms_id = ob_id m, ms_direction = DirOut, ms_text = ob_body m, ms_media = ob_media m, ms_audio = ob_audio_url m,
      ms_at = ob_sent m, ms_trigger = Some (ob_trigger m)\<rparr>"

definition list_messages :: "uuid \<Rightarrow> time option \<Rightarrow> nat \<Rightarrow> db \<Rightarrow> message_row list" where
  "list_messages l before limit d =
     (let older = (\<lambda>t. case before of None \<Rightarrow> True | Some b \<Rightarrow> t < b) in
      take limit (sort_key (\<lambda>m. - ms_at m)
        (map inbound_message (filter (\<lambda>m. in_lead m = Some l \<and> older (in_received m)) (db_inbound d)) @
         map outbound_message (filter (\<lambda>m. ob_lead m = l \<and> older (ob_sent m)) (db_outbound d)))))"

end
