(* ===== verification/Console_Inbox.thy ===== *)
theory Console_Inbox
  imports Inbox_Repository Channel
begin

text \<open>
  The operator's inbox (\<open>api/routes/console_inbox.py\<close>).  Every route gets the tenant and the user that
  \<open>require_tenant_access\<close> has resolved.  Routes that wait for something other sessions can use (the
  lead's lock, the messaging provider) take as an argument what these commit in the meantime.
  Publishing to the live inbox is best effort: its exceptions are logged and dropped.
\<close>

subsection \<open>Environment and world\<close>

record ('a, 'r) console_env =
  ce_now :: time
  ce_registry :: "tenant \<Rightarrow> pyexn + 'a adapter"
  ce_redis :: "'r redis option"
  ce_instances :: "instance_row list"

record ('a, 'r) console_world =
  cw_data :: console_db
  cw_ad :: 'a
  cw_redis :: 'r

definition cw_db :: "('a, 'r) console_world \<Rightarrow> db" where
  "cw_db w = cd_db (cw_data w)"

definition set_cw_db :: "db \<Rightarrow> ('a, 'r) console_world \<Rightarrow> ('a, 'r) console_world" where
  "set_cw_db d w = w\<lparr>cw_data := (cw_data w)\<lparr>cd_db := d\<rparr>\<rparr>"

lemma cw_db_simps [simp]:
  "cw_db (set_cw_db d w) = d" "cw_ad (set_cw_db d w) = cw_ad w" "cw_redis (set_cw_db d w) = cw_redis w"
  "cd_markers (cw_data (set_cw_db d w)) = cd_markers (cw_data w)"
  "cw_db (w\<lparr>cw_ad := a\<rparr>) = cw_db w" "cw_db (w\<lparr>cw_redis := r\<rparr>) = cw_db w"
  by (simp_all add: cw_db_def set_cw_db_def)

subsection \<open>The guards that the routes share\<close>

definition bindR :: "'x reply \<Rightarrow> ('x \<Rightarrow> 'y reply) \<Rightarrow> 'y reply" where
  "bindR m f = (case m of Reply x \<Rightarrow> f x | HttpError s t \<Rightarrow> HttpError s t | Crashed e \<Rightarrow> Crashed e)"

definition own_lead :: "tenant \<Rightarrow> uuid \<Rightarrow> db \<Rightarrow> lead reply" where
  "own_lead tn i d =
     (case find_row ld_id i (db_leads d) of
        None \<Rightarrow> HttpError 404 ''contact not found''
      | Some l \<Rightarrow> if ld_tenant l \<noteq> tn_id tn then HttpError 404 ''contact not found'' else Reply l)"

definition own_active_talk :: "tenant \<Rightarrow> uuid \<Rightarrow> db \<Rightarrow> (lead \<times> talk) reply" where
  "own_active_talk tn i d =
     bindR (own_lead tn i d) (\<lambda>l.
       case active_talk_of (tn_id tn) i d of
         None \<Rightarrow> HttpError 404 ''no active talk found''
       | Some t \<Rightarrow> Reply (l, t))"

lemma bindR_simps [simp]:
  "bindR (Reply x) f = f x" "bindR (HttpError s t) f = HttpError s t" "bindR (Crashed e) f = Crashed e"
  by (simp_all add: bindR_def)

lemma bindR_eq_Reply: "bindR m f = Reply y \<longleftrightarrow> (\<exists>x. m = Reply x \<and> f x = Reply y)"
  by (cases m) simp_all

subsection \<open>The reading routes\<close>

definition list_instances :: "('a, 'r) console_env \<Rightarrow> tenant \<Rightarrow> instance_row list reply" where
  "list_instances env tn = Reply (filter (\<lambda>i. is_tenant i = tn_id tn) (ce_instances env))"

definition list_instance_contacts ::
  "('a, 'r) console_env \<Rightarrow> tenant \<Rightarrow> user \<Rightarrow> uuid \<Rightarrow> contact_query \<Rightarrow> ('a, 'r) console_world \<Rightarrow> contact_row list reply" where
  "list_instance_contacts env tn u i Q w =
     (case find (\<lambda>r. is_id r = i \<and> is_tenant r = tn_id tn) (ce_instances env) of
        None \<Rightarrow> HttpError 404 ''instance not found''
      | Some r \<Rightarrow> Reply (list_contacts (tn_id tn) (is_channel r) (us_id u) Q 50 (cw_data w)))"

record contact_detail =
  dt_lead :: lead
  dt_state :: contact_state
  dt_funnel :: "string option"
  dt_talk :: "uuid option"
  dt_window_open :: bool
  dt_window_until :: "time option"

definition day_of_24h :: duration where
  "day_of_24h = 24 * 3600000000"

definition get_contact_detail ::
  "('a, 'r) console_env \<Rightarrow> tenant \<Rightarrow> uuid \<Rightarrow> ('a, 'r) console_world \<Rightarrow> contact_detail reply" where
  "get_contact_detail env tn i w =
     bindR (own_lead tn i (cw_db w)) (\<lambda>l.
       let until = map_option (\<lambda>t. t + day_of_24h) (inbound_max (tn_id tn) i (cw_db w));
           t = active_talk_of (tn_id tn) i (cw_db w)
       in Reply \<lparr>dt_lead = l, dt_state = derive_state t, dt_funnel = funnel_node_of t (cw_db w), dt_talk = map_option tk_id t,
                 dt_window_open = (\<exists>x \<in> set_option until. ce_now env < x), dt_window_until = until\<rparr>)"

definition list_contact_talks :: "tenant \<Rightarrow> uuid \<Rightarrow> ('a, 'r) console_world \<Rightarrow> talk list reply" where
  "list_contact_talks tn i w =
     bindR (own_lead tn i (cw_db w)) (\<lambda>_.
       Reply (sort_key tk_created (filter (\<lambda>t. tk_tenant t = tn_id tn \<and> tk_lead t = i) (db_talks (cw_db w)))))"

datatype origin = FromLead | FromOperator | FromAi

definition origin_of :: "message_row \<Rightarrow> origin" where
  "origin_of m =
     (if ms_direction m = DirIn then FromLead
      else if ms_trigger m = Some TrigOperator then FromOperator else FromAi)"

definition list_contact_messages ::
  "tenant \<Rightarrow> uuid \<Rightarrow> time option \<Rightarrow> ('a, 'r) console_world \<Rightarrow> (message_row \<times> origin) list reply" where
  "list_contact_messages tn i before_at w =
     bindR (own_lead tn i (cw_db w)) (\<lambda>_.
       Reply (map (\<lambda>m. (m, origin_of m)) (list_messages i before_at 50 (cw_db w))))"

subsection \<open>The read marker\<close>

definition put_marker :: "read_marker \<Rightarrow> read_marker list \<Rightarrow> read_marker list" where
  \<comment> \<open>\<open>ON CONFLICT (user_id, lead_id) DO UPDATE\<close>\<close>
  "put_marker r rows =
     (let same = (\<lambda>x. rm_user x = rm_user r \<and> rm_lead x = rm_lead r)
      in if \<exists>x \<in> set rows. same x then update_where same (\<lambda>_. r) rows else rows @ [r])"

definition mark_contact_read ::
  "('a, 'r) console_env \<Rightarrow> tenant \<Rightarrow> user \<Rightarrow> uuid \<Rightarrow> time \<Rightarrow> ('a, 'r) console_world \<Rightarrow> unit reply \<times> ('a, 'r) console_world" where
  "mark_contact_read env tn u i last_message w =
     (case own_lead tn i (cw_db w) of
        Reply _ \<Rightarrow>
          (Reply (), w\<lparr>cw_data := (cw_data w)\<lparr>cd_markers :=
             put_marker \<lparr>rm_tenant = tn_id tn, rm_user = us_id u, rm_lead = i, rm_last_read = ce_now env,
                         rm_last_message = last_message\<rparr> (cd_markers (cw_data w))\<rparr>\<rparr>)
      | HttpError s t \<Rightarrow> (HttpError s t, w)
      | Crashed e \<Rightarrow> (Crashed e, w))"

subsection \<open>Taking over and releasing a talk\<close>

definition mode_name :: "handling_mode \<Rightarrow> string" where
  "mode_name m = (case m of ModeAi \<Rightarrow> ''ai'' | ModeHuman \<Rightarrow> ''human'' | ModeApproval \<Rightarrow> ''auto_with_approval'')"

definition publish_talk_updated ::
  "('a, 'r) console_env \<Rightarrow> tenant \<Rightarrow> lead \<Rightarrow> talk \<Rightarrow> 'r \<Rightarrow> 'r" where
  "publish_talk_updated env tn l t r =
     (case ce_redis env of
        None \<Rightarrow> r
      | Some R \<Rightarrow>
          (case resolve_instance_id (ce_instances env) (tn_id tn) (ld_channel_label l) of
             Inr (Some i) \<Rightarrow>
               snd (publish_inbox_event R i ''talk.updated'' (Some (ld_id l))
                 (JObj [(''lead_id'', JStr (str_nat (ld_id l))), (''handling_mode'', JStr (mode_name (tk_mode t))),
                        (''state'', JStr (state_name (derive_state (Some t))))]) r)
           | _ \<Rightarrow> r))"

text \<open>
  The atomic check-and-set: the row changes if it has the expected mode at that moment.  It is found by
  its id, so its status, which may have changed since the talk was selected, does not matter.
\<close>

definition switch_mode :: "tenant \<Rightarrow> uuid \<Rightarrow> handling_mode \<Rightarrow> handling_mode \<Rightarrow> uuid option \<Rightarrow> db \<Rightarrow> db option" where
  "switch_mode tn i old new operator d =
     (let p = (\<lambda>t. tk_id t = i \<and> tk_tenant t = tn_id tn \<and> tk_mode t = old)
      in if \<exists>t \<in> set (db_talks d). p t
         then Some (d\<lparr>db_talks := update_where p (\<lambda>t. t\<lparr>tk_mode := new, tk_operator := operator\<rparr>) (db_talks d)\<rparr>)
         else None)"

definition takeover_talk ::
  "('a, 'r) console_env \<Rightarrow> (db \<Rightarrow> db) \<Rightarrow> tenant \<Rightarrow> user \<Rightarrow> uuid \<Rightarrow> ('a, 'r) console_world \<Rightarrow>
   uuid reply \<times> ('a, 'r) console_world" where
  "takeover_talk env wait_lock tn u i w =
     (case own_active_talk tn i (cw_db w) of
        Reply (l, t) \<Rightarrow>
          (let w1 = set_cw_db (wait_lock (cw_db w)) w in
           case switch_mode tn (tk_id t) ModeAi ModeHuman (Some (us_id u)) (cw_db w1) of
             None \<Rightarrow> (HttpError 409 ''already human'', w1)
           | Some d \<Rightarrow>
               (Reply (tk_id t),
                (set_cw_db d w1)\<lparr>cw_redis := publish_talk_updated env tn l (t\<lparr>tk_mode := ModeHuman\<rparr>) (cw_redis w1)\<rparr>))
      | HttpError s m \<Rightarrow> (HttpError s m, w)
      | Crashed e \<Rightarrow> (Crashed e, w))"

definition release_talk ::
  "('a, 'r) console_env \<Rightarrow> tenant \<Rightarrow> uuid \<Rightarrow> ('a, 'r) console_world \<Rightarrow> uuid reply \<times> ('a, 'r) console_world" where
  "release_talk env tn i w =
     (case own_active_talk tn i (cw_db w) of
        Reply (l, t) \<Rightarrow>
          (case switch_mode tn (tk_id t) ModeHuman ModeAi None (cw_db w) of
             None \<Rightarrow> (HttpError 409 ''not human'', w)
           | Some d \<Rightarrow>
               (Reply (tk_id t),
                (set_cw_db d w)\<lparr>cw_redis := publish_talk_updated env tn l (t\<lparr>tk_mode := ModeAi\<rparr>) (cw_redis w)\<rparr>))
      | HttpError s m \<Rightarrow> (HttpError s m, w)
      | Crashed e \<Rightarrow> (Crashed e, w))"

subsection \<open>Sending as the operator\<close>

record send_body =
  sb_text :: string
  sb_client_id :: uuid

record sent_reply =
  sr_outbound :: uuid
  sr_external :: "string option"
  sr_status :: outbound_status

definition sent_reply_of :: "outbound \<Rightarrow> sent_reply" where
  "sent_reply_of m = \<lparr>sr_outbound = ob_id m, sr_external = ob_external m, sr_status = ob_status m\<rparr>"

definition sent_before :: "tenant \<Rightarrow> uuid \<Rightarrow> uuid \<Rightarrow> db \<Rightarrow> outbound option" where
  "sent_before tn talk_id client d =
     find (\<lambda>m. ob_tenant m = tn_id tn \<and> ob_talk m = talk_id \<and> ob_client_id m = Some client) (db_outbound d)"

definition operator_row :: "tenant \<Rightarrow> talk \<Rightarrow> lead \<Rightarrow> send_body \<Rightarrow> string \<Rightarrow> time \<Rightarrow> uuid \<Rightarrow> outbound" where
  "operator_row tn t l b external now i =
     \<lparr>ob_id = i, ob_tenant = tn_id tn, ob_talk = tk_id t, ob_lead = ld_id l, ob_provider = ''whatsapp_cloud'',
      ob_type = OutText, ob_body = Some (sb_text b), ob_template = None, ob_language = None, ob_params = JNull,
      ob_status = OutSent, ob_external = Some external, ob_error = None, ob_trigger = TrigOperator, ob_inbound = None,
      ob_follow_up = None, ob_client_id = Some (sb_client_id b), ob_sent = now, ob_media = MText, ob_media_key = None,
      ob_audio_url = None, ob_audio_ms = None, ob_voice_id = None, ob_emotion = None\<rparr>"

text \<open>The insertion under the unique index on the talk and the client's message id.\<close>

definition insert_outbound :: "(uuid \<Rightarrow> outbound) \<Rightarrow> db \<Rightarrow> (outbound \<times> db) option" where
  "insert_outbound row d =
     (let r = row (db_next d) in
      if \<exists>m \<in> set (db_outbound d). ob_talk m = ob_talk r \<and> ob_client_id r \<noteq> None \<and> ob_client_id m = ob_client_id r
      then None
      else Some (r, d\<lparr>db_outbound := db_outbound d @ [r], db_next := Suc (db_next d)\<rparr>))"

definition publish_operator_message ::
  "('a, 'r) console_env \<Rightarrow> tenant \<Rightarrow> lead \<Rightarrow> send_body \<Rightarrow> 'r \<Rightarrow> 'r" where
  "publish_operator_message env tn l b r =
     (case ce_redis env of
        None \<Rightarrow> r
      | Some R \<Rightarrow> snd (publish_message_created R (ce_instances env) (tn_id tn) l (take 120 (sb_text b)) r))"

definition send_and_record ::
  "('a, 'r) console_env \<Rightarrow> (('a, 'r) console_world \<Rightarrow> ('a, 'r) console_world) \<Rightarrow> tenant \<Rightarrow> lead \<Rightarrow> talk \<Rightarrow> send_body \<Rightarrow>
   ('a, 'r) console_world \<Rightarrow> sent_reply reply \<times> ('a, 'r) console_world" where
  "send_and_record env others tn l t b w =
     (case ce_registry env tn of
        Inl e \<Rightarrow> (Crashed e, w)
      | Inr ad \<Rightarrow>
          (case ad_send_text ad (ld_e164 l) (sb_text b) (cw_ad w) of
             (Inl e, a) \<Rightarrow>
               (if is_terminal e then HttpError 422 ''send failed'' else Crashed e, w\<lparr>cw_ad := a\<rparr>)
           | (Inr external, a) \<Rightarrow>
               (let w1 = others (w\<lparr>cw_ad := a\<rparr>) in
                case insert_outbound (operator_row tn t l b external (ce_now env)) (cw_db w1) of
                  Some (r, d) \<Rightarrow>
                    (Reply (sent_reply_of r),
                     (set_cw_db d w1)\<lparr>cw_redis := publish_operator_message env tn l b (cw_redis w1)\<rparr>)
                | None \<Rightarrow>
                    (case sent_before tn (tk_id t) (sb_client_id b) (cw_db w1) of
                       None \<Rightarrow> (Crashed IntegrityError, w1)
                     | Some m \<Rightarrow> (Reply (sent_reply_of m), w1)))))"

definition send_operator_message ::
  "('a, 'r) console_env \<Rightarrow> (('a, 'r) console_world \<Rightarrow> ('a, 'r) console_world) \<Rightarrow> tenant \<Rightarrow> uuid \<Rightarrow> send_body \<Rightarrow>
   ('a, 'r) console_world \<Rightarrow> sent_reply reply \<times> ('a, 'r) console_world" where
  "send_operator_message env others tn i b w =
     (case own_active_talk tn i (cw_db w) of
        Reply (l, t) \<Rightarrow>
          if tk_mode t \<noteq> ModeHuman then (HttpError 409 ''take over the conversation first'', w)
          else (case sent_before tn (tk_id t) (sb_client_id b) (cw_db w) of
                  Some m \<Rightarrow> (Reply (sent_reply_of m), w)
                | None \<Rightarrow> send_and_record env others tn l t b w)
      | HttpError s m \<Rightarrow> (HttpError s m, w)
      | Crashed e \<Rightarrow> (Crashed e, w))"

end
