(* ===== verification/Console_Laws.thy ===== *)
theory Console_Laws
  imports Console_Inbox Pipeline_Laws
begin

text \<open>
  What the operator's inbox guarantees: isolation of tenants, sending once and only with the talk in
  hand, the effect of taking over on the AI's turns, and what the contact list shows.
\<close>

subsection \<open>The guards\<close>

lemma own_lead_Reply: "own_lead tn i d = Reply l \<longleftrightarrow> find_row ld_id i (db_leads d) = Some l \<and> ld_tenant l = tn_id tn"
  by (auto simp: own_lead_def split: option.splits)

lemma own_lead_foreign:
  "\<forall>l \<in> set (db_leads d). ld_id l = i \<longrightarrow> ld_tenant l \<noteq> tn_id tn \<Longrightarrow> own_lead tn i d = HttpError 404 ''contact not found''"
  by (auto simp: own_lead_def split: option.split dest: find_row_Some)

lemma active_talk_of_Some:
  "active_talk_of tn i d = Some t \<Longrightarrow>
   t \<in> set (db_talks d) \<and> tk_lead t = i \<and> tk_tenant t = tn \<and> tk_status t \<in> {Active, RequiresReview}"
  by (auto simp: active_talk_of_def dest!: first_max_Some)

lemma own_active_talk_Reply:
  "own_active_talk tn i d = Reply (l, t) \<longleftrightarrow> own_lead tn i d = Reply l \<and> active_talk_of (tn_id tn) i d = Some t"
  by (auto simp: own_active_talk_def bindR_eq_Reply split: option.splits)

subsection \<open>Sending\<close>

lemma sent_before_Some:
  "sent_before tn k c d = Some m \<Longrightarrow>
   m \<in> set (db_outbound d) \<and> ob_tenant m = tn_id tn \<and> ob_talk m = k \<and> ob_client_id m = Some c"
  by (auto simp: sent_before_def find_Some_iff dest: nth_mem)

lemma sent_before_row:
  assumes "m \<in> set (db_outbound d)" and "ob_tenant m = tn_id tn" and "ob_talk m = k" and "ob_client_id m = Some c"
  obtains m' where "sent_before tn k c d = Some m'"
  using assms by (cases "sent_before tn k c d") (auto simp: sent_before_def find_None_iff)

text \<open>The unique index on the talk and the client's message id.\<close>

definition client_ids_unique :: "db \<Rightarrow> bool" where
  "client_ids_unique d \<longleftrightarrow>
     (\<forall>c. \<forall>m \<in> set (db_outbound d). \<forall>m' \<in> set (db_outbound d).
        ob_client_id m = Some c \<and> ob_client_id m' = Some c \<and> ob_talk m = ob_talk m' \<longrightarrow> m = m')"

lemma insert_outbound_Some:
  assumes "insert_outbound row d = Some (r, d')"
  shows "r = row (db_next d) \<and> db_outbound d' = db_outbound d @ [r] \<and> (client_ids_unique d \<longrightarrow> client_ids_unique d')"
  using assms by (auto simp: insert_outbound_def Let_def client_ids_unique_def split: if_splits)

lemma send_and_record_Reply:
  assumes "send_and_record env others tn l t b w = (Reply r, w')"
  obtains (inserted) ad external a m d where "ce_registry env tn = Inr ad"
      "ad_send_text ad (ld_e164 l) (sb_text b) (cw_ad w) = (Inr external, a)"
      "insert_outbound (operator_row tn t l b external (ce_now env)) (cw_db (others (w\<lparr>cw_ad := a\<rparr>))) = Some (m, d)"
      "r = sent_reply_of m" "cw_db w' = d" "cw_ad w' = cw_ad (others (w\<lparr>cw_ad := a\<rparr>))"
  | (raced) ad external a m where "ce_registry env tn = Inr ad"
      "ad_send_text ad (ld_e164 l) (sb_text b) (cw_ad w) = (Inr external, a)"
      "sent_before tn (tk_id t) (sb_client_id b) (cw_db (others (w\<lparr>cw_ad := a\<rparr>))) = Some m"
      "r = sent_reply_of m" "w' = others (w\<lparr>cw_ad := a\<rparr>)"
  using assms
  by (auto simp: send_and_record_def Let_def split: sum.splits prod.splits option.splits if_splits)

lemma send_reply_row:
  assumes "send_operator_message env others tn i b w = (Reply r, w')"
  obtains l t m where "own_active_talk tn i (cw_db w) = Reply (l, t)" "tk_mode t = ModeHuman"
    "m \<in> set (db_outbound (cw_db w'))" "ob_tenant m = tn_id tn" "ob_talk m = tk_id t"
    "ob_client_id m = Some (sb_client_id b)" "r = sent_reply_of m"
proof -
  obtain l t where own: "own_active_talk tn i (cw_db w) = Reply (l, t)" and mode: "tk_mode t = ModeHuman"
    using assms by (cases "own_active_talk tn i (cw_db w)") (auto simp: send_operator_message_def split: if_splits)
  show thesis
  proof (cases "sent_before tn (tk_id t) (sb_client_id b) (cw_db w)")
    case (Some m)
    then show thesis using that [OF own mode, of m] assms own mode sent_before_Some [OF Some]
      by (auto simp: send_operator_message_def)
  next
    case None
    then have "send_and_record env others tn l t b w = (Reply r, w')"
      using assms own mode by (simp add: send_operator_message_def)
    then show thesis
    proof (cases rule: send_and_record_Reply)
      case (inserted ad external a m d)
      then show thesis
        using insert_outbound_Some [OF inserted(3)]
        by (intro that [OF own mode, of m]) (simp_all add: operator_row_def)
    next
      case (raced ad external a m)
      then show thesis using that [OF own mode, of m] sent_before_Some [OF raced(3)] by simp
    qed
  qed
qed

text \<open>Nothing is delivered unless the talk is in hand, and then exactly the text to the lead's number.\<close>

lemma send_delivers:
  assumes ch: "channel ad delivered" and reg: "ce_registry env tn = Inr ad"
    and send: "send_operator_message env (\<lambda>w. w) tn i b w = (r, w')"
  shows "delivered (cw_ad w') = delivered (cw_ad w) \<or>
    (\<exists>l t. own_active_talk tn i (cw_db w) = Reply (l, t) \<and> tk_mode t = ModeHuman \<and>
       delivered (cw_ad w') = delivered (cw_ad w) @ [TextTo (ld_e164 l) (sb_text b)] \<and> (\<forall>s m. r \<noteq> HttpError s m))"
proof (cases "own_active_talk tn i (cw_db w)")
  case (Reply lt)
  obtain l t where lt: "lt = (l, t)" by fastforce
  show ?thesis
  proof (cases "tk_mode t = ModeHuman \<and> sent_before tn (tk_id t) (sb_client_id b) (cw_db w) = None")
    case True
    then have rec: "send_and_record env (\<lambda>w. w) tn l t b w = (r, w')"
      using send Reply lt by (simp add: send_operator_message_def)
    obtain x a where x: "ad_send_text ad (ld_e164 l) (sb_text b) (cw_ad w) = (x, a)" by fastforce
    show ?thesis
    proof (cases x)
      case (Inl e)
      then have "cw_ad w' = a" using rec x reg by (auto simp: send_and_record_def)
      then show ?thesis using channel.text_fail [OF ch] x Inl by auto
    next
      case (Inr external)
      then have "cw_ad w' = a \<and> (\<forall>s m. r \<noteq> HttpError s m)"
        using rec x reg by (auto simp: send_and_record_def Let_def split: option.splits)
      then show ?thesis using channel.text_ok [OF ch] x Inr Reply lt True by auto
    qed
  qed (use send Reply lt in \<open>auto simp: send_operator_message_def split: if_splits option.splits\<close>)
qed (use send in \<open>auto simp: send_operator_message_def\<close>)

subsection \<open>The mode of a talk\<close>

lemma switch_mode_row:
  assumes "switch_mode tn k old new op d = Some d'" and "distinct (map tk_id (db_talks d))"
  obtains t where "t \<in> set (db_talks d)" "tk_id t = k" "tk_tenant t = tn_id tn" "tk_mode t = old"
    "find_row tk_id k (db_talks d') = Some (t\<lparr>tk_mode := new, tk_operator := op\<rparr>)"
    "map tk_id (db_talks d') = map tk_id (db_talks d)"
proof -
  let ?p = "\<lambda>t. tk_id t = k \<and> tk_tenant t = tn_id tn \<and> tk_mode t = old"
  from assms(1) obtain t where t: "t \<in> set (db_talks d)" "?p t"
    and d': "db_talks d' = update_where ?p (\<lambda>t. t\<lparr>tk_mode := new, tk_operator := op\<rparr>) (db_talks d)"
    by (auto simp: switch_mode_def Let_def split: if_splits)
  have "update_where ?p f (db_talks d) = update_where (\<lambda>r. tk_id r = k) f (db_talks d)" for f
    using t assms(2) by (auto simp: update_where_def distinct_map inj_on_def)
  then have "find_row tk_id k (db_talks d') = map_option (\<lambda>t. t\<lparr>tk_mode := new, tk_operator := op\<rparr>) (find_row tk_id k (db_talks d))"
    unfolding d' by (simp add: find_row_update)
  moreover have "find_row tk_id k (db_talks d) = Some t"
  proof -
    obtain t' where t': "find_row tk_id k (db_talks d) = Some t'"
      using t find_row_None [of tk_id k "db_talks d"] by fastforce
    then have "t' = t" using find_row_Some [OF t'] t assms(2) by (metis distinct_map inj_onD)
    then show ?thesis using t' by simp
  qed
  ultimately show thesis using t d' by (intro that [of t]) (simp_all add: map_update_where)
qed

lemma switch_mode_ids: "switch_mode tn k old new op d = Some d' \<Longrightarrow> map tk_id (db_talks d') = map tk_id (db_talks d)"
  by (auto simp: switch_mode_def Let_def map_update_where split: if_splits)

lemma takeover_row:
  assumes "takeover_talk env wait_lock tn u i w = (Reply k, w')" and "distinct (map tk_id (db_talks (cw_db w')))"
  obtains t where "find_row tk_id k (db_talks (cw_db w')) = Some t" "tk_mode t = ModeHuman" "tk_tenant t = tn_id tn"
    "tk_operator t = Some (us_id u)"
proof -
  from assms(1) obtain d where d: "switch_mode tn k ModeAi ModeHuman (Some (us_id u)) (wait_lock (cw_db w)) = Some d"
      "cw_db w' = d"
    by (auto simp: takeover_talk_def Let_def split: reply.splits option.splits)
  then have "distinct (map tk_id (db_talks (wait_lock (cw_db w))))" using assms(2) switch_mode_ids [OF d(1)] by simp
  from switch_mode_row [OF d(1) this] show thesis using that d(2) by force
qed

text \<open>A turn on a talk that a human holds only commits what the preprocessing did.\<close>

lemma held_turn:
  assumes wf: "talks_wf (w_db W)" "one_open_talk (w_db W)" and t: "find_row tk_id k (db_talks (w_db W)) = Some t"
    and hum: "tk_mode t = ModeHuman" "\<not> is_closed (tk_status t)" "tk_tenant t = tn_id (te_tenant te)" "tk_lead t = i"
    and res: "resolve_pipeline_context (te_now te) (te_tenant te) (te_treeflow te) (te_version te) (te_optout te) m (w_db W) = Inr (d', cx)"
    and l: "ld_id (px_lead cx) = i"
  shows "\<exists>r. run_turn te m W = (Inr r, W\<lparr>w_db := d'\<rparr>) \<and> tu_outcome r \<in> {SkippedHuman, LeadBanned}"
proof -
  from resolve_context_cases [OF res] obtain d1 where rl: "resolve_lead (te_now te) (te_tenant te) m (w_db W) = Inr (d1, px_lead cx)"
    and cs: "(px_new cx = False \<and> d' = d1 \<and> find_active_for_lead (tn_id (te_tenant te)) (ld_id (px_lead cx)) d1 = Some (px_talk cx)) \<or>
      (px_new cx = True \<and> find_active_for_lead (tn_id (te_tenant te)) (ld_id (px_lead cx)) d1 = None \<and>
       open_talk (te_now te) (te_tenant te) (te_treeflow te) (te_version te) m (px_lead cx) d1 = Inr (d', px_talk cx))"
    by blast
  note fr = resolve_lead_frame [OF rl]
  have "t \<in> set (open_talks (tn_id (te_tenant te)) i d1)"
    using find_row_Some [OF t] hum fr by (simp add: open_talks_def is_open_iff)
  moreover have "length (open_talks (tn_id (te_tenant te)) i d1) \<le> 1"
    using wf(2) fr unfolding one_open_talk_all by (simp add: open_talks_def)
  ultimately have one: "open_talks (tn_id (te_tenant te)) i d1 = [t]"
    by (cases "open_talks (tn_id (te_tenant te)) i d1") auto
  then have "find_active_for_lead (tn_id (te_tenant te)) i d1 \<noteq> None" by (simp add: open_talks_Nil)
  then have old: "d' = d1" "find_active_for_lead (tn_id (te_tenant te)) i d1 = Some (px_talk cx)" using cs l by auto
  then have "px_talk cx \<in> set (open_talks (tn_id (te_tenant te)) i d1)"
    using find_active_Some [OF old(2)] by (auto simp: open_talks_def active_statuses_def)
  then have talk: "px_talk cx = t" using one by simp
  obtain s where "load_state (tk_id (px_talk cx)) d' = Some s" using resolve_context_wf [OF res wf] by blast
  moreover have "find_row tk_id (tk_id t) (db_talks d') = Some t" using t find_row_Some [OF t] fr old(1) by simp
  ultimately show ?thesis using res talk hum(1)
    by (simp add: run_turn_def transaction_def locked_turn_def)
qed

subsection \<open>The read markers\<close>

lemma find_replaced:
  "p r \<Longrightarrow> (\<And>x. x \<in> set rows \<Longrightarrow> p x \<Longrightarrow> q x) \<Longrightarrow>
   find p (update_where q (\<lambda>_. r) rows) = (if \<exists>x \<in> set rows. q x then Some r else None)"
  by (induction rows) (auto simp: update_where_def)

lemma find_not_replaced:
  "\<not> p r \<Longrightarrow> (\<And>x. x \<in> set rows \<Longrightarrow> q x \<Longrightarrow> \<not> p x) \<Longrightarrow> find p (update_where q (\<lambda>_. r) rows) = find p rows"
  by (induction rows) (auto simp: update_where_def)

lemma find_put_marker:
  assumes "\<forall>x \<in> set rows. rm_user x = rm_user r \<and> rm_lead x = rm_lead r \<longrightarrow> rm_tenant x = rm_tenant r"
  shows "find (\<lambda>x. rm_user x = u \<and> rm_lead x = l \<and> rm_tenant x = rm_tenant r) (put_marker r rows) =
    (if u = rm_user r \<and> l = rm_lead r then Some r
     else find (\<lambda>x. rm_user x = u \<and> rm_lead x = l \<and> rm_tenant x = rm_tenant r) rows)"
proof (cases "\<exists>x \<in> set rows. rm_user x = rm_user r \<and> rm_lead x = rm_lead r")
  case True
  let ?p = "\<lambda>x. rm_user x = u \<and> rm_lead x = l \<and> rm_tenant x = rm_tenant r"
  let ?q = "\<lambda>x. rm_user x = rm_user r \<and> rm_lead x = rm_lead r"
  have put: "put_marker r rows = update_where ?q (\<lambda>_. r) rows" using True by (simp add: put_marker_def Let_def)
  show ?thesis
  proof (cases "u = rm_user r \<and> l = rm_lead r")
    case same: True
    have "find ?p (update_where ?q (\<lambda>_. r) rows) = (if \<exists>x \<in> set rows. ?q x then Some r else None)"
      by (rule find_replaced) (use same in simp_all)
    then show ?thesis using True same unfolding put by simp
  next
    case other: False
    have "find ?p (update_where ?q (\<lambda>_. r) rows) = find ?p rows"
      by (rule find_not_replaced) (use other in auto)
    then show ?thesis unfolding put if_not_P [OF other] .
  qed
next
  case False
  have app: "find p (rows @ [r]) = (case find p rows of None \<Rightarrow> if p r then Some r else None | Some y \<Rightarrow> Some y)" for p
    by (induction rows) auto
  have "find (\<lambda>x. rm_user x = rm_user r \<and> rm_lead x = rm_lead r \<and> rm_tenant x = rm_tenant r) rows = None"
    using False by (auto simp: find_None_iff)
  moreover have "put_marker r rows = rows @ [r]" using False by (auto simp: put_marker_def Let_def)
  ultimately show ?thesis by (auto simp: app split: option.split)
qed

subsection \<open>The contact list\<close>

lemma newest_first_filter: "filter p (newest_first key rs) = newest_first key (filter p rs)"
  by (simp add: newest_first_def filter_sort conj_commute)

lemma length_newest_first: "length (newest_first key rs) = length rs"
  using sum_length_filter_compl [of "\<lambda>r. key r \<noteq> None" rs] by (simp add: newest_first_def)

lemma set_newest_first: "set (newest_first key rs) = set rs"
  by (auto simp: newest_first_def)

lemma take_newest_first:
  assumes "n \<le> length (filter (\<lambda>r. key r \<noteq> None) rs)" and "r \<in> set (take n (newest_first key rs))"
  shows "key r \<noteq> None"
  using assms by (auto simp: newest_first_def dest: in_set_takeD)

lemma contact_row_simps [simp]:
  "ct_lead (contact_row_of tn u c l) = l" "ct_last (contact_row_of tn u c l) = last_message_at tn (ld_id l) (cd_db c)"
  "ct_talk (contact_row_of tn u c l) = active_talk_of tn (ld_id l) (cd_db c)"
  "ct_unread (contact_row_of tn u c l) = unread_count tn u (ld_id l) c"
  by (simp_all add: contact_row_of_def Let_def)

lemma status_filter_state:
  assumes "\<forall>t \<in> set (db_talks (cd_db c)). tk_mode t \<noteq> ModeApproval"
  shows "status_filter (state_name st) (active_talk_of tn (ld_id l) (cd_db c)) (has_closed_talk tn (ld_id l) (cd_db c)) \<longleftrightarrow>
    (if st = CsHuman then \<exists>t. ct_talk (contact_row_of tn u c l) = Some t \<and> tk_mode t = ModeHuman
     else ct_state (contact_row_of tn u c l) = st)"
proof (cases "active_talk_of tn (ld_id l) (cd_db c)")
  case None
  then show ?thesis by (cases st) (auto simp: status_filter_def state_name_def contact_row_of_def Let_def)
next
  case (Some t)
  then have "tk_status t \<in> {Active, RequiresReview}" "tk_mode t \<noteq> ModeApproval"
    using assms active_talk_of_Some by blast+
  then show ?thesis using Some
    by (cases st; cases "tk_mode t") (auto simp: status_filter_def state_name_def contact_row_of_def Let_def derive_state_def)
qed

lemma contact_kept_status:
  "contact_kept (Q\<lparr>qu_status := Some s\<rparr>) tn c l \<longleftrightarrow>
   contact_kept (Q\<lparr>qu_status := None\<rparr>) tn c l \<and>
   status_filter s (active_talk_of tn (ld_id l) (cd_db c)) (has_closed_talk tn (ld_id l) (cd_db c))"
  by (auto simp: contact_kept_def Let_def split: option.splits)

subsection \<open>Properties\<close>

text \<open>
  C11: No route of a tenant's inbox touches a contact of another tenant: reading, taking over, releasing,
  marking as read and sending answer 404 and leave the world as it is, and the contact list shows leads
  and talks of the tenant only.
\<close>

theorem console_tenant_isolation:
  assumes "\<forall>l \<in> set (db_leads (cw_db w)). ld_id l = i \<longrightarrow> ld_tenant l \<noteq> tn_id tn"
  shows "get_contact_detail env tn i w = HttpError 404 ''contact not found'' \<and>
    list_contact_talks tn i w = HttpError 404 ''contact not found'' \<and>
    list_contact_messages tn i cursor w = HttpError 404 ''contact not found'' \<and>
    mark_contact_read env tn u i at_time w = (HttpError 404 ''contact not found'', w) \<and>
    takeover_talk env wait_lock tn u i w = (HttpError 404 ''contact not found'', w) \<and>
    release_talk env tn i w = (HttpError 404 ''contact not found'', w) \<and>
    send_operator_message env others tn i b w = (HttpError 404 ''contact not found'', w) \<and>
    (case list_instance_contacts env tn u inst Q w of
       Reply cs \<Rightarrow> (\<forall>c \<in> set cs. ld_id (ct_lead c) \<noteq> i \<and> ld_tenant (ct_lead c) = tn_id tn \<and>
                      (\<forall>t \<in> set_option (ct_talk c). tk_tenant t = tn_id tn))
     | _ \<Rightarrow> True)"
proof -
  have own: "own_lead tn i (cw_db w) = HttpError 404 ''contact not found''"
    by (rule own_lead_foreign) (use assms in simp)
  have "own_active_talk tn i (cw_db w) = HttpError 404 ''contact not found''"
    by (simp add: own_active_talk_def own)
  moreover have "ld_id (ct_lead c) \<noteq> i \<and> ld_tenant (ct_lead c) = tn_id tn \<and> (\<forall>t \<in> set_option (ct_talk c). tk_tenant t = tn_id tn)"
    if "c \<in> set (list_contacts (tn_id tn) label (us_id u) Q 50 (cw_data w))" for c label
    using that assms active_talk_of_Some
    by (fastforce simp: list_contacts_def set_newest_first cw_db_def dest!: in_set_takeD)
  ultimately show ?thesis
    by (simp add: get_contact_detail_def list_contact_talks_def list_contact_messages_def mark_contact_read_def
        takeover_talk_def release_talk_def send_operator_message_def list_instance_contacts_def own split: option.split)
qed

text \<open>
  C12: Repeating a send of the operator with the same client message id answers with the row of the first
  send and does nothing else: nothing is delivered, stored or published again, whatever the other
  sessions did in between, as long as the talk is the same and still in hand.
\<close>

theorem operator_send_idempotent:
  assumes "send_operator_message env others tn i b w = (Reply r, w1)"
    and "own_active_talk tn i (cw_db w) = Reply (l, t)" and "own_active_talk tn i (cw_db w2) = Reply (l2, t2)"
    and "tk_id t2 = tk_id t" and "tk_mode t2 = ModeHuman" and "sb_client_id b2 = sb_client_id b"
    and "set (db_outbound (cw_db w1)) \<subseteq> set (db_outbound (cw_db w2))" and "client_ids_unique (cw_db w2)"
  shows "send_operator_message env others2 tn i b2 w2 = (Reply r, w2)"
proof -
  obtain m where m: "m \<in> set (db_outbound (cw_db w1))" "ob_tenant m = tn_id tn" "ob_talk m = tk_id t"
      "ob_client_id m = Some (sb_client_id b)" "r = sent_reply_of m"
    using send_reply_row [OF assms(1)] assms(2) by (metis reply.inject(1) prod.inject)
  then have m2: "m \<in> set (db_outbound (cw_db w2))" using assms(7) by blast
  then obtain m' where m': "sent_before tn (tk_id t2) (sb_client_id b2) (cw_db w2) = Some m'"
    using sent_before_row [OF m2 m(2), of "tk_id t2" "sb_client_id b2"] m(3,4) assms(4,6) by metis
  then have "m' = m"
    using sent_before_Some [OF m'] m2 m assms(4,6,8) unfolding client_ids_unique_def by metis
  then show ?thesis using assms(3,5) m' m(5) by (simp add: send_operator_message_def)
qed

text \<open>
  C13: The operator's message reaches the lead only while a human holds the talk, and then it is exactly
  the operator's text, once, to the lead's number; an answer that reports an error delivered nothing.
\<close>

theorem operator_send_only_in_hand:
  assumes "channel ad delivered" and "ce_registry env tn = Inr ad"
    and "send_operator_message env (\<lambda>w. w) tn i b w = (r, w')"
  shows "delivered (cw_ad w') = delivered (cw_ad w) \<or>
    (\<exists>l t. own_active_talk tn i (cw_db w) = Reply (l, t) \<and> tk_mode t = ModeHuman \<and>
       delivered (cw_ad w') = delivered (cw_ad w) @ [TextTo (ld_e164 l) (sb_text b)] \<and> (\<forall>s m. r \<noteq> HttpError s m))"
  by (rule send_delivers [OF assms])

text \<open>
  Marking a contact as read sets the operator's own counter of this contact to the messages received
  after the marked one, and changes no counter of another operator or contact.
\<close>

theorem read_marker_counts:
  assumes "mark_contact_read env tn u i last_message w = (Reply (), w')"
    and "\<forall>r \<in> set (cd_markers (cw_data w)). rm_user r = us_id u \<and> rm_lead r = i \<longrightarrow> rm_tenant r = tn_id tn"
  shows "unread_count (tn_id tn) (us_id u') i' (cw_data w') =
    (if us_id u' = us_id u \<and> i' = i
     then length (filter (\<lambda>m. in_received m > last_message) (inbound_of (tn_id tn) i (cw_db w)))
     else unread_count (tn_id tn) (us_id u') i' (cw_data w))"
proof -
  let ?r = "\<lparr>rm_tenant = tn_id tn, rm_user = us_id u, rm_lead = i, rm_last_read = ce_now env, rm_last_message = last_message\<rparr>"
  have w': "w' = w\<lparr>cw_data := (cw_data w)\<lparr>cd_markers := put_marker ?r (cd_markers (cw_data w))\<rparr>\<rparr>"
    using assms(1) by (auto simp: mark_contact_read_def split: reply.splits)
  have "marker_of (us_id u') i' (tn_id tn) (cw_data w') =
      (if us_id u' = us_id u \<and> i' = i then Some ?r else marker_of (us_id u') i' (tn_id tn) (cw_data w))"
    using find_put_marker [of "cd_markers (cw_data w)" ?r "us_id u'" i'] assms(2) by (simp add: w' marker_of_def)
  then show ?thesis by (simp add: w' unread_count_def cw_db_def)
qed

text \<open>
  The status filter of the contact list selects exactly the contacts that the list shows with this
  status, for every status but \<open>human\<close>: that filter also selects talks in a human's hands that the
  list shows as \<open>requires_review\<close>.
\<close>

theorem status_filter_agrees:
  assumes "\<forall>t \<in> set (db_talks (cd_db c)). tk_mode t \<noteq> ModeApproval" and "length (db_leads (cd_db c)) \<le> n"
  shows "list_contacts tn label u (Q\<lparr>qu_status := Some (state_name st)\<rparr>) n c =
    filter (\<lambda>r. if st = CsHuman then \<exists>t. ct_talk r = Some t \<and> tk_mode t = ModeHuman else ct_state r = st)
      (list_contacts tn label u (Q\<lparr>qu_status := None\<rparr>) n c)"
proof -
  have all: "take n (newest_first ct_last (map f (filter p (db_leads (cd_db c))))) = newest_first ct_last (map f (filter p (db_leads (cd_db c))))"
    for f :: "lead \<Rightarrow> contact_row" and p
    using le_trans [OF length_filter_le assms(2), of p] by (simp add: length_newest_first)
  show ?thesis
    unfolding list_contacts_def all newest_first_filter filter_map
    by (intro arg_cong [where f = "newest_first ct_last"] arg_cong [where f = "map (contact_row_of tn u c)"])
      (auto simp: contact_kept_status status_filter_state [OF assms(1), where u = u] intro!: filter_cong)
qed

text \<open>
  Once as many contacts of an instance as a page holds have a message, a contact without one appears
  on no page: it does not fit on the first page, and every later page starts below a time.
\<close>

theorem silent_contact_hidden:
  assumes "last_message_at tn (ld_id x) (cd_db c) = None" and "qu_before Q = None"
    and "n \<le> length (filter (\<lambda>l. last_message_at tn (ld_id l) (cd_db c) \<noteq> None)
      (filter (\<lambda>l. ld_tenant l = tn \<and> ld_channel_label l = label \<and> contact_kept Q tn c l) (db_leads (cd_db c))))"
  shows "x \<notin> ct_lead ` set (list_contacts tn label u (Q\<lparr>qu_before := cursor\<rparr>) n c)"
proof
  assume "x \<in> ct_lead ` set (list_contacts tn label u (Q\<lparr>qu_before := cursor\<rparr>) n c)"
  then obtain r where r: "r \<in> set (list_contacts tn label u (Q\<lparr>qu_before := cursor\<rparr>) n c)" "x = ct_lead r" by blast
  have last: "ct_last r = last_message_at tn (ld_id x) (cd_db c)"
    using r by (auto simp: list_contacts_def set_newest_first dest!: in_set_takeD)
  show False
  proof (cases cursor)
    case None
    have Q: "Q\<lparr>qu_before := None\<rparr> = Q" using assms(2) by (cases Q) simp
    let ?ls = "filter (\<lambda>l. ld_tenant l = tn \<and> ld_channel_label l = label \<and> contact_kept Q tn c l) (db_leads (cd_db c))"
    have "n \<le> length (filter (\<lambda>r. ct_last r \<noteq> None) (map (contact_row_of tn u c) ?ls))"
      using assms(3) by (simp add: filter_map comp_def)
    then have "ct_last r \<noteq> None"
      by (rule take_newest_first) (use r(1) None Q in \<open>simp add: list_contacts_def\<close>)
    then show False using last assms(1) by simp
  next
    case (Some b)
    then have "ct_last r \<noteq> None"
      using r(1) by (auto simp: list_contacts_def set_newest_first contact_kept_def Let_def dest!: in_set_takeD)
    then show False using last assms(1) by simp
  qed
qed

text \<open>
  C7: Once the operator has taken a talk over, the AI stays silent: a turn for the lead's next message
  calls neither the model nor the provider and changes nothing but what the preprocessing stores, as
  long as the talk was not closed while the operator waited for the lead's lock.
\<close>

theorem takeover_silences_ai:
  assumes "takeover_talk env wait_lock tn u i w = (Reply k, w')" and "talks_wf (cw_db w')" and "one_open_talk (cw_db w')"
    and "\<exists>t \<in> set (db_talks (cw_db w')). tk_id t = k \<and> tk_lead t = i \<and> \<not> is_closed (tk_status t)"
    and "te_tenant te = tn" and "w_db W = cw_db w'"
    and "resolve_pipeline_context (te_now te) tn (te_treeflow te) (te_version te) (te_optout te) m (cw_db w') = Inr (d', cx)"
    and "ld_id (px_lead cx) = i"
  shows "\<exists>r. run_turn te m W = (Inr r, W\<lparr>w_db := d'\<rparr>) \<and> tu_outcome r \<in> {SkippedHuman, LeadBanned}"
proof -
  have dist: "distinct (map tk_id (db_talks (cw_db w')))" using assms(2) by (simp add: talks_wf_def)
  from takeover_row [OF assms(1) dist] obtain t where
      t: "find_row tk_id k (db_talks (cw_db w')) = Some t" "tk_mode t = ModeHuman" "tk_tenant t = tn_id tn" by blast
  obtain t' where t': "t' \<in> set (db_talks (cw_db w'))" "tk_id t' = k" "tk_lead t' = i" "\<not> is_closed (tk_status t')"
    using assms(4) by blast
  then have "t' = t" using find_row_Some [OF t(1)] dist by (metis distinct_map inj_onD)
  then show ?thesis
    using held_turn [of W k t te i m d' cx] assms(2,3,5-8) t t' by simp
qed

definition sample_console :: "(fake_state, unit) console_env" where
  "sample_console =
     \<lparr>ce_now = 6000, ce_registry = (\<lambda>_. Inr fake_adapter), ce_redis = None,
      ce_instances = [\<lparr>is_id = 7, is_tenant = 1, is_channel = ''main''\<rparr>]\<rparr>"

definition sample_user :: user where
  "sample_user = \<lparr>us_id = 6, us_name = ''Ana'', us_hash = ''segredo'', us_admin = False, us_last_login = None\<rparr>"

definition console_with :: "db \<Rightarrow> (fake_state, unit) console_world" where
  "console_with d = \<lparr>cw_data = \<lparr>cd_db = d, cd_markers = []\<rparr>, cw_ad = fake_init, cw_redis = ()\<rparr>"

definition opened_db :: db where
  "opened_db = fst (initialize_state 10 1 ''inicio'' (fst (create_talk 5000 1 3 ''captacao'' 2 sample_db)))"

definition sample_send :: send_body where
  "sample_send = \<lparr>sb_text = ''Oi, aqui e a Ana'', sb_client_id = 77\<rparr>"

definition taken :: "uuid reply \<times> (fake_state, unit) console_world" where
  "taken = takeover_talk sample_console (\<lambda>d. d) sample_tenant sample_user 3 (console_with opened_db)"

definition turn_closes :: "db \<Rightarrow> db" where
  "turn_closes d =
     d\<lparr>db_talks := map (close_talk 5500 \<lparr>co_status = ClosedNoInterest, co_reason = ''llm'', co_by = ByLlm\<rparr>) (db_talks d)\<rparr>"

definition twice :: "sent_reply reply \<times> (fake_state, unit) console_world" where
  "twice =
     send_operator_message sample_console
       (\<lambda>w. snd (send_operator_message sample_console (\<lambda>w. w) sample_tenant 3 sample_send w))
       sample_tenant 3 sample_send (snd taken)"

definition sent_once :: "sent_reply reply \<times> (fake_state, unit) console_world" where
  "sent_once = send_operator_message sample_console (\<lambda>w. w) sample_tenant 3 sample_send (snd taken)"

definition two_leads :: console_db where
  \<comment> \<open>the sample lead, who has written, and one who has not\<close>
  "two_leads = \<lparr>cd_db = sample_db\<lparr>db_leads := [sample_lead\<lparr>ld_id := 31, ld_e164 := None\<rparr>, sample_lead]\<rparr>, cd_markers = []\<rparr>"

text \<open>
  Taking over does not look at the status of the talk once it has the lock: when the turn that the
  operator waits for closes the talk, the request still answers that the operator holds it, and the
  lead's next message opens a new talk that the AI answers.
\<close>

theorem takeover_of_closing_talk:
  "let (r, w) = takeover_talk sample_console turn_closes sample_tenant sample_user 3 (console_with opened_db)
   in r = Reply 10 \<and> map (\<lambda>t. (tk_status t, tk_mode t)) (db_talks (cw_db w)) = [(ClosedNoInterest, ModeHuman)] \<and>
      map_sum id tu_outcome (fst (run_turn sample_env (sample_inbound 5 ''alo'') (sample_world [sample_decision] (cw_db w)))) = Inr Sent"
  by code_simp

text \<open>
  The check of the client message id and the send are not one step: two requests with the same id
  that overlap both deliver, while one row is stored and both answers name it.
\<close>

theorem overlapping_sends_deliver_twice:
  "fk_sent (cw_ad (snd twice)) = [TextTo (Some ''+5511999'') (sb_text sample_send), TextTo (Some ''+5511999'') (sb_text sample_send)] \<and>
   length (filter (\<lambda>m. ob_client_id m = Some 77) (db_outbound (cw_db (snd twice)))) = 1"
  by code_simp

subsection \<open>Witnesses\<close>

lemma opened_facts:
  "map tk_id (db_talks opened_db) = [10]" "map tk_mode (db_talks opened_db) = [ModeAi]"
  "map ld_id (db_leads opened_db) = [3]" "map ld_tenant (db_leads opened_db) = [1]"
  by code_simp+

theorem console_tenant_isolation_witness:
  "takeover_talk sample_console (\<lambda>d. d) (sample_tenant\<lparr>tn_id := 9\<rparr>) sample_user 3 (console_with opened_db) =
   (HttpError 404 ''contact not found'', console_with opened_db)"
proof -
  have "\<forall>l \<in> set (db_leads (cw_db (console_with opened_db))). ld_id l = 3 \<longrightarrow> ld_tenant l \<noteq> tn_id (sample_tenant\<lparr>tn_id := 9\<rparr>)"
    using opened_facts(4) by (auto simp: console_with_def cw_db_def)
  from console_tenant_isolation [OF this, where env = sample_console and u = sample_user and wait_lock = "\<lambda>d. d" and cursor = None
      and at_time = 0 and others = "\<lambda>w. w" and b = sample_send and inst = 7 and Q = undefined]
  show ?thesis by (elim conjE)
qed

lemma sent_once_facts:
  "map_prod (\<lambda>r. case r of Reply x \<Rightarrow> Some (sr_outbound x) | _ \<Rightarrow> None) (\<lambda>w. map ob_client_id (db_outbound (cw_db w))) sent_once =
     (Some 11, [Some 77])"
  "(case own_active_talk sample_tenant 3 (cw_db (snd taken)) of Reply (l, t) \<Rightarrow> (tk_id t, tk_mode t) = (10, ModeHuman) | _ \<Rightarrow> False)"
  "(case own_active_talk sample_tenant 3 (cw_db (snd sent_once)) of Reply (l, t) \<Rightarrow> (tk_id t, tk_mode t) = (10, ModeHuman) | _ \<Rightarrow> False)"
  by code_simp+

lemma taken_talk:
  obtains l t where "own_active_talk sample_tenant 3 (cw_db (snd taken)) = Reply (l, t)" "tk_id t = 10" "tk_mode t = ModeHuman"
  using sent_once_facts(2) by (auto split: reply.splits)

lemma sent_once_talk:
  obtains l t where "own_active_talk sample_tenant 3 (cw_db (snd sent_once)) = Reply (l, t)" "tk_id t = 10" "tk_mode t = ModeHuman"
  using sent_once_facts(3) by (auto split: reply.splits)

lemma sent_once_reply:
  obtains r where "sent_once = (Reply r, snd sent_once)" "sr_outbound r = 11"
proof -
  obtain a w where aw: "sent_once = (a, w)" by fastforce
  note facts = sent_once_facts(1) [unfolded aw map_prod_simp prod.inject]
  then obtain x where "a = Reply x" "sr_outbound x = 11" by (cases a) auto
  then show thesis by (intro that [of x]) (simp_all add: aw)
qed

theorem operator_send_idempotent_witness:
  "send_operator_message sample_console (\<lambda>w. w) sample_tenant 3 (sample_send\<lparr>sb_text := ''de novo''\<rparr>) (snd sent_once) = sent_once \<and>
   (\<exists>r. fst sent_once = Reply r \<and> sr_outbound r = 11)"
proof -
  obtain r where r: "sent_once = (Reply r, snd sent_once)" "sr_outbound r = 11" by (rule sent_once_reply)
  obtain l t where t: "own_active_talk sample_tenant 3 (cw_db (snd taken)) = Reply (l, t)" "tk_id t = 10"
    by (rule taken_talk)
  obtain l2 t2 where t2: "own_active_talk sample_tenant 3 (cw_db (snd sent_once)) = Reply (l2, t2)" "tk_id t2 = 10" "tk_mode t2 = ModeHuman"
    by (rule sent_once_talk)
  have "length (db_outbound (cw_db (snd sent_once))) = 1"
    using sent_once_facts(1) by (cases sent_once) (metis length_map length_Cons list.size(3) map_prod_simp snd_conv One_nat_def prod.inject)
  then obtain m where "db_outbound (cw_db (snd sent_once)) = [m]" by (auto simp: length_Suc_conv)
  then have u: "client_ids_unique (cw_db (snd sent_once))" by (simp add: client_ids_unique_def)
  have "send_operator_message sample_console (\<lambda>w. w) sample_tenant 3 (sample_send\<lparr>sb_text := ''de novo''\<rparr>) (snd sent_once) =
      (Reply r, snd sent_once)"
    by (rule operator_send_idempotent [of sample_console "\<lambda>w. w" sample_tenant 3 sample_send "snd taken" r "snd sent_once" l t
          "snd sent_once" l2 t2])
      (use r t t2 u in \<open>simp_all add: sent_once_def\<close>)
  then show ?thesis using r by (metis fst_conv)
qed

theorem operator_send_only_in_hand_witness:
  "fk_sent (cw_ad (snd sent_once)) = fk_sent (cw_ad (snd taken)) \<or>
   (\<exists>l t. own_active_talk sample_tenant 3 (cw_db (snd taken)) = Reply (l, t) \<and> tk_mode t = ModeHuman \<and>
      fk_sent (cw_ad (snd sent_once)) = fk_sent (cw_ad (snd taken)) @ [TextTo (ld_e164 l) ''Oi, aqui e a Ana''] \<and>
      (\<forall>s m. fst sent_once \<noteq> HttpError s m))"
  using operator_send_only_in_hand [OF fake.channel_axioms, of sample_console sample_tenant 3 sample_send "snd taken"
      "fst sent_once" "snd sent_once"]
  by (simp add: sent_once_def sample_console_def sample_send_def)

theorem read_marker_counts_witness:
  "unread_count 1 6 3 (cw_data (snd (mark_contact_read sample_console sample_tenant sample_user 3 1000 (console_with opened_db)))) = 0"
proof -
  have own: "(case own_lead sample_tenant 3 opened_db of Reply _ \<Rightarrow> True | _ \<Rightarrow> False)" by code_simp
  then have m: "mark_contact_read sample_console sample_tenant sample_user 3 1000 (console_with opened_db) =
      (Reply (), snd (mark_contact_read sample_console sample_tenant sample_user 3 1000 (console_with opened_db)))"
    by (auto simp: mark_contact_read_def console_with_def cw_db_def split: reply.splits)
  have n: "length (filter (\<lambda>m. in_received m > 1000) (inbound_of 1 3 opened_db)) = 0" by code_simp
  have k: "us_id sample_user = 6" "tn_id sample_tenant = 1" "cw_db (console_with opened_db) = opened_db"
    "cd_markers (cw_data (console_with opened_db)) = []"
    by (simp_all add: sample_user_def sample_tenant_def console_with_def cw_db_def)
  show ?thesis
    using read_marker_counts [OF m, of sample_user 3] n by (simp add: k)
qed

theorem status_filter_agrees_witness:
  "list_contacts 1 ''main'' 6 \<lparr>qu_status = Some ''ai'', qu_funnel = None, qu_text = None, qu_before = None\<rparr> 5 (cw_data (console_with opened_db)) =
   filter (\<lambda>r. ct_state r = CsAi)
     (list_contacts 1 ''main'' 6 \<lparr>qu_status = None, qu_funnel = None, qu_text = None, qu_before = None\<rparr> 5 (cw_data (console_with opened_db)))"
proof -
  have "tk_mode ` set (db_talks opened_db) = {ModeAi}" using opened_facts(2) by (metis list.set(1) list.set(2) list.set_map)
  then have 1: "\<forall>t \<in> set (db_talks (cd_db (cw_data (console_with opened_db)))). tk_mode t \<noteq> ModeApproval"
    using imageI [of _ "set (db_talks opened_db)" tk_mode] by (fastforce simp: console_with_def)
  have "length (map ld_id (db_leads opened_db)) = 1" by (simp add: opened_facts)
  then have 2: "length (db_leads (cd_db (cw_data (console_with opened_db)))) \<le> 5" by (simp add: console_with_def)
  show ?thesis
    using status_filter_agrees [OF 1 2, where tn = 1 and label = "''main''" and u = 6 and st = CsAi and Q = "\<lparr>qu_status = None, qu_funnel = None, qu_text = None, qu_before = None\<rparr>"]
    by (simp add: state_name_def)
qed

theorem silent_contact_hidden_witness:
  "\<forall>cursor. sample_lead\<lparr>ld_id := 31, ld_e164 := None\<rparr> \<notin>
     ct_lead ` set (list_contacts 1 ''main'' 6 \<lparr>qu_status = None, qu_funnel = None, qu_text = None, qu_before = cursor\<rparr> 1 two_leads)"
proof
  fix cursor
  have 1: "last_message_at 1 31 (cd_db two_leads) = None" by code_simp
  have 2: "1 \<le> length (filter (\<lambda>l. last_message_at 1 (ld_id l) (cd_db two_leads) \<noteq> None)
      (filter (\<lambda>l. ld_tenant l = 1 \<and> ld_channel_label l = ''main'' \<and>
         contact_kept \<lparr>qu_status = None, qu_funnel = None, qu_text = None, qu_before = None\<rparr> 1 two_leads l) (db_leads (cd_db two_leads))))"
    by code_simp
  show "sample_lead\<lparr>ld_id := 31, ld_e164 := None\<rparr> \<notin>
     ct_lead ` set (list_contacts 1 ''main'' 6 \<lparr>qu_status = None, qu_funnel = None, qu_text = None, qu_before = cursor\<rparr> 1 two_leads)"
    using silent_contact_hidden [of 1 "sample_lead\<lparr>ld_id := 31, ld_e164 := None\<rparr>" two_leads
        "\<lparr>qu_status = None, qu_funnel = None, qu_text = None, qu_before = None\<rparr>" 1 "''main''" 6 cursor] 1 2 by simp
qed

lemma taken_facts:
  "fst taken = Reply 10" "talks_wf (cw_db (snd taken))" "one_open_talk (cw_db (snd taken))"
  "\<exists>t \<in> set (db_talks (cw_db (snd taken))). tk_id t = 10 \<and> tk_lead t = 3 \<and> \<not> is_closed (tk_status t)"
  "map_sum (\<lambda>_. ()) (\<lambda>(d, cx). ld_id (px_lead cx))
     (resolve_pipeline_context 5000 sample_tenant sample_tree sample_version [''sair''] (sample_inbound 5 ''alo'') (cw_db (snd taken))) = Inr 3"
  by code_simp+

theorem takeover_silences_ai_witness:
  "\<exists>r d'. run_turn sample_env (sample_inbound 5 ''alo'') (sample_world [sample_decision] (cw_db (snd taken))) =
     (Inr r, sample_world [sample_decision] d') \<and> tu_outcome r \<in> {SkippedHuman, LeadBanned}"
proof -
  have k: "takeover_talk sample_console (\<lambda>d. d) sample_tenant sample_user 3 (console_with opened_db) = (Reply 10, snd taken)"
    using taken_facts(1) by (metis prod.collapse taken_def)
  obtain d' cx where cx: "resolve_pipeline_context 5000 sample_tenant sample_tree sample_version [''sair''] (sample_inbound 5 ''alo'')
      (cw_db (snd taken)) = Inr (d', cx)" "ld_id (px_lead cx) = 3"
    using taken_facts(5) by (auto simp: map_sum_def split: sum.splits)
  have "\<exists>r. run_turn sample_env (sample_inbound 5 ''alo'') (sample_world [sample_decision] (cw_db (snd taken))) =
      (Inr r, (sample_world [sample_decision] (cw_db (snd taken)))\<lparr>w_db := d'\<rparr>) \<and> tu_outcome r \<in> {SkippedHuman, LeadBanned}"
    by (rule takeover_silences_ai [OF k taken_facts(2,3,4), where te = sample_env and cx = cx])
      (use cx in \<open>simp_all add: sample_env_def sample_world_def\<close>)
  then show ?thesis by (auto simp: sample_world_def)
qed

end
