(* ===== verification/Kb_Chunker.thy ===== *)
theory Kb_Chunker
  imports Humanizer
begin

text \<open>
  The splitting of a Markdown document of the knowledge base into chunks (\<open>kb/chunker.py\<close>): the lines
  with their heading stack, the paragraphs and sentences of a section, and their packing under a cap
  of tokens.  The tokenizer is the parameter \<open>tok\<close>.
\<close>

subsection \<open>Lines and headings\<close>

definition line_break :: "char \<Rightarrow> bool" where
  "line_break c = (let n = code c in (10 \<le> n \<and> n \<le> 13) \<or> (28 \<le> n \<and> n \<le> 30) \<or> n = 133)"

definition drop_lf :: "string \<Rightarrow> string" where
  "drop_lf s = (case s of c # cs \<Rightarrow> if code c = 10 then cs else s | [] \<Rightarrow> [])"

lemma length_drop_lf [termination_simp]: "length (drop_lf s) \<le> length s"
  by (simp add: drop_lf_def split: list.split)

text \<open>\<open>str.splitlines\<close>: a carriage return takes a following line feed with it.\<close>

fun lines_go :: "string \<Rightarrow> string \<Rightarrow> string list" where
  "lines_go acc [] = (if acc = [] then [] else [rev acc])"
| "lines_go acc (c # cs) =
     (if code c = 13 then rev acc # lines_go [] (drop_lf cs)
      else if line_break c then rev acc # lines_go [] cs
      else lines_go (c # acc) cs)"

definition splitlines :: "string \<Rightarrow> string list" where
  "splitlines s = lines_go [] s"

text \<open>
  A match of \<open>^(#{1,6})\s+(.+?)\s*$\<close> on a line: the depth and the stripped title.  A line of hashes and
  two or more blanks matches with a blank title.
\<close>

definition heading :: "string \<Rightarrow> (nat \<times> string) option" where
  "heading l =
     (let depth = length (takeWhile (\<lambda>c. c = CHR ''#'') l); rest = dropWhile (\<lambda>c. c = CHR ''#'') l;
          blanks = takeWhile py_isspace rest
      in if 1 \<le> depth \<and> depth \<le> 6 \<and> blanks \<noteq> [] \<and> (lstrip rest \<noteq> [] \<or> 2 \<le> length blanks)
         then Some (depth, strip rest) else None)"

definition push_heading :: "nat \<Rightarrow> string \<Rightarrow> (nat \<times> string) list \<Rightarrow> (nat \<times> string) list" where
  "push_heading depth title stack = (depth, title) # dropWhile (\<lambda>h. depth \<le> fst h) stack"

definition heading_path :: "(nat \<times> string) list \<Rightarrow> string" where
  "heading_path stack = py_join '' > '' (map snd (rev stack))"

definition flush_body :: "string option \<Rightarrow> string list \<Rightarrow> (string option \<times> string list) list" where
  "flush_body path body = (if body = [] then [] else [(path, body)])"

fun sections_go :: "(nat \<times> string) list \<Rightarrow> string option \<Rightarrow> string list \<Rightarrow> string list \<Rightarrow>
    (string option \<times> string list) list" where
  "sections_go stack path body [] = flush_body path body"
| "sections_go stack path body (l # ls) =
     (case heading l of
        Some (depth, title) \<Rightarrow>
          let stack' = push_heading depth title stack
          in flush_body path body @ sections_go stack' (Some (heading_path stack')) [] ls
      | None \<Rightarrow> sections_go stack path (body @ [l]) ls)"

definition newline :: string where
  "newline = [char_of (10::nat)]"

definition sectionize :: "string \<Rightarrow> (string option \<times> string) list" where
  "sectionize md = map (\<lambda>(path, body). (path, py_join newline body)) (sections_go [] None [] (splitlines md))"

subsection \<open>Paragraphs and sentences\<close>

text \<open>
  \<open>re.split(r"\n\s*\n", s)\<close>: the separator starts at a line feed and reaches to the last line feed of
  the white space that follows it; \<open>after_last_lf\<close> is what such white space leaves behind.
\<close>

fun after_last_lf :: "string \<Rightarrow> string option" where
  "after_last_lf [] = None"
| "after_last_lf (c # cs) =
     (if \<not> py_isspace c then None
      else case after_last_lf cs of Some r \<Rightarrow> Some r | None \<Rightarrow> if code c = 10 then Some cs else None)"

lemma length_after_last_lf: "after_last_lf s = Some r \<Longrightarrow> length r < length s"
  by (induction s arbitrary: r) (fastforce split: if_splits option.splits)+

definition after_separator :: "char \<Rightarrow> string \<Rightarrow> string option" where
  "after_separator c cs = (if code c = 10 then after_last_lf cs else None)"

lemma length_after_separator [termination_simp]: "after_separator c cs = Some r \<Longrightarrow> length r < Suc (length cs)"
  using length_after_last_lf [of cs r] by (auto simp: after_separator_def split: if_splits)

fun blank_split :: "string \<Rightarrow> string \<Rightarrow> string list" where
  "blank_split acc [] = [rev acc]"
| "blank_split acc (c # cs) =
     (case after_separator c cs of
        Some r \<Rightarrow> rev acc # blank_split [] r
      | None \<Rightarrow> blank_split (c # acc) cs)"

definition paragraphs :: "string \<Rightarrow> string list" where
  "paragraphs body = filter (\<lambda>p. p \<noteq> []) (map strip (blank_split [] body))"

text \<open>\<open>re.split(r"(?<=\.)\s+", s)\<close>; \<open>dot\<close> tells whether the last character was a full stop.\<close>

lemma length_lstrip [termination_simp]: "length (lstrip s) \<le> length s"
  by (simp add: lstrip_def length_dropWhile_le)

fun sentence_split :: "bool \<Rightarrow> string \<Rightarrow> string \<Rightarrow> string list" where
  "sentence_split dot acc [] = [rev acc]"
| "sentence_split dot acc (c # cs) =
     (if dot \<and> py_isspace c then rev acc # sentence_split False [] (lstrip cs)
      else sentence_split (c = CHR ''.'') (c # acc) cs)"

subsection \<open>Packing\<close>

fun pack_sentences :: "(string \<Rightarrow> nat) \<Rightarrow> nat \<Rightarrow> string list \<Rightarrow> nat \<Rightarrow> string list \<Rightarrow> string list" where
  "pack_sentences tok cap buf n [] = (if buf = [] then [] else [strip (py_join '' '' buf)])"
| "pack_sentences tok cap buf n (s # ss) =
     (if buf \<noteq> [] \<and> cap < n + tok s then strip (py_join '' '' buf) # pack_sentences tok cap [s] (tok s) ss
      else pack_sentences tok cap (buf @ [s]) (n + tok s) ss)"

definition split_paragraph :: "(string \<Rightarrow> nat) \<Rightarrow> nat \<Rightarrow> string \<Rightarrow> string list" where
  "split_paragraph tok cap p = filter (\<lambda>c. c \<noteq> []) (pack_sentences tok cap [] 0 (sentence_split False [] p))"

definition blank_line :: string where
  "blank_line = newline @ newline"

fun pack_paragraphs :: "(string \<Rightarrow> nat) \<Rightarrow> nat \<Rightarrow> string list \<Rightarrow> nat \<Rightarrow> string list \<Rightarrow> string list" where
  "pack_paragraphs tok cap buf n [] = (if buf = [] then [] else [py_join blank_line buf])"
| "pack_paragraphs tok cap buf n (p # ps) =
     (if cap < tok p then
        (if buf = [] then split_paragraph tok cap p @ pack_paragraphs tok cap buf n ps
         else py_join blank_line buf # split_paragraph tok cap p @ pack_paragraphs tok cap [] 0 ps)
      else if buf \<noteq> [] \<and> cap < n + tok p then py_join blank_line buf # pack_paragraphs tok cap [p] (tok p) ps
      else pack_paragraphs tok cap (buf @ [p]) (n + tok p) ps)"

definition pack_body :: "(string \<Rightarrow> nat) \<Rightarrow> nat \<Rightarrow> string \<Rightarrow> string list" where
  "pack_body tok cap body = filter (\<lambda>c. strip c \<noteq> []) (pack_paragraphs tok cap [] 0 (paragraphs body))"

record chunk_draft =
  cd_idx :: nat
  cd_heading :: "string option"
  cd_content :: string
  cd_tokens :: nat

definition default_max_tokens :: nat where
  "default_max_tokens = 600"

definition split_pieces :: "(string \<Rightarrow> nat) \<Rightarrow> nat \<Rightarrow> string \<Rightarrow> (string option \<times> string) list" where
  "split_pieces tok cap md =
     concat (map (\<lambda>(path, body). if strip body = [] then [] else map (Pair path) (pack_body tok cap body))
       (sectionize md))"

definition split_markdown :: "(string \<Rightarrow> nat) \<Rightarrow> nat \<Rightarrow> string \<Rightarrow> chunk_draft list" where
  "split_markdown tok cap md =
     map (\<lambda>(i, path, piece). \<lparr>cd_idx = i, cd_heading = path, cd_content = piece, cd_tokens = tok piece\<rparr>)
       (enumerate 0 (split_pieces tok cap md))"

subsection \<open>Nothing visible is lost\<close>

lemma visible_newline [simp]: "visible newline = []" "visible blank_line = []"
  by (simp_all add: newline_def blank_line_def visible_def py_isspace_def)

lemma after_last_lf_visible: "after_last_lf s = Some r \<Longrightarrow> visible r = visible s"
  by (induction s arbitrary: r) (auto simp: visible_def split: if_splits option.splits)

lemma after_separator_visible: "after_separator c cs = Some r \<Longrightarrow> visible r = visible (c # cs)"
  using after_last_lf_visible [of cs r]
  by (auto simp: after_separator_def visible_def py_isspace_def split: if_splits)

lemma blank_split_visible: "visible (concat (blank_split acc s)) = visible (rev acc @ s)"
  by (induction acc s rule: blank_split.induct) (auto simp: after_separator_visible split: option.split)

lemma paragraphs_visible: "visible (concat (paragraphs body)) = visible body"
  unfolding paragraphs_def by (simp only: visible_concat_filter visible_concat_strip blank_split_visible) simp

lemma sentence_split_visible: "visible (concat (sentence_split dot acc s)) = visible (rev acc @ s)"
  by (induction dot acc s rule: sentence_split.induct) (simp_all add: visible_lstrip, simp_all add: visible_def)

lemma pack_sentences_visible:
  "visible (concat (pack_sentences tok cap buf n ss)) = visible (concat buf) @ visible (concat ss)"
  by (induction tok cap buf n ss rule: pack_sentences.induct)
    (auto simp: visible_join visible_def [of "'' ''"] py_isspace_def)

lemma split_paragraph_visible: "visible (concat (split_paragraph tok cap p)) = visible p"
  by (simp add: split_paragraph_def visible_concat_filter pack_sentences_visible sentence_split_visible)

lemma pack_paragraphs_visible:
  "visible (concat (pack_paragraphs tok cap buf n ps)) = visible (concat buf) @ visible (concat ps)"
  by (induction tok cap buf n ps rule: pack_paragraphs.induct)
    (auto simp: visible_join split_paragraph_visible)

lemma strip_Nil_visible: "strip s = [] \<longleftrightarrow> visible s = []"
  by (auto simp: strip_eq_Nil visible_def filter_empty_conv)

lemma visible_concat_nonblank: "visible (concat (filter (\<lambda>t. strip t \<noteq> []) ts)) = visible (concat ts)"
  by (induction ts) (auto simp: strip_Nil_visible)

lemma pack_body_visible: "visible (concat (pack_body tok cap body)) = visible body"
  by (simp add: pack_body_def visible_concat_nonblank pack_paragraphs_visible paragraphs_visible)

lemma sections_bodies:
  "concat (map snd (sections_go stack path body ls)) = body @ filter (\<lambda>l. heading l = None) ls"
  by (induction stack path body ls rule: sections_go.induct)
    (auto simp: flush_body_def Let_def split: option.splits)

lemma split_pieces_visible:
  "visible (concat (map snd (split_pieces tok cap md))) = visible (concat (map snd (sectionize md)))"
proof -
  have "visible (concat (map snd (concat (map (\<lambda>(path, body). if strip body = [] then [] else map (Pair path) (pack_body tok cap body)) xs)))) =
      visible (concat (map snd xs))" for xs
    by (induction xs) (auto simp: strip_Nil_visible pack_body_visible comp_def)
  then show ?thesis by (simp add: split_pieces_def)
qed

lemma sectionize_visible:
  "visible (concat (map snd (sectionize md))) = visible (concat (filter (\<lambda>l. heading l = None) (splitlines md)))"
proof -
  have "visible (concat (map snd (map (\<lambda>(path, body). (path, py_join newline body)) xs))) =
      visible (concat (concat (map snd xs)))" for xs :: "(string option \<times> string list) list"
    by (induction xs) (auto simp: visible_join)
  then show ?thesis by (simp add: sectionize_def sections_bodies)
qed

lemma map_drafts:
  assumes "\<And>i path piece. g \<lparr>cd_idx = i, cd_heading = path, cd_content = piece, cd_tokens = tok piece\<rparr> = h (i, path, piece)"
  shows "map g (split_markdown tok cap md) = map h (enumerate 0 (split_pieces tok cap md))"
  by (simp add: split_markdown_def assms comp_def case_prod_unfold)

lemma draft_contents: "map cd_content (split_markdown tok cap md) = map snd (split_pieces tok cap md)"
proof -
  have "map cd_content (split_markdown tok cap md) = map (snd \<circ> snd) (enumerate 0 (split_pieces tok cap md))"
    by (rule map_drafts) simp
  then show ?thesis using map_map [of snd snd "enumerate 0 (split_pieces tok cap md)"] by simp
qed

lemma draft_indices: "map cd_idx (split_markdown tok cap md) = [0..<length (split_markdown tok cap md)]"
proof -
  have "map cd_idx (split_markdown tok cap md) = map fst (enumerate 0 (split_pieces tok cap md))"
    by (rule map_drafts) simp
  then show ?thesis by (simp add: split_markdown_def)
qed

lemma draft_tokens: "d \<in> set (split_markdown tok cap md) \<Longrightarrow> cd_tokens d = tok (cd_content d)"
  by (auto simp: split_markdown_def)

subsection \<open>Sizes\<close>

text \<open>
  A piece within the cap: whole paragraphs, or whole sentences of one paragraph, whose own token counts
  sum up to the cap at most; a single sentence may exceed it.
\<close>

definition paragraphs_fit :: "(string \<Rightarrow> nat) \<Rightarrow> nat \<Rightarrow> string \<Rightarrow> bool" where
  "paragraphs_fit tok cap piece \<longleftrightarrow>
     (\<exists>ps. piece = py_join blank_line ps \<and> ps \<noteq> [] \<and> sum_list (map tok ps) \<le> cap)"

definition sentences_fit :: "(string \<Rightarrow> nat) \<Rightarrow> nat \<Rightarrow> string \<Rightarrow> bool" where
  "sentences_fit tok cap piece \<longleftrightarrow>
     (\<exists>ss. piece = strip (py_join '' '' ss) \<and> (length ss = 1 \<or> ss \<noteq> [] \<and> sum_list (map tok ss) \<le> cap))"

lemma pack_sentences_fit:
  assumes "n = sum_list (map tok buf)" and "length buf \<le> 1 \<or> n \<le> cap" and "c \<in> set (pack_sentences tok cap buf n ss)"
  shows "sentences_fit tok cap c"
  using assms
proof (induction tok cap buf n ss rule: pack_sentences.induct)
  case (1 tok cap buf n)
  then show ?case unfolding sentences_fit_def
    by (intro exI [of _ buf]) (auto simp: le_Suc_eq split: if_splits)
next
  case (2 tok cap buf n s ss)
  show ?case
  proof (cases "buf \<noteq> [] \<and> cap < n + tok s")
    case True
    then have "c = strip (py_join '' '' buf) \<or> c \<in> set (pack_sentences tok cap [s] (tok s) ss)" using 2(5) by simp
    then show ?thesis
    proof
      assume "c = strip (py_join '' '' buf)"
      then show ?thesis unfolding sentences_fit_def using 2(3,4) True by (intro exI [of _ buf]) (auto simp: le_Suc_eq)
    next
      assume "c \<in> set (pack_sentences tok cap [s] (tok s) ss)"
      then show ?thesis using 2(1) [OF True] by simp
    qed
  next
    case False
    then have "c \<in> set (pack_sentences tok cap (buf @ [s]) (n + tok s) ss)" using 2(5) by auto
    then show ?thesis using 2(2) [OF False] 2(3) False by auto
  qed
qed

lemma pack_paragraphs_fit:
  assumes "n = sum_list (map tok buf)" and "n \<le> cap" and "c \<in> set (pack_paragraphs tok cap buf n ps)"
  shows "paragraphs_fit tok cap c \<or> sentences_fit tok cap c"
  using assms
proof (induction tok cap buf n ps rule: pack_paragraphs.induct)
  case (1 tok cap buf n)
  then show ?case by (auto simp: paragraphs_fit_def split: if_splits)
next
  case (2 tok cap buf n p ps)
  have split: "sentences_fit tok cap c" if "c \<in> set (split_paragraph tok cap p)"
    using that pack_sentences_fit [of 0 tok "[]" cap c] by (auto simp: split_paragraph_def)
  have buf: "buf \<noteq> [] \<Longrightarrow> paragraphs_fit tok cap (py_join blank_line buf)"
    using "2.prems"(1,2) unfolding paragraphs_fit_def by (intro exI [of _ buf]) simp
  consider "cap < tok p" "buf = []" | "cap < tok p" "buf \<noteq> []" | "\<not> cap < tok p" "buf \<noteq> [] \<and> cap < n + tok p"
    | "\<not> cap < tok p" "\<not> (buf \<noteq> [] \<and> cap < n + tok p)" by blast
  then show ?case
  proof cases
    case 1
    then show ?thesis using "2.IH"(1) [OF 1] "2.prems" split by auto
  next
    case 2
    then show ?thesis using "2.IH"(2) [OF 2] "2.prems"(3) split buf by auto
  next
    case 3
    then show ?thesis using "2.IH"(3) [OF 3] "2.prems"(3) buf by auto
  next
    case 4
    then have "n + tok p \<le> cap" using "2.prems"(1) by auto
    then show ?thesis using "2.IH"(4) [OF 4] "2.prems"(1,3) 4 by simp
  qed
qed

subsection \<open>The theorems\<close>

text \<open>
  C30: The chunks of a document hold every visible character of its text, in order and once: without
  white space they spell the lines that are no headings, whatever the tokenizer and the cap are.
\<close>

theorem chunks_lose_nothing:
  "visible (concat (map cd_content (split_markdown tok cap md))) =
   visible (concat (filter (\<lambda>l. heading l = None) (splitlines md)))"
  by (simp only: draft_contents split_pieces_visible sectionize_visible)

lemma chunk_fits:
  assumes "d \<in> set (split_markdown tok cap md)"
  shows "strip (cd_content d) \<noteq> [] \<and> (paragraphs_fit tok cap (cd_content d) \<or> sentences_fit tok cap (cd_content d))"
proof -
  have "cd_content d \<in> snd ` set (split_pieces tok cap md)"
    using imageI [OF assms, of cd_content] by (simp add: draft_contents flip: set_map)
  then obtain body where "cd_content d \<in> set (pack_body tok cap body)"
    by (auto simp: split_pieces_def split: if_splits)
  then show ?thesis using pack_paragraphs_fit [of 0 tok "[]" cap "cd_content d"] by (auto simp: pack_body_def)
qed

text \<open>
  The cap is a cap on the sum of the paragraphs' tokens, not on the chunk: the blank lines that join
  them count too, so three paragraphs that fill the cap make a chunk that exceeds it.
\<close>

theorem chunk_exceeds_cap:
  "map cd_tokens (split_markdown length 10 (''abcd'' @ blank_line @ ''abcd'' @ blank_line @ ''ab'')) = [14]"
  by code_simp

end
