(* ===== verification/Kb_Index.thy ===== *)
theory Kb_Index
  imports Kb_Chunker Engine_V1 "HOL-Library.List_Lexorder" "HOL-Library.Char_ord"
begin

text \<open>
  The knowledge base of a tenant: the indexer that brings the tables in line with the Markdown files
  (\<open>kb/indexer.py\<close>, \<open>cli/reindex_kb.py\<close>) and the retriever of the engine v1 (\<open>kb/retriever.py\<close>).
  A directory is the list of its files.  The tokenizer, SHA-256, the embedding model and the distance
  of pgvector are parameters; the approximate index on the embeddings is not modelled, the nearest
  rows are the nearest ones.
\<close>

subsection \<open>Parameters and tables\<close>

record 'v kb_env =
  kv_tokens :: "string \<Rightarrow> nat"
  kv_cap :: nat
  kv_sha256 :: "string \<Rightarrow> string"
  kv_documents :: "string list \<Rightarrow> pyexn + 'v list"
  kv_query :: "string \<Rightarrow> pyexn + 'v"
  kv_distance :: "'v \<Rightarrow> 'v \<Rightarrow> rat"

record kb_document =
  kd_id :: uuid
  kd_tenant :: uuid
  kd_kb :: string
  kd_path :: string
  kd_hash :: string
  kd_md :: string

record 'v kb_chunk =
  kc_document :: uuid
  kc_tenant :: uuid
  kc_kb :: string
  kc_idx :: nat
  kc_heading :: "string option"
  kc_content :: string
  kc_tokens :: nat
  kc_embedding :: 'v

record 'v kb_db =
  kb_documents :: "kb_document list"
  kb_chunks :: "'v kb_chunk list"
  kb_next :: uuid

text \<open>
  A file: the parts of its path below \<open>kb_root\<close>, the first of which is the slug of a tenant, and its
  text, or the message of the \<open>UnicodeDecodeError\<close> that reading it raises.
\<close>

record kb_file =
  fl_parts :: "string list"
  fl_text :: "string + string"

record index_result =
  ir_indexed :: "string list"
  ir_skipped :: "string list"
  ir_pruned :: "string list"
  ir_failed :: "(string \<times> string) list"

definition no_result :: index_result where
  "no_result = \<lparr>ir_indexed = [], ir_skipped = [], ir_pruned = [], ir_failed = []\<rparr>"

subsection \<open>The files of a tenant\<close>

definition below :: "string list \<Rightarrow> kb_file \<Rightarrow> bool" where
  "below dir f \<longleftrightarrow> length dir < length (fl_parts f) \<and> take (length dir) (fl_parts f) = dir"

definition is_markdown :: "kb_file \<Rightarrow> bool" where
  "is_markdown f \<longleftrightarrow> drop (length (List.last (fl_parts f)) - 3) (List.last (fl_parts f)) = ''.md''"

definition list_md_files :: "kb_file list \<Rightarrow> string \<Rightarrow> string option \<Rightarrow> kb_file list" where
  "list_md_files fs slug kb =
     sort_key fl_parts (filter (\<lambda>f. below (slug # (case kb of None \<Rightarrow> [] | Some k \<Rightarrow> [k])) f \<and> is_markdown f) fs)"

definition rel_doc_path :: "string \<Rightarrow> kb_file \<Rightarrow> string" where
  "rel_doc_path base f = py_join ''/'' (base # fl_parts f)"

definition kb_id_from_path :: "kb_file \<Rightarrow> string" where
  "kb_id_from_path f = fl_parts f ! 1"

subsection \<open>Indexing\<close>

definition drafts_of :: "'v kb_env \<Rightarrow> string \<Rightarrow> chunk_draft list" where
  "drafts_of K md = split_markdown (kv_tokens K) (kv_cap K) md"

definition has_key :: "uuid \<Rightarrow> string \<Rightarrow> string \<Rightarrow> kb_document \<Rightarrow> bool" where
  "has_key tn kb path k \<longleftrightarrow> kd_tenant k = tn \<and> kd_kb k = kb \<and> kd_path k = path"

definition chunk_row :: "kb_document \<Rightarrow> chunk_draft \<Rightarrow> 'v \<Rightarrow> 'v kb_chunk" where
  "chunk_row k c v =
     \<lparr>kc_document = kd_id k, kc_tenant = kd_tenant k, kc_kb = kd_kb k, kc_idx = cd_idx c, kc_heading = cd_heading c,
      kc_content = cd_content c, kc_tokens = cd_tokens c, kc_embedding = v\<rparr>"

definition upsert_document ::
  "kb_document option \<Rightarrow> uuid \<Rightarrow> string \<Rightarrow> string \<Rightarrow> string \<Rightarrow> string \<Rightarrow> 'v kb_db \<Rightarrow> kb_document \<times> 'v kb_db" where
  "upsert_document existing tn kb path digest md d =
     (case existing of
        None \<Rightarrow>
          let k = \<lparr>kd_id = kb_next d, kd_tenant = tn, kd_kb = kb, kd_path = path, kd_hash = digest, kd_md = md\<rparr>
          in (k, d\<lparr>kb_documents := kb_documents d @ [k], kb_next := kb_next d + 1\<rparr>)
      | Some k0 \<Rightarrow>
          let k = k0\<lparr>kd_hash := digest, kd_md := md\<rparr>
          in (k, d\<lparr>kb_documents := update_where (\<lambda>r. kd_id r = kd_id k0) (\<lambda>_. k) (kb_documents d),
                   kb_chunks := filter (\<lambda>c. kc_document c \<noteq> kd_id k0) (kb_chunks d)\<rparr>))"

definition embed_drafts :: "'v kb_env \<Rightarrow> chunk_draft list \<Rightarrow> pyexn + 'v list" where
  "embed_drafts K cs = (if cs = [] then Inr [] else kv_documents K (map cd_content cs))"

definition index_file ::
  "'v kb_env \<Rightarrow> tenant \<Rightarrow> string \<Rightarrow> kb_file \<Rightarrow> 'v kb_db \<times> index_result \<Rightarrow> pyexn + 'v kb_db \<times> index_result" where
  "index_file K tn base f = (\<lambda>(d, r).
     let path = rel_doc_path base f; kb = kb_id_from_path f in
     case fl_text f of
       Inl msg \<Rightarrow> Inr (d, r\<lparr>ir_failed := ir_failed r @ [(path, ''unicode_decode_error: '' @ msg)]\<rparr>)
     | Inr md \<Rightarrow>
         let digest = kv_sha256 K md; existing = find (has_key (tn_id tn) kb path) (kb_documents d) in
         if \<exists>k \<in> set_option existing. kd_hash k = digest
         then Inr (d, r\<lparr>ir_skipped := ir_skipped r @ [path]\<rparr>)
         else let cs = drafts_of K md in
           bindE (embed_drafts K cs) (\<lambda>vs.
             let (k, d1) = upsert_document existing (tn_id tn) kb path digest md d in
             if length vs \<noteq> length cs then Inl (ValueError ''zip()'')
             else Inr (d1\<lparr>kb_chunks := kb_chunks d1 @ map2 (chunk_row k) cs vs\<rparr>,
                       r\<lparr>ir_indexed := ir_indexed r @ [path]\<rparr>)))"

fun index_files ::
  "'v kb_env \<Rightarrow> tenant \<Rightarrow> string \<Rightarrow> kb_file list \<Rightarrow> 'v kb_db \<times> index_result \<Rightarrow> pyexn + 'v kb_db \<times> index_result" where
  "index_files K tn base [] s = Inr s"
| "index_files K tn base (f # fs) s = bindE (index_file K tn base f s) (index_files K tn base fs)"

definition in_scope :: "tenant \<Rightarrow> string option \<Rightarrow> kb_document \<Rightarrow> bool" where
  "in_scope tn kb k \<longleftrightarrow> kd_tenant k = tn_id tn \<and> (\<forall>i \<in> set_option kb. kd_kb k = i)"

definition prune_documents :: "tenant \<Rightarrow> string option \<Rightarrow> string set \<Rightarrow> 'v kb_db \<times> index_result \<Rightarrow> 'v kb_db \<times> index_result" where
  "prune_documents tn kb present = (\<lambda>(d, r).
     let gone = filter (\<lambda>k. in_scope tn kb k \<and> kd_path k \<notin> present) (kb_documents d); ids = set (map kd_id gone)
     in (d\<lparr>kb_documents := filter (\<lambda>k. kd_id k \<notin> ids) (kb_documents d),
           kb_chunks := filter (\<lambda>c. kc_document c \<notin> ids) (kb_chunks d)\<rparr>,
         r\<lparr>ir_pruned := ir_pruned r @ map kd_path gone\<rparr>))"

definition reindex_tenant_kb ::
  "'v kb_env \<Rightarrow> tenant \<Rightarrow> string \<Rightarrow> kb_file list \<Rightarrow> bool \<Rightarrow> string option \<Rightarrow> 'v kb_db \<Rightarrow> pyexn + 'v kb_db \<times> index_result" where
  "reindex_tenant_kb K tn base fs prune kb d =
     (let files = list_md_files fs (tn_slug tn) kb in
      bindE (index_files K tn base files (d, no_result)) (\<lambda>s.
        Inr (if prune then prune_documents tn kb (set (map (rel_doc_path base) files)) s else s)))"

text \<open>
  The command: exit codes for a missing tenant file, a missing embeddings section and a missing row,
  and the run in one transaction.  \<open>config\<close> is what the tenant loader returns, with the presence of
  \<open>llm.embeddings\<close>; \<open>secrets\<close> what loading the secrets and building the embedder returns.
\<close>

definition run_reindex ::
  "'v kb_env \<Rightarrow> pyexn + bool \<Rightarrow> pyexn + unit \<Rightarrow> tenant list \<Rightarrow> string \<Rightarrow> string \<Rightarrow> kb_file list \<Rightarrow> bool \<Rightarrow> string option \<Rightarrow>
   'v kb_db \<Rightarrow> (pyexn + int \<times> index_result) \<times> 'v kb_db" where
  "run_reindex K config secrets tenants slug base fs prune kb d =
     (case config of
        Inl e \<Rightarrow> (if e \<in> {OtherError ''TenantNotFoundError'', OtherError ''FileNotFoundError''} then Inr (2, no_result) else Inl e, d)
      | Inr embeddings \<Rightarrow>
          if \<not> embeddings then (Inr (3, no_result), d)
          else case find (\<lambda>t. tn_slug t = slug) tenants of
              None \<Rightarrow> (Inr (4, no_result), d)
            | Some tn \<Rightarrow>
                (case bindE secrets (\<lambda>_. reindex_tenant_kb K tn base fs prune kb d) of
                   Inl e \<Rightarrow> (Inl e, d)
                 | Inr (d', r) \<Rightarrow> (Inr (0, r), d')))"

subsection \<open>Retrieval\<close>

definition ref_by_id :: "kb_ref list \<Rightarrow> string \<Rightarrow> kb_ref option" where
  "ref_by_id refs = map_of (rev (map (\<lambda>k. (kr_id k, k)) refs))"

definition top_k_max :: "kb_ref list \<Rightarrow> int" where
  "top_k_max refs = Max (set (map kr_top refs))"

definition candidates :: "'v kb_env \<Rightarrow> uuid \<Rightarrow> kb_ref list \<Rightarrow> 'v \<Rightarrow> 'v kb_db \<Rightarrow> 'v kb_chunk list" where
  "candidates K tn refs q d =
     take (nat (top_k_max refs))
       (sort_key (\<lambda>c. kv_distance K (kc_embedding c) q)
          (filter (\<lambda>c. kc_tenant c = tn \<and> kc_kb c \<in> set (map kr_id refs)) (kb_chunks d)))"

definition score_of :: "'v kb_env \<Rightarrow> 'v \<Rightarrow> 'v kb_chunk \<Rightarrow> rat" where
  "score_of K q c = 1 - kv_distance K (kc_embedding c) q"

definition retrieved :: "'v kb_env \<Rightarrow> 'v \<Rightarrow> 'v kb_chunk \<Rightarrow> retrieved_chunk" where
  "retrieved K q c = \<lparr>rc_kb = kc_kb c, rc_heading = kc_heading c, rc_content = kc_content c, rc_score = score_of K q c\<rparr>"

definition good_enough :: "kb_ref list \<Rightarrow> retrieved_chunk \<Rightarrow> bool" where
  "good_enough refs c = (case ref_by_id refs (rc_kb c) of None \<Rightarrow> False | Some k \<Rightarrow> kr_min k \<le> rc_score c)"

definition retrieve :: "'v kb_env \<Rightarrow> uuid \<Rightarrow> kb_ref list \<Rightarrow> string \<Rightarrow> 'v kb_db \<Rightarrow> retrieved_chunk list" where
  "retrieve K tn refs query d =
     (if refs = [] then []
      else case kv_query K query of
          Inl _ \<Rightarrow> []
        | Inr q \<Rightarrow> sort_key (\<lambda>c. - rc_score c) (filter (good_enough refs) (map (retrieved K q) (candidates K tn refs q d))))"

end
