(* ===== verification/Kb_Laws.thy ===== *)
theory Kb_Laws
  imports Kb_Index
begin

text \<open>
  The theorems of the knowledge base: the tables as an abstract map from documents to hashes, the
  well-formedness of the tables (every document has exactly the chunks of its text), and what
  reindexing and retrieval do to them.
\<close>

subsection \<open>The tables as a map\<close>

definition doc_key :: "kb_document \<Rightarrow> uuid \<times> string \<times> string" where
  "doc_key k = (kd_tenant k, kd_kb k, kd_path k)"

definition hash_at :: "'v kb_db \<Rightarrow> uuid \<times> string \<times> string \<Rightarrow> string option" where
  "hash_at d = map_of (map (\<lambda>k. (doc_key k, kd_hash k)) (kb_documents d))"

definition draft_of :: "'v kb_chunk \<Rightarrow> chunk_draft" where
  "draft_of c = \<lparr>cd_idx = kc_idx c, cd_heading = kc_heading c, cd_content = kc_content c, cd_tokens = kc_tokens c\<rparr>"

definition chunks_of :: "uuid \<Rightarrow> 'v kb_db \<Rightarrow> 'v kb_chunk list" where
  "chunks_of i d = filter (\<lambda>c. kc_document c = i) (kb_chunks d)"

definition doc_wf :: "'v kb_env \<Rightarrow> 'v kb_db \<Rightarrow> kb_document \<Rightarrow> bool" where
  "doc_wf K d k \<longleftrightarrow>
     kd_id k < kb_next d \<and> kd_hash k = kv_sha256 K (kd_md k) \<and>
     map draft_of (chunks_of (kd_id k) d) = drafts_of K (kd_md k)"

definition kb_wf :: "'v kb_env \<Rightarrow> 'v kb_db \<Rightarrow> bool" where
  "kb_wf K d \<longleftrightarrow>
     distinct (map kd_id (kb_documents d)) \<and> distinct (map doc_key (kb_documents d)) \<and>
     (\<forall>k \<in> set (kb_documents d). doc_wf K d k) \<and>
     (\<forall>c \<in> set (kb_chunks d). \<exists>k \<in> set (kb_documents d).
        kc_document c = kd_id k \<and> kc_tenant c = kd_tenant k \<and> kc_kb c = kd_kb k)"

lemma has_key_iff: "has_key tn kb path k \<longleftrightarrow> doc_key k = (tn, kb, path)"
  by (simp add: has_key_def doc_key_def)

lemma find_key_None: "find (has_key tn kb path) (kb_documents d) = None \<longleftrightarrow> hash_at d (tn, kb, path) = None"
  by (auto simp: find_None_iff has_key_iff hash_at_def map_of_eq_None_iff image_iff)

lemma find_key_hash:
  "map_option kd_hash (find (has_key tn kb path) ks) = map_of (map (\<lambda>k. (doc_key k, kd_hash k)) ks) (tn, kb, path)"
  by (induction ks) (auto simp: has_key_iff)

lemma find_key_Some:
  assumes "find (has_key tn kb path) (kb_documents d) = Some k"
  shows "k \<in> set (kb_documents d)" "doc_key k = (tn, kb, path)" "hash_at d (tn, kb, path) = Some (kd_hash k)"
proof -
  show "k \<in> set (kb_documents d)" "doc_key k = (tn, kb, path)"
    using assms by (auto simp: find_Some_iff has_key_iff)
  show "hash_at d (tn, kb, path) = Some (kd_hash k)"
    using assms find_key_hash [of tn kb path "kb_documents d"] by (simp add: hash_at_def)
qed

lemma map_of_replace:
  assumes "distinct (map kd_id ks)" and "distinct (map doc_key ks)" and "k0 \<in> set ks"
    and "kd_id k = kd_id k0" and "doc_key k = doc_key k0"
  shows "map_of (map (\<lambda>k. (doc_key k, kd_hash k)) (update_where (\<lambda>r. kd_id r = kd_id k0) (\<lambda>_. k) ks)) =
    (map_of (map (\<lambda>k. (doc_key k, kd_hash k)) ks))(doc_key k0 \<mapsto> kd_hash k)"
  using assms
proof (induction ks)
  case (Cons r ks)
  show ?case
  proof (cases "r = k0")
    case True
    then have "update_where (\<lambda>r. kd_id r = kd_id k0) (\<lambda>_. k) ks = ks"
      using Cons.prems(1) by (intro update_where_none) (auto simp: image_iff)
    then show ?thesis using True Cons.prems(5) by (simp add: update_where_def fun_eq_iff)
  next
    case False
    then have "kd_id r \<noteq> kd_id k0" "doc_key r \<noteq> doc_key k0" "k0 \<in> set ks"
      using Cons.prems(1-3) by (auto simp: image_iff)
    then have "update_where (\<lambda>r. kd_id r = kd_id k0) (\<lambda>_. k) (r # ks) = r # update_where (\<lambda>r. kd_id r = kd_id k0) (\<lambda>_. k) ks"
      by (simp add: update_where_def)
    moreover have "map_of (map (\<lambda>k. (doc_key k, kd_hash k)) (update_where (\<lambda>r. kd_id r = kd_id k0) (\<lambda>_. k) ks)) =
        (map_of (map (\<lambda>k. (doc_key k, kd_hash k)) ks))(doc_key k0 \<mapsto> kd_hash k)"
      by (rule Cons.IH) (use Cons.prems \<open>k0 \<in> set ks\<close> in simp_all)
    ultimately show ?thesis using \<open>doc_key r \<noteq> doc_key k0\<close> by (intro ext) simp
  qed
qed simp

lemma map2_length: "length xs = length ys \<Longrightarrow> map f (map2 g xs ys) = map2 (\<lambda>x y. f (g x y)) xs ys"
  by (induction xs ys rule: list_induct2) simp_all

lemma rows_of_drafts:
  assumes "length vs = length cs"
  shows "map draft_of (map2 (chunk_row k) cs vs) = cs"
    and "\<forall>c \<in> set (map2 (chunk_row k) cs vs). kc_document c = kd_id k \<and> kc_tenant c = kd_tenant k \<and> kc_kb c = kd_kb k"
  using assms by (induction vs cs rule: list_induct2) (simp_all add: chunk_row_def draft_of_def)

subsection \<open>Indexing a file\<close>

text \<open>Storing a document with its chunks, for a new row and for a row that is replaced.\<close>

lemma store_new:
  assumes wf: "kb_wf K d" and new: "hash_at d (tn, kb, path) = None" and len: "length vs = length (drafts_of K md)"
    and k: "k = \<lparr>kd_id = kb_next d, kd_tenant = tn, kd_kb = kb, kd_path = path, kd_hash = kv_sha256 K md, kd_md = md\<rparr>"
    and d': "d' = d\<lparr>kb_documents := kb_documents d @ [k], kb_next := kb_next d + 1,
      kb_chunks := kb_chunks d @ map2 (chunk_row k) (drafts_of K md) vs\<rparr>"
  shows "kb_wf K d' \<and> hash_at d' = (hash_at d)((tn, kb, path) \<mapsto> kv_sha256 K md)"
proof -
  note rows = rows_of_drafts [OF len, of k]
  have below: "\<forall>k' \<in> set (kb_documents d). kd_id k' < kb_next d" using wf by (auto simp: kb_wf_def doc_wf_def)
  then have old: "\<forall>c \<in> set (kb_chunks d). kc_document c \<noteq> kb_next d" using wf by (fastforce simp: kb_wf_def)
  have key: "doc_key k \<notin> doc_key ` set (kb_documents d)" and kid: "kd_id k = kb_next d" "kd_hash k = kv_sha256 K md" "kd_md k = md"
    using new by (auto simp: k doc_key_def hash_at_def map_of_eq_None_iff image_iff)
  have rest: "chunks_of i d' = chunks_of i d @ (if i = kd_id k then map2 (chunk_row k) (drafts_of K md) vs else [])" for i
  proof -
    have "filter (\<lambda>c. kc_document c = i) (map2 (chunk_row k) (drafts_of K md) vs) =
        (if i = kd_id k then map2 (chunk_row k) (drafts_of K md) vs else [])"
      using rows(2) by (simp add: filter_id_conv filter_empty_conv del: set_map)
    then show ?thesis unfolding chunks_of_def d' by simp
  qed
  have none: "chunks_of (kd_id k) d = []" using old kid(1) by (simp add: chunks_of_def filter_empty_conv)
  have docs: "\<forall>k' \<in> set (kb_documents d'). doc_wf K d' k'"
  proof
    fix k' assume "k' \<in> set (kb_documents d')"
    then consider "k' \<in> set (kb_documents d)" | "k' = k" unfolding d' by auto
    then show "doc_wf K d' k'"
    proof cases
      case 1
      then have "doc_wf K d k'" "kd_id k' \<noteq> kd_id k" using wf below kid(1) by (auto simp: kb_wf_def)
      then show ?thesis using rest [of "kd_id k'"] by (simp add: doc_wf_def d')
    next
      case 2
      then show ?thesis using rest [of "kd_id k"] none rows(1) kid by (simp add: doc_wf_def d')
    qed
  qed
  have fresh: "kd_id k \<notin> kd_id ` set (kb_documents d)" using below kid(1) by auto
  have owned: "\<forall>c \<in> set (kb_chunks d'). \<exists>k \<in> set (kb_documents d').
      kc_document c = kd_id k \<and> kc_tenant c = kd_tenant k \<and> kc_kb c = kd_kb k"
  proof
    fix c assume "c \<in> set (kb_chunks d')"
    then consider "c \<in> set (kb_chunks d)" | "c \<in> set (map2 (chunk_row k) (drafts_of K md) vs)"
      unfolding d' by auto
    then show "\<exists>k \<in> set (kb_documents d'). kc_document c = kd_id k \<and> kc_tenant c = kd_tenant k \<and> kc_kb c = kd_kb k"
    proof cases
      case 1
      then show ?thesis using wf unfolding kb_wf_def d' by simp
    next
      case 2
      then have "kc_document c = kd_id k \<and> kc_tenant c = kd_tenant k \<and> kc_kb c = kd_kb k" using rows(2) by blast
      moreover have "k \<in> set (kb_documents d')" by (simp add: d')
      ultimately show ?thesis by blast
    qed
  qed
  have "distinct (map kd_id (kb_documents d'))" "distinct (map doc_key (kb_documents d'))"
    using wf fresh key unfolding kb_wf_def d' by simp_all
  then have "kb_wf K d'" using docs owned unfolding kb_wf_def by blast
  moreover have kk: "doc_key k = (tn, kb, path)" "kd_hash k = kv_sha256 K md" by (simp_all add: k doc_key_def)
  have "hash_at d' = (hash_at d)((tn, kb, path) \<mapsto> kv_sha256 K md)"
  proof (rule ext)
    fix x
    have "hash_at d' x = (case hash_at d x of None \<Rightarrow> if x = (tn, kb, path) then Some (kv_sha256 K md) else None | Some h \<Rightarrow> Some h)"
      using kk by (simp add: hash_at_def d' map_add_def split: option.split)
    then show "hash_at d' x = ((hash_at d)((tn, kb, path) \<mapsto> kv_sha256 K md)) x"
      using new by (auto split: option.split)
  qed
  ultimately show ?thesis ..
qed

lemma store_replaced:
  assumes wf: "kb_wf K d" and k0: "k0 \<in> set (kb_documents d)" and len: "length vs = length (drafts_of K md)"
    and k: "k = k0\<lparr>kd_hash := kv_sha256 K md, kd_md := md\<rparr>"
    and d': "d' = d\<lparr>kb_documents := update_where (\<lambda>r. kd_id r = kd_id k0) (\<lambda>_. k) (kb_documents d),
      kb_chunks := filter (\<lambda>c. kc_document c \<noteq> kd_id k0) (kb_chunks d) @ map2 (chunk_row k) (drafts_of K md) vs\<rparr>"
  shows "kb_wf K d' \<and> hash_at d' = (hash_at d)(doc_key k0 \<mapsto> kv_sha256 K md)"
proof -
  note rows = rows_of_drafts [OF len, of k]
  have ids: "distinct (map kd_id (kb_documents d))" "distinct (map doc_key (kb_documents d))"
    using wf by (simp_all add: kb_wf_def)
  have same: "kd_id k = kd_id k0" "doc_key k = doc_key k0" "kd_tenant k = kd_tenant k0" "kd_kb k = kd_kb k0"
    "kd_hash k = kv_sha256 K md" "kd_md k = md"
    by (simp_all add: k doc_key_def)
  have docs': "set (kb_documents d') = insert k {r \<in> set (kb_documents d). kd_id r \<noteq> kd_id k0}"
    using k0 same(1) by (auto simp: d' in_set_update_where image_iff split: if_splits)
  have keys: "map kd_id (kb_documents d') = map kd_id (kb_documents d)"
    "map doc_key (kb_documents d') = map doc_key (kb_documents d)"
  proof -
    show "map kd_id (kb_documents d') = map kd_id (kb_documents d)"
      using same(1) by (auto simp: d' update_where_def)
    have "r = k0" if "r \<in> set (kb_documents d)" "kd_id r = kd_id k0" for r
      using that k0 ids(1) by (auto simp: distinct_map inj_on_def)
    then show "map doc_key (kb_documents d') = map doc_key (kb_documents d)"
      using same(2) by (auto simp: d' update_where_def)
  qed
  have rest: "chunks_of i d' = (if i = kd_id k0 then map2 (chunk_row k) (drafts_of K md) vs else chunks_of i d)" for i
  proof -
    have "filter (\<lambda>c. kc_document c = i) (map2 (chunk_row k) (drafts_of K md) vs) =
        (if i = kd_id k0 then map2 (chunk_row k) (drafts_of K md) vs else [])"
      using rows(2) same(1) by (simp add: filter_id_conv filter_empty_conv del: set_map)
    moreover have "filter (\<lambda>c. kc_document c = i) (filter (\<lambda>c. kc_document c \<noteq> kd_id k0) (kb_chunks d)) =
        (if i = kd_id k0 then [] else chunks_of i d)"
      by (auto simp: chunks_of_def filter_empty_conv intro: filter_cong)
    ultimately show ?thesis by (simp add: chunks_of_def d')
  qed
  have "doc_wf K d' k'" if "k' \<in> set (kb_documents d')" for k'
  proof (cases "kd_id k' = kd_id k0")
    case True
    then have "k' = k" using that docs' by auto
    moreover have "kd_id k0 < kb_next d" using wf k0 by (simp add: kb_wf_def doc_wf_def)
    ultimately show ?thesis using rest [of "kd_id k0"] rows(1) same by (simp add: doc_wf_def d')
  next
    case False
    then have "doc_wf K d k'" using that docs' same(1) wf by (auto simp: kb_wf_def)
    then show ?thesis using rest [of "kd_id k'"] False by (simp add: doc_wf_def d')
  qed
  moreover have "\<exists>k \<in> set (kb_documents d'). kc_document c = kd_id k \<and> kc_tenant c = kd_tenant k \<and> kc_kb c = kd_kb k"
    if "c \<in> set (kb_chunks d')" for c
  proof -
    from that consider "c \<in> set (kb_chunks d)" "kc_document c \<noteq> kd_id k0" | "c \<in> set (map2 (chunk_row k) (drafts_of K md) vs)"
      unfolding d' by auto
    then show ?thesis
    proof cases
      case 1
      then show ?thesis using wf docs' by (fastforce simp: kb_wf_def)
    next
      case 2
      then show ?thesis using rows(2) docs' by blast
    qed
  qed
  ultimately have "kb_wf K d'" using ids keys unfolding kb_wf_def by simp
  moreover have "hash_at d' = (hash_at d)(doc_key k0 \<mapsto> kv_sha256 K md)"
    using map_of_replace [OF ids k0 same(1,2)] same(5) by (simp add: hash_at_def d')
  ultimately show ?thesis ..
qed

text \<open>The abstract effect of one file, and of the files in their order.\<close>

definition file_key :: "tenant \<Rightarrow> string \<Rightarrow> kb_file \<Rightarrow> uuid \<times> string \<times> string" where
  "file_key tn base f = (tn_id tn, kb_id_from_path f, rel_doc_path base f)"

definition file_on ::
  "'v kb_env \<Rightarrow> tenant \<Rightarrow> string \<Rightarrow> kb_file \<Rightarrow> (uuid \<times> string \<times> string \<Rightarrow> string option) \<Rightarrow> uuid \<times> string \<times> string \<Rightarrow> string option" where
  "file_on K tn base f M = (case fl_text f of Inl _ \<Rightarrow> M | Inr md \<Rightarrow> M(file_key tn base f \<mapsto> kv_sha256 K md))"

lemma index_file_refines:
  assumes wf: "kb_wf K d" and run: "index_file K tn base f (d, r) = Inr (d', r')"
  shows "kb_wf K d' \<and> hash_at d' = file_on K tn base f (hash_at d)"
proof (cases "fl_text f")
  case (Inl msg)
  then show ?thesis using assms by (auto simp: index_file_def file_on_def)
next
  case (Inr md)
  let ?key = "(tn_id tn, kb_id_from_path f, rel_doc_path base f)"
  let ?old = "find (has_key (tn_id tn) (kb_id_from_path f) (rel_doc_path base f)) (kb_documents d)"
  show ?thesis
  proof (cases "\<exists>k \<in> set_option ?old. kd_hash k = kv_sha256 K md")
    case True
    then have "d' = d" "hash_at d ?key = Some (kv_sha256 K md)"
      using run Inr find_key_Some(3) [of "tn_id tn" "kb_id_from_path f" "rel_doc_path base f" d] by (auto simp: index_file_def)
    then show ?thesis using wf Inr by (simp add: file_on_def file_key_def fun_upd_idem)
  next
    case False
    then obtain vs k d1 where vs: "length vs = length (drafts_of K md)"
        and up: "upsert_document ?old (tn_id tn) (kb_id_from_path f) (rel_doc_path base f) (kv_sha256 K md) md d = (k, d1)"
        and d': "d' = d1\<lparr>kb_chunks := kb_chunks d1 @ map2 (chunk_row k) (drafts_of K md) vs\<rparr>"
      using run Inr by (auto simp: index_file_def Let_def bindE_def split: sum.splits prod.splits if_splits)
    show ?thesis
    proof (cases ?old)
      case None
      then have "hash_at d ?key = None" by (simp add: find_key_None)
      from store_new [OF wf this vs refl refl] show ?thesis
        using up None Inr by (auto simp: d' upsert_document_def Let_def file_on_def file_key_def)
    next
      case (Some k0)
      note key = find_key_Some [OF Some]
      from store_replaced [OF wf key(1) vs refl refl] show ?thesis
        using up Some Inr key(2) by (auto simp: d' upsert_document_def Let_def file_on_def file_key_def)
    qed
  qed
qed

lemma index_files_refines:
  assumes "kb_wf K d" and "index_files K tn base fs (d, r) = Inr (d', r')"
  shows "kb_wf K d' \<and> hash_at d' = fold (file_on K tn base) fs (hash_at d)"
  using assms
proof (induction fs arbitrary: d r)
  case (Cons f fs)
  then obtain d1 r1 where 1: "index_file K tn base f (d, r) = Inr (d1, r1)"
      "index_files K tn base fs (d1, r1) = Inr (d', r')"
    by (auto simp: bindE_def split: sum.splits)
  then show ?case using index_file_refines [OF Cons.prems(1) 1(1)] Cons.IH [of d1 r1] by simp
qed simp

subsection \<open>Pruning\<close>

definition stale :: "tenant \<Rightarrow> string option \<Rightarrow> string set \<Rightarrow> uuid \<times> string \<times> string \<Rightarrow> bool" where
  "stale tn kb present = (\<lambda>(t, i, path). t = tn_id tn \<and> (\<forall>j \<in> set_option kb. i = j) \<and> path \<notin> present)"

lemma map_of_filter_keys:
  "map_of (map (\<lambda>k. (key k, val k)) (filter (\<lambda>k. P (key k)) ks)) x =
   (if P x then map_of (map (\<lambda>k. (key k, val k)) ks) x else None)"
  by (induction ks) auto

lemma filter_by_id:
  assumes "distinct (map kd_id ks)"
  shows "filter (\<lambda>k. kd_id k \<notin> kd_id ` {r \<in> set ks. P r}) ks = filter (\<lambda>k. \<not> P k) ks"
  using assms by (intro filter_cong) (auto simp: distinct_map inj_on_def)

lemma stale_doc: "in_scope tn kb k \<and> kd_path k \<notin> present \<longleftrightarrow> stale tn kb present (doc_key k)"
  by (auto simp: in_scope_def stale_def doc_key_def)

lemma prune_refines:
  assumes wf: "kb_wf K d" and run: "prune_documents tn kb present (d, r) = (d', r')"
  shows "kb_wf K d' \<and> hash_at d' = (\<lambda>x. if stale tn kb present x then None else hash_at d x) \<and>
    ir_pruned r' = ir_pruned r @ map kd_path (filter (\<lambda>k. stale tn kb present (doc_key k)) (kb_documents d)) \<and>
    ir_indexed r' = ir_indexed r \<and> ir_skipped r' = ir_skipped r \<and>
    ((\<forall>k \<in> set (kb_documents d). \<not> stale tn kb present (doc_key k)) \<longrightarrow> d' = d)"
proof -
  let ?gone = "{k \<in> set (kb_documents d). stale tn kb present (doc_key k)}"
  have ids: "distinct (map kd_id (kb_documents d))" using wf by (simp add: kb_wf_def)
  have d': "d' = d\<lparr>kb_documents := filter (\<lambda>k. kd_id k \<notin> kd_id ` ?gone) (kb_documents d),
      kb_chunks := filter (\<lambda>c. kc_document c \<notin> kd_id ` ?gone) (kb_chunks d)\<rparr>"
    using run by (auto simp: prune_documents_def stale_doc Let_def)
  have docs: "kb_documents d' = filter (\<lambda>k. \<not> stale tn kb present (doc_key k)) (kb_documents d)"
    using filter_by_id [OF ids] by (simp add: d')
  have kept: "kd_id k \<notin> kd_id ` ?gone" if "k \<in> set (kb_documents d')" for k
    using that by (simp add: d')
  have "doc_wf K d' k" if "k \<in> set (kb_documents d')" for k
  proof -
    have "chunks_of (kd_id k) d' = chunks_of (kd_id k) d"
    proof -
      have "c \<in> set (kb_chunks d) \<Longrightarrow>
          (kc_document c \<notin> kd_id ` ?gone \<and> kc_document c = kd_id k) = (kc_document c = kd_id k)" for c
        using kept [OF that] by metis
      then show ?thesis unfolding chunks_of_def by (simp add: d' cong: filter_cong)
    qed
    moreover have "doc_wf K d k" using wf that docs by (simp add: kb_wf_def)
    ultimately show ?thesis by (simp add: doc_wf_def d')
  qed
  moreover have "\<exists>k \<in> set (kb_documents d'). kc_document c = kd_id k \<and> kc_tenant c = kd_tenant k \<and> kc_kb c = kd_kb k"
    if "c \<in> set (kb_chunks d')" for c
  proof -
    from that have "c \<in> set (kb_chunks d)" "kc_document c \<notin> kd_id ` ?gone" by (simp_all add: d')
    then obtain k where "k \<in> set (kb_documents d)" "kc_document c = kd_id k" "kc_tenant c = kd_tenant k" "kc_kb c = kd_kb k"
      using wf by (auto simp: kb_wf_def)
    then show ?thesis using \<open>kc_document c \<notin> kd_id ` ?gone\<close> docs by auto
  qed
  moreover have "distinct (map kd_id (kb_documents d'))" "distinct (map doc_key (kb_documents d'))"
    using wf by (simp_all add: docs kb_wf_def distinct_map_filter)
  ultimately have "kb_wf K d'" unfolding kb_wf_def by blast
  moreover have "hash_at d' = (\<lambda>x. if stale tn kb present x then None else hash_at d x)"
    by (rule ext) (simp add: hash_at_def docs map_of_filter_keys [of doc_key kd_hash "\<lambda>x. \<not> stale tn kb present x"])
  moreover have "d' = d" if "\<forall>k \<in> set (kb_documents d). \<not> stale tn kb present (doc_key k)"
  proof -
    have "?gone = {}" using that by blast
    then show ?thesis unfolding d' by (simp only: image_empty) simp
  qed
  ultimately show ?thesis using run by (auto simp: prune_documents_def stale_doc Let_def)
qed

subsection \<open>Reindexing\<close>

text \<open>The abstract run: the hashes of the files are put into the map, and with pruning what is not among the files is taken out.\<close>

definition synced ::
  "'v kb_env \<Rightarrow> tenant \<Rightarrow> string \<Rightarrow> kb_file list \<Rightarrow> bool \<Rightarrow> string option \<Rightarrow> (uuid \<times> string \<times> string \<Rightarrow> string option) \<Rightarrow>
   uuid \<times> string \<times> string \<Rightarrow> string option" where
  "synced K tn base files prune kb M =
     (\<lambda>x. if prune \<and> stale tn kb (rel_doc_path base ` set files) x then None else fold (file_on K tn base) files M x)"

lemma reindex_cases:
  assumes "reindex_tenant_kb K tn base fs prune kb d = Inr (d', r)"
  obtains d1 r1 where "index_files K tn base (list_md_files fs (tn_slug tn) kb) (d, no_result) = Inr (d1, r1)"
    and "(d', r) = (if prune then prune_documents tn kb (rel_doc_path base ` set (list_md_files fs (tn_slug tn) kb)) (d1, r1) else (d1, r1))"
  using assms by (auto simp: reindex_tenant_kb_def Let_def bindE_def split: sum.splits if_splits)

lemma reindex_synced:
  assumes wf: "kb_wf K d" and run: "reindex_tenant_kb K tn base fs prune kb d = Inr (d', r)"
  shows "kb_wf K d' \<and> hash_at d' = synced K tn base (list_md_files fs (tn_slug tn) kb) prune kb (hash_at d)"
proof -
  from run obtain d1 r1 where 1: "index_files K tn base (list_md_files fs (tn_slug tn) kb) (d, no_result) = Inr (d1, r1)"
    and 2: "(d', r) = (if prune then prune_documents tn kb (rel_doc_path base ` set (list_md_files fs (tn_slug tn) kb)) (d1, r1) else (d1, r1))"
    by (rule reindex_cases)
  note files = index_files_refines [OF wf 1]
  show ?thesis
  proof (cases prune)
    case True
    then have "prune_documents tn kb (rel_doc_path base ` set (list_md_files fs (tn_slug tn) kb)) (d1, r1) = (d', r)" using 2 by simp
    from prune_refines [OF conjunct1 [OF files] this] show ?thesis using files True by (simp add: synced_def fun_eq_iff)
  next
    case False
    then show ?thesis using files 2 by (simp add: synced_def)
  qed
qed

text \<open>
  C29: Reindexing refines the abstract run on the map of hashes, and keeps the tables well-formed: every
  document of the tables has the hash and exactly the chunks of its text.  Documents of other tenants,
  and with \<open>--kb\<close> of other knowledge bases, keep their hashes.
\<close>

theorem reindex_refines:
  assumes "kb_wf K d" and "reindex_tenant_kb K tn base fs prune kb d = Inr (d', r)"
  shows "kb_wf K d' \<and> hash_at d' = synced K tn base (list_md_files fs (tn_slug tn) kb) prune kb (hash_at d)"
  using assms by (rule reindex_synced)

lemma fold_file_other:
  "x \<notin> file_key tn base ` set fs \<Longrightarrow> fold (file_on K tn base) fs M x = M x"
  by (induction fs arbitrary: M) (auto simp: file_on_def split: sum.splits)

lemma fold_file_own:
  assumes "distinct (map (file_key tn base) fs)" and "f \<in> set fs" and "fl_text f = Inr md"
  shows "fold (file_on K tn base) fs M (file_key tn base f) = Some (kv_sha256 K md)"
  using assms
proof (induction fs arbitrary: M)
  case (Cons g fs)
  show ?case
  proof (cases "f = g")
    case True
    then have "fold (file_on K tn base) fs (file_on K tn base g M) (file_key tn base f) = file_on K tn base g M (file_key tn base f)"
      using Cons.prems(1) by (intro fold_file_other) auto
    then show ?thesis using True Cons.prems(3) by (simp add: file_on_def [of K tn base g])
  next
    case False
    then show ?thesis using Cons by simp
  qed
qed simp

definition readable :: "kb_file \<Rightarrow> bool" where
  "readable f \<longleftrightarrow> (case fl_text f of Inl _ \<Rightarrow> False | Inr _ \<Rightarrow> True)"

lemma index_files_unchanged:
  assumes "\<And>f md. f \<in> set fs \<Longrightarrow> fl_text f = Inr md \<Longrightarrow> hash_at d (file_key tn base f) = Some (kv_sha256 K md)"
  shows "\<exists>r'. index_files K tn base fs (d, r) = Inr (d, r') \<and> ir_indexed r' = ir_indexed r \<and> ir_pruned r' = ir_pruned r \<and>
    ir_skipped r' = ir_skipped r @ map (rel_doc_path base) (filter readable fs)"
  using assms
proof (induction fs arbitrary: r)
  case (Cons f fs)
  have "\<exists>r1. index_file K tn base f (d, r) = Inr (d, r1) \<and> ir_indexed r1 = ir_indexed r \<and> ir_pruned r1 = ir_pruned r \<and>
      ir_skipped r1 = ir_skipped r @ map (rel_doc_path base) (filter readable [f])"
  proof (cases "fl_text f")
    case (Inl msg)
    then show ?thesis by (simp add: index_file_def readable_def Let_def)
  next
    case (Inr md)
    then have "hash_at d (file_key tn base f) = Some (kv_sha256 K md)" using Cons.prems by simp
    then have "map_option kd_hash (find (has_key (tn_id tn) (kb_id_from_path f) (rel_doc_path base f)) (kb_documents d)) = Some (kv_sha256 K md)"
      by (simp add: find_key_hash hash_at_def file_key_def)
    then show ?thesis using Inr by (auto simp: index_file_def readable_def Let_def)
  qed
  then obtain r1 where r1: "index_file K tn base f (d, r) = Inr (d, r1)" "ir_indexed r1 = ir_indexed r" "ir_pruned r1 = ir_pruned r"
      "ir_skipped r1 = ir_skipped r @ map (rel_doc_path base) (filter readable [f])" by blast
  have "\<exists>r'. index_files K tn base fs (d, r1) = Inr (d, r') \<and> ir_indexed r' = ir_indexed r1 \<and> ir_pruned r' = ir_pruned r1 \<and>
      ir_skipped r' = ir_skipped r1 @ map (rel_doc_path base) (filter readable fs)"
    by (rule Cons.IH) (use Cons.prems in simp)
  then show ?case using r1 by auto
qed simp

text \<open>
  Reindexing is idempotent: a second run over the same files computes no embedding, changes no row,
  and reports every readable file as skipped.
\<close>

theorem reindex_twice:
  assumes wf: "kb_wf K d" and paths: "distinct (map (rel_doc_path base) fs)"
    and run: "reindex_tenant_kb K tn base fs prune kb d = Inr (d', r)"
  shows "\<exists>r'. reindex_tenant_kb (K\<lparr>kv_documents := other\<rparr>) tn base fs prune kb d' = Inr (d', r') \<and>
    ir_indexed r' = [] \<and> ir_pruned r' = [] \<and>
    ir_skipped r' = map (rel_doc_path base) (filter readable (list_md_files fs (tn_slug tn) kb))"
proof -
  let ?K = "K\<lparr>kv_documents := other\<rparr>"
  let ?files = "list_md_files fs (tn_slug tn) kb"
  let ?present = "rel_doc_path base ` set ?files"
  note after = reindex_synced [OF wf run]
  have keys: "distinct (map (file_key tn base) ?files)"
  proof -
    have "distinct fs" "inj_on (rel_doc_path base) (set fs)" using paths by (simp_all add: distinct_map)
    then have "distinct ?files" "inj_on (rel_doc_path base) (set ?files)"
      by (auto simp: list_md_files_def inj_on_def)
    then show ?thesis by (auto simp: distinct_map inj_on_def file_key_def)
  qed
  have stored: "hash_at d' (file_key tn base f) = Some (kv_sha256 ?K md)" if "f \<in> set ?files" "fl_text f = Inr md" for f md
  proof -
    have "\<not> stale tn kb ?present (file_key tn base f)" using that(1) by (auto simp: stale_def file_key_def)
    then show ?thesis using after fold_file_own [OF keys that] by (simp add: synced_def)
  qed
  from index_files_unchanged [of ?files d' tn base ?K no_result, OF stored]
  obtain r1 where r1: "index_files ?K tn base ?files (d', no_result) = Inr (d', r1)" "ir_indexed r1 = []" "ir_pruned r1 = []"
      "ir_skipped r1 = map (rel_doc_path base) (filter readable ?files)"
    by (auto simp: no_result_def)
  show ?thesis
  proof (cases prune)
    case False
    then show ?thesis using r1 by (simp add: reindex_tenant_kb_def Let_def bindE_def)
  next
    case True
    obtain d2 r2 where p: "prune_documents tn kb ?present (d', r1) = (d2, r2)" by fastforce
    have fresh: "\<not> stale tn kb ?present (doc_key k)" if "k \<in> set (kb_documents d')" for k
    proof
      assume "stale tn kb ?present (doc_key k)"
      then have "hash_at d' (doc_key k) = None" using after True by (simp add: synced_def)
      then show False using that by (force simp: hash_at_def map_of_eq_None_iff)
    qed
    then have "filter (\<lambda>k. stale tn kb ?present (doc_key k)) (kb_documents d') = []" by (simp add: filter_empty_conv)
    then show ?thesis using prune_refines [OF conjunct1 [OF after] p] fresh r1 p True
      by (simp add: reindex_tenant_kb_def Let_def bindE_def)
  qed
qed

subsection \<open>Retrieval\<close>

lemma take_nearest:
  assumes "x \<in> set (sort_key g xs)" and "x \<notin> set (take n (sort_key g xs))" and "y \<in> set (take n (sort_key g xs))"
  shows "g y \<le> g x \<and> length (take n (sort_key g xs)) = n"
proof -
  let ?s = "sort_key g xs"
  have x: "x \<in> set (drop n ?s)"
    using assms(1,2) set_append [of "take n ?s" "drop n ?s"] by auto
  have "sorted (map g (take n ?s @ drop n ?s))" by simp
  then have "\<forall>y \<in> set (take n ?s). \<forall>x \<in> set (drop n ?s). g y \<le> g x" by (simp only: map_append sorted_append) simp
  moreover have "n < length ?s" using x by (metis drop_all empty_iff empty_set not_le)
  ultimately show ?thesis using assms(3) x by simp
qed

lemma ref_by_id_Some: "ref_by_id refs i = Some k \<Longrightarrow> k \<in> set refs \<and> kr_id k = i"
  by (auto simp: ref_by_id_def dest!: map_of_SomeD)

lemma in_candidates:
  "c \<in> set (candidates K tn refs q d) \<Longrightarrow> c \<in> set (kb_chunks d) \<and> kc_tenant c = tn \<and> kc_kb c \<in> kr_id ` set refs"
  by (auto simp: candidates_def dest!: in_set_takeD)

text \<open>
  What the retriever answers: at most the largest \<open>top_k\<close> chunks, best score first, every one a
  chunk of this tenant in a referenced knowledge base with the score its reference demands; a chunk
  that is good enough and still missing is no better than any of the candidates that were read.
\<close>

theorem retrieve_best:
  assumes "kv_query K query = Inr q"
  shows "sorted_wrt (\<lambda>x y. rc_score y \<le> rc_score x) (retrieve K tn refs query d) \<and>
    length (retrieve K tn refs query d) \<le> nat (top_k_max refs) \<and>
    (\<forall>c \<in> set (retrieve K tn refs query d).
       \<exists>x \<in> set (kb_chunks d). c = retrieved K q x \<and> kc_tenant x = tn \<and>
         (\<exists>k \<in> set refs. kr_id k = kc_kb x \<and> kr_min k \<le> score_of K q x)) \<and>
    (\<forall>x \<in> set (kb_chunks d). \<forall>y \<in> set (candidates K tn refs q d).
       kc_tenant x = tn \<and> good_enough refs (retrieved K q x) \<and> retrieved K q x \<notin> set (retrieve K tn refs query d) \<longrightarrow>
       score_of K q x \<le> score_of K q y \<and> length (candidates K tn refs q d) = nat (top_k_max refs))"
proof -
  have "sorted (map (\<lambda>c. - rc_score c) (retrieve K tn refs query d))"
    by (simp add: retrieve_def assms)
  then have 1: "sorted_wrt (\<lambda>x y. rc_score y \<le> rc_score x) (retrieve K tn refs query d)"
    by (simp add: sorted_map)
  have 2: "length (retrieve K tn refs query d) \<le> nat (top_k_max refs)"
    by (auto simp: retrieve_def assms candidates_def intro!: order_trans [OF length_filter_le])
  have 3: "\<exists>x \<in> set (kb_chunks d). c = retrieved K q x \<and> kc_tenant x = tn \<and>
        (\<exists>k \<in> set refs. kr_id k = kc_kb x \<and> kr_min k \<le> score_of K q x)"
    if c: "c \<in> set (retrieve K tn refs query d)" for c
  proof -
    from c obtain x where x: "x \<in> set (candidates K tn refs q d)" "c = retrieved K q x" "good_enough refs c"
      by (auto simp: retrieve_def assms split: if_splits)
    from x(3) obtain k where "ref_by_id refs (rc_kb c) = Some k" "kr_min k \<le> rc_score c"
      by (auto simp: good_enough_def split: option.splits)
    then show ?thesis using ref_by_id_Some [of refs "rc_kb c" k] in_candidates [OF x(1)] x(2) by (auto simp: retrieved_def)
  qed
  have 4: "score_of K q x \<le> score_of K q y \<and> length (candidates K tn refs q d) = nat (top_k_max refs)"
    if x: "x \<in> set (kb_chunks d)" "kc_tenant x = tn" "good_enough refs (retrieved K q x)"
      "retrieved K q x \<notin> set (retrieve K tn refs query d)" and y: "y \<in> set (candidates K tn refs q d)" for x y
  proof -
    obtain k where "ref_by_id refs (kc_kb x) = Some k"
      using x(3) by (auto simp: good_enough_def retrieved_def split: option.splits)
    then have k: "k \<in> set refs" "kr_id k = kc_kb x" using ref_by_id_Some by blast+
    then have "refs \<noteq> []" by auto
    then have "x \<notin> set (candidates K tn refs q d)"
      using x(3,4) by (auto simp: retrieve_def assms)
    moreover have "x \<in> set (sort_key (\<lambda>c. kv_distance K (kc_embedding c) q)
        (filter (\<lambda>c. kc_tenant c = tn \<and> kc_kb c \<in> set (map kr_id refs)) (kb_chunks d)))"
      using x(1,2) k(1) by (simp add: k(2) [symmetric])
    ultimately show ?thesis
      using take_nearest [of x _ _ "nat (top_k_max refs)" y] y unfolding candidates_def score_of_def by (meson diff_left_mono)
  qed
  show ?thesis using 1 2 3 4 by blast
qed

subsection \<open>A knowledge base of two parts\<close>

text \<open>
  A sample: tokens are counted as characters, the embedding of a text is its first character's code,
  and the distance is a hundredth of the difference, so that scores are easy to read off.
\<close>

definition sample_kb :: "rat kb_env" where
  "sample_kb =
     \<lparr>kv_tokens = length, kv_cap = 40, kv_sha256 = (\<lambda>s. s),
      kv_documents = (\<lambda>ts. Inr (map (\<lambda>t. of_nat (code (hd t))) ts)),
      kv_query = (\<lambda>t. Inr (of_nat (code (hd t)))),
      kv_distance = (\<lambda>v w. \<bar>v - w\<bar> / 100)\<rparr>"

definition kb_tenant :: tenant where
  "kb_tenant = \<lparr>tn_id = 1, tn_slug = ''avelum'', tn_architecture = 2\<rparr>"

definition sample_files :: "kb_file list" where
  "sample_files =
     [\<lparr>fl_parts = [''avelum'', ''faq'', ''a.md''],
       fl_text = Inr (''# Preco'' @ newline @ ''a: cem reais'' @ newline @ ''## Prazo'' @ newline @ ''b: dez dias'')\<rparr>,
      \<lparr>fl_parts = [''avelum'', ''produtos'', ''c.md''], fl_text = Inr ''c: curso''\<rparr>,
      \<lparr>fl_parts = [''avelum'', ''faq'', ''x.md''], fl_text = Inl ''byte''\<rparr>,
      \<lparr>fl_parts = [''outro'', ''faq'', ''a.md''], fl_text = Inr ''d''\<rparr>]"

definition empty_kb :: "rat kb_db" where
  "empty_kb = \<lparr>kb_documents = [], kb_chunks = [], kb_next = 1\<rparr>"

definition indexed_kb :: "pyexn + rat kb_db \<times> index_result" where
  "indexed_kb = reindex_tenant_kb sample_kb kb_tenant ''kb'' sample_files True None empty_kb"

lemma indexed_kb_rows:
  "map_sum id (\<lambda>(d, r). (map (\<lambda>c. (kc_kb c, kc_heading c, kc_content c)) (kb_chunks d), ir_indexed r, map fst (ir_failed r))) indexed_kb =
   Inr ([(''faq'', Some ''Preco'', ''a: cem reais''), (''faq'', Some ''Preco > Prazo'', ''b: dez dias''), (''produtos'', None, ''c: curso'')],
        [''kb/avelum/faq/a.md'', ''kb/avelum/produtos/c.md''], [''kb/avelum/faq/x.md''])"
  by code_simp

lemma empty_kb_wf: "kb_wf K empty_kb"
  by (simp add: kb_wf_def empty_kb_def)

lemma indexed_kb_run:
  obtains d r where "indexed_kb = Inr (d, r)"
proof (cases indexed_kb)
  case (Inl e)
  then show ?thesis using indexed_kb_rows unfolding Inl map_sum.simps by blast
next
  case (Inr s)
  then show ?thesis using that by (metis surj_pair)
qed

theorem reindex_refines_witness:
  "\<exists>d r. indexed_kb = Inr (d, r) \<and> kb_wf sample_kb d \<and>
     hash_at d (1, ''produtos'', ''kb/avelum/produtos/c.md'') = Some ''c: curso''"
proof -
  obtain d r where run: "indexed_kb = Inr (d, r)" by (rule indexed_kb_run)
  have "synced sample_kb kb_tenant ''kb'' (list_md_files sample_files (tn_slug kb_tenant) None) True None (hash_at empty_kb)
      (1, ''produtos'', ''kb/avelum/produtos/c.md'') = Some ''c: curso''"
    by code_simp
  then show ?thesis using reindex_refines [OF empty_kb_wf run [unfolded indexed_kb_def]] run by auto
qed

theorem reindex_twice_witness:
  "\<exists>d r r'. indexed_kb = Inr (d, r) \<and> reindex_tenant_kb sample_kb kb_tenant ''kb'' sample_files True None d = Inr (d, r') \<and>
     ir_indexed r' = [] \<and> ir_skipped r' = [''kb/avelum/faq/a.md'', ''kb/avelum/produtos/c.md'']"
proof -
  obtain d r where run: "indexed_kb = Inr (d, r)" by (rule indexed_kb_run)
  have paths: "distinct (map (rel_doc_path ''kb'') sample_files)"
    "map (rel_doc_path ''kb'') (filter readable (list_md_files sample_files (tn_slug kb_tenant) None)) =
     [''kb/avelum/faq/a.md'', ''kb/avelum/produtos/c.md'']"
    by code_simp+
  have "sample_kb\<lparr>kv_documents := kv_documents sample_kb\<rparr> = sample_kb" by simp
  then show ?thesis
    using reindex_twice [OF empty_kb_wf paths(1) run [unfolded indexed_kb_def], of "kv_documents sample_kb"] run paths(2) by auto
qed

text \<open>
  The \<open>top_k\<close> of a reference is not a bound for its knowledge base: one \<open>LIMIT\<close> for all of them
  lets the nearest base answer more often than its own \<open>top_k\<close>, while a base whose chunk has a score
  above its threshold answers nothing.
\<close>

theorem top_k_is_shared:
  "map_sum id (\<lambda>(d, r). map (\<lambda>c. (rc_kb c, rc_score c))
     (retrieve sample_kb 1 [\<lparr>kr_id = ''faq'', kr_top = 1, kr_min = 7 / 10\<rparr>, \<lparr>kr_id = ''produtos'', kr_top = 2, kr_min = 7 / 10\<rparr>] ''a'' d))
     indexed_kb = Inr [(''faq'', 1), (''faq'', 99 / 100)] \<and>
   map_sum id (\<lambda>(d, r). map (\<lambda>c. (rc_kb c, rc_score c))
     (retrieve sample_kb 1 [\<lparr>kr_id = ''produtos'', kr_top = 2, kr_min = 7 / 10\<rparr>] ''a'' d))
     indexed_kb = Inr [(''produtos'', 98 / 100)]"
  by code_simp

theorem retrieve_best_witness:
  "\<exists>d r. indexed_kb = Inr (d, r) \<and>
     length (retrieve sample_kb 1 [\<lparr>kr_id = ''faq'', kr_top = 1, kr_min = 7 / 10\<rparr>] ''a'' d) \<le> 1"
proof -
  obtain d r where run: "indexed_kb = Inr (d, r)" by (rule indexed_kb_run)
  have "kv_query sample_kb ''a'' = Inr (of_nat (code (CHR ''a'')))" by (simp add: sample_kb_def)
  from retrieve_best [OF this, of 1 "[\<lparr>kr_id = ''faq'', kr_top = 1, kr_min = 7 / 10\<rparr>]" d]
  have "length (retrieve sample_kb 1 [\<lparr>kr_id = ''faq'', kr_top = 1, kr_min = 7 / 10\<rparr>] ''a'' d) \<le> 1"
    by (auto simp: top_k_max_def)
  with run show ?thesis by blast
qed

end
