(* ===== verification/Lead_Assignment.thy ===== *)
theory Lead_Assignment
  imports Web_Auth Worker_Jobs
begin

text \<open>
  How a lead gets a conversation in the engine v1: the loader of tree files with its cache
  (\<open>treeflow/loader.py\<close>), publishing a version and creating a conversation (\<open>treeflow/runtime.py\<close>), the
  assignment routes of the API (\<open>api/routes/leads.py\<close>) and of the web console (\<open>web/routes.py\<close>).  The
  files of a tenant are a function from slug and tree id to text.  The rendering of the pages and the
  formatting of times are not modelled.
\<close>

subsection \<open>The loader of tree files\<close>

record tree_files =
  fs_ext :: ext
  fs_reader :: "jval \<Rightarrow> treeflow_v1 option"
  fs_text :: "string \<Rightarrow> string \<Rightarrow> string option"
  fs_names :: "string \<Rightarrow> string list"
  fs_sha256 :: "string \<Rightarrow> string"

type_synonym tree_cache = "string \<times> string \<Rightarrow> treeflow_v1 option"

definition raw_yaml :: "tree_files \<Rightarrow> string \<Rightarrow> string \<Rightarrow> pyexn + string" where
  "raw_yaml F slug i =
     (case fs_text F slug i of None \<Rightarrow> Inl (OtherError ''TreeFlowNotFoundError'') | Some raw \<Rightarrow> Inr raw)"

definition parse_tree :: "tree_files \<Rightarrow> string \<Rightarrow> pyexn + treeflow_v1" where
  "parse_tree F raw =
     (case yaml_load (fs_ext F) raw of
        None \<Rightarrow> Inl (OtherError ''YAMLError'')
      | Some data \<Rightarrow> model_validate (fs_ext F) (fs_reader F) data)"

definition read_tree :: "tree_files \<Rightarrow> string \<Rightarrow> string \<Rightarrow> pyexn + treeflow_v1" where
  "read_tree F slug i = bindE (raw_yaml F slug i) (parse_tree F)"

definition reload_tree :: "tree_files \<Rightarrow> string \<Rightarrow> string \<Rightarrow> tree_cache \<Rightarrow> (pyexn + treeflow_v1) \<times> tree_cache" where
  "reload_tree F slug i c =
     (case read_tree F slug i of Inl e \<Rightarrow> (Inl e, c) | Inr tf \<Rightarrow> (Inr tf, c((slug, i) \<mapsto> tf)))"

definition load_tree :: "tree_files \<Rightarrow> string \<Rightarrow> string \<Rightarrow> tree_cache \<Rightarrow> (pyexn + treeflow_v1) \<times> tree_cache" where
  "load_tree F slug i c = (case c (slug, i) of Some tf \<Rightarrow> (Inr tf, c) | None \<Rightarrow> reload_tree F slug i c)"

subsection \<open>Versions and conversations\<close>

definition published :: "uuid \<Rightarrow> string \<Rightarrow> string \<Rightarrow> treeflow_version \<Rightarrow> bool" where
  "published tn i ver v \<longleftrightarrow> tv_tenant v = tn \<and> tv_treeflow v = i \<and> tv_version v = ver"

definition publish_version ::
  "tree_files \<Rightarrow> time \<Rightarrow> tenant \<Rightarrow> string \<Rightarrow> tree_cache \<Rightarrow> db \<Rightarrow> (pyexn + treeflow_version \<times> db) \<times> tree_cache" where
  "publish_version F now tn i c d =
     (case load_tree F (tn_slug tn) i c of
        (Inl e, c1) \<Rightarrow> (Inl e, c1)
      | (Inr tf, c1) \<Rightarrow>
          (bindE (raw_yaml F (tn_slug tn) i) (\<lambda>raw.
             let digest = fs_sha256 F raw in
             case find (published (tn_id tn) i (f1_version tf)) (db_versions d) of
               Some v \<Rightarrow>
                 if tv_hash v \<noteq> digest then Inl (ValueError ''already published with a different hash'') else Inr (v, d)
             | None \<Rightarrow>
                 let v = \<lparr>tv_id = db_next d, tv_tenant = tn_id tn, tv_treeflow = i, tv_version = f1_version tf,
                          tv_hash = digest, tv_yaml = raw, tv_created = now\<rparr>
                 in Inr (v, d\<lparr>db_versions := db_versions d @ [v], db_next := db_next d + 1\<rparr>)), c1))"

definition latest_version :: "uuid \<Rightarrow> string \<Rightarrow> db \<Rightarrow> treeflow_version option" where
  "latest_version tn i d = first_max tv_created (\<lambda>v. tv_tenant v = tn \<and> tv_treeflow v = i) (db_versions d)"

definition create_talkflow :: "tenant \<Rightarrow> uuid \<Rightarrow> string \<Rightarrow> legacy_db \<Rightarrow> pyexn + talkflow \<times> legacy_db" where
  "create_talkflow tn lead_id i d =
     (case latest_version (tn_id tn) i (lg_db d) of
        None \<Rightarrow> Inl (ValueError ''no published versions'')
      | Some v \<Rightarrow>
          (case find (\<lambda>t. wf_tenant t = tn_id tn \<and> wf_lead t = lead_id) (lg_talkflows d) of
             Some t \<Rightarrow> Inr (t, d)
           | None \<Rightarrow>
               let t = \<lparr>wf_id = db_next (lg_db d), wf_tenant = tn_id tn, wf_lead = lead_id, wf_version = tv_id v,
                        wf_status = FlowActive, wf_agent_at = None, wf_lead_at = None, wf_attempt = 0\<rparr>
               in Inr (t, (on_db (\<lambda>e. e\<lparr>db_next := db_next e + 1\<rparr>) d)\<lparr>lg_talkflows := lg_talkflows d @ [t]\<rparr>)))"

subsection \<open>Assignment through the API\<close>

definition queued_of :: "uuid \<Rightarrow> db \<Rightarrow> inbound list" where
  "queued_of l d = filter (\<lambda>m. in_lead m = Some l \<and> in_status m = Queued) (db_inbound d)"

definition find_tenant :: "string \<Rightarrow> db \<Rightarrow> tenant reply" where
  "find_tenant slug d =
     (case find (\<lambda>t. tn_slug t = slug) (db_tenants d) of None \<Rightarrow> HttpError 404 ''tenant not found'' | Some t \<Rightarrow> Reply t)"

definition newest_lead_first :: "lead list \<Rightarrow> lead list" where
  "newest_lead_first ls = sort_key (\<lambda>l. - ld_created l) ls"

definition list_pending_leads :: "string \<Rightarrow> db \<Rightarrow> (lead \<times> nat) list reply" where
  "list_pending_leads slug d =
     (case find_tenant slug d of
        Reply _ \<Rightarrow> Reply (map (\<lambda>l. (l, length (queued_of (ld_id l) d)))
                     (newest_lead_first (filter (\<lambda>l. ld_status l = PendingAssignment) (db_leads d))))
      | HttpError s m \<Rightarrow> HttpError s m
      | Crashed e \<Rightarrow> Crashed e)"

text \<open>The part that both routes share: from the lead row to the commit and the job.\<close>

definition activate_lead :: "uuid \<Rightarrow> legacy_db \<Rightarrow> legacy_db" where
  "activate_lead i = on_db (\<lambda>e. e\<lparr>db_leads := update_where (\<lambda>l. ld_id l = i) (\<lambda>l. l\<lparr>ld_status := LeadActive\<rparr>) (db_leads e)\<rparr>)"

definition assign_found ::
  "tenant \<Rightarrow> lead option \<Rightarrow> string \<Rightarrow> legacy_db \<times> (uuid \<times> uuid) list \<Rightarrow> talkflow reply \<times> legacy_db \<times> (uuid \<times> uuid) list" where
  "assign_found tn found i = (\<lambda>(d, jobs).
     case found of
       None \<Rightarrow> (HttpError 404 ''lead not found'', d, jobs)
     | Some l \<Rightarrow>
         if ld_status l \<noteq> PendingAssignment then (HttpError 409 ''not pending_assignment'', d, jobs)
         else (case create_talkflow tn (ld_id l) i d of
                 Inl e \<Rightarrow> (Crashed e, d, jobs)
               | Inr (t, d1) \<Rightarrow> (Reply t, activate_lead (ld_id l) d1, jobs @ [(tn_id tn, ld_id l)])))"

definition assign_lead ::
  "string \<Rightarrow> uuid \<Rightarrow> string \<Rightarrow> legacy_db \<times> (uuid \<times> uuid) list \<Rightarrow> (uuid \<times> nat) reply \<times> legacy_db \<times> (uuid \<times> uuid) list" where
  "assign_lead slug i tree w =
     (case find_tenant slug (lg_db (fst w)) of
        Reply tn \<Rightarrow>
          (case assign_found tn (find_row ld_id i (db_leads (lg_db (fst w)))) tree w of
             (Reply t, d', jobs) \<Rightarrow> (Reply (wf_id t, length (queued_of i (lg_db d'))), d', jobs)
           | (HttpError s m, w') \<Rightarrow> (HttpError s m, w')
           | (Crashed e, w') \<Rightarrow> (Crashed e, w'))
      | HttpError s m \<Rightarrow> (HttpError s m, w)
      | Crashed e \<Rightarrow> (Crashed e, w))"

subsection \<open>Assignment through the web console\<close>

definition format_lead_display :: "lead \<Rightarrow> string" where
  "format_lead_display l =
     (let number = str_or (ld_e164 l) []; digits = dropWhile (\<lambda>c. c = CHR ''+'') number in
      if number \<noteq> []
      then (if 12 \<le> length digits \<and> take 2 digits = ''55''
            then ''+'' @ take 2 digits @ '' '' @ take 2 (drop 2 digits) @ '' '' @ take 5 (drop 4 digits) @ ''-'' @ take 4 (drop 9 digits)
            else number)
      else if str_or (ld_label l) [] \<noteq> [] then str_or (ld_label l) []
      else ''#'' @ take 8 (str_nat (ld_id l)))"

text \<open>The preview is cut after 77 characters, and the flag stands for the ellipsis put behind them.\<close>

definition preview_text :: "string \<Rightarrow> string \<times> bool" where
  "preview_text s = (let t = strip s in if 80 < length t then (take 77 t, True) else (t, False))"

record pending_row =
  pr_lead :: uuid
  pr_label :: string
  pr_queued :: nat
  pr_preview :: "(string \<times> bool) option"

definition pending_row_of :: "db \<Rightarrow> lead \<Rightarrow> pending_row" where
  "pending_row_of d l =
     \<lparr>pr_lead = ld_id l, pr_label = format_lead_display l, pr_queued = length (queued_of (ld_id l) d),
      pr_preview = map_option (\<lambda>m. preview_text (in_text m))
        (first_min in_received (\<lambda>m. in_lead m = Some (ld_id l) \<and> in_status m = Queued) (db_inbound d))\<rparr>"

definition list_pending_lead_rows :: "uuid \<Rightarrow> db \<Rightarrow> pending_row list" where
  "list_pending_lead_rows tn d =
     map (pending_row_of d)
       (newest_lead_first (filter (\<lambda>l. ld_tenant l = tn \<and> ld_status l = PendingAssignment) (db_leads d)))"

definition own_row :: "tenant \<Rightarrow> uuid \<Rightarrow> db \<Rightarrow> lead option" where
  "own_row tn i d = find (\<lambda>l. ld_id l = i \<and> ld_tenant l = tn_id tn) (db_leads d)"

datatype detail_page =
    AlreadyAssigned
  | LeadDetail lead string "string list" "string list"

definition lead_detail_partial :: "tree_files \<Rightarrow> tenant \<Rightarrow> uuid \<Rightarrow> db \<Rightarrow> detail_page reply" where
  "lead_detail_partial F tn i d =
     (case own_row tn i d of
        None \<Rightarrow> HttpError 404 ''lead not found in this tenant''
      | Some l \<Rightarrow>
          if ld_status l \<noteq> PendingAssignment then Reply AlreadyAssigned
          else Reply (LeadDetail l (format_lead_display l)
                 (map in_text (sort_key in_received (queued_of (ld_id l) d))) (sort (fs_names F (tn_slug tn)))))"

definition lead_assign ::
  "web_env \<Rightarrow> directory \<Rightarrow> int \<Rightarrow> string option \<Rightarrow> string \<Rightarrow> uuid \<Rightarrow> string \<Rightarrow> legacy_db \<times> (uuid \<times> uuid) list \<Rightarrow>
   pending_row list reply \<times> legacy_db \<times> (uuid \<times> uuid) list" where
  "lead_assign W D now cookie slug i tree w =
     (case require_tenant_access W D now cookie slug of
        Reply (tn, _) \<Rightarrow>
          (case assign_found tn (own_row tn i (lg_db (fst w))) tree w of
             (Reply _, d', jobs) \<Rightarrow> (Reply (list_pending_lead_rows (tn_id tn) (lg_db d')), d', jobs)
           | (HttpError s m, w') \<Rightarrow> (HttpError s m, w')
           | (Crashed e, w') \<Rightarrow> (Crashed e, w'))
      | HttpError s m \<Rightarrow> (HttpError s m, w)
      | Crashed e \<Rightarrow> (Crashed e, w))"

subsection \<open>Publishing\<close>

lemma find_snoc_None: "find P xs = None \<Longrightarrow> P x \<Longrightarrow> find P (xs @ [x]) = Some x"
  by (induction xs) (auto split: if_splits)

lemma publish_cases:
  assumes "publish_version F now tn i c d = (Inr (v, d'), c')"
  obtains tf raw where "load_tree F (tn_slug tn) i c = (Inr tf, c')" "raw_yaml F (tn_slug tn) i = Inr raw"
      "find (published (tn_id tn) i (f1_version tf)) (db_versions d) = Some v" "tv_hash v = fs_sha256 F raw" "d' = d"
    | tf raw where "load_tree F (tn_slug tn) i c = (Inr tf, c')" "raw_yaml F (tn_slug tn) i = Inr raw"
      "find (published (tn_id tn) i (f1_version tf)) (db_versions d) = None"
      "v = \<lparr>tv_id = db_next d, tv_tenant = tn_id tn, tv_treeflow = i, tv_version = f1_version tf, tv_hash = fs_sha256 F raw,
            tv_yaml = raw, tv_created = now\<rparr>"
      "d' = d\<lparr>db_versions := db_versions d @ [v], db_next := db_next d + 1\<rparr>"
  using assms by (auto simp: publish_version_def bindE_def Let_def split: prod.splits sum.splits option.splits if_splits)

lemma load_tree_cached: "load_tree F slug i c = (Inr tf, c') \<Longrightarrow> c' (slug, i) = Some tf"
  by (auto simp: load_tree_def reload_tree_def split: option.splits sum.splits)

lemma load_tree_fresh:
  assumes "load_tree F slug i c = (Inr tf, c')" and "c (slug, i) = None"
  shows "read_tree F slug i = Inr tf"
  using assms by (auto simp: load_tree_def reload_tree_def split: sum.splits)

text \<open>
  C31: Publishing a tree and reading it back: with a fresh loader the version row holds the text of the
  file, which parses to a valid tree of the version it is stored under; published rows are never
  changed; and publishing the same file again, with the cache it left, returns the row it stored.
\<close>

theorem publish_roundtrip:
  assumes "publish_version F now tn i c d = (Inr (v, d'), c')" and "c (tn_slug tn, i) = None" and "v \<notin> set (db_versions d)"
  shows "(\<exists>tf. parse_tree F (tv_yaml v) = Inr tf \<and> treeflow_v1_valid (fs_ext F) tf \<and> f1_version tf = tv_version v \<and>
      fs_text F (tn_slug tn) i = Some (tv_yaml v)) \<and>
    db_versions d' = db_versions d @ [v] \<and>
    publish_version F later tn i c' d' = (Inr (v, d'), c')"
  using assms(1)
proof (cases rule: publish_cases)
  case (1 tf raw)
  then show ?thesis using assms(3) by (auto simp: find_Some_iff)
next
  case (2 tf raw)
  have read: "parse_tree F raw = Inr tf"
    using load_tree_fresh [OF 2(1) assms(2)] 2(2) by (simp add: read_tree_def bindE_def)
  then have valid: "treeflow_v1_valid (fs_ext F) tf"
    by (auto simp: parse_tree_def model_validate_def split: option.splits if_splits)
  have raw: "fs_text F (tn_slug tn) i = Some raw" using 2(2) by (auto simp: raw_yaml_def split: option.splits)
  have v: "tv_yaml v = raw" "tv_version v = f1_version tf" "tv_hash v = fs_sha256 F raw"
    and d': "db_versions d' = db_versions d @ [v]"
    using 2(4,5) by simp_all
  have "find (published (tn_id tn) i (f1_version tf)) (db_versions d') = Some v"
    unfolding d' by (rule find_snoc_None [OF 2(3)]) (simp add: 2(4) published_def)
  then have "publish_version F later tn i c' d' = (Inr (v, d'), c')"
    using load_tree_cached [OF 2(1)] 2(2) v(3) by (simp add: publish_version_def load_tree_def bindE_def Let_def)
  then show ?thesis using read valid raw v d' by auto
qed

subsection \<open>Assigning\<close>

lemma create_talkflow_cases:
  assumes "create_talkflow tn l i d = Inr (t, d')"
  obtains v where "latest_version (tn_id tn) i (lg_db d) = Some v" "t \<in> set (lg_talkflows d')" "wf_tenant t = tn_id tn" "wf_lead t = l"
    "lg_talkflows d' = lg_talkflows d \<or> lg_talkflows d' = lg_talkflows d @ [t] \<and> wf_version t = tv_id v \<and> wf_status t = FlowActive"
    "lg_jobs d' = lg_jobs d" "\<exists>n. lg_db d' = (lg_db d)\<lparr>db_next := n\<rparr>"
proof -
  obtain v where v: "latest_version (tn_id tn) i (lg_db d) = Some v"
    using assms by (auto simp: create_talkflow_def split: option.splits)
  show thesis
  proof (cases "find (\<lambda>t. wf_tenant t = tn_id tn \<and> wf_lead t = l) (lg_talkflows d)")
    case None
    then have "t = \<lparr>wf_id = db_next (lg_db d), wf_tenant = tn_id tn, wf_lead = l, wf_version = tv_id v,
        wf_status = FlowActive, wf_agent_at = None, wf_lead_at = None, wf_attempt = 0\<rparr>"
      "d' = (on_db (\<lambda>e. e\<lparr>db_next := db_next e + 1\<rparr>) d)\<lparr>lg_talkflows := lg_talkflows d @ [t]\<rparr>"
      using assms v by (auto simp: create_talkflow_def Let_def)
    then show thesis by (intro that [OF v]) (auto simp: on_db_def)
  next
    case (Some t')
    then have "t' = t" "d' = d" using assms v by (auto simp: create_talkflow_def)
    moreover have "\<exists>n. lg_db d = (lg_db d)\<lparr>db_next := n\<rparr>" by (rule exI [of _ "db_next (lg_db d)"]) simp
    ultimately show thesis using Some by (intro that [OF v]) (auto simp: find_Some_iff)
  qed
qed

lemma assign_found_cases:
  assumes "assign_found tn found i (d, jobs) = (Reply t, d', jobs')"
  obtains l d1 where "found = Some l" "ld_status l = PendingAssignment" "create_talkflow tn (ld_id l) i d = Inr (t, d1)"
    "d' = activate_lead (ld_id l) d1" "jobs' = jobs @ [(tn_id tn, ld_id l)]"
  using assms by (auto simp: assign_found_def split: option.splits if_splits sum.splits prod.splits)

lemma assign_found_refused:
  "assign_found tn found i w = (HttpError s m, w') \<Longrightarrow> w' = w"
  "assign_found tn found i w = (Crashed e, w') \<Longrightarrow> w' = w"
  by (auto simp: assign_found_def split: option.splits if_splits sum.splits prod.splits)


lemma own_row_find:
  assumes "distinct (map ld_id (db_leads d))" and "find_row ld_id i (db_leads d) = Some l" and "ld_tenant l = tn_id tn"
  shows "own_row tn i d = Some l"
proof -
  have l: "l \<in> set (db_leads d)" "ld_id l = i" using find_row_Some [OF assms(2)] by simp_all
  obtain l' where l': "own_row tn i d = Some l'"
    using l assms(3) by (cases "own_row tn i d") (auto simp: own_row_def find_None_iff)
  then have "l' \<in> set (db_leads d)" "ld_id l' = i" by (auto simp: own_row_def find_Some_iff)
  then have "l' = l" using l assms(1) by (auto simp: distinct_map inj_on_def)
  then show ?thesis using l' by simp
qed

text \<open>
  For a lead of the tenant the route of the API and the form of the console have the same effect on
  the database and the queue, and they succeed together.
\<close>

theorem assign_routes_agree:
  assumes "find_tenant slug (lg_db d) = Reply tn" and "require_tenant_access W D now cookie slug = Reply (tn, u)"
    and "distinct (map ld_id (db_leads (lg_db d)))"
    and "find_row ld_id i (db_leads (lg_db d)) = Some l" and "ld_tenant l = tn_id tn"
  shows "snd (lead_assign W D now cookie slug i tree (d, jobs)) = snd (assign_lead slug i tree (d, jobs)) \<and>
    ((\<exists>rows. fst (lead_assign W D now cookie slug i tree (d, jobs)) = Reply rows) \<longleftrightarrow>
     (\<exists>r. fst (assign_lead slug i tree (d, jobs)) = Reply r))"
  using own_row_find [OF assms(3-5)] assms(1,2,4)
  by (auto simp: lead_assign_def assign_lead_def split: reply.splits prod.splits)

subsection \<open>A pending lead of one of two tenants\<close>

definition sample_trees :: tree_files where
  "sample_trees =
     \<lparr>fs_ext = sample_ext\<lparr>yaml_load := (\<lambda>s. Some (JStr s))\<rparr>, fs_reader = (\<lambda>_. Some sample_v1_tree),
      fs_text = (\<lambda>slug i. if i = ''funil'' then Some ''id: funil'' else None), fs_names = (\<lambda>_. [''funil'']),
      fs_sha256 = (\<lambda>s. s)\<rparr>"

definition pending_legacy :: legacy_db where
  "pending_legacy =
     \<lparr>lg_db = sample_db\<lparr>db_tenants := dr_tenants sample_directory,
        db_versions := [sample_version, sample_version\<lparr>tv_id := 8, tv_tenant := 9\<rparr>],
        db_leads := [sample_lead\<lparr>ld_status := PendingAssignment\<rparr>]\<rparr>,
      lg_talkflows = [], lg_jobs = []\<rparr>"

definition assigned :: "(uuid \<times> nat) reply \<times> legacy_db \<times> (uuid \<times> uuid) list" where
  "assigned = assign_lead ''avelum'' 3 ''captacao'' (pending_legacy, [])"

definition sample_cookie :: string where
  "sample_cookie = (case sign_session_cookie sample_web 1000 6 of Inr c \<Rightarrow> c | Inl _ \<Rightarrow> [])"

theorem publish_roundtrip_witness:
  "\<exists>v d' c'. publish_version sample_trees 7 sample_tenant ''funil'' (\<lambda>_. None) sample_db = (Inr (v, d'), c') \<and>
     publish_version sample_trees 9 sample_tenant ''funil'' c' d' = (Inr (v, d'), c')"
proof -
  have "map_sum id (\<lambda>(v, d). v \<in> set (db_versions sample_db))
      (fst (publish_version sample_trees 7 sample_tenant ''funil'' (\<lambda>_. None) sample_db)) = Inr False"
    by code_simp
  then obtain v d' c' where p: "publish_version sample_trees 7 sample_tenant ''funil'' (\<lambda>_. None) sample_db = (Inr (v, d'), c')"
      and v: "v \<notin> set (db_versions sample_db)"
    by (cases "publish_version sample_trees 7 sample_tenant ''funil'' (\<lambda>_. None) sample_db")
      (auto simp: map_sum_def split: sum.splits)
  then show ?thesis using publish_roundtrip [OF p _ v, of 9] by blast
qed

lemma assigned_result: "assigned = (Reply (10, 1), snd assigned)"
proof -
  have "fst assigned = Reply (10, 1)" by code_simp
  then show ?thesis by (metis prod.collapse)
qed


theorem assign_routes_agree_witness:
  "snd (lead_assign sample_web sample_directory 2000 (Some sample_cookie) ''avelum'' 3 ''captacao'' (pending_legacy, [])) = snd assigned"
proof -
  have 1: "find_tenant ''avelum'' (lg_db pending_legacy) = Reply (hd (dr_tenants sample_directory))"
    by code_simp
  have 2: "require_tenant_access sample_web sample_directory 2000 (Some sample_cookie) ''avelum'' =
      Reply (hd (dr_tenants sample_directory), hd (dr_users sample_directory))"
    by code_simp
  have 3: "distinct (map ld_id (db_leads (lg_db pending_legacy)))"
    "find_row ld_id 3 (db_leads (lg_db pending_legacy)) = Some (sample_lead\<lparr>ld_status := PendingAssignment\<rparr>)"
    "ld_tenant (sample_lead\<lparr>ld_status := PendingAssignment\<rparr>) = tn_id (hd (dr_tenants sample_directory))"
    by code_simp+
  show ?thesis
    using assign_routes_agree [OF 1 2 3, of "''captacao''" "[]"] by (simp add: assigned_def)
qed

text \<open>
  The API does not compare the tenant of the lead with the tenant of its path: another tenant sees the
  pending lead in its list and can assign it to a conversation of its own, after which the tenant that
  owns the lead is refused.  The form of the console answers 404 there.
\<close>

theorem assign_foreign_lead:
  "let (r, w) = assign_lead ''outro'' 3 ''captacao'' (pending_legacy, [])
   in r = Reply (10, 1) \<and> map (\<lambda>t. (wf_tenant t, wf_lead t)) (lg_talkflows (fst w)) = [(9, 3)] \<and> snd w = [(9, 3)] \<and>
      map ld_tenant (db_leads (lg_db (fst w))) = [1] \<and>
      fst (assign_lead ''avelum'' 3 ''captacao'' w) = HttpError 409 ''not pending_assignment'' \<and>
      (case list_pending_leads ''outro'' (lg_db pending_legacy) of Reply ls \<Rightarrow> map (ld_tenant \<circ> fst) ls = [1] | _ \<Rightarrow> False) \<and>
      own_row (hd (tl (dr_tenants sample_directory))) 3 (lg_db pending_legacy) = None"
  by code_simp

end
