(* ===== verification/System.thy ===== *)
theory System
  imports Pipeline_Laws Scan_Talks Console_Inbox Worker_Snapshot Webhook
begin

text \<open>
  The components on one database.  A step is what one transaction of one of them commits: the
  preprocessing of a turn and the turn itself (which \<open>run_turn\<close> commits separately), the closing of a talk
  by the scan, the review of a talk without its tree, a change of the handling mode by an operator, an
  operator's message, a webhook delivery, the bookkeeping of the inbox, and an action's job.  Steps of
  different components follow each other in any order.
\<close>

subsection \<open>The step relation\<close>

text \<open>
  \<open>trees\<close> are the loaded trees of the published versions.  The worker runs a turn on the tree of the
  lead's open talk (\<open>run_v2_inbox\<close>), which is the premise on the version of the talk; the lead, the
  message and the identity of the talk may stem from an older state of the database.  That the talk is
  still open when the turn gets its lock is a premise that the code does not check; see
  \<open>turn_reopens_scanned_talk\<close> below.
\<close>

inductive sys_step :: "ext \<Rightarrow> (uuid \<Rightarrow> treeflow option) \<Rightarrow> ('l, 'a) world \<Rightarrow> ('l, 'a) world \<Rightarrow> bool"
  for E :: ext and trees :: "uuid \<Rightarrow> treeflow option"
where
  preprocess:
    "resolve_pipeline_context now tn tf ver kws m (w_db w) = Inr (d', cx) \<Longrightarrow> trees (tv_id ver) = Some tf \<Longrightarrow>
     sys_step E trees w (w\<lparr>w_db := d'\<rparr>)"
| turn:
    "te_ext env = E \<Longrightarrow> locked_turn env l i m w = (Inr res, w') \<Longrightarrow> find_row tk_id i (db_talks (w_db w)) = Some t \<Longrightarrow>
     \<not> is_closed (tk_status t) \<Longrightarrow> trees (tk_version t) = Some (te_treeflow env) \<Longrightarrow> sys_step E trees w w'"
| turn_fails:
    "locked_turn env l i m w = (Inl e, w') \<Longrightarrow> sys_step E trees w (w'\<lparr>w_db := w_db w\<rparr>)"
| scan:
    "lock_talk i locked (w_db w) = Some t \<Longrightarrow> s = ClosedInactivity \<or> s = ClosedDuration \<Longrightarrow>
     sys_step E trees w (w\<lparr>w_db := put_talk (scan_close now s t) (w_db w)\<rparr>)"
| review:
    "sys_step E trees w (w\<lparr>w_db := skip_for_review now l (find_active_for_lead tn (ld_id l) (w_db w)) detail reason (w_db w)\<rparr>)"
| mode:
    "switch_mode tn i old new operator (w_db w) = Some d' \<Longrightarrow> sys_step E trees w (w\<lparr>w_db := d'\<rparr>)"
| operator:
    "insert_outbound row (w_db w) = Some (ob, d') \<Longrightarrow> sys_step E trees w (w\<lparr>w_db := d'\<rparr>)"
| webhook:
    "webhook_ingest reg now slug provider body headers (w_db w) = (reply, d') \<Longrightarrow> sys_step E trees w (w\<lparr>w_db := d'\<rparr>)"
| inbox:
    "sys_step E trees w (w\<lparr>w_db := put_inbound m (w_db w)\<rparr>)"
| action:
    "execute_action exn_str cfg registry i (w_db w, w_ad w) = (res, d', a') \<Longrightarrow>
     sys_step E trees w (w\<lparr>w_db := d', w_ad := a'\<rparr>)"

inductive_cases sys_stepE: "sys_step E trees w w'"

text \<open>Well-formed tables, with the state of every talk fitting the tree of its version.\<close>

definition sys_wf :: "(uuid \<Rightarrow> treeflow option) \<Rightarrow> db \<Rightarrow> bool" where
  "sys_wf trees d \<longleftrightarrow>
     talks_wf d \<and> one_open_talk d \<and> actions_wf d \<and> (\<forall>t \<in> set (db_talks d). talk_sound t) \<and>
     (\<forall>v tf. trees v = Some tf \<longrightarrow> tables_wf tf v d)"

definition trees_wf :: "ext \<Rightarrow> (uuid \<Rightarrow> treeflow option) \<Rightarrow> bool" where
  "trees_wf E trees \<longleftrightarrow> (\<forall>v tf. trees v = Some tf \<longrightarrow> treeflow_wf E tf)"

lemma sys_wf_intro:
  assumes "trees v = Some tf" and "\<And>v tf. trees v = Some tf \<Longrightarrow> tables_wf tf v d"
  shows "sys_wf trees d"
  using assms unfolding sys_wf_def tables_wf_def by blast

text \<open>Tables that agree on talks and states, with sound actions.\<close>

lemma sys_wf_cong:
  assumes "sys_wf trees d" and "db_talks d' = db_talks d" "db_states d' = db_states d" "actions_wf d'" "db_next d \<le> db_next d'"
  shows "sys_wf trees d'"
proof -
  have "tables_wf tf v d'" if "trees v = Some tf" for v tf
    using tables_cong [OF _ assms(2-5)] assms(1) that by (simp add: sys_wf_def)
  moreover have "talks_wf d'" "one_open_talk d'" "\<forall>t \<in> set (db_talks d'). talk_sound t"
    using assms unfolding sys_wf_def talks_wf_def one_open_talk_all open_talks_def by (auto intro: less_le_trans)
  ultimately show ?thesis using assms(4) by (simp add: sys_wf_def)
qed

lemma sys_wf_same_actions:
  assumes "sys_wf trees d" and "db_talks d' = db_talks d" "db_states d' = db_states d" "db_actions d' = db_actions d" "db_next d \<le> db_next d'"
  shows "sys_wf trees d'"
  by (rule sys_wf_cong [OF assms(1-3) _ assms(5)])
    (use assms(1,4,5) in \<open>auto simp: sys_wf_def actions_wf_def intro: less_le_trans\<close>)

text \<open>
  One talk is rewritten: its key columns stay, it stays sound, and it is open afterwards only if it was
  open before.
\<close>

definition rewritten :: "talk \<Rightarrow> talk \<Rightarrow> bool" where
  "rewritten t t' \<longleftrightarrow>
     tk_id t' = tk_id t \<and> tk_tenant t' = tk_tenant t \<and> tk_lead t' = tk_lead t \<and> tk_version t' = tk_version t \<and>
     talk_sound t' \<and> (is_closed (tk_status t) \<longrightarrow> is_closed (tk_status t'))"

lemma open_after_rewrite:
  assumes "\<And>t. t \<in> set ts \<Longrightarrow> rewritten t (f t)"
  shows "length (filter (\<lambda>t. tk_tenant t = tn \<and> tk_lead t = l \<and> tk_status t \<in> set active_statuses) (map f ts)) \<le>
    length (filter (\<lambda>t. tk_tenant t = tn \<and> tk_lead t = l \<and> tk_status t \<in> set active_statuses) ts)"
  using assms by (induction ts) (auto simp: rewritten_def is_open_iff)

lemma sys_wf_rewrite:
  assumes wf: "sys_wf trees d" and f: "\<And>t. t \<in> set (db_talks d) \<Longrightarrow> rewritten t (f t)"
    and d': "db_talks d' = map f (db_talks d)" "db_states d' = db_states d" "db_actions d' = db_actions d" "db_next d' = db_next d"
  shows "sys_wf trees d'"
proof -
  have ids: "map tk_id (db_talks d') = map tk_id (db_talks d)"
    unfolding d'(1) using f by (simp add: rewritten_def)
  then have idset: "tk_id ` set (db_talks d') = tk_id ` set (db_talks d)" by (metis list.set_map)
  have below: "tk_id t < db_next d" if "t \<in> set (db_talks d')" for t
  proof -
    have "tk_id t \<in> tk_id ` set (db_talks d)" using that idset by (metis imageI)
    then show ?thesis using wf by (auto simp: sys_wf_def talks_wf_def)
  qed
  have talks: "talks_wf d'"
    unfolding talks_wf_def ids idset d'(2,4) using wf below by (simp add: sys_wf_def talks_wf_def)
  have one: "one_open_talk d'"
    using wf open_after_rewrite [OF f] unfolding sys_wf_def one_open_talk_all open_talks_def d'(1) by (meson le_trans)
  have acts: "actions_wf d'" using wf by (simp add: sys_wf_def actions_wf_def d')
  have sound: "\<forall>t \<in> set (db_talks d'). talk_sound t" using f by (auto simp: d' rewritten_def)
  have "tables_wf tf v d'" if v: "trees v = Some tf" for v tf
  proof -
    have "state_wf tf s" if m: "t \<in> set (db_talks d')" "s \<in> set (db_states d')" "tk_version t = v" "st_talk s = tk_id t" for t s
    proof -
      obtain t0 where "t0 \<in> set (db_talks d)" "t = f t0" using m(1) by (auto simp: d')
      then have "tk_version t0 = v" "st_talk s = tk_id t0" using f [of t0] m(3,4) by (simp_all add: rewritten_def)
      then show ?thesis using wf v m(2) \<open>t0 \<in> set (db_talks d)\<close> by (auto simp: sys_wf_def tables_wf_def d')
    qed
    then show ?thesis using talks one acts sound by (simp add: tables_wf_def)
  qed
  then show ?thesis using talks one acts sound by (simp add: sys_wf_def)
qed

subsection \<open>Every step keeps the tables well-formed\<close>

lemma update_where_map: "update_where p g rows = map (\<lambda>r. if p r then g r else r) rows"
  by (simp add: update_where_def)

lemma sys_wf_put_talk:
  assumes wf: "sys_wf trees d" and t: "t \<in> set (db_talks d)" and t': "rewritten t t'"
  shows "sys_wf trees (put_talk t' d)"
proof (rule sys_wf_rewrite [OF wf])
  let ?f = "\<lambda>r. if tk_id r = tk_id t' then t' else r"
  show "db_talks (put_talk t' d) = map ?f (db_talks d)" by (simp add: put_talk_talks update_where_map)
  have "r = t" if "r \<in> set (db_talks d)" "tk_id r = tk_id t'" for r
    using that t t' wf by (auto simp: sys_wf_def talks_wf_def distinct_map inj_on_def rewritten_def)
  moreover have "rewritten r r" if "r \<in> set (db_talks d)" for r
    using wf that by (simp add: rewritten_def sys_wf_def)
  ultimately show "rewritten r (?f r)" if "r \<in> set (db_talks d)" for r using that t' by auto
qed (simp_all add: put_talk_frame)

lemma scan_close_rewritten:
  assumes "talk_sound t" and "\<not> is_closed (tk_status t)" and "s = ClosedInactivity \<or> s = ClosedDuration"
  shows "rewritten t (scan_close now s t)"
  using assms by (auto simp: rewritten_def scan_close_def talk_sound_def talk_wf_def is_closed_def)

lemma skip_for_review_wf:
  assumes wf: "sys_wf trees d"
  shows "sys_wf trees (skip_for_review now l (find_active_for_lead tn (ld_id l) d) detail reason d)"
proof -
  have "sys_wf trees (mark_queued_as_skipped i reason d)" if "sys_wf trees d" for i d
    by (rule sys_wf_same_actions [OF that]) (simp_all add: mark_queued_as_skipped_def)
  moreover have "sys_wf trees (put_talk (escalate now TreeflowVersionMissing msg t) d)"
    if "find_active_for_lead tn (ld_id l) d = Some t" for t msg
  proof -
    have t: "t \<in> set (db_talks d)" "\<not> is_closed (tk_status t)"
      using first_max_Some [OF that [unfolded find_active_for_lead_def]] by (simp_all add: is_open_iff)
    show ?thesis
      by (rule sys_wf_put_talk [OF wf t(1)])
        (use t(2) escalate_same [where t = t and now = now and r = TreeflowVersionMissing and m = msg] in \<open>simp add: rewritten_def same_talk_def\<close>)
  qed
  ultimately show ?thesis using wf by (simp add: skip_for_review_def split: option.split)
qed

lemma switch_mode_wf:
  assumes wf: "sys_wf trees d" and sw: "switch_mode tn i old new operator d = Some d'"
  shows "sys_wf trees d'"
proof (rule sys_wf_rewrite [OF wf])
  let ?f = "\<lambda>t. if tk_id t = i \<and> tk_tenant t = tn_id tn \<and> tk_mode t = old then t\<lparr>tk_mode := new, tk_operator := operator\<rparr> else t"
  show "db_talks d' = map ?f (db_talks d)" "db_states d' = db_states d" "db_actions d' = db_actions d" "db_next d' = db_next d"
    using sw by (auto simp: switch_mode_def update_where_map Let_def split: if_splits)
  show "rewritten t (?f t)" if "t \<in> set (db_talks d)" for t
    using wf that by (simp add: rewritten_def sys_wf_def talk_sound_def talk_wf_def)
qed

lemma ingest_keeps_conversations:
  "ingest_all now tn p ms (d, ls) = Inr (d', ls') \<Longrightarrow>
   db_talks d' = db_talks d \<and> db_states d' = db_states d \<and> db_actions d' = db_actions d \<and> db_next d \<le> db_next d'"
proof (induction ms arbitrary: d ls)
  case (Cons m ms)
  then obtain d1 q l where m: "ingest_inbound_message now tn p m d = Inr (d1, q, l)"
      and rest: "\<exists>ls1. ingest_all now tn p ms (d1, ls1) = Inr (d', ls')"
    by (auto simp: bindE_def split: sum.splits prod.splits)
  obtain d0 ld where f: "find_or_create_lead_by_address now tn p (im_from m) d = Inr (d0, ld)"
      and d1: "d1 = fst (insert_inbound (inbound_row now tn p (ld_id ld) m) d0)"
    using m by (rule ingest_decompose)
  have "db_talks d0 = db_talks d \<and> db_states d0 = db_states d \<and> db_actions d0 = db_actions d \<and> db_next d \<le> db_next d0"
    using f by (auto simp: find_or_create_lead_by_address_def Let_def insert_lead_def bindE_def split: if_splits option.splits sum.splits prod.splits)
  moreover have "db_talks d1 = db_talks d0 \<and> db_states d1 = db_states d0 \<and> db_actions d1 = db_actions d0 \<and> db_next d0 \<le> db_next d1"
    by (simp add: d1 insert_inbound_def)
  ultimately show ?case using rest Cons.IH by fastforce
qed simp

lemma webhook_keeps_conversations:
  assumes "webhook_ingest reg now slug provider body headers d = (reply, d')"
  shows "db_talks d' = db_talks d \<and> db_states d' = db_states d \<and> db_actions d' = db_actions d \<and> db_next d \<le> db_next d'"
proof (cases "d' = d")
  case False
  then obtain tn pe q ms where t: "load_tenant slug d = Some tn" "reg tn provider = Some pe" "pe_inbound pe body headers = Inr (q # ms)"
    using assms unfolding webhook_ingest_def Let_def by (auto split: option.splits sum.splits list.splits if_splits)
  then obtain leads where "ingest_all now (tn_id tn) provider (q # ms) (d, []) = Inr (d', leads)"
    using assms False unfolding webhook_ingest_def Let_def
    by (cases "ingest_all now (tn_id tn) provider (q # ms) (d, [])") (auto simp del: ingest_all.simps)
  then show ?thesis by (rule ingest_keeps_conversations)
qed simp

lemma put_action_wf:
  assumes wf: "actions_wf d" and a: "a \<in> set (db_actions d)" and a': "ax_id a' = ax_id a" "ax_key a' = ax_key a"
  shows "actions_wf (put_action a' d)"
proof -
  let ?f = "\<lambda>r. if ax_id r = ax_id a' then a' else r"
  have rows: "db_actions (put_action a' d) = map ?f (db_actions d)"
    by (simp add: put_action_def update_where_map)
  have "ax_key (?f r) = ax_key r \<and> ax_id (?f r) = ax_id r" if "r \<in> set (db_actions d)" for r
    using that wf a a' by (auto simp: actions_wf_def distinct_map inj_on_def)
  then have maps: "map ax_key (map ?f (db_actions d)) = map ax_key (db_actions d)"
      "map ax_id (map ?f (db_actions d)) = map ax_id (db_actions d)"
    by (simp_all cong: map_cong)
  have "\<forall>r \<in> set (map ?f (db_actions d)). ax_id r < db_next d"
    using wf a a'(1) by (auto simp: actions_wf_def)
  moreover have "db_next (put_action a' d) = db_next d" by (simp add: put_action_def)
  ultimately show ?thesis
    using wf maps unfolding actions_wf_def rows by (metis (no_types))
qed

lemma find_row_mem: "find_row key i rows = Some t \<Longrightarrow> t \<in> set rows \<and> key t = i"
  using find_row_Some by fast

lemma sys_wf_put_action:
  assumes wf: "sys_wf trees d" and r: "find_row ax_id i (db_actions d) = Some r"
    and r': "ax_id r' = ax_id r" "ax_talk r' = ax_talk r" "ax_field r' = ax_field r" "ax_hash r' = ax_hash r"
  shows "sys_wf trees (put_action r' d)"
proof (rule sys_wf_cong [OF wf])
  show "actions_wf (put_action r' d)"
    by (rule put_action_wf [of d r]) (use find_row_mem [OF r] wf r' in \<open>simp_all add: sys_wf_def ax_key_def\<close>)
qed (simp_all add: put_action_def)

lemma execute_action_wf:
  assumes ex: "execute_action exn_str cfg registry i (d, a) = (res, d', a')" and wf: "sys_wf trees d"
  shows "sys_wf trees d'"
proof -
  obtain d1 o1 where m: "mark_executing i d = (d1, o1)" by fastforce
  have d1: "sys_wf trees d1"
    using m wf sys_wf_put_action [OF wf, of i] by (auto simp: mark_executing_def Let_def split: option.splits)
  show ?thesis
    using ex m d1 sys_wf_put_action [OF d1, of i]
    by (auto simp: execute_action_def Let_def mark_failed_def mark_success_def split: option.splits sum.splits prod.splits if_splits)
qed

lemma sys_wf_has_tree:
  assumes "sys_wf trees d" and "trees v = Some tf" and "\<And>v' tf'. trees v' = Some tf' \<Longrightarrow> tables_wf tf' v' d'"
  shows "sys_wf trees d'"
  using assms(2,3) unfolding sys_wf_def tables_wf_def by blast

lemma turn_wf:
  assumes turn: "locked_turn env l i m w = (Inr res, w')" and wf: "sys_wf trees (w_db w)" and trees: "trees_wf (te_ext env) trees"
    and t: "find_row tk_id i (db_talks (w_db w)) = Some t" "\<not> is_closed (tk_status t)" "trees (tk_version t) = Some (te_treeflow env)"
  shows "sys_wf trees (w_db w')"
  using turn
proof (cases rule: locked_turn_cases)
  case (human t' st)
  then show ?thesis using wf by simp
next
  case (ai t' st)
  then have "t' = t" using t(1) by simp
  have "tables_wf tf v (w_db w')" if "trees v = Some tf" for v tf
    by (rule answer_tables [OF ai(4), of tf v "te_ext env" i])
      (use that wf trees t ai \<open>t' = t\<close> find_row_mem [OF t(1)] in \<open>auto simp: sys_wf_def trees_wf_def\<close>)
  then show ?thesis using sys_wf_has_tree wf t(3) by blast
qed

lemma step_wf:
  assumes "sys_step E trees w w'" and "trees_wf E trees" and "sys_wf trees (w_db w)"
  shows "sys_wf trees (w_db w')"
  using assms(1,3)
proof cases
  case (preprocess now tn tf ver kws m d' cx)
  have "tables_wf tf' v' d'" if "trees v' = Some tf'" for v' tf'
    by (rule resolve_tables [OF preprocess(2), of tf' v' E])
      (use that assms(2,3) preprocess(3) in \<open>auto simp: sys_wf_def trees_wf_def\<close>)
  then show ?thesis using sys_wf_has_tree [OF assms(3) preprocess(3)] preprocess(1) by simp
next
  case (turn env l i m res t)
  then show ?thesis using turn_wf assms(2,3) by blast
next
  case (scan i locked t s now)
  then show ?thesis
    using lock_talk_Some [OF scan(2)] sys_wf_put_talk [OF assms(3) _ scan_close_rewritten [of t s now]] assms(3)
    by (auto simp: scannable_def is_closed_def sys_wf_def)
next
  case (mode tn i old new operator d')
  then show ?thesis using switch_mode_wf assms(3) by simp
next
  case (operator row ob d')
  then show ?thesis
    using sys_wf_same_actions [OF assms(3)] by (auto simp: insert_outbound_def Let_def split: if_splits)
next
  case (webhook reg now slug provider body headers reply d')
  then show ?thesis using sys_wf_same_actions [OF assms(3)] webhook_keeps_conversations [OF webhook(2)] by simp
next
  case (inbox m)
  then show ?thesis using sys_wf_same_actions [OF assms(3)] by (simp add: put_inbound_def)
next
  case (action exn_str cfg registry i res d' a')
  then show ?thesis using execute_action_wf assms(3) by simp
qed (simp_all add: skip_for_review_wf)


subsection \<open>Closed talks\<close>

text \<open>The columns of a talk that a change of the handling mode leaves.\<close>

definition same_but_mode :: "talk \<Rightarrow> talk \<Rightarrow> bool" where
  "same_but_mode t t' \<longleftrightarrow> t' = t\<lparr>tk_mode := tk_mode t', tk_operator := tk_operator t'\<rparr>"

definition keeps_closed :: "db \<Rightarrow> db \<Rightarrow> bool" where
  "keeps_closed d d' \<longleftrightarrow>
     (\<forall>t \<in> set (db_talks d). is_closed (tk_status t) \<longrightarrow> (\<exists>t' \<in> set (db_talks d'). same_but_mode t t'))"

lemma same_but_mode_simps [simp]:
  "same_but_mode t t"
  "same_but_mode t t' \<Longrightarrow> tk_status t' = tk_status t"
  by (cases t; cases t'; simp add: same_but_mode_def)+

lemma same_but_mode_switch [simp]: "same_but_mode t (t\<lparr>tk_mode := a, tk_operator := b\<rparr>)"
  by (simp add: same_but_mode_def)

lemma same_but_mode_trans: "same_but_mode a b \<Longrightarrow> same_but_mode b c \<Longrightarrow> same_but_mode a c"
  by (cases a; cases b; cases c) (auto simp: same_but_mode_def)

lemma keeps_closed_trans: "keeps_closed a b \<Longrightarrow> keeps_closed b c \<Longrightarrow> keeps_closed a c"
  unfolding keeps_closed_def by (metis same_but_mode_simps(2) same_but_mode_trans)

lemma keeps_closed_mono: "set (db_talks d) \<subseteq> set (db_talks d') \<Longrightarrow> keeps_closed d d'"
  unfolding keeps_closed_def by (metis same_but_mode_simps(1) subsetD)

text \<open>A change of an open talk.\<close>

lemma keeps_closed_put:
  assumes "talks_wf d" and "t \<in> set (db_talks d)" and "\<not> is_closed (tk_status t)" and "tk_id t' = tk_id t"
  shows "keeps_closed d (put_talk t' d)"
proof -
  have "r \<in> set (db_talks (put_talk t' d))" if r: "r \<in> set (db_talks d)" "is_closed (tk_status r)" for r
  proof -
    have "tk_id r \<noteq> tk_id t'" using assms r unfolding talks_wf_def by (metis distinct_map inj_onD)
    then show ?thesis using r(1) by (force simp: put_talk_talks update_where_map)
  qed
  then show ?thesis unfolding keeps_closed_def by (metis same_but_mode_simps(1))
qed

text \<open>The closed talks after a turn.\<close>

lemma deliver_talks:
  assumes "deliver env l m t st d target w = (Inr r, w')"
  shows "\<exists>t'. tk_id t' = tk_id t \<and> db_talks (w_db w') = db_talks (put_talk t' (w_db w))"
  using assms
proof (cases rule: deliver_cases)
  case (sent tokens rr a d')
  then show ?thesis
    using record_outbound_frame [OF sent(2)] by (intro exI [of _ "t\<lparr>tk_tokens := tokens\<rparr>"]) (simp add: put_talk_talks put_state_frame)
next
  case (voice_failed msg a)
  then show ?thesis
    by (intro exI [of _ "escalate (te_now env) VoiceSynthesisFailed msg t"])
      (auto elim!: send_fallback_cases simp: put_talk_talks put_state_frame escalate_def)
qed

lemma answer_talks:
  assumes an: "answer_turn env l m t st w = (Inr r, w')"
  shows "\<exists>t'. tk_id t' = tk_id t \<and> db_talks (w_db w') = db_talks (put_talk t' (w_db w))"
  using an
proof (cases rule: answer_turn_cases)
  case (exhausted cached fresh d0 s0 msg s1)
  then show ?thesis
    by (intro exI [of _ "escalate (te_now env) ValidatorExhausted msg t"]) (auto elim!: send_fallback_cases simp: escalate_def)
next
  case (answered cached fresh d0 s0 d s1 d' target s2 t' st' d1 q1)
  note fr = apply_decision_frame [OF answered(4)]
  have "db_talks d1 = db_talks (w_db w)" using fr(5) unfolding extends_def by (auto dest: arg_cong [where f = db_talks])
  then show ?thesis using deliver_talks [OF answered(5)] fr by (auto simp: put_talk_talks same_talk_def)
qed

lemma resolve_talks:
  assumes "resolve_pipeline_context now tn tf ver kws m d = Inr (d', cx)" and "talks_wf d"
  shows "set (db_talks d) \<subseteq> set (db_talks d')"
proof -
  obtain d1 where rl: "resolve_lead now tn m d = Inr (d1, px_lead cx)"
    and cs: "d' = d1 \<or> open_talk now tn tf ver m (px_lead cx) d1 = Inr (d', px_talk cx)"
    using resolve_context_cases [OF assms(1)] by blast
  have d1: "db_talks d1 = db_talks d" "talks_wf d1"
    using resolve_lead_frame [OF rl] assms(2) by (auto simp: talks_wf_def intro: less_le_trans)
  from cs show ?thesis
    using open_talk_effect [OF _ d1(2)] d1(1) by auto
qed

lemma step_keeps_closed:
  assumes "sys_step E trees w w'" and "sys_wf trees (w_db w)"
  shows "keeps_closed (w_db w) (w_db w')"
  using assms(1)
proof cases
  case (preprocess now tn tf ver kws m d' cx)
  then show ?thesis using resolve_talks [OF preprocess(2)] assms(2) by (simp add: keeps_closed_mono sys_wf_def)
next
  case (turn env l i m res t)
  from turn(2) show ?thesis
  proof (cases rule: locked_turn_cases)
    case (human t' st)
    then show ?thesis by (simp add: keeps_closed_mono)
  next
    case (ai t' st)
    then obtain t2 where "tk_id t2 = tk_id t'" "db_talks (w_db w') = db_talks (put_talk t2 (w_db w))"
      using answer_talks by blast
    moreover have "keeps_closed (w_db w) (put_talk t2 (w_db w))"
      by (rule keeps_closed_put [of _ t]) (use calculation ai(1) turn find_row_mem [OF turn(3)] assms(2) in \<open>auto simp: sys_wf_def\<close>)
    ultimately show ?thesis by (simp add: keeps_closed_def)
  qed
next
  case (scan i locked t s now)
  then show ?thesis
    using lock_talk_Some [OF scan(2)] keeps_closed_put [of "w_db w" t "scan_close now s t"] assms(2)
    by (auto simp: scannable_def is_closed_def sys_wf_def)
next
  case (review now l tn detail reason)
  have "keeps_closed (w_db w) (put_talk (escalate now TreeflowVersionMissing msg t) (w_db w))"
    if "find_active_for_lead tn (ld_id l) (w_db w) = Some t" for t msg
    by (rule keeps_closed_put [of _ t])
      (use first_max_Some [OF that [unfolded find_active_for_lead_def]] assms(2) in \<open>auto simp: sys_wf_def is_open_iff escalate_def\<close>)
  moreover have "keeps_closed d (mark_queued_as_skipped i reason d)" for i reason d
    by (simp add: keeps_closed_mono mark_queued_as_skipped_def)
  ultimately show ?thesis
    unfolding review skip_for_review_def world.simps using keeps_closed_trans
    by (cases "find_active_for_lead tn (ld_id l) (w_db w)") (simp_all del: append_Cons, blast)
next
  case (mode tn i old new operator d')
  let ?f = "\<lambda>t. if tk_id t = i \<and> tk_tenant t = tn_id tn \<and> tk_mode t = old then t\<lparr>tk_mode := new, tk_operator := operator\<rparr> else t"
  have d': "db_talks d' = map ?f (db_talks (w_db w))"
    using mode(2) by (auto simp: switch_mode_def update_where_map Let_def split: if_splits)
  have sw: "\<exists>t' \<in> set (db_talks d'). same_but_mode t t'" if t: "t \<in> set (db_talks (w_db w))" for t
  proof
    show "same_but_mode t (?f t)" by (cases "tk_id t = i \<and> tk_tenant t = tn_id tn \<and> tk_mode t = old") simp_all
    show "?f t \<in> set (db_talks d')" unfolding d' list.set_map using t by (rule imageI)
  qed
  have "keeps_closed (w_db w) d'" unfolding keeps_closed_def by (intro ballI impI) (rule sw)
  then show ?thesis using mode(1) by simp
next
  case (operator row ob d')
  then show ?thesis by (auto simp: insert_outbound_def Let_def intro!: keeps_closed_mono split: if_splits)
next
  case (webhook reg now slug provider body headers reply d')
  then show ?thesis using webhook_keeps_conversations [OF webhook(2)] by (simp add: keeps_closed_mono)
next
  case (inbox m)
  then show ?thesis by (simp add: put_inbound_def keeps_closed_mono)
next
  case (action exn_str cfg registry i res d' a')
  then have "db_talks d' = db_talks (w_db w)"
    by (auto simp: execute_action_def mark_executing_def mark_failed_def mark_success_def put_action_def Let_def
        split: option.splits sum.splits prod.splits if_splits)
  then show ?thesis using action by (simp add: keeps_closed_mono)
qed (simp add: keeps_closed_mono)

subsection \<open>Properties\<close>

lemma steps_wf:
  assumes "(sys_step E trees)\<^sup>*\<^sup>* w w'" and "trees_wf E trees" and "sys_wf trees (w_db w)"
  shows "sys_wf trees (w_db w')"
  using assms by (induction rule: rtranclp_induct) (auto intro: step_wf)

lemma steps_keep_closed:
  assumes "(sys_step E trees)\<^sup>*\<^sup>* w w'" and "trees_wf E trees" and "sys_wf trees (w_db w)"
  shows "keeps_closed (w_db w) (w_db w')"
  using assms
proof (induction rule: rtranclp_induct)
  case base
  then show ?case by (simp add: keeps_closed_mono)
next
  case (step w1 w2)
  then show ?case using keeps_closed_trans step_keeps_closed [OF step(2)] steps_wf [OF step(1)] by blast
qed

lemma run_turn_steps:
  assumes run: "run_turn env m w = (r, w')" and wf: "sys_wf trees (w_db w)"
    and tree: "trees (tv_id (te_version env)) = Some (te_treeflow env)"
    and talk: "\<And>d1 cx. resolve_pipeline_context (te_now env) (te_tenant env) (te_treeflow env) (te_version env) (te_optout env) m (w_db w) = Inr (d1, cx) \<Longrightarrow>
      trees (tk_version (px_talk cx)) = Some (te_treeflow env)"
  shows "(sys_step (te_ext env) trees)\<^sup>*\<^sup>* w w'"
  using run
proof (cases rule: run_turn_cases)
  case (banned d1 cx)
  then show ?thesis using preprocess [where w = w and trees = trees and E = "te_ext env", OF banned(1) tree] by blast
next
  case (rolled_back d1 cx e w1)
  have "sys_step (te_ext env) trees w (w\<lparr>w_db := d1\<rparr>)" by (rule preprocess [where w = w and trees = trees, OF rolled_back(1) tree])
  moreover have "sys_step (te_ext env) trees (w\<lparr>w_db := d1\<rparr>) w'"
    using turn_fails [OF rolled_back(2), where E = "te_ext env" and trees = trees] rolled_back(4) by simp
  ultimately show ?thesis by (meson converse_rtranclp_into_rtranclp r_into_rtranclp)
next
  case (committed d1 cx res)
  have wfd: "talks_wf (w_db w)" "one_open_talk (w_db w)" using wf by (simp_all add: sys_wf_def)
  have d1: "open_talks (tn_id (te_tenant env)) (ld_id (px_lead cx)) d1 = [px_talk cx]" "talks_wf d1"
    using resolve_context_wf [OF committed(1) wfd] by simp_all
  then have mem: "px_talk cx \<in> set (db_talks d1)" "\<not> is_closed (tk_status (px_talk cx))"
  proof -
    have "px_talk cx \<in> set (open_talks (tn_id (te_tenant env)) (ld_id (px_lead cx)) d1)" using d1(1) by simp
    then show "px_talk cx \<in> set (db_talks d1)" "\<not> is_closed (tk_status (px_talk cx))"
      by (simp_all add: open_talks_def is_open_iff)
  qed
  have "find_row tk_id (tk_id (px_talk cx)) (db_talks d1) = Some (px_talk cx)"
  proof -
    obtain t where "find_row tk_id (tk_id (px_talk cx)) (db_talks d1) = Some t"
      using mem(1) find_row_None [of tk_id "tk_id (px_talk cx)"] by fastforce
    moreover have "inj_on tk_id (set (db_talks d1))" using d1(2) by (simp add: talks_wf_def distinct_map)
    ultimately show ?thesis using find_row_mem mem(1) inj_onD by fastforce
  qed
  then have "sys_step (te_ext env) trees (w\<lparr>w_db := d1\<rparr>) w'"
    using turn [OF refl committed(3), of "px_talk cx" trees] mem talk [OF committed(1)] by simp
  moreover have "sys_step (te_ext env) trees w (w\<lparr>w_db := d1\<rparr>)" by (rule preprocess [where w = w and trees = trees, OF committed(1) tree])
  ultimately show ?thesis by (meson converse_rtranclp_into_rtranclp r_into_rtranclp)
qed simp_all

subsection \<open>Properties\<close>


definition sample_trees :: "uuid \<Rightarrow> treeflow option" where
  "sample_trees v = (if v = 2 then Some sample_tree else None)"

lemma sample_trees_wf: "trees_wf sample_ext sample_trees"
  by (simp add: trees_wf_def sample_trees_def sample_tree_wf)

lemma sample_sys_wf: "sys_wf sample_trees sample_db"
  using sample_tables by (simp add: sys_wf_def sample_trees_def tables_wf_def sample_env_def sample_version_def)

text \<open>
  A lead whose talk is open writes again 49 hours after the last message; before its turn gets the lock,
  the scan closes the talk.
\<close>

definition late :: time where
  "late = 5000 + hours 49"

definition late_inbound :: inbound where
  "late_inbound = (sample_inbound 5 ''quero falar com alguem'')\<lparr>in_received := late\<rparr>"

definition idle_db :: db where
  "idle_db = (case open_talk 5000 sample_tenant sample_tree sample_version (sample_inbound 4 ''oi'') sample_lead sample_db of
     Inl _ \<Rightarrow> sample_db | Inr (d, _) \<Rightarrow> d)"

definition late_context :: "pyexn + (db \<times> pipeline_context)" where
  "late_context = resolve_pipeline_context late sample_tenant sample_tree sample_version [''sair''] late_inbound idle_db"

definition closed_db :: db where
  "closed_db = idle_db\<lparr>db_talks := map (scan_close late ClosedInactivity) (db_talks idle_db)\<rparr>"

definition reopened :: "pyexn + db \<times> pipeline_context" where
  "reopened = resolve_pipeline_context late sample_tenant sample_tree sample_version [''sair''] late_inbound closed_db"

definition late_scan :: "db \<Rightarrow> db" where
  "late_scan d = snd (snd (scan_active_talks sample_ext late alone d))"

definition late_turn :: "pipeline_context \<Rightarrow> db \<Rightarrow> (pyexn + turn_result) \<times> (script, fake_state) world" where
  "late_turn cx d = locked_turn (sample_env\<lparr>te_now := late\<rparr>) (px_lead cx) (tk_id (px_talk cx)) late_inbound
     (sample_world [sample_decision\<lparr>request_human_escalation :=
        Some \<lparr>he_reason = ''pediu humano'', he_category = LeadRequested, he_urgency = Low, he_suggested = None, he_waiting = None\<rparr>\<rparr>] d)"

definition talk_marks :: "db \<Rightarrow> (talk_status \<times> string option \<times> review_reason option) list" where
  "talk_marks d = map (\<lambda>t. (tk_status t, tk_closed_reason t, tk_review_reason t)) (db_talks d)"

lemma sample_run_is_steps:
  "(sys_step sample_ext sample_trees)\<^sup>*\<^sup>* (sample_world ds sample_db) (snd (sample_run ds))"
proof -
  have "(sys_step (te_ext sample_env) sample_trees)\<^sup>*\<^sup>* (sample_world ds sample_db) (snd (sample_run ds))"
  proof (rule run_turn_steps)
    show "run_turn sample_env (sample_inbound 4 ''oi'') (sample_world ds sample_db) = (fst (sample_run ds), snd (sample_run ds))"
      by (simp add: sample_run_def)
    fix d1 cx
    assume "resolve_pipeline_context (te_now sample_env) (te_tenant sample_env) (te_treeflow sample_env)
      (te_version sample_env) (te_optout sample_env) (sample_inbound 4 ''oi'') (w_db (sample_world ds sample_db)) = Inr (d1, cx)"
    moreover have "map_sum id (\<lambda>x. tk_version (px_talk (snd x))) (resolve_pipeline_context (te_now sample_env) (te_tenant sample_env) (te_treeflow sample_env)
      (te_version sample_env) (te_optout sample_env) (sample_inbound 4 ''oi'') sample_db) = Inr 2" by code_simp
    ultimately show "sample_trees (tk_version (px_talk cx)) = Some (te_treeflow sample_env)"
      by (simp add: sample_world_def sample_trees_def sample_env_def)
  qed (simp_all add: sample_world_def sample_sys_wf, simp add: sample_env_def sample_version_def sample_trees_def)
  then show ?thesis by (simp add: sample_env_def)
qed



lemma map_sum_Inr: "map_sum f g x = Inr y \<Longrightarrow> \<exists>z. x = Inr z \<and> g z = y"
  by (cases x) simp_all


text \<open>
  The turn looks at nothing but the handling mode when it has the lock.  A talk that the scan closes
  between the preprocessing and the lock is answered all the same, and when the model asks for a human it
  becomes a talk under review that carries the closing reason of the scan.
\<close>

theorem turn_reopens_scanned_talk:
  "map_sum id (\<lambda>(d, cx). (talk_marks (late_scan d), talk_marks (w_db (snd (late_turn cx (late_scan d)))))) late_context =
   Inr ([(ClosedInactivity, Some ''closed_inactivity'', None)],
        [(RequiresReview, Some ''closed_inactivity'', Some EscalationRequested)])"
  by code_simp

end
