(* ===== verification/User_Admin.thy ===== *)
theory User_Admin
  imports Web_Auth
begin

text \<open>
  The accounts of the operators: the commands \<open>ai-sdr users\<close> of \<open>cli/users.py\<close> on the tables \<open>users\<close> and
  \<open>user_tenant_access\<close>, which the authentication boundary of \<open>Web_Auth\<close> reads.  A command is one
  transaction; what it prints is reduced to the data it shows.  \<open>bcrypt.hashpw\<close> is a parameter.
\<close>

subsection \<open>Tables\<close>

datatype access_role = RoleOperator | RoleTenantAdmin

record access_row =
  ua_user :: uuid
  ua_tenant :: uuid
  ua_role :: access_role

record accounts =
  ac_users :: "user list"
  ac_tenants :: "tenant list"
  ac_access :: "access_row list"
  ac_next :: uuid

text \<open>The end of a command: what it shows, \<open>typer.Exit(1)\<close> with a message, or an exception.\<close>

datatype 'a cli = Shown 'a | Exit1 string | Raised pyexn

definition bind_cli :: "'a cli \<Rightarrow> ('a \<Rightarrow> 'b cli) \<Rightarrow> 'b cli" where
  "bind_cli m f = (case m of Shown x \<Rightarrow> f x | Exit1 s \<Rightarrow> Exit1 s | Raised e \<Rightarrow> Raised e)"

definition access_key :: "access_row \<Rightarrow> uuid \<times> uuid" where
  "access_key r = (ua_user r, ua_tenant r)"

text \<open>What \<open>Web_Auth\<close> sees of the tables.\<close>

definition directory_of :: "instance_row list \<Rightarrow> accounts \<Rightarrow> directory" where
  "directory_of ins A =
     \<lparr>dr_users = ac_users A, dr_tenants = ac_tenants A, dr_grants = map access_key (ac_access A), dr_instances = ins\<rparr>"

subsection \<open>Lookups\<close>

definition one_user :: "string \<Rightarrow> accounts \<Rightarrow> pyexn + user option" where
  "one_user name A = scalar_one_or_none (filter (\<lambda>u. py_lower (us_name u) = py_lower name) (ac_users A))"

definition load_user :: "string \<Rightarrow> accounts \<Rightarrow> user cli" where
  "load_user name A =
     (case one_user name A of
        Inl e \<Rightarrow> Raised e
      | Inr None \<Rightarrow> Exit1 ''user not found''
      | Inr (Some u) \<Rightarrow> Shown u)"

definition load_tenant_row :: "string \<Rightarrow> accounts \<Rightarrow> tenant cli" where
  "load_tenant_row slug A =
     (case scalar_one_or_none (filter (\<lambda>t. tn_slug t = slug) (ac_tenants A)) of
        Inl e \<Rightarrow> Raised e
      | Inr None \<Rightarrow> Exit1 ''tenant not found''
      | Inr (Some t) \<Rightarrow> Shown t)"

definition one_access :: "user \<Rightarrow> tenant \<Rightarrow> accounts \<Rightarrow> pyexn + access_row option" where
  "one_access u t A = scalar_one_or_none (filter (\<lambda>r. ua_user r = us_id u \<and> ua_tenant r = tn_id t) (ac_access A))"

subsection \<open>Commands\<close>

text \<open>
  The insertion under the unique index on \<open>lower(username)\<close>; \<open>others\<close> is what other sessions commit after
  the check for an existing name.
\<close>

definition insert_user :: "user \<Rightarrow> accounts \<Rightarrow> (user \<times> accounts) option" where
  "insert_user u A =
     (if \<exists>r \<in> set (ac_users A). py_lower (us_name r) = py_lower (us_name u) then None
      else (let u' = u\<lparr>us_id := ac_next A\<rparr>
            in Some (u', A\<lparr>ac_users := ac_users A @ [u'], ac_next := Suc (ac_next A)\<rparr>)))"

definition add_user ::
  "(string \<Rightarrow> pyexn + string) \<Rightarrow> (accounts \<Rightarrow> accounts) \<Rightarrow> string \<Rightarrow> string \<Rightarrow> bool \<Rightarrow> accounts \<Rightarrow> user cli \<times> accounts" where
  "add_user hash others name password admin A =
     (case one_user name A of
        Inl e \<Rightarrow> (Raised e, A)
      | Inr (Some _) \<Rightarrow> (Exit1 ''username already exists (case-insensitive)'', A)
      | Inr None \<Rightarrow>
          (case hash password of
             Inl e \<Rightarrow> (Raised e, A)
           | Inr h \<Rightarrow>
               let A1 = others A in
               (case insert_user \<lparr>us_id = 0, us_name = name, us_hash = h, us_admin = admin, us_last_login = None\<rparr> A1 of
                  None \<Rightarrow> (Raised (OtherError ''IntegrityError''), A1)
                | Some (u, A2) \<Rightarrow> (Shown u, A2))))"

definition role_of :: "string \<Rightarrow> access_role option" where
  "role_of s =
     (if s = ''operator'' then Some RoleOperator else if s = ''tenant_admin'' then Some RoleTenantAdmin else None)"

definition grant_access :: "string \<Rightarrow> string \<Rightarrow> string \<Rightarrow> accounts \<Rightarrow> bool cli \<times> accounts" where
  \<comment> \<open>shows whether a new row was inserted\<close>
  "grant_access name slug role A =
     (case role_of role of
        None \<Rightarrow> (Exit1 ''role must be operator or tenant_admin'', A)
      | Some ro \<Rightarrow>
          (case bind_cli (load_user name A) (\<lambda>u. bind_cli (load_tenant_row slug A) (\<lambda>t. Shown (u, t))) of
             Exit1 s \<Rightarrow> (Exit1 s, A)
           | Raised e \<Rightarrow> (Raised e, A)
           | Shown (u, t) \<Rightarrow>
               (case one_access u t A of
                  Inl e \<Rightarrow> (Raised e, A)
                | Inr (Some x) \<Rightarrow>
                    (Shown False, A\<lparr>ac_access := update_where (\<lambda>r. access_key r = access_key x) (\<lambda>r. r\<lparr>ua_role := ro\<rparr>) (ac_access A)\<rparr>)
                | Inr None \<Rightarrow>
                    (Shown True, A\<lparr>ac_access := ac_access A @ [\<lparr>ua_user = us_id u, ua_tenant = tn_id t, ua_role = ro\<rparr>]\<rparr>))))"

definition revoke_access :: "string \<Rightarrow> string \<Rightarrow> accounts \<Rightarrow> bool cli \<times> accounts" where
  \<comment> \<open>shows whether a row was deleted\<close>
  "revoke_access name slug A =
     (case bind_cli (load_user name A) (\<lambda>u. bind_cli (load_tenant_row slug A) (\<lambda>t. Shown (u, t))) of
        Exit1 s \<Rightarrow> (Exit1 s, A)
      | Raised e \<Rightarrow> (Raised e, A)
      | Shown (u, t) \<Rightarrow>
          (case one_access u t A of
             Inl e \<Rightarrow> (Raised e, A)
           | Inr None \<Rightarrow> (Shown False, A)
           | Inr (Some x) \<Rightarrow> (Shown True, A\<lparr>ac_access := filter (\<lambda>r. access_key r \<noteq> access_key x) (ac_access A)\<rparr>)))"

definition set_user :: "(user \<Rightarrow> user) \<Rightarrow> user \<Rightarrow> accounts \<Rightarrow> accounts" where
  "set_user f u A = A\<lparr>ac_users := update_where (\<lambda>r. us_id r = us_id u) f (ac_users A)\<rparr>"

definition change_password :: "(string \<Rightarrow> pyexn + string) \<Rightarrow> string \<Rightarrow> string \<Rightarrow> accounts \<Rightarrow> unit cli \<times> accounts" where
  "change_password hash name password A =
     (case load_user name A of
        Exit1 s \<Rightarrow> (Exit1 s, A)
      | Raised e \<Rightarrow> (Raised e, A)
      | Shown u \<Rightarrow>
          (case hash password of
             Inl e \<Rightarrow> (Raised e, A)
           | Inr h \<Rightarrow> (Shown (), set_user (\<lambda>r. r\<lparr>us_hash := h\<rparr>) u A)))"

definition set_admin :: "string \<Rightarrow> bool \<Rightarrow> accounts \<Rightarrow> unit cli \<times> accounts" where
  "set_admin name admin A =
     (case load_user name A of
        Exit1 s \<Rightarrow> (Exit1 s, A)
      | Raised e \<Rightarrow> (Raised e, A)
      | Shown u \<Rightarrow> (Shown (), set_user (\<lambda>r. r\<lparr>us_admin := admin\<rparr>) u A))"

definition list_users :: "string option \<Rightarrow> accounts \<Rightarrow> (user \<times> access_role option) list cli" where
  "list_users slug A =
     (if str_or slug [] = [] then Shown (map (\<lambda>u. (u, None)) (sort_key us_name (ac_users A)))
      else bind_cli (load_tenant_row (str_or slug []) A) (\<lambda>t.
        Shown (sort_key (\<lambda>x. us_name (fst x))
          (concat (map (\<lambda>u. map (\<lambda>r. (u, Some (ua_role r)))
             (filter (\<lambda>r. ua_user r = us_id u \<and> ua_tenant r = tn_id t) (ac_access A))) (ac_users A))))))"

text \<open>A session of commands.\<close>

datatype user_command =
  AddUser string string bool | Grant string string string | Revoke string string | Passwd string string
| SetAdmin string bool | ListUsers "string option"

definition run_command ::
  "(string \<Rightarrow> pyexn + string) \<Rightarrow> user_command \<Rightarrow> accounts \<Rightarrow> accounts" where
  "run_command hash c A =
     (case c of
        AddUser n p a \<Rightarrow> snd (add_user hash (\<lambda>x. x) n p a A)
      | Grant n s r \<Rightarrow> snd (grant_access n s r A)
      | Revoke n s \<Rightarrow> snd (revoke_access n s A)
      | Passwd n p \<Rightarrow> snd (change_password hash n p A)
      | SetAdmin n a \<Rightarrow> snd (set_admin n a A)
      | ListUsers s \<Rightarrow> A)"

subsection \<open>Well-formed tables\<close>

definition accounts_wf :: "accounts \<Rightarrow> bool" where
  "accounts_wf A \<longleftrightarrow>
     distinct (map us_id (ac_users A)) \<and> distinct (map (\<lambda>u. py_lower (us_name u)) (ac_users A)) \<and>
     (\<forall>u \<in> set (ac_users A). us_id u < ac_next A) \<and> distinct (map access_key (ac_access A)) \<and>
     (\<forall>r \<in> set (ac_access A). ua_user r \<in> us_id ` set (ac_users A) \<and> ua_tenant r \<in> tn_id ` set (ac_tenants A))"

lemma load_user_Shown: "load_user name A = Shown u \<longleftrightarrow> one_user name A = Inr (Some u)"
  by (auto simp: load_user_def split: sum.splits option.splits)

lemma one_row:
  "scalar_one_or_none (filter p rows) = Inr (Some r) \<Longrightarrow> r \<in> set rows \<and> p r"
  by (auto simp: scalar_one_or_none_def split: list.splits dest: filter_eq_ConsD)

lemma no_row:
  "scalar_one_or_none (filter p rows) = Inr None \<longleftrightarrow> (\<forall>r \<in> set rows. \<not> p r)"
  by (simp add: scalar_one_or_none_def filter_empty_conv [symmetric] split: list.split)

lemma insert_user_wf:
  assumes "insert_user u A = Some (u', A')" and "accounts_wf A"
  shows "accounts_wf A'" "u' = u\<lparr>us_id := ac_next A\<rparr>" "ac_users A' = ac_users A @ [u']"
    "ac_access A' = ac_access A" "ac_tenants A' = ac_tenants A"
proof -
  have new: "\<forall>r \<in> set (ac_users A). py_lower (us_name r) \<noteq> py_lower (us_name u)"
      "u' = u\<lparr>us_id := ac_next A\<rparr>" "A' = A\<lparr>ac_users := ac_users A @ [u'], ac_next := Suc (ac_next A)\<rparr>"
    using assms(1) by (auto simp: insert_user_def Let_def split: if_splits)
  then have "py_lower (us_name u) \<notin> (\<lambda>r. py_lower (us_name r)) ` set (ac_users A)" by (metis imageE)
  then show "accounts_wf A'" "u' = u\<lparr>us_id := ac_next A\<rparr>" "ac_users A' = ac_users A @ [u']"
    "ac_access A' = ac_access A" "ac_tenants A' = ac_tenants A"
    using assms(2) new(2,3) by (auto simp: accounts_wf_def less_Suc_eq)
qed

lemma add_user_wf:
  assumes "accounts_wf A" and "accounts_wf (others A)"
  shows "accounts_wf (snd (add_user hash others name password admin A))"
  using assms insert_user_wf(1) by (auto simp: add_user_def Let_def split: sum.splits option.splits prod.splits)

lemma set_user_wf:
  assumes "accounts_wf A" and "\<And>r. us_id (f r) = us_id r \<and> us_name (f r) = us_name r"
  shows "accounts_wf (set_user f u A)"
proof -
  let ?U = "update_where (\<lambda>r. us_id r = us_id u) f (ac_users A)"
  have "map us_id ?U = map us_id (ac_users A)" "map (\<lambda>u. py_lower (us_name u)) ?U = map (\<lambda>u. py_lower (us_name u)) (ac_users A)"
    using assms(2) by (simp_all add: map_update_where)
  moreover from this(1) have "us_id ` set ?U = us_id ` set (ac_users A)" by (metis list.set_map)
  moreover have "us_id r < ac_next A" if "r \<in> set ?U" for r
  proof -
    have "us_id r \<in> us_id ` set (ac_users A)" using calculation(3) that by (metis imageI)
    then show ?thesis using assms(1) by (auto simp: accounts_wf_def)
  qed
  ultimately show ?thesis using assms(1) by (simp add: accounts_wf_def set_user_def)
qed

lemma grant_access_cases:
  assumes "grant_access name slug role A = (Shown new, A')"
  obtains u t ro where "one_user name A = Inr (Some u)" "t \<in> set (ac_tenants A)" "tn_slug t = slug" "role_of role = Some ro"
    "new \<longleftrightarrow> (us_id u, tn_id t) \<notin> access_key ` set (ac_access A)"
    "A' = A\<lparr>ac_access := (if new then ac_access A @ [\<lparr>ua_user = us_id u, ua_tenant = tn_id t, ua_role = ro\<rparr>]
       else update_where (\<lambda>r. access_key r = (us_id u, tn_id t)) (\<lambda>r. r\<lparr>ua_role := ro\<rparr>) (ac_access A))\<rparr>"
proof -
  obtain ro where ro: "role_of role = Some ro" using assms by (auto simp: grant_access_def split: option.splits)
  obtain u t where u: "load_user name A = Shown u" and t: "load_tenant_row slug A = Shown t"
    using assms ro by (cases "load_user name A"; cases "load_tenant_row slug A") (auto simp: grant_access_def bind_cli_def)
  have row: "t \<in> set (ac_tenants A)" "tn_slug t = slug"
    using t one_row [of "\<lambda>t. tn_slug t = slug"] by (auto simp: load_tenant_row_def split: sum.splits option.splits)
  show ?thesis
  proof (cases "one_access u t A")
    case (Inl e)
    then show ?thesis using assms ro u t by (simp add: grant_access_def bind_cli_def)
  next
    case (Inr x)
    show ?thesis
    proof (cases x)
      case None
      then have "(us_id u, tn_id t) \<notin> access_key ` set (ac_access A)"
        using Inr by (auto simp: one_access_def no_row access_key_def)
      then show ?thesis using that [of u t ro] assms ro u t row Inr None by (simp add: grant_access_def bind_cli_def load_user_Shown)
    next
      case (Some r)
      then have "r \<in> set (ac_access A)" "access_key r = (us_id u, tn_id t)"
        using Inr one_row by (fastforce simp: one_access_def access_key_def)+
      moreover from this have "(us_id u, tn_id t) \<in> access_key ` set (ac_access A)" by (metis imageI)
      ultimately show ?thesis using that [of u t ro] assms ro u t row Inr Some by (simp add: grant_access_def bind_cli_def load_user_Shown)
    qed
  qed
qed

lemma revoke_access_cases:
  assumes "revoke_access name slug A = (Shown gone, A')"
  obtains u t where "one_user name A = Inr (Some u)" "t \<in> set (ac_tenants A)" "tn_slug t = slug"
    "A' = A\<lparr>ac_access := filter (\<lambda>r. access_key r \<noteq> (us_id u, tn_id t)) (ac_access A)\<rparr>"
proof -
  obtain u t where u: "load_user name A = Shown u" and t: "load_tenant_row slug A = Shown t"
    using assms by (cases "load_user name A"; cases "load_tenant_row slug A") (auto simp: revoke_access_def bind_cli_def)
  have row: "t \<in> set (ac_tenants A)" "tn_slug t = slug"
    using t one_row [of "\<lambda>t. tn_slug t = slug"] by (auto simp: load_tenant_row_def split: sum.splits option.splits)
  obtain x where x: "one_access u t A = Inr x"
    using assms u t by (cases "one_access u t A") (auto simp: revoke_access_def bind_cli_def)
  have "A' = A\<lparr>ac_access := filter (\<lambda>r. access_key r \<noteq> (us_id u, tn_id t)) (ac_access A)\<rparr>"
  proof (cases x)
    case None
    then have "filter (\<lambda>r. access_key r \<noteq> (us_id u, tn_id t)) (ac_access A) = ac_access A"
      using x by (auto simp: one_access_def no_row access_key_def intro!: filter_True)
    then show ?thesis using assms u t x None by (simp add: revoke_access_def bind_cli_def)
  next
    case (Some r)
    then have "access_key r = (us_id u, tn_id t)" using x one_row by (fastforce simp: one_access_def access_key_def)
    then show ?thesis using assms u t x Some by (simp add: revoke_access_def bind_cli_def)
  qed
  then show ?thesis using that u row by (simp add: load_user_Shown)
qed

lemma regraded_keys [simp]:
  "map access_key (update_where p (\<lambda>r. r\<lparr>ua_role := ro\<rparr>) rows) = map access_key rows"
  "access_key ` set (update_where p (\<lambda>r. r\<lparr>ua_role := ro\<rparr>) rows) = access_key ` set rows"
proof -
  show "map access_key (update_where p (\<lambda>r. r\<lparr>ua_role := ro\<rparr>) rows) = map access_key rows"
    by (rule map_update_where) (simp add: access_key_def)
  then show "access_key ` set (update_where p (\<lambda>r. r\<lparr>ua_role := ro\<rparr>) rows) = access_key ` set rows"
    by (metis list.set_map)
qed

lemma grant_access_wf:
  assumes "accounts_wf A"
  shows "accounts_wf (snd (grant_access name slug role A))"
proof (cases "fst (grant_access name slug role A)")
  case (Shown new)
  then obtain A' where g: "grant_access name slug role A = (Shown new, A')" by (metis prod.collapse)
  from grant_access_cases [OF g] obtain u t ro where
      u: "one_user name A = Inr (Some u)" "t \<in> set (ac_tenants A)"
        "new \<longleftrightarrow> (us_id u, tn_id t) \<notin> access_key ` set (ac_access A)"
      and A': "A' = A\<lparr>ac_access := (if new then ac_access A @ [\<lparr>ua_user = us_id u, ua_tenant = tn_id t, ua_role = ro\<rparr>]
       else update_where (\<lambda>r. access_key r = (us_id u, tn_id t)) (\<lambda>r. r\<lparr>ua_role := ro\<rparr>) (ac_access A))\<rparr>"
    by metis
  have mem: "u \<in> set (ac_users A)" using u(1) one_row by (fastforce simp: one_user_def)
  show ?thesis
  proof (cases new)
    case True
    then show ?thesis using assms u mem by (auto simp: g A' accounts_wf_def access_key_def)
  next
    case False
    then show ?thesis using assms by (auto simp: g A' accounts_wf_def in_set_update_where regraded_keys)
  qed
qed (use assms in \<open>auto simp: grant_access_def split: option.splits cli.splits sum.splits prod.splits\<close>)

lemma revoke_access_wf:
  assumes "accounts_wf A"
  shows "accounts_wf (snd (revoke_access name slug A))"
proof (cases "fst (revoke_access name slug A)")
  case (Shown gone)
  then obtain A' where g: "revoke_access name slug A = (Shown gone, A')" by (metis prod.collapse)
  then show ?thesis
    by (rule revoke_access_cases) (use assms g in \<open>auto simp: accounts_wf_def distinct_map_filter\<close>)
qed (use assms in \<open>auto simp: revoke_access_def split: option.splits cli.splits sum.splits prod.splits\<close>)

lemma run_command_wf:
  assumes "accounts_wf A"
  shows "accounts_wf (run_command hash c A)"
proof (cases c)
  case (AddUser n p a)
  then show ?thesis using add_user_wf [OF assms] assms by (simp add: run_command_def)
next
  case (Passwd n p)
  then show ?thesis using assms set_user_wf
    by (auto simp: run_command_def change_password_def split: cli.splits sum.splits)
next
  case (SetAdmin n a)
  then show ?thesis using assms set_user_wf by (auto simp: run_command_def set_admin_def split: cli.splits)
qed (use assms grant_access_wf revoke_access_wf in \<open>simp_all add: run_command_def\<close>)

subsection \<open>Accounts and the authentication boundary\<close>

lemma find_username_directory: "find_username name (directory_of ins A) = one_user name A"
  by (simp add: find_username_def one_user_def directory_of_def)

lemma filter_key_unique:
  assumes "distinct (map f xs)" and "x \<in> set xs"
  shows "filter (\<lambda>y. f y = f x) xs = [x]"
  using assms
proof (induction xs)
  case (Cons y ys)
  then have "\<forall>z \<in> set ys. f z \<noteq> f y" by (metis distinct.simps(2) imageI list.set_map list.simps(9))
  then show ?case using Cons by (auto simp: filter_empty_conv)
qed simp

lemma one_user_unique:
  assumes "accounts_wf A" and "u \<in> set (ac_users A)" and "py_lower name = py_lower (us_name u)"
  shows "one_user name A = Inr (Some u)"
  using filter_key_unique [of "\<lambda>u. py_lower (us_name u)", OF _ assms(2)] assms(1,3)
  by (simp add: one_user_def scalar_one_or_none_def accounts_wf_def)

lemma one_user_row: "one_user name A = Inr (Some u) \<Longrightarrow> u \<in> set (ac_users A) \<and> py_lower (us_name u) = py_lower name"
  unfolding one_user_def by (rule one_row)

lemma login_of_account:
  assumes wf: "accounts_wf A" and W: "session_secret W = Inr k" "signer_law (we_signer W) k"
    and u: "u \<in> set (ac_users A)" "py_lower name = py_lower (us_name u)"
    and pw: "verify_password W password (us_hash u) = Inr True"
    and tn: "tn \<in> set (ac_tenants A)" "distinct (map tn_slug (ac_tenants A))" "granted (directory_of ins A) u (tn_id tn)"
    and on: "we_console W (tn_slug tn) = Inr (Some True)"
    and time: "0 \<le> now - t" "now - t \<le> cookie_max_age"
  shows "\<exists>landing c D'. login_submit W t name password (directory_of ins A) = (Inr (LoggedIn landing c), D') \<and>
    require_tenant_access W D' now (Some c) (tn_slug tn) = Reply (tn, u\<lparr>us_last_login := Some t\<rparr>)"
proof -
  let ?D = "directory_of ins A"
  let ?D' = "?D\<lparr>dr_users := update_where (\<lambda>r. us_id r = us_id u) (\<lambda>r. r\<lparr>us_last_login := Some t\<rparr>) (dr_users ?D)\<rparr>"
  have name: "find_username name ?D = Inr (Some u)"
    using one_user_unique [OF wf u] by (simp add: find_username_directory)
  have "tn \<in> set (tenants_visible_to ?D u)"
    using tn(1,3) by (simp add: tenants_visible_to_def member_tenants_def directory_of_def)
  then obtain tn0 rest where tns: "tenants_visible_to ?D u = tn0 # rest" by (cases "tenants_visible_to ?D u") auto
  obtain c where c: "sign_session_cookie W t (us_id u) = Inr c" using W(1) by (simp add: sign_session_cookie_def)
  have login: "login_submit W t name password ?D = (Inr (LoggedIn (tn_slug tn0) c), ?D')"
    using name pw tns c by (simp add: login_submit_def Let_def)
  have "find_row us_id (us_id u) (dr_users ?D') = Some (u\<lparr>us_last_login := Some t\<rparr>)"
    using find_row_touched [of ?D u] wf u(1) by (simp add: directory_of_def accounts_wf_def)
  then have "require_console_user W ?D' now (Some c) = Reply (u\<lparr>us_last_login := Some t\<rparr>)"
    by (rule console_user_signed [OF W c time])
  then have "require_tenant_access W ?D' now (Some c) (tn_slug tn) = Reply (tn, u\<lparr>us_last_login := Some t\<rparr>)"
    using filter_key_unique [OF tn(2,1)] tn(3) on
    by (simp add: require_tenant_access_def directory_of_def scalar_one_or_none_def granted_def)
  then show ?thesis using login by blast
qed

subsection \<open>Properties\<close>

text \<open>Whatever commands are run, the tables stay well-formed.\<close>

theorem commands_keep_accounts:
  assumes "accounts_wf A"
  shows "accounts_wf (fold (run_command hash) cs A)"
  using assms by (induction cs arbitrary: A) (simp_all add: run_command_wf)

text \<open>
  C21: An account that was just added and granted a tenant works: its owner logs in with the password it
  was added with, with any capitalisation of the name, and for twelve hours the routes of the tenant
  admit him.
\<close>

theorem new_account_logs_in:
  assumes "accounts_wf A" and "distinct (map tn_slug (ac_tenants A))"
    and "session_secret W = Inr k" and "signer_law (we_signer W) k"
    and "\<forall>p h. hash p = Inr h \<longrightarrow> we_bcrypt W p h = Inr True"
    and "add_user hash (\<lambda>x. x) name password admin A = (Shown u, A1)"
    and "grant_access name' slug role A1 = (Shown new, A2)" and "py_lower name' = py_lower name"
    and "we_console W slug = Inr (Some True)"
    and "py_lower login = py_lower name" and "0 \<le> now - t" and "now - t \<le> cookie_max_age"
  shows "\<exists>landing c D' tn. login_submit W t login password (directory_of ins A2) = (Inr (LoggedIn landing c), D') \<and>
    tn_slug tn = slug \<and> require_tenant_access W D' now (Some c) slug = Reply (tn, u\<lparr>us_last_login := Some t\<rparr>)"
proof -
  obtain h where h: "hash password = Inr h"
      and ins: "insert_user \<lparr>us_id = 0, us_name = name, us_hash = h, us_admin = admin, us_last_login = None\<rparr> A = Some (u, A1)"
    using assms(6) by (auto simp: add_user_def Let_def split: sum.splits option.splits prod.splits)
  note new = insert_user_wf [OF ins assms(1)]
  from grant_access_cases [OF assms(7)] obtain v tn ro where
      v: "one_user name' A1 = Inr (Some v)" and tn: "tn \<in> set (ac_tenants A1)" "tn_slug tn = slug"
      and fresh: "new \<longleftrightarrow> (us_id v, tn_id tn) \<notin> access_key ` set (ac_access A1)"
      and A2: "A2 = A1\<lparr>ac_access := (if new then ac_access A1 @ [\<lparr>ua_user = us_id v, ua_tenant = tn_id tn, ua_role = ro\<rparr>]
       else update_where (\<lambda>r. access_key r = (us_id v, tn_id tn)) (\<lambda>r. r\<lparr>ua_role := ro\<rparr>) (ac_access A1))\<rparr>"
    by metis
  have u: "u \<in> set (ac_users A1)" "us_name u = name" "us_hash u = h" using new(2,3) by simp_all
  have "v = u" using one_user_unique [OF new(1) u(1), of name'] u(2) assms(8) v by simp
  have wf2: "accounts_wf A2" using grant_access_wf [OF new(1), of name' slug role] assms(7) by simp
  have "(us_id u, tn_id tn) \<in> access_key ` set (ac_access A2)"
  proof (cases new)
    case True
    then show ?thesis using A2 \<open>v = u\<close> by (simp add: access_key_def)
  next
    case False
    then show ?thesis using fresh A2 \<open>v = u\<close> by simp
  qed
  then have "granted (directory_of ins A2) u (tn_id tn)" by (simp add: granted_def directory_of_def)
  moreover have "verify_password W password (us_hash u) = Inr True"
    using assms(5) h u(3) by (simp add: verify_password_def)
  ultimately have "\<exists>landing c D'. login_submit W t login password (directory_of ins A2) = (Inr (LoggedIn landing c), D') \<and>
      require_tenant_access W D' now (Some c) (tn_slug tn) = Reply (tn, u\<lparr>us_last_login := Some t\<rparr>)"
    by (intro login_of_account [OF wf2 assms(3,4)])
      (use u tn A2 new(5) assms(2,9-12) in simp_all)
  then show ?thesis using tn(2) by metis
qed

text \<open>
  C22: A revocation takes effect at once: no request of the user, whatever cookie it carries, is admitted to
  the tenant any more, and no connection to a live inbox of the tenant, unless he is a platform admin.
\<close>

theorem revoke_shuts_out:
  assumes "accounts_wf A" and "distinct (map tn_slug (ac_tenants A))" and "one_user name A = Inr (Some u)" and "\<not> us_admin u"
    and "revoke_access name slug A = (Shown gone, A')"
    and "require_console_user W (directory_of ins A') now cookie = Reply u"
  shows "(\<forall>r. require_tenant_access W (directory_of ins A') now cookie slug \<noteq> Reply r) \<and>
    (\<forall>i tn inst. find_row is_id i ins = Some inst \<and> tn \<in> set (ac_tenants A) \<and> tn_slug tn = slug \<and> is_tenant inst = tn_id tn \<longrightarrow>
       resolve_ws_access W (directory_of ins A') now i cookie = Inr False)"
proof -
  from assms(5) obtain t where t: "t \<in> set (ac_tenants A)" "tn_slug t = slug"
      and A': "A' = A\<lparr>ac_access := filter (\<lambda>r. access_key r \<noteq> (us_id u, tn_id t)) (ac_access A)\<rparr>"
    using assms(3) by (auto elim!: revoke_access_cases)
  have out: "\<not> granted (directory_of ins A') u (tn_id t)"
    using assms(4) by (auto simp: granted_def directory_of_def A')
  have rows: "filter (\<lambda>x. tn_slug x = slug) (dr_tenants (directory_of ins A')) = [t]"
    using filter_key_unique [OF assms(2) t(1)] t(2) by (simp add: directory_of_def A')
  have "tn = t" if "tn \<in> set (ac_tenants A)" "tn_slug tn = slug" for tn
    using that t assms(2) by (auto simp: distinct_map inj_on_def)
  then show ?thesis
    using out rows assms(6)
    by (auto simp: require_tenant_access_def resolve_ws_user scalar_one_or_none_def directory_of_def split: sum.splits if_splits)
qed

text \<open>
  A new password does not end the sessions that were opened with the old one: a cookie that was
  valid stays valid for the rest of its twelve hours.
\<close>

theorem password_change_keeps_sessions:
  assumes "change_password hash name password A = (Shown (), A')"
    and "require_console_user W (directory_of ins A) now cookie = Reply u"
  shows "\<exists>u'. us_id u' = us_id u \<and> require_console_user W (directory_of ins A') now cookie = Reply u'"
proof -
  obtain v h where A': "A' = set_user (\<lambda>r. r\<lparr>us_hash := h\<rparr>) v A"
    using assms(1) by (auto simp: change_password_def split: cli.splits sum.splits)
  have "find_row us_id i (dr_users (directory_of ins A')) =
      map_option (\<lambda>r. if us_id r = us_id v then r\<lparr>us_hash := h\<rparr> else r) (find_row us_id i (dr_users (directory_of ins A)))" for i
    by (cases "find_row us_id i (ac_users A)") (auto simp: A' set_user_def directory_of_def find_row_update dest: find_row_Some)
  then show ?thesis
    using assms(2) by (auto simp: require_console_user_def redirect_to_login_def split: sum.splits option.splits if_splits)
qed

subsection \<open>A directory\<close>

definition sample_accounts :: accounts where
  "sample_accounts =
     \<lparr>ac_users = dr_users sample_directory, ac_tenants = dr_tenants sample_directory,
      ac_access = [\<lparr>ua_user = 6, ua_tenant = 1, ua_role = RoleOperator\<rparr>], ac_next = 20\<rparr>"

lemma sample_accounts_wf: "accounts_wf sample_accounts" "distinct (map tn_slug (ac_tenants sample_accounts))"
  by code_simp+

lemma sample_signer: "signer_law (we_signer sample_web) k"
  using plain_signer_law by (simp add: sample_web_def)

theorem new_account_logs_in_witness:
  "\<exists>u A1 A2 landing c D' tn.
     add_user Inr (\<lambda>x. x) ''Bruno'' ''s3nha'' False sample_accounts = (Shown u, A1) \<and>
     grant_access ''bruno'' ''avelum'' ''operator'' A1 = (Shown True, A2) \<and>
     login_submit sample_web 1000 ''BRUNO'' ''s3nha'' (directory_of [] A2) = (Inr (LoggedIn landing c), D') \<and>
     tn_slug tn = ''avelum'' \<and> require_tenant_access sample_web D' 2000 (Some c) ''avelum'' = Reply (tn, u\<lparr>us_last_login := Some 1000\<rparr>)"
proof -
  define A1 where "A1 = snd (add_user Inr (\<lambda>x. x) ''Bruno'' ''s3nha'' False sample_accounts)"
  define A2 where "A2 = snd (grant_access ''bruno'' ''avelum'' ''operator'' A1)"
  let ?u = "\<lparr>us_id = 20, us_name = ''Bruno'', us_hash = ''s3nha'', us_admin = False, us_last_login = None\<rparr>"
  have "fst (add_user Inr (\<lambda>x. x) ''Bruno'' ''s3nha'' False sample_accounts) = Shown ?u" by code_simp
  then have 1: "add_user Inr (\<lambda>x. x) ''Bruno'' ''s3nha'' False sample_accounts = (Shown ?u, A1)"
    unfolding A1_def by (metis prod.collapse)
  have "fst (grant_access ''bruno'' ''avelum'' ''operator'' A1) = Shown True" unfolding A1_def by code_simp
  then have 2: "grant_access ''bruno'' ''avelum'' ''operator'' A1 = (Shown True, A2)" unfolding A2_def by (metis prod.collapse)
  have low: "py_lower ''bruno'' = py_lower ''Bruno''" "py_lower ''BRUNO'' = py_lower ''Bruno''" by code_simp+
  have "\<exists>landing c D' tn. login_submit sample_web 1000 ''BRUNO'' ''s3nha'' (directory_of [] A2) = (Inr (LoggedIn landing c), D') \<and>
    tn_slug tn = ''avelum'' \<and> require_tenant_access sample_web D' 2000 (Some c) ''avelum'' = Reply (tn, ?u\<lparr>us_last_login := Some 1000\<rparr>)"
    by (rule new_account_logs_in [OF sample_accounts_wf sample_secret sample_signer _ 1 2 low(1) _ low(2)])
      (simp_all add: sample_web_def cookie_max_age_def)
  then show ?thesis using 1 2 by blast
qed

theorem revoke_shuts_out_witness:
  "\<exists>c A'. sign_session_cookie sample_web 1000 6 = Inr c \<and> revoke_access ''ana'' ''avelum'' sample_accounts = (Shown True, A') \<and>
     (\<forall>r. require_tenant_access sample_web (directory_of [] A') 2000 (Some c) ''avelum'' \<noteq> Reply r)"
proof -
  define A' where "A' = snd (revoke_access ''ana'' ''avelum'' sample_accounts)"
  let ?u = "hd (ac_users sample_accounts)"
  obtain c where c: "sign_session_cookie sample_web 1000 6 = Inr c" by (simp add: sign_session_cookie_def sample_secret)
  have "fst (revoke_access ''ana'' ''avelum'' sample_accounts) = Shown True" by code_simp
  then have rev: "revoke_access ''ana'' ''avelum'' sample_accounts = (Shown True, A')" unfolding A'_def by (metis prod.collapse)
  have u: "one_user ''ana'' sample_accounts = Inr (Some ?u)" "\<not> us_admin ?u" by code_simp+
  have "find_row us_id 6 (dr_users (directory_of [] A')) = Some ?u" unfolding A'_def by code_simp
  then have "require_console_user sample_web (directory_of [] A') 2000 (Some c) = Reply ?u"
    by (intro console_user_signed [OF sample_secret sample_signer c]) (simp_all add: cookie_max_age_def)
  from revoke_shuts_out [OF sample_accounts_wf u rev this] have
    "\<forall>r. require_tenant_access sample_web (directory_of [] A') 2000 (Some c) ''avelum'' \<noteq> Reply r" by (rule conjunct1)
  with c rev show ?thesis by blast
qed

end
