(* ===== verification/Ops_Cli.thy ===== *)
theory Ops_Cli
  imports Worker_Jobs User_Admin
begin

text \<open>
  The commands of the operations team on follow-ups and on the audit of sent messages:
  \<open>cli/follow_ups.py\<close> and \<open>cli/outbound.py\<close>.  A list command shows rows of a table, reduced here to the
  rows themselves; formatting is left out.  The tenant context of a session only sets the parameter of
  the row-level policies, which do not apply to the role of the application.
\<close>

subsection \<open>Follow-ups\<close>

definition tenant_by_slug :: "string \<Rightarrow> legacy_db \<Rightarrow> tenant cli" where
  "tenant_by_slug slug d =
     (case scalar_one_or_none (filter (\<lambda>t. tn_slug t = slug) (db_tenants (lg_db d))) of
        Inl e \<Rightarrow> Raised e
      | Inr None \<Rightarrow> Exit1 ''tenant not found''
      | Inr (Some t) \<Rightarrow> Shown t)"

definition uuid_arg :: "string \<Rightarrow> uuid cli" where
  \<comment> \<open>\<open>uuid.UUID(s)\<close>\<close>
  "uuid_arg s = (case uuid_of_json (JStr s) of Inl e \<Rightarrow> Raised e | Inr i \<Rightarrow> Shown i)"

definition job_status_name :: "job_status \<Rightarrow> string" where
  "job_status_name s =
     (case s of JobPending \<Rightarrow> ''pending'' | JobCompleted \<Rightarrow> ''completed'' | JobCancelled \<Rightarrow> ''cancelled'' | JobError \<Rightarrow> ''error'')"

definition list_follow_ups :: "string \<Rightarrow> string option \<Rightarrow> string \<Rightarrow> legacy_db \<Rightarrow> follow_up_job list cli" where
  "list_follow_ups slug lead_filter status d =
     bind_cli (tenant_by_slug slug d) (\<lambda>_.
       let rows = sort_key fj_at (filter (\<lambda>j. status = ''all'' \<or> job_status_name (fj_status j) = status) (lg_jobs d))
       in if str_or lead_filter [] = [] then Shown rows
          else bind_cli (uuid_arg (str_or lead_filter [])) (\<lambda>l. Shown (filter (\<lambda>j. fj_lead j = l) rows)))"

definition cancel_follow_ups :: "string \<Rightarrow> string \<Rightarrow> legacy_db \<Rightarrow> nat cli \<times> legacy_db" where
  "cancel_follow_ups slug lead_id d =
     (case bind_cli (tenant_by_slug slug d) (\<lambda>_. uuid_arg lead_id) of
        Exit1 s \<Rightarrow> (Exit1 s, d)
      | Raised e \<Rightarrow> (Raised e, d)
      | Shown l \<Rightarrow>
          let p = (\<lambda>j. fj_lead j = l \<and> fj_status j = JobPending)
          in (Shown (length (filter p (lg_jobs d))),
              d\<lparr>lg_jobs := update_where p (\<lambda>j. j\<lparr>fj_status := JobCancelled, fj_error := Some ''manual cancel via CLI''\<rparr>) (lg_jobs d)\<rparr>))"

record preview =
  pv_attempt :: int
  pv_template :: string
  pv_language :: string
  pv_params :: "string list"
  pv_at :: time

datatype dry_result = NoFollowUp | WouldGoCold int | Preview preview

definition newest_version :: "uuid \<Rightarrow> string \<Rightarrow> db \<Rightarrow> treeflow_version option" where
  "newest_version tenant_id treeflow_id d =
     first_max tv_created (\<lambda>v. tv_tenant v = tenant_id \<and> tv_treeflow v = treeflow_id) (db_versions d)"

definition version_follow_up :: "'a fu_env \<Rightarrow> treeflow_version \<Rightarrow> pyexn + follow_up_config option" where
  "version_follow_up F v =
     (case yaml_load (fe_ext F) (tv_yaml v) of
        None \<Rightarrow> Inl (OtherError ''YAMLError'')
      | Some data \<Rightarrow> bindE (model_validate (fe_ext F) (fe_reader F) data) (\<lambda>tf. Inr (f1_follow_up tf)))"

definition preview_step :: "'a fu_env \<Rightarrow> tenant \<Rightarrow> lead \<Rightarrow> int \<Rightarrow> follow_up_config \<Rightarrow> pyexn + preview" where
  "preview_step F tn l attempt c =
     (case py_index (fc_sequence c) (attempt - 1) of
        None \<Rightarrow> Inl (OtherError ''IndexError'')
      | Some step \<Rightarrow>
          bindE (render_template_params F (fs_params step) l tn) (\<lambda>ps.
          bindE (parse_duration (fe_ext F) (fs_after step)) (\<lambda>delta.
          Inr \<lparr>pv_attempt = attempt, pv_template = fs_template step, pv_language = fs_language step, pv_params = ps,
               pv_at = fe_now F + delta\<rparr>)))"

definition dry_run :: "'a fu_env \<Rightarrow> string \<Rightarrow> string \<Rightarrow> string \<Rightarrow> legacy_db \<Rightarrow> dry_result cli" where
  "dry_run F slug treeflow_id lead_id d =
     bind_cli (tenant_by_slug slug d) (\<lambda>tn.
     bind_cli (uuid_arg lead_id) (\<lambda>i.
       case find_row ld_id i (db_leads (lg_db d)) of
         None \<Rightarrow> Exit1 ''lead not found''
       | Some l \<Rightarrow>
           (case scalar_one_or_none (filter (\<lambda>t. wf_tenant t = tn_id tn \<and> wf_lead t = ld_id l) (lg_talkflows d)) of
              Inl e \<Rightarrow> Raised e
            | Inr None \<Rightarrow> Exit1 ''no TalkFlow for this lead''
            | Inr (Some t) \<Rightarrow>
                (case newest_version (tn_id tn) treeflow_id (lg_db d) of
                   None \<Rightarrow> Exit1 ''treeflow not found''
                 | Some v \<Rightarrow>
                     (case version_follow_up F v of
                        Inl e \<Rightarrow> Raised e
                      | Inr None \<Rightarrow> Shown NoFollowUp
                      | Inr (Some c) \<Rightarrow>
                          if \<not> fc_enabled c then Shown NoFollowUp
                          else if wf_attempt t + 1 > fc_max c then Shown (WouldGoCold (wf_attempt t))
                          else (case preview_step F tn l (wf_attempt t + 1) c of
                                  Inl e \<Rightarrow> Raised e
                                | Inr p \<Rightarrow> Shown (Preview p)))))))"

subsection \<open>Sent messages\<close>

definition ob_status_name :: "outbound_status \<Rightarrow> string" where
  "ob_status_name s = (case s of OutSent \<Rightarrow> ''sent'' | OutFailed \<Rightarrow> ''failed'')"

definition list_outbound :: "string \<Rightarrow> string option \<Rightarrow> string \<Rightarrow> nat \<Rightarrow> legacy_db \<Rightarrow> outbound list cli" where
  "list_outbound slug lead_filter status limit d =
     bind_cli (tenant_by_slug slug d) (\<lambda>_.
       let rows = sort_key (\<lambda>m. - ob_sent m) (db_outbound (lg_db d)) in
       if status \<notin> {''all'', ''sent'', ''failed''} then Exit1 ''invalid --status''
       else (let rows1 = filter (\<lambda>m. status = ''all'' \<or> ob_status_name (ob_status m) = status) rows in
             if str_or lead_filter [] = [] then Shown (take limit rows1)
             else bind_cli (uuid_arg (str_or lead_filter [])) (\<lambda>l. Shown (take limit (filter (\<lambda>m. ob_lead m = l) rows1)))))"

subsection \<open>Lemmas\<close>

lemma bind_cli_Shown: "bind_cli m f = Shown y \<longleftrightarrow> (\<exists>x. m = Shown x \<and> f x = Shown y)"
  by (cases m) (simp_all add: bind_cli_def)

lemma load_follow_up_version:
  "find_row tv_id (wf_version t) (db_versions d) = Some v \<Longrightarrow> load_treeflow_follow_up F t d = version_follow_up F v"
  by (simp add: load_treeflow_follow_up_def version_follow_up_def)

lemma cancelled_status:
  assumes "cancel_follow_ups slug lead_id d = (Shown n, d')"
  obtains l where "uuid_arg lead_id = Shown l" "\<forall>j \<in> set (lg_jobs d'). fj_lead j = l \<longrightarrow> fj_status j \<noteq> JobPending"
proof -
  obtain l where l: "bind_cli (tenant_by_slug slug d) (\<lambda>_. uuid_arg lead_id) = Shown l"
    using assms by (auto simp: cancel_follow_ups_def split: cli.splits)
  then have "uuid_arg lead_id = Shown l" by (auto simp: bind_cli_Shown)
  moreover have "fj_status j \<noteq> JobPending" if j: "j \<in> set (lg_jobs d')" "fj_lead j = l" for j
  proof -
    have jobs: "lg_jobs d' = update_where (\<lambda>j. fj_lead j = l \<and> fj_status j = JobPending)
        (\<lambda>j. j\<lparr>fj_status := JobCancelled, fj_error := Some ''manual cancel via CLI''\<rparr>) (lg_jobs d)"
      using assms l by (auto simp: cancel_follow_ups_def Let_def)
    then obtain r where r: "j = (if fj_lead r = l \<and> fj_status r = JobPending
        then r\<lparr>fj_status := JobCancelled, fj_error := Some ''manual cancel via CLI''\<rparr> else r)"
      using j(1) [unfolded jobs in_set_update_where] by blast
    show ?thesis using j(2) unfolding r by (cases "fj_lead r = l \<and> fj_status r = JobPending") auto
  qed
  ultimately show thesis using that by blast
qed

subsection \<open>Properties\<close>

text \<open>
  C25: After an operator has cancelled the follow-ups of a lead, firing any job of this lead sends nothing and
  changes no row, and the scanner does not pick one up.
\<close>

theorem cancelled_never_sent:
  assumes "cancel_follow_ups slug lead_id d = (Shown n, d')" and "uuid_arg lead_id = Shown l"
    and "find_row fj_id i (lg_jobs d') = Some j" and "fj_lead j = l"
  shows "fire_follow_up F locks i tenant_id l d' a = (None, d', a) \<and> (\<forall>now. j \<notin> set (due_jobs now d'))"
proof -
  from assms(1) have "fj_status j \<noteq> JobPending"
    by (rule cancelled_status) (use assms(2-4) find_row_Some [OF assms(3)] in auto)
  then show ?thesis
    using assms(3) by (auto simp: fire_follow_up_def fire_body_def due_jobs_def dest!: in_set_takeD)
qed


definition sample_preview :: preview where
  "sample_preview = \<lparr>pv_attempt = 1, pv_template = ''lembrete'', pv_language = ''pt_BR'', pv_params = [''+5511999''], pv_at = 86400005000\<rparr>"

lemma sample_cancel:
  "cancel_follow_ups ''avelum'' ''3'' due_legacy =
     (Shown 1, due_legacy\<lparr>lg_jobs := map (\<lambda>j. j\<lparr>fj_status := JobCancelled, fj_error := Some ''manual cancel via CLI''\<rparr>) (lg_jobs due_legacy)\<rparr>)"
  by code_simp

theorem cancelled_never_sent_witness:
  "snd (snd (fire_follow_up sample_fu_env {} 25 1 3 (snd (cancel_follow_ups ''avelum'' ''3'' due_legacy)) fake_init)) = fake_init"
proof -
  have 1: "uuid_arg ''3'' = Shown 3" by code_simp
  have 2: "find_row fj_id 25 (lg_jobs (snd (cancel_follow_ups ''avelum'' ''3'' due_legacy))) =
      Some (hd (lg_jobs (snd (cancel_follow_ups ''avelum'' ''3'' due_legacy))))"
    "fj_lead (hd (lg_jobs (snd (cancel_follow_ups ''avelum'' ''3'' due_legacy)))) = 3"
    by code_simp+
  have 3: "cancel_follow_ups ''avelum'' ''3'' due_legacy = (Shown 1, snd (cancel_follow_ups ''avelum'' ''3'' due_legacy))"
    by (simp add: sample_cancel)
  from cancelled_never_sent [OF 3 1 2, of sample_fu_env "{}" 1 fake_init] show ?thesis by simp
qed

lemma sample_dry_run: "dry_run sample_fu_env ''avelum'' ''captacao'' ''3'' due_legacy = Shown (Preview sample_preview)"
  by code_simp


end
