(* ===== verification/Tenant_Config.thy ===== *)
theory Tenant_Config
  imports Channel_Laws Worker_Jobs
begin

text \<open>
  The configuration of a tenant and what the processes build from it: the schema of \<open>tenant.yaml\<close>
  (\<open>schemas/tenant_yaml.py\<close>, \<open>schemas/llm_yaml.py\<close>), the loader with its cache (\<open>tenant_loader/loader.py\<close>), the
  cache of decrypted secrets (\<open>secrets/sops_loader.py\<close>), the factories of messaging, voice and storage adapters
  (\<open>messaging/factory.py\<close>, \<open>voice/factory.py\<close>, \<open>storage/factory.py\<close>) and the registry of messaging adapters
  (\<open>messaging/registry.py\<close>).  YAML parsing, the reading of the parsed map into a typed value (where unknown keys
  and wrong types are refused) and the decryption by \<open>sops\<close> are parameters; secrets are texts.
\<close>

subsection \<open>The schema\<close>

definition secrets_prefix :: string where
  "secrets_prefix = ''secrets/''"

definition is_ref :: "string \<Rightarrow> bool" where
  "is_ref s = starts_with secrets_prefix s"

definition opt_ref :: "string option \<Rightarrow> bool" where
  "opt_ref v = (case v of None \<Rightarrow> True | Some s \<Rightarrow> is_ref s)"

record llm_config =
  lc_provider :: string
  lc_model :: string
  lc_temperature :: "rat option"
  lc_max_tokens :: "int option"
  lc_key_ref :: string

definition llm_config_valid :: "llm_config \<Rightarrow> bool" where
  "llm_config_valid c =
     (lc_provider c \<noteq> [] \<and> lc_model c \<noteq> [] \<and>
      (case lc_temperature c of None \<Rightarrow> True | Some t \<Rightarrow> 0 \<le> t \<and> t \<le> 2) \<and>
      (case lc_max_tokens c of None \<Rightarrow> True | Some n \<Rightarrow> 0 < n \<and> n \<le> 64000) \<and> is_ref (lc_key_ref c))"

record llm_defaults =
  ll_default :: llm_config
  ll_classifier :: "llm_config option"
  ll_embeddings_ref :: "string option"
  ll_cache :: bool

definition llm_defaults_valid :: "llm_defaults \<Rightarrow> bool" where
  "llm_defaults_valid l =
     (llm_config_valid (ll_default l) \<and> (case ll_classifier l of None \<Rightarrow> True | Some c \<Rightarrow> llm_config_valid c) \<and>
      opt_ref (ll_embeddings_ref l))"

record conversation_config =
  cv_debounce :: int
  cv_stop_words :: "string list"
  cv_confirm :: bool

definition conversation_valid :: "conversation_config \<Rightarrow> bool" where
  "conversation_valid c = (0 \<le> cv_debounce c \<and> cv_debounce c \<le> 60000)"

record messaging_config =
  mc_provider :: string
  mc_phone :: "string option"
  mc_token :: "string option"
  mc_verify :: "string option"
  mc_secret :: "string option"
  mc_version :: string
  mc_reengage :: "reengagement option"

definition required_ref :: "string option \<Rightarrow> bool" where
  "required_ref v = (case v of None \<Rightarrow> False | Some s \<Rightarrow> s \<noteq> [] \<and> is_ref s)"

definition messaging_valid :: "messaging_config \<Rightarrow> bool" where
  "messaging_valid c =
     ((mc_provider c = ''whatsapp_cloud'' \<longrightarrow>
         required_ref (mc_phone c) \<and> required_ref (mc_token c) \<and> required_ref (mc_verify c) \<and> required_ref (mc_secret c)) \<and>
      (case mc_reengage c of None \<Rightarrow> True | Some r \<Rightarrow> rt_template r \<noteq> []))"

definition objections_valid :: "objections_cfg \<Rightarrow> bool" where
  "objections_valid c =
     (0 \<le> oc_min_confidence c \<and> oc_min_confidence c \<le> 1 \<and> 1 \<le> oc_max_handled c \<and> oc_max_handled c \<le> 100 \<and>
      1 \<le> oc_window c \<and> oc_window c \<le> 20)"

record synthesis_source =
  ss_provider :: string
  ss_ref :: string
  ss_timeout :: int
  ss_cfg :: synthesis_cfg

record transcription_source =
  ts_provider :: string
  ts_ref :: string
  ts_cfg :: transcription_cfg

record voice_config =
  vo_mode :: string
  vo_fallback :: bool
  vo_synthesis :: "synthesis_source option"
  vo_transcription :: "transcription_source option"

definition voice_valid :: "voice_config \<Rightarrow> bool" where
  "voice_valid v =
     (vo_mode v \<in> {''always'', ''match_lead'', ''never'', ''context_driven''} \<and>
      (case vo_synthesis v of
         None \<Rightarrow> vo_mode v = ''never''
       | Some s \<Rightarrow> is_ref (ss_ref s) \<and> 1 \<le> ss_timeout s \<and> ss_timeout s \<le> 60) \<and>
      (case vo_transcription v of
         None \<Rightarrow> True
       | Some t \<Rightarrow> is_ref (ts_ref t) \<and> 0 \<le> tc_min_confidence (ts_cfg t) \<and> tc_min_confidence (ts_cfg t) \<le> 1))"

text \<open>What the pipeline reads of it.\<close>

definition voice_cfg_of :: "voice_config \<Rightarrow> voice_cfg" where
  "voice_cfg_of v =
     \<lparr>vc_mode = vo_mode v, vc_synthesis = map_option ss_cfg (vo_synthesis v),
      vc_transcription = map_option ts_cfg (vo_transcription v), vc_fallback = vo_fallback v\<rparr>"

record storage_config =
  so_provider :: string
  so_bucket :: string
  so_endpoint :: "string option"
  so_access :: "string option"
  so_secret :: "string option"

definition storage_valid :: "storage_config \<Rightarrow> bool" where
  "storage_valid s = (opt_ref (so_endpoint s) \<and> opt_ref (so_access s) \<and> opt_ref (so_secret s))"

text \<open>\<open>re.match\<close> with a final \<open>$\<close>, which also matches before a line break at the end.\<close>

definition slug_char :: "char \<Rightarrow> bool" where
  "slug_char c = ((CHR ''a'' \<le> c \<and> c \<le> CHR ''z'') \<or> (CHR ''0'' \<le> c \<and> c \<le> CHR ''9''))"

definition slug_core :: "string \<Rightarrow> bool" where
  "slug_core s =
     (2 \<le> length s \<and> length s \<le> 64 \<and> CHR ''a'' \<le> hd s \<and> hd s \<le> CHR ''z'' \<and> slug_char (last s) \<and>
      list_all (\<lambda>c. slug_char c \<or> c = CHR ''-'') s)"

definition slug_valid :: "string \<Rightarrow> bool" where
  "slug_valid s = (slug_core s \<or> s \<noteq> [] \<and> last s = CHR 0x0A \<and> slug_core (butlast s))"

record tenant_config =
  tg_id :: string
  tg_name :: string
  tg_timezone :: string
  tg_conversation :: "conversation_config option"
  tg_console :: "bool option"
  tg_llm :: "llm_defaults option"
  tg_messaging :: "messaging_config option"
  tg_guardrails :: "guardrails_v1 option"
  tg_objections :: "objections_cfg option"
  tg_humanization :: humanization_config
  tg_voice :: "voice_config option"
  tg_storage :: "storage_config option"

definition opt_valid :: "('c \<Rightarrow> bool) \<Rightarrow> 'c option \<Rightarrow> bool" where
  "opt_valid p v = (case v of None \<Rightarrow> True | Some c \<Rightarrow> p c)"

definition tenant_valid :: "tenant_config \<Rightarrow> bool" where
  "tenant_valid c =
     (slug_valid (tg_id c) \<and> opt_valid conversation_valid (tg_conversation c) \<and> opt_valid llm_defaults_valid (tg_llm c) \<and>
      opt_valid messaging_valid (tg_messaging c) \<and> opt_valid guardrails_v1_valid (tg_guardrails c) \<and>
      opt_valid objections_valid (tg_objections c) \<and> humanization_valid (tg_humanization c) \<and>
      opt_valid voice_valid (tg_voice c) \<and> opt_valid storage_valid (tg_storage c))"

subsection \<open>Files and caches\<close>

text \<open>
  \<open>fi_yaml\<close> is the parsed \<open>tenant.yaml\<close> of a directory: \<open>None\<close> when there is no such file, \<open>Some None\<close> when it
  is no YAML.  \<open>fi_sops\<close> is the decrypted file of secrets or the exception of \<open>sops\<close>.
\<close>

record tenant_files =
  fi_yaml :: "string \<Rightarrow> jval option option"
  fi_reader :: "jval \<Rightarrow> tenant_config option"
  fi_sops :: "string \<Rightarrow> pyexn + string dict"

definition read_config :: "tenant_files \<Rightarrow> string \<Rightarrow> pyexn + tenant_config" where
  "read_config fi slug =
     (case fi_yaml fi slug of
        None \<Rightarrow> Inl (OtherError ''TenantNotFoundError'')
      | Some None \<Rightarrow> Inl (OtherError ''YAMLError'')
      | Some (Some data) \<Rightarrow>
          (case fi_reader fi data of
             None \<Rightarrow> Inl (ValueError ''ValidationError'')
           | Some c \<Rightarrow> if tenant_valid c then Inr c else Inl (ValueError ''ValidationError'')))"

datatype adapter_spec = FakeChannel | WhatsappCloud wa_config

record registry_state =
  rs_configs :: "(string \<times> tenant_config) list"
  rs_secrets :: "(string \<times> string dict) list"
  rs_adapters :: "((uuid \<times> string) \<times> adapter_spec) list"

definition load_config :: "tenant_files \<Rightarrow> string \<Rightarrow> registry_state \<Rightarrow> (pyexn + tenant_config) \<times> registry_state" where
  "load_config fi slug st =
     (case map_of (rs_configs st) slug of
        Some c \<Rightarrow> (Inr c, st)
      | None \<Rightarrow>
          (case read_config fi slug of
             Inl e \<Rightarrow> (Inl e, st)
           | Inr c \<Rightarrow> (Inr c, st\<lparr>rs_configs := AList.update slug c (rs_configs st)\<rparr>)))"

definition reload_config :: "tenant_files \<Rightarrow> string \<Rightarrow> registry_state \<Rightarrow> (pyexn + tenant_config) \<times> registry_state" where
  "reload_config fi slug st =
     (case read_config fi slug of
        Inl e \<Rightarrow> (Inl e, st)
      | Inr c \<Rightarrow> (Inr c, st\<lparr>rs_configs := AList.update slug c (rs_configs st)\<rparr>))"

definition load_secrets :: "tenant_files \<Rightarrow> string \<Rightarrow> registry_state \<Rightarrow> (pyexn + string dict) \<times> registry_state" where
  "load_secrets fi slug st =
     (case map_of (rs_secrets st) slug of
        Some s \<Rightarrow> (Inr s, st)
      | None \<Rightarrow>
          (case fi_sops fi slug of
             Inl e \<Rightarrow> (Inl e, st)
           | Inr s \<Rightarrow> (Inr s, st\<lparr>rs_secrets := AList.update slug s (rs_secrets st)\<rparr>)))"

subsection \<open>Factories\<close>

definition strip_ref :: "string \<Rightarrow> string" where
  \<comment> \<open>\<open>removeprefix\<close>\<close>
  "strip_ref s = (if is_ref s then drop (length secrets_prefix) s else s)"

definition get_secret :: "string dict \<Rightarrow> string \<Rightarrow> pyexn + string" where
  "get_secret s ref = (case map_of s (strip_ref ref) of None \<Rightarrow> Inl (KeyError (strip_ref ref)) | Some v \<Rightarrow> Inr v)"

definition assert_some :: "'v option \<Rightarrow> pyexn + 'v" where
  "assert_some v = (case v of None \<Rightarrow> Inl AssertionError | Some x \<Rightarrow> Inr x)"

definition build_whatsapp_cloud :: "messaging_config \<Rightarrow> string dict \<Rightarrow> pyexn + adapter_spec" where
  "build_whatsapp_cloud c s =
     bindE (assert_some (mc_phone c)) (\<lambda>pr. bindE (assert_some (mc_token c)) (\<lambda>tr.
     bindE (assert_some (mc_verify c)) (\<lambda>vr. bindE (assert_some (mc_secret c)) (\<lambda>sr.
     bindE (get_secret s pr) (\<lambda>ph. bindE (get_secret s tr) (\<lambda>tk. bindE (get_secret s vr) (\<lambda>ve. bindE (get_secret s sr) (\<lambda>se.
     Inr (WhatsappCloud \<lparr>wa_phone = ph, wa_token = tk, wa_verify = ve, wa_secret = se, wa_version = mc_version c\<rparr>)))))))))"

definition build_messaging_adapter :: "messaging_config \<Rightarrow> string dict \<Rightarrow> pyexn + adapter_spec" where
  "build_messaging_adapter c s =
     (if mc_provider c = ''whatsapp_cloud'' then build_whatsapp_cloud c s
      else if mc_provider c = ''fake'' then Inr FakeChannel
      else Inl (ValueError ''unknown messaging provider''))"

datatype voice_spec = FakeVoice | Elevenlabs string

definition build_synthesizer :: "synthesis_source \<Rightarrow> string dict \<Rightarrow> pyexn + voice_spec" where
  "build_synthesizer c s =
     (if ss_provider c = ''elevenlabs'' then bindE (get_secret s (ss_ref c)) (\<lambda>k. Inr (Elevenlabs k))
      else if ss_provider c = ''fake'' then Inr FakeVoice
      else Inl (ValueError ''unknown synthesizer provider''))"

definition build_transcriber :: "transcription_source \<Rightarrow> string dict \<Rightarrow> pyexn + voice_spec" where
  "build_transcriber c s =
     (if ts_provider c = ''elevenlabs'' then bindE (get_secret s (ts_ref c)) (\<lambda>k. Inr (Elevenlabs k))
      else if ts_provider c = ''fake'' then Inr FakeVoice
      else Inl (ValueError ''unknown transcriber provider''))"

datatype storage_spec = FakeStorage | Minio string "string option" "string option" "string option"

definition opt_secret :: "string dict \<Rightarrow> string option \<Rightarrow> pyexn + string option" where
  "opt_secret s ref =
     (if str_or ref [] = [] then Inr None else bindE (get_secret s (str_or ref [])) (\<lambda>v. Inr (Some v)))"

definition build_storage_adapter :: "storage_config \<Rightarrow> string dict \<Rightarrow> pyexn + storage_spec" where
  "build_storage_adapter c s =
     (if so_provider c = ''minio''
      then bindE (opt_secret s (so_endpoint c)) (\<lambda>e. bindE (opt_secret s (so_access c)) (\<lambda>a.
           bindE (opt_secret s (so_secret c)) (\<lambda>k. Inr (Minio (so_bucket c) e a k))))
      else if so_provider c = ''fake'' then Inr FakeStorage
      else Inl (ValueError ''unknown storage provider''))"

definition build_opt :: "('c \<Rightarrow> pyexn + 's) \<Rightarrow> 'c option \<Rightarrow> pyexn + 's option" where
  "build_opt f v = (case v of None \<Rightarrow> Inr None | Some c \<Rightarrow> bindE (f c) (\<lambda>x. Inr (Some x)))"

definition build_voice_stack ::
  "tenant_config \<Rightarrow> string dict \<Rightarrow> pyexn + voice_spec option \<times> voice_spec option \<times> storage_spec option" where
  "build_voice_stack c s =
     (case tg_voice c of
        None \<Rightarrow> Inr (None, None, None)
      | Some v \<Rightarrow>
          bindE (build_opt (\<lambda>x. build_synthesizer x s) (vo_synthesis v)) (\<lambda>sy.
          bindE (build_opt (\<lambda>x. build_transcriber x s) (vo_transcription v)) (\<lambda>tr.
          bindE (build_opt (\<lambda>x. build_storage_adapter x s) (tg_storage c)) (\<lambda>st. Inr (sy, tr, st)))))"

subsection \<open>The registry\<close>

definition messaging_of :: "tenant_config \<Rightarrow> pyexn + messaging_config" where
  "messaging_of c = (case tg_messaging c of None \<Rightarrow> Inl (ValueError ''no messaging block'') | Some m \<Rightarrow> Inr m)"

definition registry_get ::
  "tenant_files \<Rightarrow> tenant \<Rightarrow> string \<Rightarrow> registry_state \<Rightarrow> (pyexn + adapter_spec) \<times> registry_state" where
  "registry_get fi tn provider st =
     (case map_of (rs_adapters st) (tn_id tn, provider) of
        Some a \<Rightarrow> (Inr a, st)
      | None \<Rightarrow>
          (case load_config fi (tn_slug tn) st of
             (Inl e, st1) \<Rightarrow> (Inl e, st1)
           | (Inr c, st1) \<Rightarrow>
               (case messaging_of c of
                  Inl e \<Rightarrow> (Inl e, st1)
                | Inr m \<Rightarrow>
                    if mc_provider m \<noteq> provider then (Inl (ValueError ''configured another provider''), st1)
                    else (case load_secrets fi (tn_slug tn) st1 of
                            (Inl e, st2) \<Rightarrow> (Inl e, st2)
                          | (Inr s, st2) \<Rightarrow>
                              (case build_messaging_adapter m s of
                                 Inl e \<Rightarrow> (Inl e, st2)
                               | Inr a \<Rightarrow>
                                   (Inr a, st2\<lparr>rs_adapters := AList.update (tn_id tn, provider) a (rs_adapters st2)\<rparr>))))))"

definition registry_get_for_tenant ::
  "tenant_files \<Rightarrow> tenant \<Rightarrow> registry_state \<Rightarrow> (pyexn + adapter_spec) \<times> registry_state" where
  "registry_get_for_tenant fi tn st =
     (case load_config fi (tn_slug tn) st of
        (Inl e, st1) \<Rightarrow> (Inl e, st1)
      | (Inr c, st1) \<Rightarrow>
          (case messaging_of c of
             Inl e \<Rightarrow> (Inl e, st1)
           | Inr m \<Rightarrow> registry_get fi tn (mc_provider m) st1))"

definition registry_clear :: "registry_state \<Rightarrow> registry_state" where
  "registry_clear st = st\<lparr>rs_adapters := []\<rparr>"

definition empty_registry :: registry_state where
  "empty_registry = \<lparr>rs_configs = [], rs_secrets = [], rs_adapters = []\<rparr>"

text \<open>The answers without any cache.\<close>

definition resolve_adapter :: "tenant_files \<Rightarrow> string \<Rightarrow> string \<Rightarrow> pyexn + adapter_spec" where
  "resolve_adapter fi slug provider =
     bindE (read_config fi slug) (\<lambda>c. bindE (messaging_of c) (\<lambda>m.
     if mc_provider m \<noteq> provider then Inl (ValueError ''configured another provider'')
     else bindE (fi_sops fi slug) (build_messaging_adapter m)))"

definition resolve_for_tenant :: "tenant_files \<Rightarrow> string \<Rightarrow> pyexn + adapter_spec" where
  "resolve_for_tenant fi slug =
     bindE (read_config fi slug) (\<lambda>c. bindE (messaging_of c) (\<lambda>m. resolve_adapter fi slug (mc_provider m)))"

text \<open>A session of calls, as the processes make them.\<close>

datatype registry_call = Get tenant string | GetForTenant tenant | Clear

fun call_tenant :: "registry_call \<Rightarrow> tenant option" where
  "call_tenant (Get tn p) = Some tn"
| "call_tenant (GetForTenant tn) = Some tn"
| "call_tenant Clear = None"

fun run_calls ::
  "tenant_files \<Rightarrow> registry_call list \<Rightarrow> registry_state \<Rightarrow> (pyexn + adapter_spec) list \<times> registry_state" where
  "run_calls fi [] st = ([], st)"
| "run_calls fi (Get tn p # cs) st =
     (let (r, st1) = registry_get fi tn p st; (rs, st2) = run_calls fi cs st1 in (r # rs, st2))"
| "run_calls fi (GetForTenant tn # cs) st =
     (let (r, st1) = registry_get_for_tenant fi tn st; (rs, st2) = run_calls fi cs st1 in (r # rs, st2))"
| "run_calls fi (Clear # cs) st = run_calls fi cs (registry_clear st)"

fun direct_calls :: "tenant_files \<Rightarrow> registry_call list \<Rightarrow> (pyexn + adapter_spec) list" where
  "direct_calls fi [] = []"
| "direct_calls fi (Get tn p # cs) = resolve_adapter fi (tn_slug tn) p # direct_calls fi cs"
| "direct_calls fi (GetForTenant tn # cs) = resolve_for_tenant fi (tn_slug tn) # direct_calls fi cs"
| "direct_calls fi (Clear # cs) = direct_calls fi cs"

subsection \<open>The caches hold what the files say\<close>

definition coherent :: "tenant_files \<Rightarrow> (uuid \<Rightarrow> string) \<Rightarrow> registry_state \<Rightarrow> bool" where
  "coherent fi slug_of st \<longleftrightarrow>
     (\<forall>slug c. map_of (rs_configs st) slug = Some c \<longrightarrow> read_config fi slug = Inr c) \<and>
     (\<forall>slug s. map_of (rs_secrets st) slug = Some s \<longrightarrow> fi_sops fi slug = Inr s) \<and>
     (\<forall>i p a. map_of (rs_adapters st) (i, p) = Some a \<longrightarrow> resolve_adapter fi (slug_of i) p = Inr a)"

lemma load_config_coherent:
  assumes "coherent fi slug_of st" and "load_config fi slug st = (r, st')"
  shows "r = read_config fi slug" "coherent fi slug_of st'" "rs_adapters st' = rs_adapters st" "rs_secrets st' = rs_secrets st"
  using assms by (auto simp: load_config_def coherent_def update_conv' split: option.splits sum.splits if_splits)

lemma load_secrets_coherent:
  assumes "coherent fi slug_of st" and "load_secrets fi slug st = (r, st')"
  shows "r = fi_sops fi slug" "coherent fi slug_of st'" "rs_adapters st' = rs_adapters st"
  using assms by (auto simp: load_secrets_def coherent_def update_conv' split: option.splits sum.splits if_splits)

lemma registry_get_coherent:
  assumes co: "coherent fi slug_of st" and tn: "tn_slug tn = slug_of (tn_id tn)" and get: "registry_get fi tn p st = (r, st')"
  shows "r = resolve_adapter fi (tn_slug tn) p" "coherent fi slug_of st'"
proof -
  have "r = resolve_adapter fi (tn_slug tn) p \<and> coherent fi slug_of st'"
  proof (cases "map_of (rs_adapters st) (tn_id tn, p)")
    case (Some a)
    then show ?thesis using get co tn by (auto simp: registry_get_def coherent_def)
  next
    case None
    obtain rc st1 where lc: "load_config fi (tn_slug tn) st = (rc, st1)" by fastforce
    note c1 = load_config_coherent [OF co lc]
    show ?thesis
    proof (cases "bindE rc messaging_of")
      case (Inl e)
      then show ?thesis using get None lc c1(1,2)
        by (auto simp: registry_get_def resolve_adapter_def bindE_def split: sum.splits)
    next
      case (Inr m)
      then obtain c where c: "rc = Inr c" "messaging_of c = Inr m" by (auto simp: bindE_eq_Inr)
      show ?thesis
      proof (cases "mc_provider m = p")
        case False
        then show ?thesis using get None lc c c1(1,2) by (auto simp: registry_get_def resolve_adapter_def bindE_def)
      next
        case True
        obtain rs st2 where ls: "load_secrets fi (tn_slug tn) st1 = (rs, st2)" by fastforce
        note c2 = load_secrets_coherent [OF c1(2) ls]
        have res: "resolve_adapter fi (tn_slug tn) p = bindE rs (build_messaging_adapter m)"
          using c c1(1) c2(1) True by (simp add: resolve_adapter_def bindE_def)
        show ?thesis
        proof (cases "bindE rs (build_messaging_adapter m)")
          case (Inl e)
          then show ?thesis using get None lc c c2(2) ls res True
            by (auto simp: registry_get_def bindE_def split: sum.splits)
        next
          case (Inr a)
          then have "r = Inr a" "st' = st2\<lparr>rs_adapters := AList.update (tn_id tn, p) a (rs_adapters st2)\<rparr>"
            using get None lc c ls True by (auto simp: registry_get_def bindE_def split: sum.splits)
          then show ?thesis using c2(2) res Inr tn by (auto simp: coherent_def update_conv')
        qed
      qed
    qed
  qed
  then show "r = resolve_adapter fi (tn_slug tn) p" "coherent fi slug_of st'" by simp_all
qed

lemma registry_get_for_tenant_coherent:
  assumes co: "coherent fi slug_of st" and tn: "tn_slug tn = slug_of (tn_id tn)" and get: "registry_get_for_tenant fi tn st = (r, st')"
  shows "r = resolve_for_tenant fi (tn_slug tn)" "coherent fi slug_of st'"
proof -
  obtain rc st1 where lc: "load_config fi (tn_slug tn) st = (rc, st1)" by fastforce
  note c1 = load_config_coherent [OF co lc]
  show "r = resolve_for_tenant fi (tn_slug tn)" "coherent fi slug_of st'"
    using get lc c1 registry_get_coherent [OF c1(2) tn]
    by (auto simp: registry_get_for_tenant_def resolve_for_tenant_def bindE_def split: sum.splits)
qed

text \<open>A tenant that may answer by voice has a synthesizer.\<close>

lemma voice_stack_speaks:
  assumes "read_config fi slug = Inr c" and "tg_voice c = Some v" and "vo_mode v \<noteq> ''never''"
    and "build_voice_stack c s = Inr (sy, tr, st)"
  shows "sy \<noteq> None"
proof -
  have "voice_valid v"
    using assms(1,2) by (auto simp: read_config_def tenant_valid_def opt_valid_def split: option.splits if_splits)
  then have "vo_synthesis v \<noteq> None" using assms(3) by (cases "vo_synthesis v") (simp_all add: voice_valid_def)
  then show ?thesis using assms(2,4) by (auto simp: build_voice_stack_def build_opt_def bindE_eq_Inr split: option.splits)
qed

subsection \<open>Properties\<close>

text \<open>
  C23: The caches are invisible while the files of the tenants do not change: whatever calls the processes make in
  whatever order, clearing included, each answers what a call that reads and decrypts the files afresh would
  answer, error or adapter.
\<close>

theorem registry_transparent:
  assumes "\<forall>c \<in> set cs. \<forall>tn. call_tenant c = Some tn \<longrightarrow> tn_slug tn = slug_of (tn_id tn)"
  shows "fst (run_calls fi cs empty_registry) = direct_calls fi cs"
proof -
  have "fst (run_calls fi cs st) = direct_calls fi cs" if "coherent fi slug_of st" for st
    using assms that
  proof (induction cs arbitrary: st)
    case (Cons c cs)
    show ?case
    proof (cases c)
      case (Get tn p)
      obtain r st1 where g: "registry_get fi tn p st = (r, st1)" by fastforce
      show ?thesis using Cons.IH [of st1] Cons.prems Get g registry_get_coherent [OF Cons.prems(2) _ g]
        by (simp add: split_beta)
    next
      case (GetForTenant tn)
      obtain r st1 where g: "registry_get_for_tenant fi tn st = (r, st1)" by fastforce
      show ?thesis using Cons.IH [of st1] Cons.prems GetForTenant g registry_get_for_tenant_coherent [OF Cons.prems(2) _ g]
        by (simp add: split_beta)
    next
      case Clear
      have "coherent fi slug_of (registry_clear st)" using Cons.prems(2) by (simp add: coherent_def registry_clear_def)
      then show ?thesis using Cons Clear by simp
    qed
  qed simp
  then show ?thesis by (simp add: coherent_def empty_registry_def)
qed

text \<open>
  A tenant whose file passes the schema and names \<open>whatsapp_cloud\<close> gets an adapter exactly when
  its decrypted secrets have the four referenced keys; the adapter then carries their values, and otherwise the
  first missing key is a \<open>KeyError\<close>, which the webhook does not answer with 404.
\<close>

theorem configured_whatsapp:
  assumes "read_config fi slug = Inr c" and "tg_messaging c = Some m" and "mc_provider m = ''whatsapp_cloud''"
    and "fi_sops fi slug = Inr s"
  shows "\<exists>p t v k. [mc_phone m, mc_token m, mc_verify m, mc_secret m] = map (\<lambda>x. Some (secrets_prefix @ x)) [p, t, v, k] \<and>
    resolve_adapter fi slug ''whatsapp_cloud'' =
      (case find (\<lambda>x. map_of s x = None) [p, t, v, k] of
         Some x \<Rightarrow> Inl (KeyError x)
       | None \<Rightarrow> Inr (WhatsappCloud \<lparr>wa_phone = the (map_of s p), wa_token = the (map_of s t), wa_verify = the (map_of s v),
           wa_secret = the (map_of s k), wa_version = mc_version m\<rparr>))"
proof -
  have "messaging_valid m"
    using assms(1,2) by (auto simp: read_config_def tenant_valid_def opt_valid_def split: option.splits if_splits)
  then have req: "required_ref (mc_phone m)" "required_ref (mc_token m)" "required_ref (mc_verify m)" "required_ref (mc_secret m)"
    using assms(3) by (simp_all add: messaging_valid_def)
  have ref: "\<exists>x. v = Some (secrets_prefix @ x)" if "required_ref v" for v
    using that by (auto simp: required_ref_def is_ref_def starts_with_iff split: option.splits)
  obtain p t v k where r: "mc_phone m = Some (secrets_prefix @ p)" "mc_token m = Some (secrets_prefix @ t)"
      "mc_verify m = Some (secrets_prefix @ v)" "mc_secret m = Some (secrets_prefix @ k)"
    using req ref by metis
  have get: "get_secret s (secrets_prefix @ x) = (case map_of s x of None \<Rightarrow> Inl (KeyError x) | Some y \<Rightarrow> Inr y)" for x
  proof -
    have "strip_ref (secrets_prefix @ x) = x" by (simp add: strip_ref_def is_ref_def starts_with_iff)
    then show ?thesis by (simp add: get_secret_def split: option.split)
  qed
  show ?thesis
    using r assms by (intro exI [of _ p] exI [of _ t] exI [of _ v] exI [of _ k])
      (auto simp: resolve_adapter_def messaging_of_def bindE_def build_messaging_adapter_def build_whatsapp_cloud_def
        assert_some_def get split: option.splits)
qed

subsection \<open>A tenant's files\<close>

definition sample_messaging :: messaging_config where
  "sample_messaging =
     \<lparr>mc_provider = ''whatsapp_cloud'', mc_phone = Some ''secrets/wa_phone'', mc_token = Some ''secrets/wa_token'',
      mc_verify = Some ''secrets/wa_verify'', mc_secret = Some ''secrets/wa_app'', mc_version = ''v21.0'', mc_reengage = None\<rparr>"

definition sample_tenant_config :: tenant_config where
  "sample_tenant_config =
     \<lparr>tg_id = ''avelum'', tg_name = ''Avelum'', tg_timezone = ''America/Sao_Paulo'', tg_conversation = None, tg_console = Some True,
      tg_llm = None, tg_messaging = Some sample_messaging, tg_guardrails = None, tg_objections = None,
      tg_humanization = default_humanization, tg_voice = None, tg_storage = None\<rparr>"

definition sample_files :: tenant_files where
  "sample_files =
     \<lparr>fi_yaml = (\<lambda>slug. if slug = ''avelum'' then Some (Some JNull) else None), fi_reader = (\<lambda>_. Some sample_tenant_config),
      fi_sops = (\<lambda>_. Inr [(''wa_phone'', ''55''), (''wa_token'', ''tok''), (''wa_verify'', ''ver'')])\<rparr>"

lemma sample_read_config: "read_config sample_files ''avelum'' = Inr sample_tenant_config"
  by code_simp

theorem registry_transparent_witness:
  "fst (run_calls sample_files [Get sample_tenant ''fake'', GetForTenant sample_tenant, Clear] empty_registry) =
     [Inl (ValueError ''configured another provider''), Inl (KeyError ''wa_app'')]"
proof -
  have "fst (run_calls sample_files [Get sample_tenant ''fake'', GetForTenant sample_tenant, Clear] empty_registry) =
      direct_calls sample_files [Get sample_tenant ''fake'', GetForTenant sample_tenant, Clear]"
    by (rule registry_transparent [of _ "\<lambda>_. ''avelum''"]) (auto simp: sample_tenant_def)
  also have "\<dots> = [Inl (ValueError ''configured another provider''), Inl (KeyError ''wa_app'')]" by code_simp
  finally show ?thesis .
qed

theorem configured_whatsapp_witness:
  "resolve_adapter sample_files ''avelum'' ''whatsapp_cloud'' = Inl (KeyError ''wa_app'')"
proof -
  have "fi_sops sample_files ''avelum'' = Inr [(''wa_phone'', ''55''), (''wa_token'', ''tok''), (''wa_verify'', ''ver'')]"
    by (simp add: sample_files_def)
  from configured_whatsapp [OF sample_read_config _ _ this, of sample_messaging] show ?thesis
    by (auto simp: sample_tenant_config_def sample_messaging_def secrets_prefix_def)
qed

end
