(* ===== verification/Simulator.thy ===== *)
theory Simulator
  imports Lead_Assignment Tenant_Config
begin

text \<open>
  The simulator of the command line (\<open>cli/simulate.py\<close>): both loops that read a line, run one turn and
  print the reply, the one of the engine v1 (\<open>_run\<close>) and the one of the pipeline (\<open>_run_v2\<close>,
  \<open>simulate_v2_turn\<close>).  The lines the user types, the random numbers and the clock are inputs.  A session
  that is closed without a commit leaves the database as it was; a message in red with exit code 1 is the
  exception \<open>Exit\<close>.  The colours and the prompt are not modelled.
\<close>

subsection \<open>The development lead\<close>

definition label_lead :: "uuid \<Rightarrow> string \<Rightarrow> db \<Rightarrow> pyexn + lead option" where
  "label_lead tn label d =
     scalar_one_or_none (filter (\<lambda>l. ld_tenant l = tn \<and> ld_label l = Some label) (db_leads d))"

text \<open>\<open>f"+5511{uuid.uuid4().int % 10**9:09d}"\<close>; \<open>n\<close> is the random integer.\<close>

definition dev_number :: "int \<Rightarrow> string" where
  "dev_number n =
     (let ds = str_int (n mod 1000000000) in ''+5511'' @ replicate (9 - length ds) (CHR ''0'') @ ds)"

definition dev_lead_v2 :: "time \<Rightarrow> uuid \<Rightarrow> string \<Rightarrow> int \<Rightarrow> db \<Rightarrow> pyexn + db \<times> lead" where
  "dev_lead_v2 now tn label n d =
     bindE (label_lead tn label d) (\<lambda>found.
     case found of
       None \<Rightarrow>
         let phone = dev_number n in
         insert_lead ((new_lead now tn phone [(''whatsapp'', JStr phone)] LeadActive)\<lparr>ld_label := Some label\<rparr>) d
     | Some l \<Rightarrow>
         if ld_channels l = [] \<and> str_or (ld_e164 l) [] \<noteq> []
         then let l' = l\<lparr>ld_channels := [(''whatsapp'', JStr (str_or (ld_e164 l) []))]\<rparr>
              in Inr (put_lead l' d, l')
         else Inr (d, l))"

record sim_session =
  sn_tenant :: uuid
  sn_version :: uuid
  sn_phone :: string

definition prepare_v2 :: "time \<Rightarrow> string \<Rightarrow> string \<Rightarrow> string \<Rightarrow> int \<times> int \<Rightarrow> db \<Rightarrow> pyexn + db \<times> sim_session" where
  "prepare_v2 now slug tree label ns d =
     bindE (scalar_one_or_none (filter (\<lambda>t. tn_slug t = slug) (db_tenants d))) (\<lambda>found.
     case found of
       None \<Rightarrow> Inl (OtherError ''Exit'')
     | Some tn \<Rightarrow>
         if tn_architecture tn \<noteq> 2 then Inl (OtherError ''Exit'')
         else (case latest_version (tn_id tn) tree d of
                 None \<Rightarrow> Inl (OtherError ''Exit'')
               | Some v \<Rightarrow>
                   bindE (dev_lead_v2 now (tn_id tn) label (fst ns) d) (\<lambda>(d', l).
                   Inr (d', \<lparr>sn_tenant = tn_id tn, sn_version = tv_id v,
                             sn_phone = str_or (ld_e164 l) (dev_number (snd ns))\<rparr>))))"

subsection \<open>A turn of the pipeline\<close>

text \<open>What the worker and the simulator make of the guardrails of a tenant.\<close>

definition guardrail_config_of :: "guardrails_v1 option \<Rightarrow> guardrail_config" where
  "guardrail_config_of g =
     (case g of
        None \<Rightarrow> \<lparr>gc_pattern = [], gc_prices = [], gc_products = [], gc_fallback = ''Vou validar com a equipe.''\<rparr>
      | Some c \<Rightarrow> \<lparr>gc_pattern = gv_pattern c, gc_prices = map str_int (gv_prices c), gc_products = gv_products c,
                   gc_fallback = gv_fallback c\<rparr>)"

definition sim_stop_words :: "tenant_config \<Rightarrow> string list" where
  "sim_stop_words c = (case tg_conversation c of None \<Rightarrow> [''sair'', ''parar''] | Some cv \<Rightarrow> cv_stop_words cv)"

text \<open>\<open>sm_llm\<close> is the client that \<open>main_llm_for_tenant\<close> builds from a configuration and the secrets.\<close>

record 'l simulator =
  sm_files :: tenant_files
  sm_ext :: ext
  sm_llm :: "llm_config \<Rightarrow> string dict \<Rightarrow> pyexn + 'l llm"
  sm_speed :: "nat \<Rightarrow> rat"

definition llm_for_simulate :: "'l simulator \<Rightarrow> tenant_config \<Rightarrow> pyexn + 'l llm" where
  "llm_for_simulate S c =
     bindE (fi_sops (sm_files S) (tg_id c)) (\<lambda>secrets.
     case tg_llm c of None \<Rightarrow> Inl AttributeError | Some l \<Rightarrow> sm_llm S (ll_default l) secrets)"

definition sim_inbound :: "time \<Rightarrow> uuid \<Rightarrow> string \<Rightarrow> string \<Rightarrow> string \<Rightarrow> uuid \<Rightarrow> inbound" where
  "sim_inbound now tn external phone line i =
     \<lparr>in_id = i, in_tenant = tn, in_provider = ''fake'', in_external = ''sim-'' @ external, in_lead = None,
      in_from = phone, in_text = line, in_received = now, in_ingested = now, in_status = Queued,
      in_processed_at = None, in_error = None, in_media = MText, in_media_key = None, in_audio_url = None,
      in_transcription = None, in_confidence = None, in_transcriber = None,
      in_raw = JObj [(''body'', JStr line)]\<rparr>"

text \<open>\<open>session.add\<close> and \<open>flush\<close>, with the unique key of the table.\<close>

definition add_inbound :: "(uuid \<Rightarrow> inbound) \<Rightarrow> db \<Rightarrow> pyexn + db \<times> inbound" where
  "add_inbound row d =
     (let m = row (db_next d) in
      if \<exists>r \<in> set (db_inbound d). in_key r = in_key m then Inl IntegrityError
      else Inr (d\<lparr>db_inbound := db_inbound d @ [m], db_next := Suc (db_next d)\<rparr>, m))"

definition sim_env :: "'l simulator \<Rightarrow> time \<Rightarrow> tenant \<Rightarrow> treeflow_version \<Rightarrow> tenant_config \<Rightarrow> treeflow \<Rightarrow> 'l llm \<Rightarrow>
   ('l, fake_state) turn_env" where
  "sim_env S now tn v c tf llm =
     \<lparr>te_ext = sm_ext S, te_tenant = tn, te_humanization = tg_humanization c, te_treeflow = tf, te_version = v,
      te_llm = llm, te_adapter = fake_adapter, te_optout = sim_stop_words c,
      te_guardrails = guardrail_config_of (tg_guardrails c), te_voice = None, te_synth = None, te_storage = None,
      te_speed = sm_speed S, te_now = now\<rparr>"

text \<open>
  \<open>run_turn\<close> commits what the session holds when the preprocessing has found a lead that is not banned;
  before that point an exception, an opt-out or a ban leaves the session uncommitted, and closing it drops
  the inserted message with the rest.
\<close>

definition commits :: "('l, 'a) turn_env \<Rightarrow> inbound \<Rightarrow> db \<Rightarrow> bool" where
  "commits env m d =
     (case resolve_pipeline_context (te_now env) (te_tenant env) (te_treeflow env) (te_version env) (te_optout env) m d of
        Inl _ \<Rightarrow> False
      | Inr (d1, cx) \<Rightarrow> ld_risk (px_lead cx) \<noteq> RiskBanned)"

definition run_in_session ::
  "('l, 'a) turn_env \<Rightarrow> inbound \<Rightarrow> db \<Rightarrow> ('l, 'a) world \<Rightarrow> (pyexn + turn_result) \<times> ('l, 'a) world" where
  "run_in_session env m d1 w =
     (let (r, w') = run_turn env m (w\<lparr>w_db := d1\<rparr>)
      in if commits env m d1 then (r, w') else (r, w'\<lparr>w_db := w_db w\<rparr>))"

text \<open>What a turn is run on: configuration, tree, message row and model, in the order of the code.\<close>

definition turn_input ::
  "'l simulator \<Rightarrow> time \<Rightarrow> string \<Rightarrow> tenant \<Rightarrow> treeflow_version \<Rightarrow> string \<Rightarrow> string \<Rightarrow> db \<Rightarrow>
   pyexn + ('l, fake_state) turn_env \<times> db \<times> inbound" where
  "turn_input S now external tn v phone line d =
     bindE (read_config (sm_files S) (tn_slug tn)) (\<lambda>c.
     bindE (load_treeflow_v2 (sm_ext S) (tv_yaml v)) (\<lambda>tf.
     bindE (add_inbound (sim_inbound now (tn_id tn) external phone line) d) (\<lambda>(d1, m).
     bindE (llm_for_simulate S c) (\<lambda>llm. Inr (sim_env S now tn v c tf llm, d1, m)))))"

definition simulate_v2_turn ::
  "'l simulator \<Rightarrow> time \<Rightarrow> string \<Rightarrow> tenant \<Rightarrow> treeflow_version \<Rightarrow> string \<Rightarrow> string \<Rightarrow> ('l, fake_state) world \<Rightarrow>
   (pyexn + string option) \<times> ('l, fake_state) world" where
  "simulate_v2_turn S now external tn v phone line w =
     (case turn_input S now external tn v phone line (w_db w) of
        Inl e \<Rightarrow> (Inl e, w)
      | Inr (env, d1, m) \<Rightarrow>
          (case run_in_session env m d1 (w\<lparr>w_ad := fake_init\<rparr>) of
             (Inl e, w') \<Rightarrow> (Inl e, w')
           | (Inr r, w') \<Rightarrow> (Inr (if str_or (tu_text r) [] = [] then None else tu_text r), w')))"

subsection \<open>The loop of the pipeline\<close>

text \<open>A line with the random part of the message id and the time at which it is typed.\<close>

type_synonym typed_line = "string \<times> string \<times> time"

definition ends_session :: "string \<Rightarrow> bool" where
  "ends_session line \<longleftrightarrow> strip line = [] \<or> strip line = ''/quit''"

fun repl_v2 ::
  "'l simulator \<Rightarrow> sim_session \<Rightarrow> typed_line list \<Rightarrow> ('l, fake_state) world \<Rightarrow>
   (pyexn option \<times> string list) \<times> ('l, fake_state) world" where
  "repl_v2 S sn [] w = ((None, []), w)"
| "repl_v2 S sn ((line, external, now) # rest) w =
     (if ends_session line then ((None, []), w)
      else case bindE (scalar_one (filter (\<lambda>t. tn_id t = sn_tenant sn) (db_tenants (w_db w)))) (\<lambda>tn.
                bindE (scalar_one (filter (\<lambda>v. tv_id v = sn_version sn) (db_versions (w_db w)))) (\<lambda>v. Inr (tn, v))) of
             Inl e \<Rightarrow> ((Some e, []), w)
           | Inr (tn, v) \<Rightarrow>
               (case simulate_v2_turn S now external tn v (sn_phone sn) line w of
                  (Inl e, w') \<Rightarrow> ((Some e, []), w')
                | (Inr out, w') \<Rightarrow>
                    (case repl_v2 S sn rest w' of
                       ((e, outs), w'') \<Rightarrow> ((e, (case out of None \<Rightarrow> outs | Some x \<Rightarrow> x # outs)), w''))))"

subsection \<open>The loop of the engine v1\<close>

definition dev_lead_v1 :: "time \<Rightarrow> uuid \<Rightarrow> string \<Rightarrow> db \<Rightarrow> pyexn + db \<times> lead" where
  "dev_lead_v1 now tn label d =
     bindE (label_lead tn label d) (\<lambda>found.
     case found of
       None \<Rightarrow> insert_lead ((new_lead now tn [] [] LeadActive)\<lparr>ld_e164 := None, ld_label := Some label\<rparr>) d
     | Some l \<Rightarrow> Inr (d, l))"

definition prepare_v1 ::
  "tree_files \<Rightarrow> time \<Rightarrow> string \<Rightarrow> string \<Rightarrow> string \<Rightarrow> legacy_db \<Rightarrow> pyexn + talkflow \<times> legacy_db" where
  "prepare_v1 F now slug tree label d =
     bindE (scalar_one_or_none (filter (\<lambda>t. tn_slug t = slug) (db_tenants (lg_db d)))) (\<lambda>found.
     case found of
       None \<Rightarrow> Inl (OtherError ''Exit'')
     | Some tn \<Rightarrow>
         bindE (dev_lead_v1 now (tn_id tn) label (lg_db d)) (\<lambda>(d1, l).
         bindE (fst (publish_version F now tn tree Map.empty d1)) (\<lambda>(v, d2).
         create_talkflow tn (ld_id l) tree (on_db (\<lambda>_. d2) d))))"

text \<open>
  \<open>DELETE FROM talkflows\<close>; the follow-up jobs of the conversation go with it (\<open>ON DELETE CASCADE\<close>).
\<close>

definition delete_talkflow :: "uuid \<Rightarrow> legacy_db \<Rightarrow> legacy_db" where
  "delete_talkflow i d =
     d\<lparr>lg_talkflows := filter (\<lambda>t. wf_id t \<noteq> i) (lg_talkflows d),
       lg_jobs := filter (\<lambda>j. fj_talkflow j \<noteq> i) (lg_jobs d)\<rparr>"

record 'l sim_v1 =
  s1_checkpoint :: "v1_state option"
  s1_llm :: 'l
  s1_data :: legacy_db

text \<open>
  What a step prints is the node, the reply and whether the conversation is complete.  Its session is
  closed without a commit, so the status that \<open>step\<close> writes is lost; the checkpoint is saved on a
  connection of its own.  The second component of a step is the last line read.
\<close>

fun repl_v1 ::
  "'l v1_env \<Rightarrow> nat \<Rightarrow> uuid \<Rightarrow> string \<Rightarrow> string list \<Rightarrow> 'l sim_v1 \<Rightarrow> (pyexn option \<times> (string \<times> string) list) \<times> 'l sim_v1"
where
  "repl_v1 E limit i msg lines s =
     (case runtime_step E limit (s1_checkpoint s) msg (s1_llm s) of
        (Some e, c, l) \<Rightarrow> ((Some e, []), s\<lparr>s1_checkpoint := c, s1_llm := l\<rparr>)
      | (None, None, l) \<Rightarrow> ((Some AttributeError, []), s\<lparr>s1_llm := l\<rparr>)
      | (None, Some st, l) \<Rightarrow>
          let s' = s\<lparr>s1_checkpoint := Some st, s1_llm := l\<rparr>; shown = (v1_node st, v1_reply st) in
          if v1_done st then ((None, [shown]), s')
          else (case lines of
                  [] \<Rightarrow> ((None, [shown]), s')
                | line # rest \<Rightarrow>
                    if strip line = ''/quit'' then ((None, [shown]), s')
                    else if strip line = ''/restart''
                    then ((None, [shown]), s'\<lparr>s1_data := delete_talkflow i (s1_data s')\<rparr>)
                    else (case repl_v1 E limit i line rest s' of ((e, outs), s'') \<Rightarrow> ((e, shown # outs), s''))))"

declare repl_v1.simps [simp del]

definition without_classifier :: "'l v1_env \<Rightarrow> 'l v1_env" where
  "without_classifier E =
     E\<lparr>ve_objections := \<lparr>oc_enabled = False, oc_min_confidence = 3 / 5, oc_max_handled = 10, oc_window = 4\<rparr>\<rparr>"

subsection \<open>A session belongs to one lead\<close>

lemma resolve_found:
  assumes "filter (\<lambda>l. ld_tenant l = tn_id tn \<and> map_of (ld_channels l) ''whatsapp'' = Some (JStr (in_from m))) (db_leads d) = [l]"
  shows "resolve_lead now tn m d = Inr (d, l)"
  using assms by (simp add: resolve_lead_def find_by_channel_identifier_def scalar_one_or_none_def)

lemma resolve_context_leads:
  assumes "resolve_pipeline_context now tn tf ver kws m d = Inr (d', cx)" and "resolve_lead now tn m d = Inr (d, l)"
  shows "db_leads d' = db_leads d \<and> px_lead cx = l"
proof -
  have open_leads: "db_leads d2 = db_leads d" if "open_talk now tn tf ver m l d = Inr (d2, t)" for d2 t
  proof -
    have "returns (open_talk now tn tf ver m l d) (\<lambda>r. db_leads (fst r) = db_leads d)"
      unfolding open_talk_def Let_def create_talk_def initialize_state_def prod.case
      by (intro returns_intro) (simp add: put_state_def)
    from returnsD [OF this that] show ?thesis by simp
  qed
  show ?thesis
    using assms open_leads
    by (auto simp: resolve_pipeline_context_def Let_def bindE_eq_Inr split: if_splits option.splits)
qed

lemma deliver_leads:
  assumes "deliver env l m t st d target w = (Inr r, w')"
  shows "db_leads (w_db w') = db_leads (w_db w)"
  using assms
proof (cases rule: deliver_cases)
  case (sent tokens rr a d')
  then show ?thesis using record_outbound_frame [OF sent(2)] by (simp add: put_frames)
next
  case (voice_failed msg a)
  then show ?thesis by (auto elim!: send_fallback_cases simp: put_frames)
qed

lemma run_turn_leads:
  assumes run: "run_turn env m w = (r, w')"
    and lead: "resolve_lead (te_now env) (te_tenant env) m (w_db w) = Inr (w_db w, l)"
  shows "db_leads (w_db w') = db_leads (w_db w)"
  using run
proof (cases rule: run_turn_cases)
  case (committed d1 cx res)
  note d1 = resolve_context_leads [OF committed(1) lead, THEN conjunct1]
  from committed(3) show ?thesis
  proof (cases rule: locked_turn_cases)
    case (human t st)
    then show ?thesis using d1 by simp
  next
    case (ai t st)
    from ai(4) show ?thesis
    proof (cases rule: answer_turn_cases)
      case (exhausted cached fresh d0 s0 msg s1)
      then show ?thesis using d1 by (auto elim!: send_fallback_cases simp: put_frames)
    next
      case (answered cached fresh d0 s0 d s1 d' target s2 t' st' d2 q1)
      have "db_leads d2 = db_leads d1"
        using apply_decision_frame(5) [OF answered(4)] unfolding extends_def
        by (auto dest: arg_cong [where f = db_leads])
      then show ?thesis using deliver_leads [OF answered(5)] d1 by simp
    qed
  qed
qed (auto dest: resolve_context_leads [OF _ lead])

text \<open>The leads of a tenant that carry a channel identifier.\<close>

definition identified :: "uuid \<Rightarrow> string \<Rightarrow> db \<Rightarrow> lead list" where
  "identified tn p d =
     filter (\<lambda>l. ld_tenant l = tn \<and> map_of (ld_channels l) ''whatsapp'' = Some (JStr p)) (db_leads d)"

lemma identified_resolves: "identified (tn_id tn) (in_from m) d = [l] \<Longrightarrow> resolve_lead now tn m d = Inr (d, l)"
  by (rule resolve_found) (simp add: identified_def)

lemma identified_cong: "db_leads d' = db_leads d \<Longrightarrow> identified tn p d' = identified tn p d"
  by (simp add: identified_def)

lemma turn_input_cases:
  assumes "turn_input S now external tn v phone line d = Inr (env, d1, m)"
  shows "db_leads d1 = db_leads d" "in_from m = phone" "te_tenant env = tn"
  using assms
  by (auto simp: turn_input_def bindE_eq_Inr add_inbound_def sim_inbound_def sim_env_def Let_def split: if_splits)

lemma run_in_session_leads:
  assumes "run_in_session env m d1 w = (r, w')" and "identified (tn_id (te_tenant env)) (in_from m) d1 = [l]"
    and "db_leads d1 = db_leads (w_db w)"
  shows "db_leads (w_db w') = db_leads (w_db w)"
proof -
  obtain r2 w2 where run: "run_turn env m (w\<lparr>w_db := d1\<rparr>) = (r2, w2)" by fastforce
  have "db_leads (w_db w2) = db_leads d1"
    using run_turn_leads [OF run] identified_resolves [OF assms(2)] by simp
  then show ?thesis using assms(1,3) run by (auto simp: run_in_session_def split: if_splits)
qed

lemma simulate_v2_turn_leads:
  assumes turn: "simulate_v2_turn S now external tn v phone line w = (r, w')"
    and one: "identified (tn_id tn) phone (w_db w) = [l]"
  shows "db_leads (w_db w') = db_leads (w_db w)"
proof (cases "turn_input S now external tn v phone line (w_db w)")
  case (Inl e)
  then show ?thesis using turn by (simp add: simulate_v2_turn_def)
next
  case (Inr p)
  obtain env d1 m where p: "p = (env, d1, m)" by (cases p)
  note input = turn_input_cases [OF Inr [unfolded p]]
  obtain r2 w2 where run: "run_in_session env m d1 (w\<lparr>w_ad := fake_init\<rparr>) = (r2, w2)" by fastforce
  have "w' = w2" using turn Inr p run by (auto simp: simulate_v2_turn_def split: sum.splits)
  moreover have "db_leads (w_db w2) = db_leads (w_db w)"
    using run_in_session_leads [OF run] input one identified_cong [OF input(1)] by simp
  ultimately show ?thesis by simp
qed

lemma repl_v2_leads:
  assumes "repl_v2 S sn lines w = (r, w')" and "identified (sn_tenant sn) (sn_phone sn) (w_db w) = [l]"
  shows "db_leads (w_db w') = db_leads (w_db w)"
  using assms
proof (induction S sn lines w arbitrary: r rule: repl_v2.induct)
  case (2 S sn line external now rest w)
  show ?case
  proof (cases "w_db w' = w_db w")
    case False
    obtain tn v where tn: "scalar_one (filter (\<lambda>t. tn_id t = sn_tenant sn) (db_tenants (w_db w))) = Inr tn"
        and v: "scalar_one (filter (\<lambda>v. tv_id v = sn_version sn) (db_versions (w_db w))) = Inr v"
        and go: "\<not> ends_session line"
      using 2(2) False by (auto simp: bindE_def split: if_splits sum.splits)
    obtain out w1 where turn: "simulate_v2_turn S now external tn v (sn_phone sn) line w = (out, w1)" by fastforce
    have "filter (\<lambda>t. tn_id t = sn_tenant sn) (db_tenants (w_db w)) = [tn]"
      using tn by (auto simp: scalar_one_def split: list.splits)
    then have "tn \<in> set (filter (\<lambda>t. tn_id t = sn_tenant sn) (db_tenants (w_db w)))" by simp
    then have one: "identified (tn_id tn) (sn_phone sn) (w_db w) = [l]" using 2(3) by simp
    note w1 = simulate_v2_turn_leads [OF turn one]
    show ?thesis
    proof (cases out)
      case (Inl e)
      then show ?thesis using 2(2) tn v go turn w1 by simp
    next
      case (Inr x)
      obtain e outs where rest: "repl_v2 S sn rest w1 = ((e, outs), w')"
        using 2(2) tn v go turn Inr by (auto split: prod.splits)
      have "identified (sn_tenant sn) (sn_phone sn) w1' = [l]" if "w1' = w_db w1" for w1'
        using 2(3) identified_cong [OF w1] that by simp
      then have "db_leads (w_db w') = db_leads (w_db w1)"
        using 2(1) [of "(tn, v)" tn v out w1 x] go tn v turn rest Inr by simp
      then show ?thesis using w1 by simp
    qed
  qed simp
qed simp

text \<open>
  Rows of leads with unique ids, numbers that are unique in a tenant (the index \<open>uq_leads_tenant_wa\<close>), and
  WhatsApp identifiers that repeat the number of their lead.
\<close>

definition leads_wf :: "db \<Rightarrow> bool" where
  "leads_wf d \<longleftrightarrow>
     distinct (map ld_id (db_leads d)) \<and> (\<forall>l \<in> set (db_leads d). ld_id l < db_next d) \<and>
     (\<forall>tn p. length (filter (\<lambda>l. ld_tenant l = tn \<and> ld_e164 l = Some p) (db_leads d)) \<le> 1) \<and>
     (\<forall>l \<in> set (db_leads d). \<forall>p. map_of (ld_channels l) ''whatsapp'' = Some (JStr p) \<longrightarrow> ld_e164 l = Some p)"

lemma filter_single:
  assumes "length (filter P xs) \<le> 1" and "\<forall>x \<in> set xs. Q x \<longrightarrow> P x" and "x \<in> set xs" "Q x"
  shows "filter Q xs = [x]"
proof -
  have eq: "filter Q xs = filter Q (filter P xs)" using assms(2) by (auto intro: filter_cong)
  have "x \<in> set (filter P xs)" using assms(2-4) by simp
  then obtain y ys where y: "filter P xs = y # ys" by (cases "filter P xs") auto
  then have "filter P xs = [x]" using assms(1) \<open>x \<in> set (filter P xs)\<close> by simp
  then show ?thesis using eq assms(4) by simp
qed

lemma identified_one:
  assumes "leads_wf d" and "l \<in> set (db_leads d)" "ld_tenant l = tn" "map_of (ld_channels l) ''whatsapp'' = Some (JStr p)"
  shows "identified tn p d = [l]"
  unfolding identified_def
  by (rule filter_single [where P = "\<lambda>l. ld_tenant l = tn \<and> ld_e164 l = Some p"]) (use assms in \<open>auto simp: leads_wf_def\<close>)

lemma insert_lead_wf:
  assumes wf: "leads_wf d" and ins: "insert_lead l d = Inr (d', l')"
    and p: "ld_e164 l = Some p" "map_of (ld_channels l) ''whatsapp'' = Some (JStr p)"
  shows "leads_wf d' \<and> l' \<in> set (db_leads d') \<and> l' = l\<lparr>ld_id := db_next d\<rparr>"
proof -
  have l': "l' = l\<lparr>ld_id := db_next d\<rparr>" and d': "db_leads d' = db_leads d @ [l']" "db_next d' = Suc (db_next d)"
    and fresh: "\<forall>r \<in> set (db_leads d). \<not> (ld_tenant r = ld_tenant l \<and> ld_e164 r = ld_e164 l)"
    using ins p(1) by (auto simp: insert_lead_def Let_def split: if_splits)
  have "length (filter (\<lambda>r. ld_tenant r = tn \<and> ld_e164 r = Some q) (db_leads d')) \<le> 1" for tn q
  proof (cases "ld_tenant l = tn \<and> q = p")
    case True
    then have none: "filter (\<lambda>r. ld_tenant r = tn \<and> ld_e164 r = Some q) (db_leads d) = []"
      using fresh p(1) by (auto simp: filter_empty_conv)
    show ?thesis unfolding d' filter_append none by simp
  next
    case False
    then show ?thesis using wf p(1) by (auto simp: leads_wf_def d' l')
  qed
  moreover have "distinct (map ld_id (db_leads d'))" "\<forall>r \<in> set (db_leads d'). ld_id r < db_next d'"
    "\<forall>r \<in> set (db_leads d'). \<forall>q. map_of (ld_channels r) ''whatsapp'' = Some (JStr q) \<longrightarrow> ld_e164 r = Some q"
    using wf p by (auto simp: leads_wf_def d' l' less_SucI)
  ultimately show ?thesis by (simp add: leads_wf_def d'(1) l')
qed

lemma put_lead_wf:
  assumes wf: "leads_wf d" and l: "l \<in> set (db_leads d)" and e: "ld_e164 l = Some p"
  shows "leads_wf (put_lead (l\<lparr>ld_channels := [(''whatsapp'', JStr p)]\<rparr>) d) \<and>
    l\<lparr>ld_channels := [(''whatsapp'', JStr p)]\<rparr> \<in> set (db_leads (put_lead (l\<lparr>ld_channels := [(''whatsapp'', JStr p)]\<rparr>) d))"
proof -
  define f where "f r = (if ld_id r = ld_id l then l\<lparr>ld_channels := [(''whatsapp'', JStr p)]\<rparr> else r)" for r
  have rows: "db_leads (put_lead (l\<lparr>ld_channels := [(''whatsapp'', JStr p)]\<rparr>) d) = map f (db_leads d)"
    by (simp add: put_lead_def update_where_def f_def)
  have same: "ld_id (f r) = ld_id r \<and> ld_tenant (f r) = ld_tenant r \<and> ld_e164 (f r) = ld_e164 r"
    if "r \<in> set (db_leads d)" for r
    using that l wf by (auto simp: f_def leads_wf_def distinct_map inj_on_def)
  have ids: "map ld_id (map f (db_leads d)) = map ld_id (db_leads d)" using same by simp
  have count: "length (filter (\<lambda>r. ld_tenant r = tn \<and> ld_e164 r = Some q) (map f (db_leads d))) =
      length (filter (\<lambda>r. ld_tenant r = tn \<and> ld_e164 r = Some q) (db_leads d))" for tn q
    using same by (simp add: filter_map comp_def cong: filter_cong)
  have chans: "\<forall>q. map_of (ld_channels (f r)) ''whatsapp'' = Some (JStr q) \<longrightarrow> ld_e164 (f r) = Some q"
    if "r \<in> set (db_leads d)" for r
    using that wf e by (auto simp: f_def leads_wf_def)
  have "leads_wf (put_lead (l\<lparr>ld_channels := [(''whatsapp'', JStr p)]\<rparr>) d)"
    unfolding leads_wf_def rows ids count using wf same chans by (simp add: leads_wf_def put_lead_def)
  moreover have "f l = l\<lparr>ld_channels := [(''whatsapp'', JStr p)]\<rparr>" by (simp add: f_def)
  then have "l\<lparr>ld_channels := [(''whatsapp'', JStr p)]\<rparr> \<in> set (map f (db_leads d))"
    using l by (metis image_eqI list.set_map)
  ultimately show ?thesis by (simp add: rows)
qed

text \<open>A lead that the simulator can use: it has a number, which is its WhatsApp identifier if it has any.\<close>

definition reachable_lead :: "lead \<Rightarrow> bool" where
  "reachable_lead l \<longleftrightarrow>
     str_or (ld_e164 l) [] \<noteq> [] \<and> (ld_channels l = [] \<or> map_of (ld_channels l) ''whatsapp'' = map_option JStr (ld_e164 l))"

lemma scalar_Some_in: "scalar_one_or_none rows = Inr (Some r) \<Longrightarrow> r \<in> set rows"
  by (cases rows; cases "tl rows") (auto simp: scalar_one_or_none_def)

lemma prepare_v2_lead:
  assumes "prepare_v2 now slug tree label ns d = Inr (d', sn)"
  obtains l where "dev_lead_v2 now (sn_tenant sn) label (fst ns) d = Inr (d', l)"
    "sn_phone sn = str_or (ld_e164 l) (dev_number (snd ns))"
proof -
  obtain found where found: "scalar_one_or_none (filter (\<lambda>t. tn_slug t = slug) (db_tenants d)) = Inr found"
    using assms by (auto simp: prepare_v2_def bindE_eq_Inr)
  then obtain tn where tn: "found = Some tn" "tn_architecture tn = 2"
    using assms by (cases found) (auto simp: prepare_v2_def split: if_splits)
  then obtain v where "latest_version (tn_id tn) tree d = Some v"
    using assms found by (cases "latest_version (tn_id tn) tree d") (auto simp: prepare_v2_def)
  then show ?thesis using assms found tn that by (auto simp: prepare_v2_def bindE_eq_Inr)
qed

lemma dev_lead_ready:
  assumes wf: "leads_wf d" and dev: "dev_lead_v2 now tn label n d = Inr (d', l)"
    and own: "\<forall>r \<in> set (db_leads d). ld_tenant r = tn \<and> ld_label r = Some label \<longrightarrow> reachable_lead r"
  shows "leads_wf d' \<and> l \<in> set (db_leads d') \<and> ld_tenant l = tn \<and> ld_label l = Some label \<and>
    (\<exists>p. p \<noteq> [] \<and> ld_e164 l = Some p \<and> map_of (ld_channels l) ''whatsapp'' = Some (JStr p))"
proof -
  obtain found where f: "label_lead tn label d = Inr found" using dev by (auto simp: dev_lead_v2_def bindE_eq_Inr)
  show ?thesis
  proof (cases found)
    case None
    then have "insert_lead ((new_lead now tn (dev_number n) [(''whatsapp'', JStr (dev_number n))] LeadActive)\<lparr>ld_label := Some label\<rparr>) d = Inr (d', l)"
      using dev f by (simp add: dev_lead_v2_def Let_def)
    from insert_lead_wf [OF wf this, of "dev_number n"] show ?thesis
      by (auto simp: new_lead_def dev_number_def Let_def)
  next
    case (Some r)
    then have "r \<in> set (filter (\<lambda>l. ld_tenant l = tn \<and> ld_label l = Some label) (db_leads d))"
      using f unfolding label_lead_def by (metis scalar_Some_in)
    then have r: "r \<in> set (db_leads d)" "ld_tenant r = tn" "ld_label r = Some label" "reachable_lead r" using own by auto
    then obtain p where p: "ld_e164 r = Some p" "p \<noteq> []"
      by (auto simp: reachable_lead_def str_or_def split: option.splits if_splits)
    show ?thesis
    proof (cases "ld_channels r = []")
      case True
      then have "d' = put_lead (r\<lparr>ld_channels := [(''whatsapp'', JStr p)]\<rparr>) d" "l = r\<lparr>ld_channels := [(''whatsapp'', JStr p)]\<rparr>"
        using dev f Some p by (auto simp: dev_lead_v2_def str_or_def Let_def)
      then show ?thesis using put_lead_wf [OF wf r(1) p(1)] r p by simp
    next
      case False
      then show ?thesis using dev f Some r p wf by (auto simp: dev_lead_v2_def reachable_lead_def)
    qed
  qed
qed

text \<open>
  When the labelled lead has no number, as the leads of the other loop (\<open>dev_lead_v1\<close>), the session takes a
  random number: its first turn creates a lead without a label, and each session another one.
\<close>

theorem unnumbered_lead_is_passed_over:
  assumes "label_lead (sn_tenant sn) label d = Inr (Some l)" and "str_or (ld_e164 l) [] = []"
    and "prepare_v2 now slug tree label ns d = Inr (d', sn)"
    and "tn_id tn = sn_tenant sn" and "in_from m = sn_phone sn"
    and "\<forall>r \<in> set (db_leads d). ld_tenant r = sn_tenant sn \<longrightarrow>
      ld_e164 r \<noteq> Some (sn_phone sn) \<and> map_of (ld_channels r) ''whatsapp'' \<noteq> Some (JStr (sn_phone sn))"
  shows "sn_phone sn = dev_number (snd ns) \<and>
    (\<exists>d2 r. resolve_lead later tn m d' = Inr (d2, r) \<and> ld_label r = None \<and> db_leads d2 = db_leads d' @ [r])"
proof -
  obtain l' where dev: "dev_lead_v2 now (sn_tenant sn) label (fst ns) d = Inr (d', l')"
      and phone: "sn_phone sn = str_or (ld_e164 l') (dev_number (snd ns))"
    using assms(3) by (rule prepare_v2_lead)
  have d': "d' = d" "l' = l" using dev assms(1,2) by (simp_all add: dev_lead_v2_def)
  have "str_or (ld_e164 l) x = x" for x using assms(2) by (auto simp: str_or_def split: option.splits if_splits)
  then have number: "sn_phone sn = dev_number (snd ns)" using phone d' by simp
  have none: "filter (\<lambda>l. ld_tenant l = tn_id tn \<and> map_of (ld_channels l) ''whatsapp'' = Some (JStr (in_from m))) (db_leads d) = []"
    using assms(4-6) by (auto simp: filter_empty_conv)
  have "\<not> (\<exists>r \<in> set (db_leads d). ld_tenant r = tn_id tn \<and> ld_e164 r = Some (in_from m))" using assms(4-6) by auto
  then show ?thesis
    using none number d'
    by (auto simp: resolve_lead_def find_by_channel_identifier_def scalar_one_or_none_def insert_lead_def new_lead_def Let_def)
qed

subsection \<open>A session\<close>

definition sim_tenant_config :: tenant_config where
  "sim_tenant_config =
     sample_tenant_config\<lparr>tg_messaging := None,
       tg_llm := Some \<lparr>ll_default = \<lparr>lc_provider = ''anthropic'', lc_model = ''claude'', lc_temperature = None,
                                      lc_max_tokens = None, lc_key_ref = ''secrets/llm''\<rparr>,
                        ll_classifier = None, ll_embeddings_ref = None, ll_cache = False\<rparr>\<rparr>"

definition sample_simulator :: "script simulator" where
  "sample_simulator =
     \<lparr>sm_files = sample_files\<lparr>fi_reader := (\<lambda>_. Some sim_tenant_config), fi_sops := (\<lambda>_. Inr [(''llm'', ''key'')])\<rparr>,
      sm_ext = sample_ext, sm_llm = (\<lambda>c secrets. Inr script_llm), sm_speed = (\<lambda>n. 10)\<rparr>"

definition sim_db :: db where
  "sim_db =
     (case prepare_v2 4000 ''avelum'' ''captacao'' ''ana'' (7, 8) sample_db of Inl _ \<Rightarrow> sample_db | Inr (d, _) \<Rightarrow> d)"

definition sim_session_1 :: sim_session where
  "sim_session_1 = \<lparr>sn_tenant = 1, sn_version = 2, sn_phone = ''+5511000000007''\<rparr>"

definition sim_lines :: "typed_line list" where
  "sim_lines = [(''oi'', ''a1'', 5000), ('' /quit '', ''a2'', 6000), (''alo'', ''a3'', 7000)]"

definition sim_run :: "(pyexn option \<times> string list) \<times> (script, fake_state) world" where
  "sim_run = repl_v2 sample_simulator sim_session_1 sim_lines ((sample_world [sample_decision] sample_db)\<lparr>w_db := sim_db\<rparr>)"

lemma sim_prepared: "prepare_v2 4000 ''avelum'' ''captacao'' ''ana'' (7, 8) sample_db = Inr (sim_db, sim_session_1)"
  by code_simp

lemma sim_printed: "fst sim_run = (None, [''Ola! Qual o seu nome?'']) \<and> map ld_label (db_leads sim_db) = [None, Some ''ana'']"
  by code_simp

text \<open>
  C35: A session of the simulator on the pipeline belongs to the lead of its label.  When the label is new,
  or its lead has a number, then after any lines, with whatever answers and failures, no lead has been
  created or changed and a message from the number of the session is still the labelled lead's.
\<close>

theorem session_keeps_lead:
  assumes "leads_wf d" and "prepare_v2 now slug tree label ns d = Inr (d', sn)"
    and "\<forall>r \<in> set (db_leads d). ld_tenant r = sn_tenant sn \<and> ld_label r = Some label \<longrightarrow> reachable_lead r"
    and "repl_v2 S sn lines (w\<lparr>w_db := d'\<rparr>) = (r, w')"
  shows "db_leads (w_db w') = db_leads d' \<and>
    (\<exists>l. ld_label l = Some label \<and>
       (\<forall>tn m later. tn_id tn = sn_tenant sn \<and> in_from m = sn_phone sn \<longrightarrow> resolve_lead later tn m (w_db w') = Inr (w_db w', l)))"
proof -
  obtain l where l: "dev_lead_v2 now (sn_tenant sn) label (fst ns) d = Inr (d', l)"
      and phone: "sn_phone sn = str_or (ld_e164 l) (dev_number (snd ns))"
    using assms(2) by (rule prepare_v2_lead)
  note ready = dev_lead_ready [OF assms(1) l assms(3)]
  then have one: "identified (sn_tenant sn) (sn_phone sn) d' = [l]"
    using phone by (auto intro!: identified_one simp: str_or_def)
  then have leads: "db_leads (w_db w') = db_leads d'" using repl_v2_leads [OF assms(4)] by simp
  moreover have "resolve_lead later tn m (w_db w') = Inr (w_db w', l)"
    if "tn_id tn = sn_tenant sn" "in_from m = sn_phone sn" for later tn m
    by (rule identified_resolves) (simp add: that identified_cong [OF leads] one)
  ultimately show ?thesis using ready by blast
qed

theorem session_keeps_lead_witness:
  "fst sim_run = (None, [''Ola! Qual o seu nome?'']) \<and> map ld_label (db_leads (w_db (snd sim_run))) = [None, Some ''ana'']"
proof -
  have wf: "leads_wf sample_db" by (auto simp: leads_wf_def sample_db_def sample_lead_def new_lead_def)
  have "db_leads (w_db (snd sim_run)) = db_leads sim_db"
    using session_keeps_lead [OF wf sim_prepared _ prod.collapse [symmetric], where S = sample_simulator and lines = sim_lines
        and w = "sample_world [sample_decision] sample_db"]
    by (auto simp: sim_run_def sample_db_def sample_lead_def new_lead_def)
  then show ?thesis using sim_printed by simp
qed

text \<open>
  The status \<open>completed\<close> that a step of the engine v1 writes is lost with its session: the loop changes the
  tables only when the user restarts.
\<close>

theorem simulated_flow_not_saved:
  assumes "\<forall>line \<in> set lines. strip line \<noteq> ''/restart''"
  shows "s1_data (snd (repl_v1 E limit i msg lines s)) = s1_data s"
  using assms
proof (induction E limit i msg lines s rule: repl_v1.induct)
  case (1 E limit i msg lines s)
  obtain e c l where step: "runtime_step E limit (s1_checkpoint s) msg (s1_llm s) = (e, c, l)" by (metis prod_cases3)
  show ?case
  proof (cases "\<exists>st line rest. e = None \<and> c = Some st \<and> \<not> v1_done st \<and> lines = line # rest \<and> strip line \<noteq> ''/quit''")
    case True
    then obtain st line rest where e: "e = None" "c = Some st" "\<not> v1_done st" "lines = line # rest" "strip line \<noteq> ''/quit''"
      by blast
    let ?s = "s\<lparr>s1_checkpoint := Some st, s1_llm := l\<rparr>"
    have go: "strip line \<noteq> ''/restart''" using 1(2) e(4) by simp
    have "s1_data (snd (repl_v1 E limit i line rest ?s)) = s1_data ?s"
      by (rule 1(1)) (use step e go 1(2) in auto)
    moreover obtain e2 outs s2 where "repl_v1 E limit i line rest ?s = ((e2, outs), s2)" by (metis prod.collapse)
    ultimately show ?thesis using step e go by (simp add: repl_v1.simps [of E limit i msg])
  next
    case False
    then show ?thesis
      using step 1(2) by (cases e; cases c; cases lines) (auto simp: repl_v1.simps [of E limit i msg] Let_def)
  qed
qed

end
