(* ===== verification/Schema.thy ===== *)
theory Schema
  imports Sdr_Prelude
begin

text \<open>
  The tables of PostgreSQL as the migrations of \<open>migrations/versions\<close> see them: columns, named constraints,
  indexes, policies of row level security, and the operations of Alembic (\<open>op.create_table\<close>,
  \<open>op.add_column\<close>, ...) and of the SQL that the migrations execute.  Each operation works on one table;
  that a referenced table exists, and that no other table refers to a dropped one, is not checked here.
  A \<open>CHECK\<close> is an expression with the three truth values of SQL.
\<close>

subsection \<open>Tables\<close>

text \<open>A text between single quotes, as SQL writes a literal.\<close>

definition quoted :: "string \<Rightarrow> string" where
  "quoted s = [CHR 0x27] @ s @ [CHR 0x27]"

datatype pg_type =
    TUuid | TVarchar nat | TText | TTimestamp | TInteger | TFloat | TBoolean | TJsonb | TVector nat | TEnum string

text \<open>A default is a literal (also \<open>text("'x'")\<close>) or an SQL expression.\<close>

datatype pg_default = Lit string | Sql string

record pg_column =
  pc_name :: string
  pc_type :: pg_type
  pc_null :: bool
  pc_default :: "pg_default option"

definition col :: "string \<Rightarrow> pg_type \<Rightarrow> bool \<Rightarrow> pg_default option \<Rightarrow> pg_column" where
  "col n ty null d = \<lparr>pc_name = n, pc_type = ty, pc_null = null, pc_default = d\<rparr>"

datatype check =
    CkIn string "string list"
  | CkInInt string "int list"
  | CkAtLeast string int
  | CkEq string string
  | CkNe string string
  | CkNull string
  | CkNotNull string
  | CkAnd check check
  | CkOr check check

datatype pg_rule =
    PrimaryKey "string list"
  | Unique "string list"
  | ForeignKey "string list" string "string list" string
  | Check check

datatype index_key = Asc string | Desc string | Expr string

record pg_index =
  px_name :: string
  px_keys :: "index_key list"
  px_unique :: bool
  px_where :: "check option"

definition idx :: "string \<Rightarrow> index_key list \<Rightarrow> bool \<Rightarrow> check option \<Rightarrow> pg_index" where
  "idx n ks u w = \<lparr>px_name = n, px_keys = ks, px_unique = u, px_where = w\<rparr>"

text \<open>A policy with its name and whether it states \<open>WITH CHECK\<close> too; all compare \<open>tenant_id\<close>.\<close>

record pg_table =
  pt_columns :: "pg_column list"
  pt_rules :: "(string \<times> pg_rule) list"
  pt_indexes :: "pg_index list"
  pt_policies :: "(string \<times> bool) list"
  pt_rls :: bool
  pt_forced :: bool

subsection \<open>What a column is used in\<close>

fun check_columns :: "check \<Rightarrow> string list" where
  "check_columns (CkAnd a b) = check_columns a @ check_columns b"
| "check_columns (CkOr a b) = check_columns a @ check_columns b"
| "check_columns (CkIn c vs) = [c]"
| "check_columns (CkInInt c vs) = [c]"
| "check_columns (CkAtLeast c n) = [c]"
| "check_columns (CkEq c v) = [c]"
| "check_columns (CkNe c v) = [c]"
| "check_columns (CkNull c) = [c]"
| "check_columns (CkNotNull c) = [c]"

fun rule_columns :: "pg_rule \<Rightarrow> string list" where
  "rule_columns (PrimaryKey cs) = cs"
| "rule_columns (Unique cs) = cs"
| "rule_columns (ForeignKey cs t ts od) = cs"
| "rule_columns (Check c) = check_columns c"

fun key_columns :: "index_key \<Rightarrow> string list" where
  "key_columns (Asc c) = [c]"
| "key_columns (Desc c) = [c]"
| "key_columns (Expr e) = []"

fun rename_rule :: "string \<Rightarrow> string \<Rightarrow> pg_rule \<Rightarrow> pg_rule" where
  "rename_rule a b (PrimaryKey cs) = PrimaryKey (map (\<lambda>c. if c = a then b else c) cs)"
| "rename_rule a b (Unique cs) = Unique (map (\<lambda>c. if c = a then b else c) cs)"
| "rename_rule a b (ForeignKey cs t ts od) = ForeignKey (map (\<lambda>c. if c = a then b else c) cs) t ts od"
| "rename_rule a b (Check c) = Check c"

fun rename_key :: "string \<Rightarrow> string \<Rightarrow> index_key \<Rightarrow> index_key" where
  "rename_key a b (Asc c) = Asc (if c = a then b else c)"
| "rename_key a b (Desc c) = Desc (if c = a then b else c)"
| "rename_key a b (Expr e) = Expr e"

subsection \<open>Operations on a table\<close>

datatype change =
    Create "pg_column list" "(string option \<times> pg_rule) list"
  | Drop
  | AddColumn pg_column
  | DropColumn string
  | RenameColumn string string
  | SetNotNull string
  | AddRule string pg_rule
  | DropRule string
  | AddIndex pg_index
  | DropIndex string
  | DropIndexIfExists string
  | EnableRls
  | ForceRls bool
  | AddPolicy string bool
  | DropPolicy string

text \<open>The names that PostgreSQL gives to constraints without one.\<close>

definition underscored :: "string list \<Rightarrow> string" where
  "underscored ws = concat (map (\<lambda>w. w @ ''_'') ws)"

fun rule_name :: "string \<Rightarrow> string option \<times> pg_rule \<Rightarrow> string \<times> pg_rule" where
  "rule_name t (Some n, r) = (n, r)"
| "rule_name t (None, PrimaryKey cs) = (t @ ''_pkey'', PrimaryKey cs)"
| "rule_name t (None, Unique cs) = (t @ ''_'' @ underscored cs @ ''key'', Unique cs)"
| "rule_name t (None, ForeignKey cs r ts od) = (t @ ''_'' @ underscored cs @ ''fkey'', ForeignKey cs r ts od)"
| "rule_name t (None, Check c) = (t @ ''_check'', Check c)"

definition column_names :: "pg_table \<Rightarrow> string list" where
  "column_names T = map pc_name (pt_columns T)"

definition all_known :: "string list \<Rightarrow> string list \<Rightarrow> bool" where
  "all_known cs names = list_all (\<lambda>c. c \<in> set names) cs"

definition create_table :: "string \<Rightarrow> pg_column list \<Rightarrow> (string option \<times> pg_rule) list \<Rightarrow> pyexn + pg_table" where
  "create_table t cs rs =
     (let T = \<lparr>pt_columns = cs, pt_rules = map (rule_name t) rs, pt_indexes = [], pt_policies = [],
               pt_rls = False, pt_forced = False\<rparr>
      in if \<not> distinct (column_names T) then Inl (OtherError ''DuplicateColumn'')
         else if \<not> distinct (map fst (pt_rules T)) then Inl (OtherError ''DuplicateObject'')
         else if \<not> list_all (\<lambda>(n, r). all_known (rule_columns r) (column_names T)) (pt_rules T)
         then Inl (OtherError ''UndefinedColumn'')
         else Inr T)"

fun alter :: "change \<Rightarrow> pg_table \<Rightarrow> pyexn + pg_table" where
  "alter (AddColumn c) T =
     (if pc_name c \<in> set (column_names T) then Inl (OtherError ''DuplicateColumn'')
      else Inr (T\<lparr>pt_columns := pt_columns T @ [c]\<rparr>))"
| "alter (DropColumn n) T =
     (if n \<notin> set (column_names T) then Inl (OtherError ''UndefinedColumn'')
      else Inr (T\<lparr>pt_columns := filter (\<lambda>c. pc_name c \<noteq> n) (pt_columns T),
                  pt_rules := filter (\<lambda>r. n \<notin> set (rule_columns (snd r))) (pt_rules T),
                  pt_indexes := filter (\<lambda>x. n \<notin> set (concat (map key_columns (px_keys x)))) (pt_indexes T)\<rparr>))"
| "alter (RenameColumn a b) T =
     (if a \<notin> set (column_names T) then Inl (OtherError ''UndefinedColumn'')
      else if b \<in> set (column_names T) then Inl (OtherError ''DuplicateColumn'')
      else Inr (T\<lparr>pt_columns := map (\<lambda>c. if pc_name c = a then c\<lparr>pc_name := b\<rparr> else c) (pt_columns T),
                  pt_rules := map (\<lambda>(n, r). (n, rename_rule a b r)) (pt_rules T),
                  pt_indexes := map (\<lambda>x. x\<lparr>px_keys := map (rename_key a b) (px_keys x)\<rparr>) (pt_indexes T)\<rparr>))"
| "alter (SetNotNull n) T =
     (if n \<notin> set (column_names T) then Inl (OtherError ''UndefinedColumn'')
      else Inr (T\<lparr>pt_columns := map (\<lambda>c. if pc_name c = n then c\<lparr>pc_null := False\<rparr> else c) (pt_columns T)\<rparr>))"
| "alter (AddRule n r) T =
     (if n \<in> set (map fst (pt_rules T)) then Inl (OtherError ''DuplicateObject'')
      else if \<not> all_known (rule_columns r) (column_names T) then Inl (OtherError ''UndefinedColumn'')
      else Inr (T\<lparr>pt_rules := pt_rules T @ [(n, r)]\<rparr>))"
| "alter (DropRule n) T =
     (if n \<notin> set (map fst (pt_rules T)) then Inl (OtherError ''UndefinedObject'')
      else Inr (T\<lparr>pt_rules := filter (\<lambda>r. fst r \<noteq> n) (pt_rules T)\<rparr>))"
| "alter (AddIndex x) T =
     (if px_name x \<in> set (map px_name (pt_indexes T)) then Inl (OtherError ''DuplicateTable'')
      else if \<not> all_known (concat (map key_columns (px_keys x))) (column_names T) then Inl (OtherError ''UndefinedColumn'')
      else Inr (T\<lparr>pt_indexes := pt_indexes T @ [x]\<rparr>))"
| "alter (DropIndex n) T =
     (if n \<notin> set (map px_name (pt_indexes T)) then Inl (OtherError ''UndefinedObject'')
      else Inr (T\<lparr>pt_indexes := filter (\<lambda>x. px_name x \<noteq> n) (pt_indexes T)\<rparr>))"
| "alter (DropIndexIfExists n) T = Inr (T\<lparr>pt_indexes := filter (\<lambda>x. px_name x \<noteq> n) (pt_indexes T)\<rparr>)"
| "alter EnableRls T = Inr (T\<lparr>pt_rls := True\<rparr>)"
| "alter (ForceRls b) T = Inr (T\<lparr>pt_forced := b\<rparr>)"
| "alter (AddPolicy n w) T =
     (if n \<in> set (map fst (pt_policies T)) then Inl (OtherError ''DuplicateObject'')
      else if ''tenant_id'' \<notin> set (column_names T) then Inl (OtherError ''UndefinedColumn'')
      else Inr (T\<lparr>pt_policies := pt_policies T @ [(n, w)]\<rparr>))"
| "alter (DropPolicy n) T = Inr (T\<lparr>pt_policies := filter (\<lambda>p. fst p \<noteq> n) (pt_policies T)\<rparr>)"
| "alter (Create cs rs) T = Inl (OtherError ''DuplicateTable'')"
| "alter Drop T = Inl (OtherError ''UndefinedTable'')"

definition apply_change :: "string \<Rightarrow> change \<Rightarrow> pg_table option \<Rightarrow> pyexn + pg_table option" where
  "apply_change t ch x =
     (case (x, ch) of
        (None, Create cs rs) \<Rightarrow> bindE (create_table t cs rs) (\<lambda>T. Inr (Some T))
      | (None, _) \<Rightarrow> Inl (OtherError ''UndefinedTable'')
      | (Some T, Drop) \<Rightarrow> Inr None
      | (Some T, _) \<Rightarrow> bindE (alter ch T) (\<lambda>T'. Inr (Some T')))"

subsection \<open>Migrations\<close>

text \<open>
  \<open>Data\<close> stands for a statement that moves rows and leaves the schema alone; \<open>Backfill\<close> models what it moves.
\<close>

datatype mig_op =
    On string change
  | CreateType string "string list"
  | DropType string
  | Extension string bool
  | Data string

record schema =
  sc_table :: "string \<Rightarrow> pg_table option"
  sc_types :: "(string \<times> string list) list"
  sc_extensions :: "string list"

definition empty_schema :: schema where
  "empty_schema = \<lparr>sc_table = (\<lambda>_. None), sc_types = [], sc_extensions = []\<rparr>"

fun apply_op :: "mig_op \<Rightarrow> schema \<Rightarrow> pyexn + schema" where
  "apply_op (On t ch) s = bindE (apply_change t ch (sc_table s t)) (\<lambda>x. Inr (s\<lparr>sc_table := (sc_table s)(t := x)\<rparr>))"
| "apply_op (CreateType n vs) s =
     (if n \<in> set (map fst (sc_types s)) then Inl (OtherError ''DuplicateObject'')
      else Inr (s\<lparr>sc_types := sc_types s @ [(n, vs)]\<rparr>))"
| "apply_op (DropType n) s = Inr (s\<lparr>sc_types := filter (\<lambda>x. fst x \<noteq> n) (sc_types s)\<rparr>)"
| "apply_op (Extension n add) s =
     Inr (s\<lparr>sc_extensions := (if \<not> add then removeAll n (sc_extensions s)
                              else if n \<in> set (sc_extensions s) then sc_extensions s else sc_extensions s @ [n])\<rparr>)"
| "apply_op (Data what) s = Inr s"

fun run_ops :: "mig_op list \<Rightarrow> schema \<Rightarrow> pyexn + schema" where
  "run_ops [] s = Inr s"
| "run_ops (x # xs) s = bindE (apply_op x s) (run_ops xs)"

record migration =
  mg_revision :: string
  mg_parent :: "string option"
  mg_up :: "mig_op list"
  mg_down :: "mig_op list"

subsection \<open>One table at a time\<close>

text \<open>
  A run works on every table on its own: its effect on a table is that of the operations on this table.
\<close>

fun changes :: "string \<Rightarrow> mig_op list \<Rightarrow> change list" where
  "changes t [] = []"
| "changes t (On u ch # xs) = (if u = t then ch # changes t xs else changes t xs)"
| "changes t (_ # xs) = changes t xs"

fun run_table :: "string \<Rightarrow> change list \<Rightarrow> pg_table option \<Rightarrow> pyexn + pg_table option" where
  "run_table t [] x = Inr x"
| "run_table t (ch # chs) x = bindE (apply_change t ch x) (run_table t chs)"

text \<open>The operations that are on no table, and the tables that a list of operations is about.\<close>

fun off_tables :: "mig_op list \<Rightarrow> mig_op list" where
  "off_tables [] = []"
| "off_tables (On u ch # xs) = off_tables xs"
| "off_tables (x # xs) = x # off_tables xs"

fun touched :: "mig_op list \<Rightarrow> string list" where
  "touched [] = []"
| "touched (On u ch # xs) = (let ts = touched xs in if u \<in> set ts then ts else u # ts)"
| "touched (x # xs) = touched xs"

lemma untouched: "t \<notin> set (touched xs) \<Longrightarrow> changes t xs = []"
  by (induction xs rule: touched.induct) (auto simp: Let_def split: if_splits)

lemma changes_append: "changes t (xs @ ys) = changes t xs @ changes t ys"
  by (induction xs rule: off_tables.induct) auto

lemma run_table_append: "run_table t (xs @ ys) x = bindE (run_table t xs x) (run_table t ys)"
  by (induction xs arbitrary: x) (auto simp: bindE_def split: sum.splits)

lemma run_ops_append: "run_ops (xs @ ys) s = bindE (run_ops xs s) (run_ops ys)"
  by (induction xs arbitrary: s) (auto simp: bindE_def split: sum.splits)

lemma apply_off: "apply_op x s = Inr s' \<Longrightarrow> (\<forall>u ch. x \<noteq> On u ch) \<Longrightarrow> sc_table s' = sc_table s"
  by (cases x) (auto split: if_splits)

lemma run_ops_table:
  "run_ops xs s = Inr s' \<Longrightarrow> run_table t (changes t xs) (sc_table s t) = Inr (sc_table s' t)"
proof (induction xs arbitrary: s)
  case (Cons x xs)
  then obtain s1 where x: "apply_op x s = Inr s1" and xs: "run_ops xs s1 = Inr s'" by (auto simp: bindE_eq_Inr)
  note IH = Cons.IH [OF xs]
  show ?case
  proof (cases "\<exists>u ch. x = On u ch")
    case True
    then obtain u ch y where "x = On u ch" "apply_change u ch (sc_table s u) = Inr y" "s1 = s\<lparr>sc_table := (sc_table s)(u := y)\<rparr>"
      using x by (auto simp: bindE_eq_Inr)
    then show ?thesis using IH by auto
  next
    case False
    then have "changes t (x # xs) = changes t xs" by (cases x) auto
    then show ?thesis using IH apply_off [OF x] False by simp
  qed
qed simp

lemma apply_off_frame:
  "(\<forall>u ch. x \<noteq> On u ch) \<Longrightarrow> apply_op x (s\<lparr>sc_table := f\<rparr>) = map_sum id (\<lambda>r. r\<lparr>sc_table := f\<rparr>) (apply_op x s)"
  by (cases x) auto

lemma run_off: "run_ops (off_tables xs) (s\<lparr>sc_table := f\<rparr>) = map_sum id (\<lambda>r. r\<lparr>sc_table := f\<rparr>) (run_ops (off_tables xs) s)"
proof (induction xs arbitrary: s)
  case (Cons x xs)
  show ?case
  proof (cases "\<exists>u ch. x = On u ch")
    case False
    then have "off_tables (x # xs) = x # off_tables xs" by (cases x) auto
    then show ?thesis
      using Cons.IH apply_off_frame [of x f s] False by (cases "apply_op x s") (auto simp: bindE_def)
  qed (use Cons.IH in auto)
qed simp

lemma run_ops_if_tables:
  assumes "\<And>t. \<exists>y. run_table t (changes t xs) (sc_table s t) = Inr y" and "run_ops (off_tables xs) s = Inr s0"
  shows "\<exists>s'. run_ops xs s = Inr s' \<and> sc_types s' = sc_types s0 \<and> sc_extensions s' = sc_extensions s0"
  using assms
proof (induction xs arbitrary: s s0)
  case (Cons x xs)
  show ?case
  proof (cases "\<exists>u ch. x = On u ch")
    case True
    then obtain u ch where x: "x = On u ch" by blast
    obtain y where y: "apply_change u ch (sc_table s u) = Inr y"
      using Cons.prems(1) [of u] x by (auto simp: bindE_eq_Inr)
    define s1 where "s1 = s\<lparr>sc_table := (sc_table s)(u := y)\<rparr>"
    have tables: "\<exists>z. run_table t (changes t xs) (sc_table s1 t) = Inr z" for t
      using Cons.prems(1) [of t] x y by (auto simp: s1_def split: if_splits)
    have "run_ops (off_tables xs) s1 = Inr (s0\<lparr>sc_table := (sc_table s)(u := y)\<rparr>)"
      using Cons.prems(2) x run_off by (simp add: s1_def)
    from Cons.IH [OF tables this] show ?thesis using x y by (simp add: s1_def)
  next
    case False
    then have off: "off_tables (x # xs) = x # off_tables xs" "\<And>t. changes t (x # xs) = changes t xs" by (cases x; simp)+
    then obtain s1 where x: "apply_op x s = Inr s1" and rest: "run_ops (off_tables xs) s1 = Inr s0"
      using Cons.prems(2) by (auto simp: bindE_eq_Inr)
    have "\<exists>z. run_table t (changes t xs) (sc_table s1 t) = Inr z" for t
      using Cons.prems(1) [of t] off(2) apply_off [OF x] False by simp
    from Cons.IH [OF this rest] show ?thesis using x by simp
  qed
qed simp

end
