(* ===== verification/Migrations_Base.thy ===== *)
theory Migrations_Base
  imports Schema
begin

text \<open>
  The migrations 0001 to 0012: extensions, tenants, trees, knowledge base, leads, messages, users and
  follow-ups.  Each list is a call by call translation of \<open>upgrade\<close> or \<open>downgrade\<close>; the loops over
  tables are written out, and the enumeration of a column is a type of its own.
\<close>

definition up_0001 :: "mig_op list" where
  "up_0001 =
    [Extension ''uuid-ossp'' True,
     Extension ''vector'' True]"

definition down_0001 :: "mig_op list" where
  "down_0001 =
    [Extension ''vector'' False,
     Extension ''uuid-ossp'' False]"

definition up_0002 :: "mig_op list" where
  "up_0002 =
    [On ''tenants'' (Create
      [col ''id'' TUuid False (Some (Sql ''uuid_generate_v4()'')),
       col ''slug'' (TVarchar 64) False None,
       col ''display_name'' (TVarchar 255) False None,
       col ''created_at'' TTimestamp False (Some (Sql ''now()'')),
       col ''updated_at'' TTimestamp False (Some (Sql ''now()''))]
      [(None, PrimaryKey [''id'']),
       (None, Unique [''slug''])]),
     On ''tenants'' (AddIndex (idx ''ix_tenants_slug'' [Asc ''slug''] True None))]"

definition down_0002 :: "mig_op list" where
  "down_0002 =
    [On ''tenants'' (DropIndex ''ix_tenants_slug''),
     On ''tenants'' Drop]"

definition up_0003 :: "mig_op list" where
  "up_0003 =
    [On ''treeflow_versions'' (Create
      [col ''id'' TUuid False (Some (Sql ''uuid_generate_v4()'')),
       col ''tenant_id'' TUuid False None,
       col ''treeflow_id'' (TVarchar 128) False None,
       col ''version'' (TVarchar 32) False None,
       col ''content_hash'' (TVarchar 64) False None,
       col ''content_yaml'' TText False None,
       col ''created_at'' TTimestamp False (Some (Sql ''now()''))]
      [(None, PrimaryKey [''id'']),
       (None, ForeignKey [''tenant_id''] ''tenants'' [''id''] ''CASCADE''),
       (Some ''uq_tfv_tenant_id_ver'', Unique [''tenant_id'', ''treeflow_id'', ''version''])]),
     On ''treeflow_versions'' (AddIndex (idx ''ix_treeflow_versions_tenant_id'' [Asc ''tenant_id''] False None)),
     CreateType ''talkflow_status'' [''active'', ''completed'', ''cold''],
     On ''talkflows'' (Create
      [col ''id'' TUuid False (Some (Sql ''uuid_generate_v4()'')),
       col ''tenant_id'' TUuid False None,
       col ''lead_id'' (TVarchar 128) False None,
       col ''treeflow_version_id'' TUuid False None,
       col ''thread_id'' (TVarchar 256) False None,
       col ''status'' (TEnum ''talkflow_status'') False (Some (Lit ''active'')),
       col ''created_at'' TTimestamp False (Some (Sql ''now()'')),
       col ''updated_at'' TTimestamp False (Some (Sql ''now()''))]
      [(None, PrimaryKey [''id'']),
       (None, ForeignKey [''tenant_id''] ''tenants'' [''id''] ''CASCADE''),
       (None, ForeignKey [''treeflow_version_id''] ''treeflow_versions'' [''id''] ''RESTRICT''),
       (Some ''uq_talkflows_tenant_lead'', Unique [''tenant_id'', ''lead_id'']),
       (Some ''uq_talkflows_thread_id'', Unique [''thread_id''])]),
     On ''talkflows'' (AddIndex (idx ''ix_talkflows_tenant_id'' [Asc ''tenant_id''] False None)),
     On ''talkflows'' (AddIndex (idx ''ix_talkflows_thread_id'' [Asc ''thread_id''] True None)),
     On ''treeflow_versions'' (EnableRls),
     On ''treeflow_versions'' (ForceRls True),
     On ''treeflow_versions'' (AddPolicy ''tenant_iso'' True),
     On ''talkflows'' (EnableRls),
     On ''talkflows'' (ForceRls True),
     On ''talkflows'' (AddPolicy ''tenant_iso'' True)]"

definition down_0003 :: "mig_op list" where
  "down_0003 =
    [On ''talkflows'' (DropPolicy ''tenant_iso''),
     On ''treeflow_versions'' (DropPolicy ''tenant_iso''),
     On ''talkflows'' (DropIndex ''ix_talkflows_thread_id''),
     On ''talkflows'' (DropIndex ''ix_talkflows_tenant_id''),
     On ''talkflows'' Drop,
     DropType ''talkflow_status'',
     On ''treeflow_versions'' (DropIndex ''ix_treeflow_versions_tenant_id''),
     On ''treeflow_versions'' Drop]"

definition up_0004 :: "mig_op list" where
  "up_0004 =
    []"

definition down_0004 :: "mig_op list" where
  "down_0004 =
    []"

definition up_0005 :: "mig_op list" where
  "up_0005 =
    [On ''kb_documents'' (Create
      [col ''id'' TUuid False (Some (Sql ''uuid_generate_v4()'')),
       col ''tenant_id'' TUuid False None,
       col ''kb_id'' (TVarchar 128) False None,
       col ''doc_path'' TText False None,
       col ''content_hash'' (TVarchar 64) False None,
       col ''content_md'' TText False None,
       col ''indexed_at'' TTimestamp False (Some (Sql ''now()'')),
       col ''created_at'' TTimestamp False (Some (Sql ''now()'')),
       col ''updated_at'' TTimestamp False (Some (Sql ''now()''))]
      [(None, PrimaryKey [''id'']),
       (None, ForeignKey [''tenant_id''] ''tenants'' [''id''] ''CASCADE''),
       (Some ''uq_kb_documents_path'', Unique [''tenant_id'', ''kb_id'', ''doc_path''])]),
     On ''kb_documents'' (AddIndex (idx ''ix_kb_documents_tenant_id'' [Asc ''tenant_id''] False None)),
     On ''kb_chunks'' (Create
      [col ''id'' TUuid False (Some (Sql ''uuid_generate_v4()'')),
       col ''document_id'' TUuid False None,
       col ''tenant_id'' TUuid False None,
       col ''kb_id'' (TVarchar 128) False None,
       col ''chunk_idx'' TInteger False None,
       col ''heading_path'' TText True None,
       col ''content'' TText False None,
       col ''token_count'' TInteger False None,
       col ''embedding'' (TVector 1536) False None,
       col ''created_at'' TTimestamp False (Some (Sql ''now()''))]
      [(None, PrimaryKey [''id'']),
       (None, ForeignKey [''document_id''] ''kb_documents'' [''id''] ''CASCADE''),
       (Some ''uq_kb_chunks_doc_idx'', Unique [''document_id'', ''chunk_idx''])]),
     On ''kb_chunks'' (AddIndex (idx ''ix_kb_chunks_document_id'' [Asc ''document_id''] False None)),
     On ''kb_chunks'' (AddIndex (idx ''ix_kb_chunks_filter'' [Asc ''tenant_id'', Asc ''kb_id''] False None)),
     On ''kb_chunks'' (AddIndex (idx ''ix_kb_chunks_embedding'' [Expr ''embedding vector_cosine_ops''] False None)),
     On ''kb_documents'' (EnableRls),
     On ''kb_documents'' (ForceRls True),
     On ''kb_documents'' (AddPolicy ''tenant_iso'' True),
     On ''kb_chunks'' (EnableRls),
     On ''kb_chunks'' (ForceRls True),
     On ''kb_chunks'' (AddPolicy ''tenant_iso'' True)]"

definition down_0005 :: "mig_op list" where
  "down_0005 =
    [On ''kb_chunks'' (DropPolicy ''tenant_iso''),
     On ''kb_documents'' (DropPolicy ''tenant_iso''),
     On ''kb_chunks'' (DropIndexIfExists ''ix_kb_chunks_embedding''),
     On ''kb_chunks'' (DropIndex ''ix_kb_chunks_filter''),
     On ''kb_chunks'' (DropIndex ''ix_kb_chunks_document_id''),
     On ''kb_chunks'' Drop,
     On ''kb_documents'' (DropIndex ''ix_kb_documents_tenant_id''),
     On ''kb_documents'' Drop]"

definition up_0006 :: "mig_op list" where
  "up_0006 =
    [On ''leads'' (Create
      [col ''id'' TUuid False (Some (Sql ''uuid_generate_v4()'')),
       col ''tenant_id'' TUuid False None,
       col ''whatsapp_e164'' TText True None,
       col ''external_label'' TText True None,
       col ''status'' TText False (Some (Lit ''pending_assignment'')),
       col ''unreachable_reason'' TText True None,
       col ''created_at'' TTimestamp False (Some (Sql ''now()'')),
       col ''updated_at'' TTimestamp False (Some (Sql ''now()''))]
      [(None, PrimaryKey [''id'']),
       (None, ForeignKey [''tenant_id''] ''tenants'' [''id''] ''CASCADE''),
       (Some ''ck_leads_status'', Check (CkIn ''status'' [''pending_assignment'', ''active'', ''unreachable'']))]),
     On ''leads'' (AddIndex (idx ''uq_leads_tenant_wa'' [Asc ''tenant_id'',
        Asc ''whatsapp_e164''] True (Some (CkNotNull ''whatsapp_e164'')))),
     On ''leads'' (AddIndex (idx ''uq_leads_tenant_label'' [Asc ''tenant_id'',
        Asc ''external_label''] True (Some (CkNotNull ''external_label'')))),
     On ''leads'' (AddIndex (idx ''ix_leads_tenant_status'' [Asc ''tenant_id'', Asc ''status''] False None)),
     On ''leads'' (EnableRls),
     On ''leads'' (ForceRls True),
     On ''leads'' (AddPolicy ''leads_tenant_isolation'' True)]"

definition down_0006 :: "mig_op list" where
  "down_0006 =
    [On ''leads'' (DropPolicy ''leads_tenant_isolation''),
     On ''leads'' (DropIndex ''ix_leads_tenant_status''),
     On ''leads'' (DropIndex ''uq_leads_tenant_label''),
     On ''leads'' (DropIndex ''uq_leads_tenant_wa''),
     On ''leads'' Drop]"

definition up_0007 :: "mig_op list" where
  "up_0007 =
    [On ''inbound_messages'' (Create
      [col ''id'' TUuid False (Some (Sql ''uuid_generate_v4()'')),
       col ''tenant_id'' TUuid False None,
       col ''provider'' TText False None,
       col ''external_id'' TText False None,
       col ''lead_id'' TUuid True None,
       col ''from_address'' TText False None,
       col ''text'' TText False None,
       col ''received_at'' TTimestamp False None,
       col ''ingested_at'' TTimestamp False (Some (Sql ''now()'')),
       col ''status'' TText False (Some (Lit ''queued'')),
       col ''processed_at'' TTimestamp True None,
       col ''error_detail'' TText True None,
       col ''raw'' TJsonb False None]
      [(None, PrimaryKey [''id'']),
       (None, ForeignKey [''tenant_id''] ''tenants'' [''id''] ''CASCADE''),
       (None, ForeignKey [''lead_id''] ''leads'' [''id''] ''SET NULL''),
       (Some ''uq_inbound_provider_extid'', Unique [''tenant_id'', ''provider'', ''external_id'']),
       (Some ''ck_inbound_messages_status'', Check (CkIn ''status'' [''queued'', ''processed'', ''skipped_dedupe'',
        ''error'']))]),
     On ''inbound_messages'' (AddIndex (idx ''ix_inbound_lead_status'' [Asc ''lead_id'',
        Asc ''status''] False (Some (CkIn ''status'' [''queued'', ''error''])))),
     On ''inbound_messages'' (EnableRls),
     On ''inbound_messages'' (ForceRls True),
     On ''inbound_messages'' (AddPolicy ''inbound_messages_tenant_isolation'' True)]"

definition down_0007 :: "mig_op list" where
  "down_0007 =
    [On ''inbound_messages'' (DropPolicy ''inbound_messages_tenant_isolation''),
     On ''inbound_messages'' (DropIndex ''ix_inbound_lead_status''),
     On ''inbound_messages'' Drop]"

definition up_0008 :: "mig_op list" where
  "up_0008 =
    [On ''leads'' (ForceRls False),
     On ''talkflows'' (ForceRls False),
     Data ''insert leads'',
     On ''talkflows'' (DropRule ''uq_talkflows_tenant_lead''),
     On ''talkflows'' (AddColumn (col ''lead_uuid'' TUuid True None)),
     Data ''update talkflows'',
     On ''talkflows'' (DropColumn ''lead_id''),
     On ''talkflows'' (RenameColumn ''lead_uuid'' ''lead_id''),
     On ''talkflows'' (SetNotNull ''lead_id''),
     On ''talkflows'' (AddRule ''fk_talkflows_lead_id'' (ForeignKey [''lead_id''] ''leads'' [''id''] ''RESTRICT'')),
     On ''talkflows'' (AddRule ''uq_talkflows_tenant_lead'' (Unique [''tenant_id'', ''lead_id''])),
     On ''talkflows'' (ForceRls True),
     On ''leads'' (ForceRls True)]"

definition down_0008 :: "mig_op list" where
  "down_0008 =
    [On ''talkflows'' (DropRule ''uq_talkflows_tenant_lead''),
     On ''talkflows'' (DropRule ''fk_talkflows_lead_id''),
     On ''talkflows'' (AddColumn (col ''lead_id_str'' (TVarchar 128) True None)),
     Data ''update talkflows'',
     On ''talkflows'' (DropColumn ''lead_id''),
     On ''talkflows'' (RenameColumn ''lead_id_str'' ''lead_id''),
     On ''talkflows'' (SetNotNull ''lead_id''),
     On ''talkflows'' (AddRule ''uq_talkflows_tenant_lead'' (Unique [''tenant_id'', ''lead_id'']))]"

definition up_0009 :: "mig_op list" where
  "up_0009 =
    [On ''users'' (Create
      [col ''id'' TUuid False (Some (Sql ''uuid_generate_v4()'')),
       col ''username'' TText False None,
       col ''password_hash'' TText False None,
       col ''is_platform_admin'' TBoolean False (Some (Sql ''false'')),
       col ''created_at'' TTimestamp False (Some (Sql ''now()'')),
       col ''last_login_at'' TTimestamp True None]
      [(None, PrimaryKey [''id''])]),
     On ''users'' (AddIndex (idx ''uq_users_username_lower'' [Expr ''lower(username)''] True None)),
     On ''user_tenant_access'' (Create
      [col ''user_id'' TUuid False None,
       col ''tenant_id'' TUuid False None,
       col ''role'' TText False None,
       col ''granted_at'' TTimestamp False (Some (Sql ''now()''))]
      [(None, PrimaryKey [''user_id'', ''tenant_id'']),
       (None, ForeignKey [''user_id''] ''users'' [''id''] ''CASCADE''),
       (None, ForeignKey [''tenant_id''] ''tenants'' [''id''] ''CASCADE''),
       (Some ''ck_user_tenant_access_role'', Check (CkIn ''role'' [''operator'', ''tenant_admin'']))]),
     On ''user_tenant_access'' (AddIndex (idx ''ix_user_tenant_access_tenant'' [Asc ''tenant_id''] False None))]"

definition down_0009 :: "mig_op list" where
  "down_0009 =
    [On ''user_tenant_access'' (DropIndex ''ix_user_tenant_access_tenant''),
     On ''user_tenant_access'' Drop,
     On ''users'' (DropIndexIfExists ''uq_users_username_lower''),
     On ''users'' Drop]"

definition up_0010 :: "mig_op list" where
  "up_0010 =
    [On ''follow_up_jobs'' (Create
      [col ''id'' TUuid False (Some (Sql ''uuid_generate_v4()'')),
       col ''tenant_id'' TUuid False None,
       col ''talkflow_id'' TUuid False None,
       col ''lead_id'' TUuid False None,
       col ''attempt_number'' TInteger False None,
       col ''scheduled_at'' TTimestamp False None,
       col ''status'' TText False (Some (Lit ''pending'')),
       col ''fired_at'' TTimestamp True None,
       col ''sent_external_id'' TText True None,
       col ''error_detail'' TText True None,
       col ''created_at'' TTimestamp False (Some (Sql ''now()''))]
      [(None, PrimaryKey [''id'']),
       (None, ForeignKey [''tenant_id''] ''tenants'' [''id''] ''CASCADE''),
       (None, ForeignKey [''talkflow_id''] ''talkflows'' [''id''] ''CASCADE''),
       (None, ForeignKey [''lead_id''] ''leads'' [''id''] ''CASCADE''),
       (Some ''ck_follow_up_jobs_status'', Check (CkIn ''status'' [''pending'', ''completed'', ''cancelled'',
        ''error''])),
       (Some ''ck_follow_up_jobs_attempt_positive'', Check (CkAtLeast ''attempt_number'' 1))]),
     On ''follow_up_jobs'' (AddIndex (idx ''ix_follow_up_jobs_due'' [Asc ''scheduled_at''] False (Some (CkEq
        ''status'' ''pending'')))),
     On ''follow_up_jobs'' (AddIndex (idx ''ix_follow_up_jobs_lead_pending'' [Asc ''lead_id''] False (Some (CkEq
        ''status'' ''pending'')))),
     On ''follow_up_jobs'' (EnableRls),
     On ''follow_up_jobs'' (ForceRls True),
     On ''follow_up_jobs'' (AddPolicy ''follow_up_jobs_tenant_isolation'' True),
     On ''talkflows'' (AddColumn (col ''last_agent_message_at'' TTimestamp True None)),
     On ''talkflows'' (AddColumn (col ''last_lead_message_at'' TTimestamp True None)),
     On ''talkflows'' (AddColumn (col ''follow_up_attempt_number'' TInteger False (Some (Sql ''0''))))]"

definition down_0010 :: "mig_op list" where
  "down_0010 =
    [On ''talkflows'' (DropColumn ''follow_up_attempt_number''),
     On ''talkflows'' (DropColumn ''last_lead_message_at''),
     On ''talkflows'' (DropColumn ''last_agent_message_at''),
     On ''follow_up_jobs'' (DropPolicy ''follow_up_jobs_tenant_isolation''),
     On ''follow_up_jobs'' (DropIndex ''ix_follow_up_jobs_lead_pending''),
     On ''follow_up_jobs'' (DropIndex ''ix_follow_up_jobs_due''),
     On ''follow_up_jobs'' Drop]"

definition up_0011 :: "mig_op list" where
  "up_0011 =
    [On ''outbound_messages'' (Create
      [col ''id'' TUuid False (Some (Sql ''uuid_generate_v4()'')),
       col ''tenant_id'' TUuid False None,
       col ''talkflow_id'' TUuid False None,
       col ''lead_id'' TUuid False None,
       col ''provider'' TText False None,
       col ''message_type'' TText False None,
       col ''body_text'' TText True None,
       col ''template_ref'' TText True None,
       col ''template_language'' TText True None,
       col ''template_params'' TJsonb True None,
       col ''status'' TText False None,
       col ''external_id'' TText True None,
       col ''error_detail'' TText True None,
       col ''triggered_by'' TText False None,
       col ''inbound_message_id'' TUuid True None,
       col ''follow_up_job_id'' TUuid True None,
       col ''sent_at'' TTimestamp False None,
       col ''created_at'' TTimestamp False (Some (Sql ''now()''))]
      [(None, PrimaryKey [''id'']),
       (None, ForeignKey [''tenant_id''] ''tenants'' [''id''] ''CASCADE''),
       (None, ForeignKey [''talkflow_id''] ''talkflows'' [''id''] ''CASCADE''),
       (None, ForeignKey [''lead_id''] ''leads'' [''id''] ''CASCADE''),
       (None, ForeignKey [''inbound_message_id''] ''inbound_messages'' [''id''] ''SET NULL''),
       (None, ForeignKey [''follow_up_job_id''] ''follow_up_jobs'' [''id''] ''SET NULL''),
       (Some ''ck_outbound_message_type'', Check (CkIn ''message_type'' [''text'', ''template''])),
       (Some ''ck_outbound_status'', Check (CkIn ''status'' [''sent'', ''failed''])),
       (Some ''ck_outbound_triggered_by'', Check (CkIn ''triggered_by'' [''inbound'', ''follow_up_scanner'',
        ''window_expired_recovery''])),
       (Some ''ck_outbound_body_consistency'',
        Check (CkOr (CkAnd (CkAnd (CkEq ''message_type'' ''text'') (CkNotNull ''body_text'')) (CkNull
        ''template_ref'')) (CkAnd (CkAnd (CkEq ''message_type'' ''template'') (CkNotNull ''template_ref'')) (CkNull
        ''body_text''))))]),
     On ''outbound_messages'' (AddIndex (idx ''ix_outbound_messages_lead_sent'' [Asc ''lead_id'',
        Desc ''sent_at''] False None)),
     On ''outbound_messages'' (AddIndex (idx ''ix_outbound_messages_tenant_sent'' [Asc ''tenant_id'',
        Desc ''sent_at''] False None)),
     On ''outbound_messages'' (EnableRls),
     On ''outbound_messages'' (ForceRls True),
     On ''outbound_messages'' (AddPolicy ''outbound_messages_tenant_isolation'' True)]"

definition down_0011 :: "mig_op list" where
  "down_0011 =
    [On ''outbound_messages'' (DropPolicy ''outbound_messages_tenant_isolation''),
     On ''outbound_messages'' (DropIndex ''ix_outbound_messages_tenant_sent''),
     On ''outbound_messages'' (DropIndex ''ix_outbound_messages_lead_sent''),
     On ''outbound_messages'' Drop]"

definition up_0012 :: "mig_op list" where
  "up_0012 =
    [On ''leads'' (AddColumn (col ''channel_identifiers'' TJsonb False (Some (Sql (quoted ''{}'' @ ''::jsonb''))))),
     On ''leads'' (AddColumn (col ''display_name'' TText True None)),
     On ''leads'' (AddColumn (col ''profile'' TJsonb False (Some (Sql (quoted ''{}'' @ ''::jsonb''))))),
     On ''leads'' (AddColumn (col ''profile_last_updated'' TTimestamp True None)),
     On ''leads'' (AddColumn (col ''long_term_memory_enabled'' TBoolean False (Some (Sql ''false'')))),
     On ''leads'' (AddColumn (col ''risk_level'' TText False (Some (Lit ''normal'')))),
     On ''leads'' (AddColumn (col ''risk_level_since'' TTimestamp True None)),
     On ''leads'' (AddColumn (col ''risk_level_reason'' TText True None)),
     On ''leads'' (AddColumn (col ''acquisition_metadata'' TJsonb False (Some (Sql (quoted ''{}'' @ ''::jsonb''))))),
     On ''leads'' (AddRule ''ck_leads_risk_level'' (Check (CkIn ''risk_level'' [''normal'', ''elevated'',
        ''banned'']))),
     On ''leads'' (AddIndex (idx ''ix_leads_tenant_risk_level'' [Asc ''tenant_id'',
        Asc ''risk_level''] False (Some (CkNe ''risk_level'' ''normal''))))]"

definition down_0012 :: "mig_op list" where
  "down_0012 =
    [On ''leads'' (DropIndex ''ix_leads_tenant_risk_level''),
     On ''leads'' (DropRule ''ck_leads_risk_level''),
     On ''leads'' (DropColumn ''acquisition_metadata''),
     On ''leads'' (DropColumn ''risk_level_reason''),
     On ''leads'' (DropColumn ''risk_level_since''),
     On ''leads'' (DropColumn ''risk_level''),
     On ''leads'' (DropColumn ''long_term_memory_enabled''),
     On ''leads'' (DropColumn ''profile_last_updated''),
     On ''leads'' (DropColumn ''profile''),
     On ''leads'' (DropColumn ''display_name''),
     On ''leads'' (DropColumn ''channel_identifiers'')]"

end
