(* ===== verification/Migrations_Flow.thy ===== *)
theory Migrations_Flow
  imports Migrations_Base
begin

text \<open>
  The migrations 0013 to 0036: talks, states, reviews, actions, voice, and the inbox of the console; and
  the values that the models of the code allow in the columns with a \<open>CHECK\<close>.
\<close>

definition review_reasons :: "string list" where
  "review_reasons =
     [''escalation_requested'', ''off_topic_exhausted'', ''validator_exhausted'', ''treeflow_version_missing'',
        ''objection_treatment_exhausted'', ''voice_synthesis_failed'']"

definition talk_statuses :: "string list" where
  "talk_statuses =
     [''active'', ''requires_review'', ''closed_completed'', ''closed_completed_success'',
        ''closed_completed_failure'', ''closed_no_interest'', ''closed_duration'', ''closed_inactivity'',
        ''closed_optout'', ''closed_banned'']"

definition talk_closers :: "string list" where
  "talk_closers =
     [''rule'', ''optout'', ''llm'', ''operator'', ''sentinel'', ''pipeline_hook'', ''scan_job'']"

definition action_statuses :: "string list" where
  "action_statuses =
     [''pending'', ''executing'', ''success'', ''failed'']"

definition up_0013 :: "mig_op list" where
  "up_0013 =
    [On ''talks'' (Create
      [col ''id'' TUuid False (Some (Sql ''uuid_generate_v4()'')),
       col ''tenant_id'' TUuid False None,
       col ''lead_id'' TUuid False None,
       col ''treeflow_id'' TText False None,
       col ''treeflow_version_id'' TUuid False None,
       col ''status'' TText False None,
       col ''handling_mode'' TText False (Some (Lit ''ai'')),
       col ''created_at'' TTimestamp False (Some (Sql ''now()'')),
       col ''last_message_at'' TTimestamp False None,
       col ''closed_at'' TTimestamp True None,
       col ''closed_reason'' TText True None,
       col ''closed_by'' TText True None,
       col ''escalated_at'' TTimestamp True None,
       col ''escalation_category'' TText True None,
       col ''escalation_reason'' TText True None,
       col ''experiment_id'' TUuid True None,
       col ''experiment_variant'' TText True None,
       col ''turn_count'' TInteger False (Some (Lit ''0'')),
       col ''tokens_consumed'' TJsonb False (Some (Sql (quoted ''{}'' @ ''::jsonb'')))]
      [(None, PrimaryKey [''id'']),
       (None, ForeignKey [''tenant_id''] ''tenants'' [''id''] ''CASCADE''),
       (None, ForeignKey [''lead_id''] ''leads'' [''id''] ''CASCADE''),
       (None, ForeignKey [''treeflow_version_id''] ''treeflow_versions'' [''id''] ''RESTRICT''),
       (Some ''ck_talks_status'', Check (CkIn ''status'' [''active'', ''paused'', ''requires_review'',
        ''closed_completed'', ''closed_inactivity'', ''closed_optout'', ''closed_banned''])),
       (Some ''ck_talks_handling_mode'', Check (CkIn ''handling_mode'' [''ai'', ''human'', ''auto_with_approval''])),
       (Some ''ck_talks_closed_by'', Check (CkOr (CkNull ''closed_by'') (CkIn ''closed_by'' [''rule'', ''optout'',
        ''llm'', ''operator'', ''sentinel''])))]),
     On ''talks'' (AddIndex (idx ''ix_talks_tenant_status_last_msg'' [Asc ''tenant_id'', Asc ''status'',
        Desc ''last_message_at''] False None)),
     On ''talks'' (AddIndex (idx ''ix_talks_lead_created'' [Asc ''lead_id'', Desc ''created_at''] False None)),
     On ''talks'' (AddIndex (idx ''ix_talks_experiment'' [Asc ''experiment_id''] False (Some (CkNotNull
        ''experiment_id'')))),
     On ''talks'' (EnableRls),
     On ''talks'' (ForceRls True),
     On ''talks'' (AddPolicy ''talks_tenant_isolation'' True)]"

definition down_0013 :: "mig_op list" where
  "down_0013 =
    [On ''talks'' (DropPolicy ''talks_tenant_isolation''),
     On ''talks'' (DropIndex ''ix_talks_experiment''),
     On ''talks'' (DropIndex ''ix_talks_lead_created''),
     On ''talks'' (DropIndex ''ix_talks_tenant_status_last_msg''),
     On ''talks'' Drop]"

definition up_0014 :: "mig_op list" where
  "up_0014 =
    [On ''talkflow_states'' (Create
      [col ''talk_id'' TUuid False None,
       col ''tenant_id'' TUuid False None,
       col ''current_node'' TText False None,
       col ''collected'' TJsonb False (Some (Sql (quoted ''{}'' @ ''::jsonb''))),
       col ''extracted_facts'' TJsonb False (Some (Sql (quoted ''{}'' @ ''::jsonb''))),
       col ''messages'' TJsonb False (Some (Sql (quoted ''[]'' @ ''::jsonb''))),
       col ''history_summary'' TText True None,
       col ''history_summary_covers_until_turn'' TInteger True None,
       col ''active_treatment'' TJsonb True None,
       col ''objections_handled'' TJsonb False (Some (Sql (quoted ''[]'' @ ''::jsonb''))),
       col ''talkflow_stack'' TJsonb False (Some (Sql (quoted ''[]'' @ ''::jsonb''))),
       col ''updated_at'' TTimestamp False (Some (Sql ''now()''))]
      [(None, PrimaryKey [''talk_id'']),
       (None, ForeignKey [''talk_id''] ''talks'' [''id''] ''CASCADE''),
       (None, ForeignKey [''tenant_id''] ''tenants'' [''id''] ''CASCADE'')]),
     On ''talkflow_states'' (AddIndex (idx ''ix_talkflow_states_tenant_updated'' [Asc ''tenant_id'',
        Desc ''updated_at''] False None)),
     On ''talkflow_states'' (EnableRls),
     On ''talkflow_states'' (ForceRls True),
     On ''talkflow_states'' (AddPolicy ''talkflow_states_tenant_isolation'' True)]"

definition down_0014 :: "mig_op list" where
  "down_0014 =
    [On ''talkflow_states'' (DropPolicy ''talkflow_states_tenant_isolation''),
     On ''talkflow_states'' (DropIndex ''ix_talkflow_states_tenant_updated''),
     On ''talkflow_states'' Drop]"

definition up_0015 :: "mig_op list" where
  "up_0015 =
    [On ''events'' (Create
      [col ''id'' TUuid False (Some (Sql ''uuid_generate_v4()'')),
       col ''tenant_id'' TUuid False None,
       col ''event_type'' TText False None,
       col ''payload'' TJsonb False None,
       col ''talk_id'' TUuid True None,
       col ''lead_id'' TUuid True None,
       col ''experiment_id'' TUuid True None,
       col ''experiment_variant'' TText True None,
       col ''occurred_at'' TTimestamp False None,
       col ''ingested_at'' TTimestamp False (Some (Sql ''now()''))]
      [(None, PrimaryKey [''id'']),
       (None, ForeignKey [''tenant_id''] ''tenants'' [''id''] ''CASCADE'')]),
     On ''events'' (AddIndex (idx ''ix_events_tenant_occurred'' [Asc ''tenant_id'',
        Desc ''occurred_at''] False None)),
     On ''events'' (AddIndex (idx ''ix_events_talk'' [Asc ''talk_id'',
        Desc ''occurred_at''] False (Some (CkNotNull ''talk_id'')))),
     On ''events'' (AddIndex (idx ''ix_events_type_occurred'' [Asc ''event_type'', Desc ''occurred_at''] False None)),
     On ''events'' (AddIndex (idx ''ix_events_experiment'' [Asc ''experiment_id'',
        Desc ''occurred_at''] False (Some (CkNotNull ''experiment_id'')))),
     On ''events'' (EnableRls),
     On ''events'' (ForceRls True),
     On ''events'' (AddPolicy ''events_tenant_isolation'' True)]"

definition down_0015 :: "mig_op list" where
  "down_0015 =
    [On ''events'' (DropPolicy ''events_tenant_isolation''),
     On ''events'' (DropIndex ''ix_events_experiment''),
     On ''events'' (DropIndex ''ix_events_type_occurred''),
     On ''events'' (DropIndex ''ix_events_talk''),
     On ''events'' (DropIndex ''ix_events_tenant_occurred''),
     On ''events'' Drop]"

definition up_0016 :: "mig_op list" where
  "up_0016 =
    [On ''experiments'' (Create
      [col ''id'' TUuid False (Some (Sql ''uuid_generate_v4()'')),
       col ''tenant_id'' TUuid False None,
       col ''name'' TText False None,
       col ''key'' TText False None,
       col ''variants'' TJsonb False None,
       col ''status'' TText False (Some (Lit ''draft'')),
       col ''eligibility_rules'' TJsonb False (Some (Sql (quoted ''[]'' @ ''::jsonb''))),
       col ''started_at'' TTimestamp True None,
       col ''expected_end'' TTimestamp True None,
       col ''target_sample_size'' TInteger False None,
       col ''primary_success_metric'' TText False None,
       col ''secondary_metrics'' TJsonb False (Some (Sql (quoted ''[]'' @ ''::jsonb''))),
       col ''exclusivity'' TText False (Some (Lit ''exclusive'')),
       col ''priority'' TInteger False (Some (Lit ''0'')),
       col ''on_conclusion_behavior'' TText False (Some (Lit ''preserve_running_talks'')),
       col ''winner'' TText True None,
       col ''statistical_confidence'' TFloat True None,
       col ''analysis_notes'' TText True None,
       col ''created_at'' TTimestamp False (Some (Sql ''now()''))]
      [(None, PrimaryKey [''id'']),
       (None, ForeignKey [''tenant_id''] ''tenants'' [''id''] ''CASCADE''),
       (Some ''uq_experiments_tenant_key'', Unique [''tenant_id'', ''key'']),
       (Some ''ck_experiments_status'', Check (CkIn ''status'' [''draft'', ''running'', ''paused'', ''concluded''])),
       (Some ''ck_experiments_exclusivity'', Check (CkIn ''exclusivity'' [''exclusive'', ''orthogonal''])),
       (Some ''ck_experiments_on_conclusion'', Check (CkIn ''on_conclusion_behavior'' [''preserve_running_talks'',
        ''migrate_to_winner'']))]),
     On ''experiments'' (AddIndex (idx ''ix_experiments_tenant_status'' [Asc ''tenant_id'',
        Asc ''status''] False None)),
     On ''experiments'' (EnableRls),
     On ''experiments'' (ForceRls True),
     On ''experiments'' (AddPolicy ''experiments_tenant_isolation'' True)]"

definition down_0016 :: "mig_op list" where
  "down_0016 =
    [On ''experiments'' (DropPolicy ''experiments_tenant_isolation''),
     On ''experiments'' (DropIndex ''ix_experiments_tenant_status''),
     On ''experiments'' Drop]"

definition up_0017 :: "mig_op list" where
  "up_0017 =
    [On ''response_reviews'' (Create
      [col ''id'' TUuid False (Some (Sql ''uuid_generate_v4()'')),
       col ''tenant_id'' TUuid False None,
       col ''talk_id'' TUuid False None,
       col ''turn_index'' TInteger False None,
       col ''correction_iteration'' TInteger False (Some (Lit ''1'')),
       col ''parent_review_id'' TUuid True None,
       col ''original_response'' TText False None,
       col ''original_turn_decision'' TJsonb False None,
       col ''original_system_prompt_snapshot'' TText True None,
       col ''status'' TText False (Some (Lit ''pending'')),
       col ''operator_id'' TUuid True None,
       col ''decision_at'' TTimestamp True None,
       col ''edited_response'' TText True None,
       col ''edit_reason'' TText True None,
       col ''rejection_reason'' TText True None,
       col ''improvement_category'' TText True None,
       col ''final_response_sent'' TText True None,
       col ''created_at'' TTimestamp False (Some (Sql ''now()'')),
       col ''expires_at'' TTimestamp False None]
      [(None, PrimaryKey [''id'']),
       (None, ForeignKey [''tenant_id''] ''tenants'' [''id''] ''CASCADE''),
       (None, ForeignKey [''talk_id''] ''talks'' [''id''] ''CASCADE''),
       (None, ForeignKey [''parent_review_id''] ''response_reviews'' [''id''] ''SET NULL''),
       (Some ''ck_response_reviews_status'', Check (CkIn ''status'' [''pending'', ''approved'', ''edited'',
        ''rejected'', ''expired'', ''auto_approved''])),
       (Some ''ck_response_reviews_improvement_category'',
        Check (CkOr (CkNull ''improvement_category'') (CkIn ''improvement_category'' [''tone'', ''factual'',
        ''scope'', ''premature_transition'', ''missed_signal'', ''incomplete'', ''other''])))]),
     On ''response_reviews'' (AddIndex (idx ''ix_response_reviews_tenant_status_created'' [Asc ''tenant_id'',
        Asc ''status'', Desc ''created_at''] False None)),
     On ''response_reviews'' (AddIndex (idx ''ix_response_reviews_talk'' [Asc ''talk_id'',
        Asc ''turn_index''] False None)),
     On ''response_reviews'' (EnableRls),
     On ''response_reviews'' (ForceRls True),
     On ''response_reviews'' (AddPolicy ''response_reviews_tenant_isolation'' True)]"

definition down_0017 :: "mig_op list" where
  "down_0017 =
    [On ''response_reviews'' (DropPolicy ''response_reviews_tenant_isolation''),
     On ''response_reviews'' (DropIndex ''ix_response_reviews_talk''),
     On ''response_reviews'' (DropIndex ''ix_response_reviews_tenant_status_created''),
     On ''response_reviews'' Drop]"

definition up_0018 :: "mig_op list" where
  "up_0018 =
    [On ''sentinel_reviews'' (Create
      [col ''id'' TUuid False (Some (Sql ''uuid_generate_v4()'')),
       col ''tenant_id'' TUuid False None,
       col ''lead_id'' TUuid False None,
       col ''talk_id'' TUuid True None,
       col ''inbound_message_id'' TUuid True None,
       col ''triggered_by'' TText False None,
       col ''classification'' TText False None,
       col ''reasoning'' TText False None,
       col ''confidence'' TFloat True None,
       col ''risk_level_before'' TText False None,
       col ''risk_level_after'' TText False None,
       col ''heuristic_matches'' TJsonb False (Some (Sql (quoted ''[]'' @ ''::jsonb''))),
       col ''created_at'' TTimestamp False (Some (Sql ''now()''))]
      [(None, PrimaryKey [''id'']),
       (None, ForeignKey [''tenant_id''] ''tenants'' [''id''] ''CASCADE''),
       (None, ForeignKey [''lead_id''] ''leads'' [''id''] ''CASCADE''),
       (None, ForeignKey [''talk_id''] ''talks'' [''id''] ''SET NULL''),
       (None, ForeignKey [''inbound_message_id''] ''inbound_messages'' [''id''] ''SET NULL''),
       (Some ''ck_sentinel_reviews_classification'', Check (CkIn ''classification'' [''safe'', ''suspicious'',
        ''attack''])),
       (Some ''ck_sentinel_reviews_triggered_by'', Check (CkIn ''triggered_by'' [''heuristic'', ''elevated_mode'',
        ''llm_self_flag'']))]),
     On ''sentinel_reviews'' (AddIndex (idx ''ix_sentinel_reviews_lead_created'' [Asc ''lead_id'',
        Desc ''created_at''] False None)),
     On ''sentinel_reviews'' (AddIndex (idx ''ix_sentinel_reviews_tenant_classification'' [Asc ''tenant_id'',
        Asc ''classification'', Desc ''created_at''] False None)),
     On ''sentinel_reviews'' (EnableRls),
     On ''sentinel_reviews'' (ForceRls True),
     On ''sentinel_reviews'' (AddPolicy ''sentinel_reviews_tenant_isolation'' True)]"

definition down_0018 :: "mig_op list" where
  "down_0018 =
    [On ''sentinel_reviews'' (DropPolicy ''sentinel_reviews_tenant_isolation''),
     On ''sentinel_reviews'' (DropIndex ''ix_sentinel_reviews_tenant_classification''),
     On ''sentinel_reviews'' (DropIndex ''ix_sentinel_reviews_lead_created''),
     On ''sentinel_reviews'' Drop]"

definition up_0019 :: "mig_op list" where
  "up_0019 =
    [On ''adapter_calls'' (Create
      [col ''id'' TUuid False (Some (Sql ''uuid_generate_v4()'')),
       col ''tenant_id'' TUuid False None,
       col ''talk_id'' TUuid True None,
       col ''lead_id'' TUuid True None,
       col ''adapter_category'' TText False None,
       col ''adapter_provider'' TText False None,
       col ''operation'' TText False None,
       col ''args'' TJsonb False (Some (Sql (quoted ''{}'' @ ''::jsonb''))),
       col ''result'' TJsonb True None,
       col ''status'' TText False None,
       col ''error_detail'' TText True None,
       col ''latency_ms'' TInteger True None,
       col ''idempotency_key'' TText False None,
       col ''started_at'' TTimestamp False None,
       col ''completed_at'' TTimestamp True None,
       col ''created_at'' TTimestamp False (Some (Sql ''now()''))]
      [(None, PrimaryKey [''id'']),
       (None, ForeignKey [''tenant_id''] ''tenants'' [''id''] ''CASCADE''),
       (None, ForeignKey [''talk_id''] ''talks'' [''id''] ''SET NULL''),
       (None, ForeignKey [''lead_id''] ''leads'' [''id''] ''SET NULL''),
       (Some ''uq_adapter_calls_tenant_idempotency'', Unique [''tenant_id'', ''idempotency_key'']),
       (Some ''ck_adapter_calls_status'', Check (CkIn ''status'' [''ok'', ''failed'', ''pending'', ''cancelled'']))]),
     On ''adapter_calls'' (AddIndex (idx ''ix_adapter_calls_tenant_started'' [Asc ''tenant_id'',
        Desc ''started_at''] False None)),
     On ''adapter_calls'' (AddIndex (idx ''ix_adapter_calls_talk'' [Asc ''talk_id'',
        Desc ''started_at''] False (Some (CkNotNull ''talk_id'')))),
     On ''adapter_calls'' (AddIndex (idx ''ix_adapter_calls_failed'' [Asc ''tenant_id'',
        Desc ''started_at''] False (Some (CkEq ''status'' ''failed'')))),
     On ''adapter_calls'' (EnableRls),
     On ''adapter_calls'' (ForceRls True),
     On ''adapter_calls'' (AddPolicy ''adapter_calls_tenant_isolation'' True)]"

definition down_0019 :: "mig_op list" where
  "down_0019 =
    [On ''adapter_calls'' (DropPolicy ''adapter_calls_tenant_isolation''),
     On ''adapter_calls'' (DropIndex ''ix_adapter_calls_failed''),
     On ''adapter_calls'' (DropIndex ''ix_adapter_calls_talk''),
     On ''adapter_calls'' (DropIndex ''ix_adapter_calls_tenant_started''),
     On ''adapter_calls'' Drop]"

definition up_0020 :: "mig_op list" where
  "up_0020 =
    [On ''treeflow_improvement_suggestions'' (Create
      [col ''id'' TUuid False (Some (Sql ''uuid_generate_v4()'')),
       col ''tenant_id'' TUuid False None,
       col ''treeflow_id'' TText False None,
       col ''target_node_id'' TText True None,
       col ''pattern_summary'' TText False None,
       col ''sample_count'' TInteger False None,
       col ''sample_review_ids'' TJsonb False (Some (Sql (quoted ''[]'' @ ''::jsonb''))),
       col ''suggested_change'' TJsonb False None,
       col ''suggested_change_natural_language'' TText False None,
       col ''confidence'' TFloat False None,
       col ''status'' TText False (Some (Lit ''pending_review'')),
       col ''operator_decision_at'' TTimestamp True None,
       col ''created_at'' TTimestamp False (Some (Sql ''now()''))]
      [(None, PrimaryKey [''id'']),
       (None, ForeignKey [''tenant_id''] ''tenants'' [''id''] ''CASCADE''),
       (Some ''ck_tfis_status'', Check (CkIn ''status'' [''pending_review'', ''accepted'', ''rejected'',
        ''expired'']))]),
     On ''treeflow_improvement_suggestions'' (AddIndex (idx ''ix_tfis_tenant_status'' [Asc ''tenant_id'',
        Asc ''status'', Desc ''created_at''] False None)),
     On ''treeflow_improvement_suggestions'' (EnableRls),
     On ''treeflow_improvement_suggestions'' (ForceRls True),
     On ''treeflow_improvement_suggestions'' (AddPolicy ''tfis_tenant_isolation'' True)]"

definition down_0020 :: "mig_op list" where
  "down_0020 =
    [On ''treeflow_improvement_suggestions'' (DropPolicy ''tfis_tenant_isolation''),
     On ''treeflow_improvement_suggestions'' (DropIndex ''ix_tfis_tenant_status''),
     On ''treeflow_improvement_suggestions'' Drop]"

definition up_0021 :: "mig_op list" where
  "up_0021 =
    [On ''outbound_messages'' (AddColumn (col ''media_type'' TText False (Some (Lit ''text'')))),
     On ''outbound_messages'' (AddColumn (col ''media_storage_key'' TText True None)),
     On ''outbound_messages'' (AddColumn (col ''audio_url'' TText True None)),
     On ''outbound_messages'' (AddColumn (col ''audio_duration_ms'' TInteger True None)),
     On ''outbound_messages'' (AddColumn (col ''synthesis_voice_id'' TText True None)),
     On ''outbound_messages'' (AddColumn (col ''voice_emotion'' TText True None)),
     On ''outbound_messages'' (AddRule ''ck_outbound_media_type'' (Check (CkIn ''media_type'' [''text'', ''audio'',
        ''image'', ''video''])))]"

definition down_0021 :: "mig_op list" where
  "down_0021 =
    [On ''outbound_messages'' (DropRule ''ck_outbound_media_type''),
     On ''outbound_messages'' (DropColumn ''voice_emotion''),
     On ''outbound_messages'' (DropColumn ''synthesis_voice_id''),
     On ''outbound_messages'' (DropColumn ''audio_duration_ms''),
     On ''outbound_messages'' (DropColumn ''audio_url''),
     On ''outbound_messages'' (DropColumn ''media_storage_key''),
     On ''outbound_messages'' (DropColumn ''media_type'')]"

definition up_0022 :: "mig_op list" where
  "up_0022 =
    [On ''inbound_messages'' (AddColumn (col ''media_type'' TText False (Some (Lit ''text'')))),
     On ''inbound_messages'' (AddColumn (col ''media_storage_key'' TText True None)),
     On ''inbound_messages'' (AddColumn (col ''audio_url'' TText True None)),
     On ''inbound_messages'' (AddColumn (col ''transcription'' TText True None)),
     On ''inbound_messages'' (AddColumn (col ''transcription_confidence'' TFloat True None)),
     On ''inbound_messages'' (AddColumn (col ''transcription_provider'' TText True None)),
     On ''inbound_messages'' (AddRule ''ck_inbound_media_type'' (Check (CkIn ''media_type'' [''text'', ''audio'',
        ''image'', ''video'', ''document''])))]"

definition down_0022 :: "mig_op list" where
  "down_0022 =
    [On ''inbound_messages'' (DropRule ''ck_inbound_media_type''),
     On ''inbound_messages'' (DropColumn ''transcription_provider''),
     On ''inbound_messages'' (DropColumn ''transcription_confidence''),
     On ''inbound_messages'' (DropColumn ''transcription''),
     On ''inbound_messages'' (DropColumn ''audio_url''),
     On ''inbound_messages'' (DropColumn ''media_storage_key''),
     On ''inbound_messages'' (DropColumn ''media_type'')]"

definition up_0023 :: "mig_op list" where
  "up_0023 =
    [On ''tenants'' (AddColumn (col ''architecture_version'' TInteger False (Some (Sql ''1'')))),
     On ''tenants'' (AddRule ''ck_tenants_architecture_version'' (Check (CkInInt ''architecture_version'' [1, 2])))]"

definition down_0023 :: "mig_op list" where
  "down_0023 =
    [On ''tenants'' (DropRule ''ck_tenants_architecture_version''),
     On ''tenants'' (DropColumn ''architecture_version'')]"

definition up_0024 :: "mig_op list" where
  "up_0024 =
    [On ''outbound_messages'' (DropRule ''outbound_messages_talkflow_id_fkey'')]"

definition down_0024 :: "mig_op list" where
  "down_0024 =
    [On ''outbound_messages'' (AddRule ''outbound_messages_talkflow_id_fkey'' (ForeignKey [''talkflow_id'']
        ''talkflows'' [''id''] ''CASCADE''))]"

definition up_0025 :: "mig_op list" where
  "up_0025 =
    [On ''talks'' (AddColumn (col ''requires_review_reason'' (TVarchar 64) True None)),
     On ''talks'' (AddRule ''ck_talks_requires_review_reason'' (Check (CkOr (CkNull ''requires_review_reason'')
        (CkIn ''requires_review_reason'' review_reasons))))]"

definition down_0025 :: "mig_op list" where
  "down_0025 =
    [On ''talks'' (DropRule ''ck_talks_requires_review_reason''),
     On ''talks'' (DropColumn ''requires_review_reason'')]"

definition up_0026 :: "mig_op list" where
  "up_0026 =
    [On ''talks'' (DropRule ''ck_talks_status''),
     On ''talks'' (AddRule ''ck_talks_status'' (Check (CkIn ''status'' talk_statuses)))]"

definition down_0026 :: "mig_op list" where
  "down_0026 =
    [On ''talks'' (DropRule ''ck_talks_status''),
     On ''talks'' (AddRule ''ck_talks_status'' (Check (CkIn ''status'' [''active'', ''requires_review'',
        ''closed_completed'', ''closed_inactivity'', ''closed_optout'', ''closed_banned''])))]"

definition up_0027 :: "mig_op list" where
  "up_0027 =
    [On ''talks'' (DropRule ''ck_talks_closed_by''),
     On ''talks'' (AddRule ''ck_talks_closed_by'' (Check (CkOr (CkNull ''closed_by'') (CkIn ''closed_by''
        talk_closers))))]"

definition down_0027 :: "mig_op list" where
  "down_0027 =
    [On ''talks'' (DropRule ''ck_talks_closed_by''),
     On ''talks'' (AddRule ''ck_talks_closed_by'' (Check (CkOr (CkNull ''closed_by'') (CkIn ''closed_by''
        [''rule'', ''optout'', ''llm'', ''operator'', ''sentinel'']))))]"

definition up_0028 :: "mig_op list" where
  "up_0028 =
    [On ''action_executions'' (Create
      [col ''id'' TUuid False (Some (Sql ''gen_random_uuid()'')),
       col ''tenant_id'' TUuid False None,
       col ''talk_id'' TUuid False None,
       col ''node_id'' TText False None,
       col ''field'' TText False None,
       col ''value_hash'' TText False None,
       col ''adapter_name'' TText False None,
       col ''handler'' TText False None,
       col ''params_resolved'' TJsonb False None,
       col ''status'' TText False None,
       col ''attempts'' TInteger False (Some (Sql ''0'')),
       col ''last_error'' TText True None,
       col ''external_id'' TText True None,
       col ''created_at'' TTimestamp False (Some (Sql ''now()'')),
       col ''updated_at'' TTimestamp False (Some (Sql ''now()''))]
      [(None, PrimaryKey [''id'']),
       (None, ForeignKey [''tenant_id''] ''tenants'' [''id''] ''CASCADE''),
       (None, ForeignKey [''talk_id''] ''talks'' [''id''] ''CASCADE''),
       (Some ''ck_action_executions_status'', Check (CkIn ''status'' action_statuses)),
       (Some ''uq_action_executions_dedup'', Unique [''talk_id'', ''field'', ''value_hash''])]),
     On ''action_executions'' (AddIndex (idx ''ix_action_executions_pending'' [Asc ''status'',
        Asc ''created_at''] False (Some (CkIn ''status'' [''pending'', ''executing''])))),
     On ''action_executions'' (AddIndex (idx ''ix_action_executions_tenant_talk'' [Asc ''tenant_id'',
        Asc ''talk_id''] False None)),
     On ''action_executions'' (EnableRls),
     On ''action_executions'' (ForceRls True),
     On ''action_executions'' (AddPolicy ''action_executions_tenant_isolation'' False)]"

definition down_0028 :: "mig_op list" where
  "down_0028 =
    [On ''action_executions'' (DropPolicy ''action_executions_tenant_isolation''),
     On ''action_executions'' (DropIndex ''ix_action_executions_tenant_talk''),
     On ''action_executions'' (DropIndex ''ix_action_executions_pending''),
     On ''action_executions'' Drop]"

definition up_0029 :: "mig_op list" where
  "up_0029 =
    [On ''leads'' (AddColumn (col ''inbound_channel_label'' TText False (Some (Lit ''main''))))]"

definition down_0029 :: "mig_op list" where
  "down_0029 =
    [On ''leads'' (DropColumn ''inbound_channel_label'')]"

definition up_0030 :: "mig_op list" where
  "up_0030 =
    [On ''outbound_messages'' (DropRule ''ck_outbound_message_type''),
     On ''outbound_messages'' (DropRule ''ck_outbound_body_consistency''),
     On ''outbound_messages'' (AddRule ''ck_outbound_message_type'' (Check (CkIn ''message_type'' [''text'',
        ''template'', ''audio'']))),
     On ''outbound_messages'' (AddRule ''ck_outbound_body_consistency'' (Check (CkOr (CkOr (CkAnd (CkAnd (CkEq
        ''message_type'' ''text'') (CkNotNull ''body_text'')) (CkNull ''template_ref'')) (CkAnd (CkAnd (CkEq
        ''message_type'' ''template'') (CkNotNull ''template_ref'')) (CkNull ''body_text''))) (CkAnd (CkAnd (CkEq
        ''message_type'' ''audio'') (CkNotNull ''body_text'')) (CkNull ''template_ref'')))))]"

definition down_0030 :: "mig_op list" where
  "down_0030 =
    [On ''outbound_messages'' (DropRule ''ck_outbound_message_type''),
     On ''outbound_messages'' (DropRule ''ck_outbound_body_consistency''),
     On ''outbound_messages'' (AddRule ''ck_outbound_message_type'' (Check (CkIn ''message_type'' [''text'',
        ''template'']))),
     On ''outbound_messages'' (AddRule ''ck_outbound_body_consistency'' (Check (CkOr (CkAnd (CkAnd (CkEq
        ''message_type'' ''text'') (CkNotNull ''body_text'')) (CkNull ''template_ref'')) (CkAnd (CkAnd (CkEq
        ''message_type'' ''template'') (CkNotNull ''template_ref'')) (CkNull ''body_text'')))))]"

definition up_0031 :: "mig_op list" where
  "up_0031 =
    [On ''talks'' (DropRule ''ck_talks_requires_review_reason''),
     On ''talks'' (AddRule ''ck_talks_requires_review_reason'' (Check (CkOr (CkNull ''requires_review_reason'')
        (CkIn ''requires_review_reason'' review_reasons))))]"

definition down_0031 :: "mig_op list" where
  "down_0031 =
    [On ''talks'' (DropRule ''ck_talks_requires_review_reason''),
     On ''talks'' (AddRule ''ck_talks_requires_review_reason'' (Check (CkOr (CkNull ''requires_review_reason'')
        (CkIn ''requires_review_reason'' [''escalation_requested'', ''off_topic_exhausted'',
        ''validator_exhausted'', ''treeflow_version_missing'', ''objection_treatment_exhausted'']))))]"

definition up_0032 :: "mig_op list" where
  "up_0032 =
    [On ''instances'' (Create
      [col ''id'' TUuid False (Some (Sql ''gen_random_uuid()'')),
       col ''tenant_id'' TUuid False None,
       col ''channel_label'' TText False (Some (Lit ''main'')),
       col ''phone_e164'' TText True None,
       col ''display_name'' TText True None,
       col ''created_at'' TTimestamp False (Some (Sql ''now()''))]
      [(None, PrimaryKey [''id'']),
       (None, ForeignKey [''tenant_id''] ''tenants'' [''id''] ''CASCADE''),
       (Some ''uq_instances_tenant_channel'', Unique [''tenant_id'', ''channel_label''])]),
     On ''instances'' (EnableRls),
     On ''instances'' (ForceRls True),
     On ''instances'' (AddPolicy ''instances_tenant_isolation'' True),
     Data ''insert instances'']"

definition down_0032 :: "mig_op list" where
  "down_0032 =
    [On ''instances'' (DropPolicy ''instances_tenant_isolation''),
     On ''instances'' Drop]"

definition up_0033 :: "mig_op list" where
  "up_0033 =
    [On ''operator_read_markers'' (Create
      [col ''tenant_id'' TUuid False None,
       col ''user_id'' TUuid False None,
       col ''lead_id'' TUuid False None,
       col ''last_read_at'' TTimestamp False None,
       col ''last_read_message_at'' TTimestamp False None]
      [(None, ForeignKey [''tenant_id''] ''tenants'' [''id''] ''CASCADE''),
       (None, ForeignKey [''user_id''] ''users'' [''id''] ''CASCADE''),
       (None, ForeignKey [''lead_id''] ''leads'' [''id''] ''CASCADE''),
       (Some ''pk_operator_read_markers'', PrimaryKey [''user_id'', ''lead_id''])]),
     On ''operator_read_markers'' (AddIndex (idx ''ix_read_markers_lead'' [Asc ''lead_id''] False None)),
     On ''operator_read_markers'' (EnableRls),
     On ''operator_read_markers'' (ForceRls True),
     On ''operator_read_markers'' (AddPolicy ''read_markers_tenant_isolation'' True)]"

definition down_0033 :: "mig_op list" where
  "down_0033 =
    [On ''operator_read_markers'' (DropPolicy ''read_markers_tenant_isolation''),
     On ''operator_read_markers'' Drop]"

definition up_0034 :: "mig_op list" where
  "up_0034 =
    [On ''leads'' (AddIndex (idx ''ix_leads_tenant_channel_created'' [Asc ''tenant_id'',
        Asc ''inbound_channel_label'', Asc ''created_at''] False None)),
     On ''inbound_messages'' (AddIndex (idx ''ix_inbound_lead_received'' [Asc ''lead_id'',
        Asc ''received_at''] False None)),
     On ''outbound_messages'' (AddIndex (idx ''ix_outbound_lead_sent'' [Asc ''lead_id'',
        Asc ''sent_at''] False None)),
     On ''talks'' (AddIndex (idx ''ix_talks_tenant_lead_status'' [Asc ''tenant_id'', Asc ''lead_id'',
        Asc ''status''] False None))]"

definition down_0034 :: "mig_op list" where
  "down_0034 =
    [On ''talks'' (DropIndex ''ix_talks_tenant_lead_status''),
     On ''outbound_messages'' (DropIndex ''ix_outbound_lead_sent''),
     On ''inbound_messages'' (DropIndex ''ix_inbound_lead_received''),
     On ''leads'' (DropIndex ''ix_leads_tenant_channel_created'')]"

definition up_0035 :: "mig_op list" where
  "up_0035 =
    [On ''talks'' (AddColumn (col ''assigned_operator_id'' TUuid True None)),
     On ''talks'' (AddRule ''fk_talks_assigned_operator'' (ForeignKey [''assigned_operator_id''] ''users'' [''id'']
        ''SET NULL''))]"

definition down_0035 :: "mig_op list" where
  "down_0035 =
    [On ''talks'' (DropRule ''fk_talks_assigned_operator''),
     On ''talks'' (DropColumn ''assigned_operator_id'')]"

definition up_0036 :: "mig_op list" where
  "up_0036 =
    [On ''outbound_messages'' (AddColumn (col ''client_message_id'' TUuid True None)),
     On ''outbound_messages'' (AddIndex (idx ''ux_outbound_client_message'' [Asc ''talkflow_id'',
        Asc ''client_message_id''] True (Some (CkNotNull ''client_message_id'')))),
     On ''outbound_messages'' (DropRule ''ck_outbound_triggered_by''),
     On ''outbound_messages'' (AddRule ''ck_outbound_triggered_by'' (Check (CkIn ''triggered_by'' [''inbound'',
        ''follow_up_scanner'', ''window_expired_recovery'', ''operator''])))]"

definition down_0036 :: "mig_op list" where
  "down_0036 =
    [On ''outbound_messages'' (DropRule ''ck_outbound_triggered_by''),
     On ''outbound_messages'' (AddRule ''ck_outbound_triggered_by'' (Check (CkIn ''triggered_by'' [''inbound'',
        ''follow_up_scanner'', ''window_expired_recovery'']))),
     On ''outbound_messages'' (DropIndex ''ux_outbound_client_message''),
     On ''outbound_messages'' (DropColumn ''client_message_id'')]"

subsection \<open>The chain\<close>

definition migrations :: "migration list" where
  "migrations =
    [\<lparr>mg_revision = ''0001_extensions'', mg_parent = None,
       mg_up = up_0001, mg_down = down_0001\<rparr>,
     \<lparr>mg_revision = ''0002_tenants_table'', mg_parent = Some ''0001_extensions'',
       mg_up = up_0002, mg_down = down_0002\<rparr>,
     \<lparr>mg_revision = ''0003_treeflow_tables'', mg_parent = Some ''0002_tenants_table'',
       mg_up = up_0003, mg_down = down_0003\<rparr>,
     \<lparr>mg_revision = ''0004_checkpointer_setup'', mg_parent = Some ''0003_treeflow_tables'',
       mg_up = up_0004, mg_down = down_0004\<rparr>,
     \<lparr>mg_revision = ''0005_kb_tables'', mg_parent = Some ''0004_checkpointer_setup'',
       mg_up = up_0005, mg_down = down_0005\<rparr>,
     \<lparr>mg_revision = ''0006_leads_table'', mg_parent = Some ''0005_kb_tables'',
       mg_up = up_0006, mg_down = down_0006\<rparr>,
     \<lparr>mg_revision = ''0007_inbound_messages_table'', mg_parent = Some ''0006_leads_table'',
       mg_up = up_0007, mg_down = down_0007\<rparr>,
     \<lparr>mg_revision = ''0008_talkflows_lead_id_fk'', mg_parent = Some ''0007_inbound_messages_table'',
       mg_up = up_0008, mg_down = down_0008\<rparr>,
     \<lparr>mg_revision = ''0009_users_and_access'', mg_parent = Some ''0008_talkflows_lead_id_fk'',
       mg_up = up_0009, mg_down = down_0009\<rparr>,
     \<lparr>mg_revision = ''0010_follow_up_and_talkflow_columns'', mg_parent = Some ''0009_users_and_access'',
       mg_up = up_0010, mg_down = down_0010\<rparr>,
     \<lparr>mg_revision = ''0011_outbound_messages'', mg_parent = Some ''0010_follow_up_and_talkflow_columns'',
       mg_up = up_0011, mg_down = down_0011\<rparr>,
     \<lparr>mg_revision = ''0012_extend_leads_with_identity_fields'', mg_parent = Some ''0011_outbound_messages'',
       mg_up = up_0012, mg_down = down_0012\<rparr>,
     \<lparr>mg_revision = ''0013_create_talks_table'', mg_parent = Some ''0012_extend_leads_with_identity_fields'',
       mg_up = up_0013, mg_down = down_0013\<rparr>,
     \<lparr>mg_revision = ''0014_create_talkflow_states_table'', mg_parent = Some ''0013_create_talks_table'',
       mg_up = up_0014, mg_down = down_0014\<rparr>,
     \<lparr>mg_revision = ''0015_create_events_table'', mg_parent = Some ''0014_create_talkflow_states_table'',
       mg_up = up_0015, mg_down = down_0015\<rparr>,
     \<lparr>mg_revision = ''0016_create_experiments_table'', mg_parent = Some ''0015_create_events_table'',
       mg_up = up_0016, mg_down = down_0016\<rparr>,
     \<lparr>mg_revision = ''0017_create_response_reviews_table'', mg_parent = Some ''0016_create_experiments_table'',
       mg_up = up_0017, mg_down = down_0017\<rparr>,
     \<lparr>mg_revision = ''0018_create_sentinel_reviews_table'', mg_parent = Some ''0017_create_response_reviews_table'',
       mg_up = up_0018, mg_down = down_0018\<rparr>,
     \<lparr>mg_revision = ''0019_create_adapter_calls_table'', mg_parent = Some ''0018_create_sentinel_reviews_table'',
       mg_up = up_0019, mg_down = down_0019\<rparr>,
     \<lparr>mg_revision = ''0020_create_treeflow_improvement_suggestions_table'', mg_parent = Some ''0019_create_adapter_calls_table'',
       mg_up = up_0020, mg_down = down_0020\<rparr>,
     \<lparr>mg_revision = ''0021_extend_outbound_messages_with_media'', mg_parent = Some ''0020_create_treeflow_improvement_suggestions_table'',
       mg_up = up_0021, mg_down = down_0021\<rparr>,
     \<lparr>mg_revision = ''0022_extend_inbound_messages_with_media'', mg_parent = Some ''0021_extend_outbound_messages_with_media'',
       mg_up = up_0022, mg_down = down_0022\<rparr>,
     \<lparr>mg_revision = ''0023_add_tenant_architecture_version'', mg_parent = Some ''0022_extend_inbound_messages_with_media'',
       mg_up = up_0023, mg_down = down_0023\<rparr>,
     \<lparr>mg_revision = ''0024_relax_outbound_talkflow_fk'', mg_parent = Some ''0023_add_tenant_architecture_version'',
       mg_up = up_0024, mg_down = down_0024\<rparr>,
     \<lparr>mg_revision = ''0025_talks_requires_review_reason'', mg_parent = Some ''0024_relax_outbound_talkflow_fk'',
       mg_up = up_0025, mg_down = down_0025\<rparr>,
     \<lparr>mg_revision = ''0026_talks_status_lifecycle_values'', mg_parent = Some ''0025_talks_requires_review_reason'',
       mg_up = up_0026, mg_down = down_0026\<rparr>,
     \<lparr>mg_revision = ''0027_talks_closed_by_lifecycle_values'', mg_parent = Some ''0026_talks_status_lifecycle_values'',
       mg_up = up_0027, mg_down = down_0027\<rparr>,
     \<lparr>mg_revision = ''0028_action_executions'', mg_parent = Some ''0027_talks_closed_by_lifecycle_values'',
       mg_up = up_0028, mg_down = down_0028\<rparr>,
     \<lparr>mg_revision = ''0029_leads_inbound_channel_label'', mg_parent = Some ''0028_action_executions'',
       mg_up = up_0029, mg_down = down_0029\<rparr>,
     \<lparr>mg_revision = ''0030_extend_outbound_message_type_audio'', mg_parent = Some ''0029_leads_inbound_channel_label'',
       mg_up = up_0030, mg_down = down_0030\<rparr>,
     \<lparr>mg_revision = ''0031_add_voice_synthesis_failed_reason'', mg_parent = Some ''0030_extend_outbound_message_type_audio'',
       mg_up = up_0031, mg_down = down_0031\<rparr>,
     \<lparr>mg_revision = ''0032_instances'', mg_parent = Some ''0031_add_voice_synthesis_failed_reason'',
       mg_up = up_0032, mg_down = down_0032\<rparr>,
     \<lparr>mg_revision = ''0033_operator_read_markers'', mg_parent = Some ''0032_instances'',
       mg_up = up_0033, mg_down = down_0033\<rparr>,
     \<lparr>mg_revision = ''0034_inbox_indexes'', mg_parent = Some ''0033_operator_read_markers'',
       mg_up = up_0034, mg_down = down_0034\<rparr>,
     \<lparr>mg_revision = ''0035_talks_assigned_operator'', mg_parent = Some ''0034_inbox_indexes'',
       mg_up = up_0035, mg_down = down_0035\<rparr>,
     \<lparr>mg_revision = ''0036_outbound_operator_send'', mg_parent = Some ''0035_talks_assigned_operator'',
       mg_up = up_0036, mg_down = down_0036\<rparr>]"

end
