(* ===== verification/Orm_Models.thy ===== *)
theory Orm_Models
  imports Schema
begin

text \<open>
  The classes of \<open>models/\<close> as SQLAlchemy maps them: the columns with their types, whether the attribute can be
  \<open>None\<close>, and whether the model states a server default, so that an insert can leave the column out; the key,
  the foreign keys and the unique constraints.
\<close>

record orm_column =
  oc_name :: string
  oc_type :: pg_type
  oc_null :: bool
  oc_default :: bool

definition orm :: "string \<Rightarrow> pg_type \<Rightarrow> bool \<Rightarrow> bool \<Rightarrow> orm_column" where
  "orm n ty null d = \<lparr>oc_name = n, oc_type = ty, oc_null = null, oc_default = d\<rparr>"

text \<open>A reference is a column with the table, the column and the action on deletion.\<close>

record orm_model =
  om_table :: string
  om_columns :: "orm_column list"
  om_key :: "string list"
  om_refs :: "(string \<times> string \<times> string \<times> string) list"
  om_unique :: "string list list"

definition orm_action_execution :: orm_model where
  "orm_action_execution =
     \<lparr>om_table = ''action_executions'',
      om_columns =
       [orm ''id'' TUuid False True,
        orm ''tenant_id'' TUuid False False,
        orm ''talk_id'' TUuid False False,
        orm ''node_id'' TText False False,
        orm ''field'' TText False False,
        orm ''value_hash'' TText False False,
        orm ''adapter_name'' TText False False,
        orm ''handler'' TText False False,
        orm ''params_resolved'' TJsonb False False,
        orm ''status'' TText False False,
        orm ''attempts'' TInteger False True,
        orm ''last_error'' TText True False,
        orm ''external_id'' TText True False,
        orm ''created_at'' TTimestamp False True,
        orm ''updated_at'' TTimestamp False True],
      om_key = [''id''],
      om_refs = [(''tenant_id'', ''tenants'', ''id'', ''CASCADE''),
                 (''talk_id'', ''talks'', ''id'', ''CASCADE'')],
      om_unique = [[''talk_id'', ''field'', ''value_hash'']]\<rparr>"

definition orm_event :: orm_model where
  "orm_event =
     \<lparr>om_table = ''events'',
      om_columns =
       [orm ''id'' TUuid False True,
        orm ''tenant_id'' TUuid False False,
        orm ''event_type'' TText False False,
        orm ''payload'' TJsonb False False,
        orm ''talk_id'' TUuid True False,
        orm ''lead_id'' TUuid True False,
        orm ''experiment_id'' TUuid True False,
        orm ''experiment_variant'' TText True False,
        orm ''occurred_at'' TTimestamp False False,
        orm ''ingested_at'' TTimestamp False True],
      om_key = [''id''],
      om_refs = [(''tenant_id'', ''tenants'', ''id'', ''CASCADE'')],
      om_unique = []\<rparr>"

definition orm_follow_up_job :: orm_model where
  "orm_follow_up_job =
     \<lparr>om_table = ''follow_up_jobs'',
      om_columns =
       [orm ''id'' TUuid False True,
        orm ''tenant_id'' TUuid False False,
        orm ''talkflow_id'' TUuid False False,
        orm ''lead_id'' TUuid False False,
        orm ''attempt_number'' TInteger False False,
        orm ''scheduled_at'' TTimestamp False False,
        orm ''status'' TText False True,
        orm ''fired_at'' TTimestamp True False,
        orm ''sent_external_id'' TText True False,
        orm ''error_detail'' TText True False,
        orm ''created_at'' TTimestamp False True],
      om_key = [''id''],
      om_refs = [(''tenant_id'', ''tenants'', ''id'', ''CASCADE''),
                 (''talkflow_id'', ''talkflows'', ''id'', ''CASCADE''),
                 (''lead_id'', ''leads'', ''id'', ''CASCADE'')],
      om_unique = []\<rparr>"

definition orm_inbound_message_row :: orm_model where
  "orm_inbound_message_row =
     \<lparr>om_table = ''inbound_messages'',
      om_columns =
       [orm ''id'' TUuid False True,
        orm ''tenant_id'' TUuid False False,
        orm ''provider'' TText False False,
        orm ''external_id'' TText False False,
        orm ''lead_id'' TUuid True False,
        orm ''from_address'' TText False False,
        orm ''text'' TText False False,
        orm ''received_at'' TTimestamp False False,
        orm ''ingested_at'' TTimestamp False True,
        orm ''status'' TText False True,
        orm ''processed_at'' TTimestamp True False,
        orm ''error_detail'' TText True False,
        orm ''raw'' TJsonb False False,
        orm ''media_type'' TText False True,
        orm ''media_storage_key'' TText True False,
        orm ''audio_url'' TText True False,
        orm ''transcription'' TText True False,
        orm ''transcription_confidence'' TFloat True False,
        orm ''transcription_provider'' TText True False],
      om_key = [''id''],
      om_refs = [(''tenant_id'', ''tenants'', ''id'', ''CASCADE''),
                 (''lead_id'', ''leads'', ''id'', ''SET NULL'')],
      om_unique = []\<rparr>"

definition orm_instance :: orm_model where
  "orm_instance =
     \<lparr>om_table = ''instances'',
      om_columns =
       [orm ''id'' TUuid False True,
        orm ''tenant_id'' TUuid False False,
        orm ''channel_label'' TText False True,
        orm ''phone_e164'' TText True False,
        orm ''display_name'' TText True False,
        orm ''created_at'' TTimestamp False True],
      om_key = [''id''],
      om_refs = [(''tenant_id'', ''tenants'', ''id'', ''CASCADE'')],
      om_unique = [[''tenant_id'', ''channel_label'']]\<rparr>"

definition orm_kb_chunk :: orm_model where
  "orm_kb_chunk =
     \<lparr>om_table = ''kb_chunks'',
      om_columns =
       [orm ''id'' TUuid False True,
        orm ''document_id'' TUuid False False,
        orm ''tenant_id'' TUuid False False,
        orm ''kb_id'' (TVarchar 128) False False,
        orm ''chunk_idx'' TInteger False False,
        orm ''heading_path'' TText True False,
        orm ''content'' TText False False,
        orm ''token_count'' TInteger False False,
        orm ''embedding'' (TVector 1536) False False,
        orm ''created_at'' TTimestamp False True],
      om_key = [''id''],
      om_refs = [(''document_id'', ''kb_documents'', ''id'', ''CASCADE'')],
      om_unique = [[''document_id'', ''chunk_idx'']]\<rparr>"

definition orm_kb_document :: orm_model where
  "orm_kb_document =
     \<lparr>om_table = ''kb_documents'',
      om_columns =
       [orm ''id'' TUuid False True,
        orm ''tenant_id'' TUuid False False,
        orm ''kb_id'' (TVarchar 128) False False,
        orm ''doc_path'' TText False False,
        orm ''content_hash'' (TVarchar 64) False False,
        orm ''content_md'' TText False False,
        orm ''indexed_at'' TTimestamp False True,
        orm ''created_at'' TTimestamp False True,
        orm ''updated_at'' TTimestamp False True],
      om_key = [''id''],
      om_refs = [(''tenant_id'', ''tenants'', ''id'', ''CASCADE'')],
      om_unique = [[''tenant_id'', ''kb_id'', ''doc_path'']]\<rparr>"

definition orm_lead :: orm_model where
  "orm_lead =
     \<lparr>om_table = ''leads'',
      om_columns =
       [orm ''id'' TUuid False True,
        orm ''tenant_id'' TUuid False False,
        orm ''whatsapp_e164'' TText True False,
        orm ''external_label'' TText True False,
        orm ''status'' TText False True,
        orm ''unreachable_reason'' TText True False,
        orm ''channel_identifiers'' TJsonb False True,
        orm ''display_name'' TText True False,
        orm ''profile'' TJsonb False True,
        orm ''profile_last_updated'' TTimestamp True False,
        orm ''long_term_memory_enabled'' TBoolean False True,
        orm ''risk_level'' TText False True,
        orm ''risk_level_since'' TTimestamp True False,
        orm ''risk_level_reason'' TText True False,
        orm ''acquisition_metadata'' TJsonb False True,
        orm ''inbound_channel_label'' TText False True,
        orm ''created_at'' TTimestamp False True,
        orm ''updated_at'' TTimestamp False True],
      om_key = [''id''],
      om_refs = [(''tenant_id'', ''tenants'', ''id'', ''CASCADE'')],
      om_unique = []\<rparr>"

definition orm_operator_read_marker :: orm_model where
  "orm_operator_read_marker =
     \<lparr>om_table = ''operator_read_markers'',
      om_columns =
       [orm ''tenant_id'' TUuid False False,
        orm ''user_id'' TUuid False False,
        orm ''lead_id'' TUuid False False,
        orm ''last_read_at'' TTimestamp False False,
        orm ''last_read_message_at'' TTimestamp False False],
      om_key = [''user_id'', ''lead_id''],
      om_refs = [(''tenant_id'', ''tenants'', ''id'', ''CASCADE''),
                 (''user_id'', ''users'', ''id'', ''CASCADE''),
                 (''lead_id'', ''leads'', ''id'', ''CASCADE'')],
      om_unique = []\<rparr>"

definition orm_outbound_message :: orm_model where
  "orm_outbound_message =
     \<lparr>om_table = ''outbound_messages'',
      om_columns =
       [orm ''id'' TUuid False True,
        orm ''tenant_id'' TUuid False False,
        orm ''talkflow_id'' TUuid False False,
        orm ''lead_id'' TUuid False False,
        orm ''provider'' TText False False,
        orm ''message_type'' TText False False,
        orm ''body_text'' TText True False,
        orm ''template_ref'' TText True False,
        orm ''template_language'' TText True False,
        orm ''template_params'' TJsonb True False,
        orm ''status'' TText False False,
        orm ''external_id'' TText True False,
        orm ''error_detail'' TText True False,
        orm ''triggered_by'' TText False False,
        orm ''inbound_message_id'' TUuid True False,
        orm ''follow_up_job_id'' TUuid True False,
        orm ''media_type'' TText False True,
        orm ''media_storage_key'' TText True False,
        orm ''audio_url'' TText True False,
        orm ''audio_duration_ms'' TInteger True False,
        orm ''synthesis_voice_id'' TText True False,
        orm ''voice_emotion'' TText True False,
        orm ''client_message_id'' TUuid True False,
        orm ''sent_at'' TTimestamp False False,
        orm ''created_at'' TTimestamp False True],
      om_key = [''id''],
      om_refs = [(''tenant_id'', ''tenants'', ''id'', ''CASCADE''),
                 (''lead_id'', ''leads'', ''id'', ''CASCADE''),
                 (''inbound_message_id'', ''inbound_messages'', ''id'', ''SET NULL''),
                 (''follow_up_job_id'', ''follow_up_jobs'', ''id'', ''SET NULL'')],
      om_unique = []\<rparr>"

definition orm_talk :: orm_model where
  "orm_talk =
     \<lparr>om_table = ''talks'',
      om_columns =
       [orm ''id'' TUuid False True,
        orm ''tenant_id'' TUuid False False,
        orm ''lead_id'' TUuid False False,
        orm ''treeflow_id'' TText False False,
        orm ''treeflow_version_id'' TUuid False False,
        orm ''status'' TText False False,
        orm ''handling_mode'' TText False True,
        orm ''assigned_operator_id'' TUuid True False,
        orm ''created_at'' TTimestamp False True,
        orm ''last_message_at'' TTimestamp False False,
        orm ''closed_at'' TTimestamp True False,
        orm ''closed_reason'' TText True False,
        orm ''closed_by'' TText True False,
        orm ''escalated_at'' TTimestamp True False,
        orm ''escalation_category'' TText True False,
        orm ''escalation_reason'' TText True False,
        orm ''requires_review_reason'' (TVarchar 64) True False,
        orm ''experiment_id'' TUuid True False,
        orm ''experiment_variant'' TText True False,
        orm ''turn_count'' TInteger False True,
        orm ''tokens_consumed'' TJsonb False True],
      om_key = [''id''],
      om_refs = [(''tenant_id'', ''tenants'', ''id'', ''CASCADE''),
                 (''lead_id'', ''leads'', ''id'', ''CASCADE''),
                 (''treeflow_version_id'', ''treeflow_versions'', ''id'', ''RESTRICT''),
                 (''assigned_operator_id'', ''users'', ''id'', ''SET NULL'')],
      om_unique = []\<rparr>"

definition orm_talk_flow :: orm_model where
  "orm_talk_flow =
     \<lparr>om_table = ''talkflows'',
      om_columns =
       [orm ''id'' TUuid False True,
        orm ''tenant_id'' TUuid False False,
        orm ''lead_id'' TUuid False False,
        orm ''treeflow_version_id'' TUuid False False,
        orm ''thread_id'' (TVarchar 256) False False,
        orm ''status'' (TEnum ''talkflow_status'') False True,
        orm ''created_at'' TTimestamp False True,
        orm ''updated_at'' TTimestamp False True,
        orm ''last_agent_message_at'' TTimestamp True False,
        orm ''last_lead_message_at'' TTimestamp True False,
        orm ''follow_up_attempt_number'' TInteger False True],
      om_key = [''id''],
      om_refs = [(''tenant_id'', ''tenants'', ''id'', ''CASCADE''),
                 (''lead_id'', ''leads'', ''id'', ''RESTRICT''),
                 (''treeflow_version_id'', ''treeflow_versions'', ''id'', ''RESTRICT'')],
      om_unique = [[''thread_id''], [''tenant_id'', ''lead_id'']]\<rparr>"

definition orm_talk_flow_state :: orm_model where
  "orm_talk_flow_state =
     \<lparr>om_table = ''talkflow_states'',
      om_columns =
       [orm ''talk_id'' TUuid False False,
        orm ''tenant_id'' TUuid False False,
        orm ''current_node'' TText False False,
        orm ''collected'' TJsonb False True,
        orm ''extracted_facts'' TJsonb False True,
        orm ''messages'' TJsonb False True,
        orm ''history_summary'' TText True False,
        orm ''history_summary_covers_until_turn'' TInteger True False,
        orm ''active_treatment'' TJsonb True False,
        orm ''objections_handled'' TJsonb False True,
        orm ''talkflow_stack'' TJsonb False True,
        orm ''updated_at'' TTimestamp False True],
      om_key = [''talk_id''],
      om_refs = [(''talk_id'', ''talks'', ''id'', ''CASCADE''),
                 (''tenant_id'', ''tenants'', ''id'', ''CASCADE'')],
      om_unique = []\<rparr>"

definition orm_tenant :: orm_model where
  "orm_tenant =
     \<lparr>om_table = ''tenants'',
      om_columns =
       [orm ''id'' TUuid False True,
        orm ''slug'' (TVarchar 64) False False,
        orm ''display_name'' (TVarchar 255) False False,
        orm ''architecture_version'' TInteger False True,
        orm ''created_at'' TTimestamp False True,
        orm ''updated_at'' TTimestamp False True],
      om_key = [''id''],
      om_refs = [],
      om_unique = [[''slug'']]\<rparr>"

definition orm_treeflow_version :: orm_model where
  "orm_treeflow_version =
     \<lparr>om_table = ''treeflow_versions'',
      om_columns =
       [orm ''id'' TUuid False True,
        orm ''tenant_id'' TUuid False False,
        orm ''treeflow_id'' (TVarchar 128) False False,
        orm ''version'' (TVarchar 32) False False,
        orm ''content_hash'' (TVarchar 64) False False,
        orm ''content_yaml'' TText False False,
        orm ''created_at'' TTimestamp False True],
      om_key = [''id''],
      om_refs = [(''tenant_id'', ''tenants'', ''id'', ''CASCADE'')],
      om_unique = [[''tenant_id'', ''treeflow_id'', ''version'']]\<rparr>"

definition orm_user :: orm_model where
  "orm_user =
     \<lparr>om_table = ''users'',
      om_columns =
       [orm ''id'' TUuid False True,
        orm ''username'' TText False False,
        orm ''password_hash'' TText False False,
        orm ''is_platform_admin'' TBoolean False True,
        orm ''created_at'' TTimestamp False True,
        orm ''last_login_at'' TTimestamp True False],
      om_key = [''id''],
      om_refs = [],
      om_unique = []\<rparr>"

definition orm_user_tenant_access :: orm_model where
  "orm_user_tenant_access =
     \<lparr>om_table = ''user_tenant_access'',
      om_columns =
       [orm ''user_id'' TUuid False False,
        orm ''tenant_id'' TUuid False False,
        orm ''role'' TText False False,
        orm ''granted_at'' TTimestamp False True],
      om_key = [''user_id'', ''tenant_id''],
      om_refs = [(''user_id'', ''users'', ''id'', ''CASCADE''),
                 (''tenant_id'', ''tenants'', ''id'', ''CASCADE'')],
      om_unique = []\<rparr>"

definition orm_models :: "orm_model list" where
  "orm_models =
     [orm_action_execution,
      orm_event,
      orm_follow_up_job,
      orm_inbound_message_row,
      orm_instance,
      orm_kb_chunk,
      orm_kb_document,
      orm_lead,
      orm_operator_read_marker,
      orm_outbound_message,
      orm_talk,
      orm_talk_flow,
      orm_talk_flow_state,
      orm_tenant,
      orm_treeflow_version,
      orm_user,
      orm_user_tenant_access]"

end
