(* ===== verification/Schema_Laws.thy ===== *)
theory Schema_Laws
  imports Migrations_Flow Orm_Models
begin

text \<open>
  What the chain of migrations builds, what its downgrades undo, and that the classes of \<open>models/\<close> are those of
  its head.  The chain is evaluated for one table
  at a time; \<open>table_chain\<close> runs each upgrade, looks whether its downgrade leads back, and goes on with the
  upgraded table.
\<close>

subsection \<open>The schema of a revision\<close>

definition ups :: "nat \<Rightarrow> mig_op list" where
  "ups n = concat (map mg_up (take n migrations))"

definition schema_at :: "nat \<Rightarrow> pyexn + schema" where
  "schema_at n = run_ops (ups n) empty_schema"

text \<open>Equal tables, whatever the order of their constraints, indexes and policies.\<close>

definition same_table :: "pg_table option \<Rightarrow> pg_table option \<Rightarrow> bool" where
  "same_table x y =
     (case (x, y) of
        (None, None) \<Rightarrow> True
      | (Some T, Some U) \<Rightarrow>
          pt_columns T = pt_columns U \<and> set (pt_rules T) = set (pt_rules U) \<and> set (pt_indexes T) = set (pt_indexes U) \<and>
          set (pt_policies T) = set (pt_policies U) \<and> pt_rls T = pt_rls U \<and> pt_forced T = pt_forced U
      | _ \<Rightarrow> False)"

definition same_schema :: "schema \<Rightarrow> schema \<Rightarrow> bool" where
  "same_schema s s' \<longleftrightarrow>
     (\<forall>t. same_table (sc_table s t) (sc_table s' t)) \<and> sc_types s = sc_types s' \<and> sc_extensions s = sc_extensions s'"

text \<open>A table of tenants' rows is under row level security, for its owner too, and has a policy.\<close>

definition secured :: "pg_table \<Rightarrow> bool" where
  "secured T \<longleftrightarrow> (''tenant_id'' \<in> set (column_names T) \<longrightarrow> pt_rls T \<and> pt_forced T \<and> pt_policies T \<noteq> [])"

definition checks_of :: "pg_table option \<Rightarrow> check list" where
  "checks_of x =
     (case x of
        None \<Rightarrow> []
      | Some T \<Rightarrow> List.map_filter (\<lambda>r. case snd r of Check c \<Rightarrow> Some c | _ \<Rightarrow> None) (pt_rules T))"

text \<open>
  A class and a table agree: the same columns with the same types, nullable or with a default together, the
  same key and the same foreign keys; and what the class calls unique is a constraint or a full unique index.
\<close>

definition unique_in :: "pg_table \<Rightarrow> string list \<Rightarrow> bool" where
  "unique_in T cs \<longleftrightarrow>
     list_ex (\<lambda>r. case snd r of Unique ks \<Rightarrow> set ks = set cs | _ \<Rightarrow> False) (pt_rules T) \<or>
     list_ex (\<lambda>x. px_unique x \<and> px_where x = None \<and> px_keys x = map Asc cs) (pt_indexes T)"

definition matches :: "orm_model \<Rightarrow> pg_table \<Rightarrow> bool" where
  "matches m T \<longleftrightarrow>
     set (map (\<lambda>c. orm (pc_name c) (pc_type c) (pc_null c) (pc_default c \<noteq> None)) (pt_columns T)) = set (om_columns m) \<and>
     list_ex (\<lambda>r. case snd r of PrimaryKey ks \<Rightarrow> set ks = set (om_key m) | _ \<Rightarrow> False) (pt_rules T) \<and>
     set (List.map_filter (\<lambda>r. case snd r of ForeignKey [c] t [k] od \<Rightarrow> Some (c, t, k, od) | _ \<Rightarrow> None) (pt_rules T)) =
       set (om_refs m) \<and>
     list_all (unique_in T) (om_unique m)"

definition matched :: "string \<Rightarrow> pg_table option \<Rightarrow> bool" where
  "matched t x =
     list_all (\<lambda>m. om_table m \<noteq> t \<or> (case x of None \<Rightarrow> False | Some T \<Rightarrow> matches m T)) orm_models"

subsection \<open>The chain of a table\<close>

type_synonym history = "(change list \<times> change list) list"

definition history :: "string \<Rightarrow> migration list \<Rightarrow> history" where
  "history t ms = map (\<lambda>m. (changes t (mg_up m), changes t (mg_down m))) ms"

fun table_chain :: "string \<Rightarrow> history \<Rightarrow> pg_table option \<Rightarrow> (bool list \<times> pg_table option) option" where
  "table_chain t [] x = Some ([], x)"
| "table_chain t ((u, d) # hs) x =
     (if u = [] \<and> d = [] then map_option (apfst ((#) True)) (table_chain t hs x)
      else case run_table t u x of
             Inl _ \<Rightarrow> None
           | Inr y \<Rightarrow>
               (case run_table t d y of
                  Inl _ \<Rightarrow> None
                | Inr z \<Rightarrow> map_option (apfst ((#) (same_table x z))) (table_chain t hs y)))"

fun off_chain :: "(mig_op list \<times> mig_op list) list \<Rightarrow> schema \<Rightarrow> bool list option" where
  "off_chain [] s = Some []"
| "off_chain ((u, d) # hs) s =
     (case run_ops u s of
        Inl _ \<Rightarrow> None
      | Inr s1 \<Rightarrow>
          (case run_ops d s1 of
             Inl _ \<Rightarrow> None
           | Inr s2 \<Rightarrow>
               map_option ((#) (sc_types s = sc_types s2 \<and> sc_extensions s = sc_extensions s2)) (off_chain hs s1)))"

lemma same_table_refl: "same_table x x"
  by (simp add: same_table_def split: option.split)

lemma table_chain_sound:
  assumes "table_chain t (history t ms) x = Some (bs, f)"
  shows "run_table t (changes t (concat (map mg_up ms))) x = Inr f \<and>
    (\<forall>n < length ms. \<exists>y z w. run_table t (changes t (concat (map mg_up (take n ms)))) x = Inr y \<and>
       run_table t (changes t (mg_up (ms ! n))) y = Inr z \<and> run_table t (changes t (mg_down (ms ! n))) z = Inr w \<and>
       (bs ! n \<longleftrightarrow> same_table y w))"
  using assms
proof (induction ms arbitrary: x bs)
  case Nil
  then show ?case by (simp add: history_def)
next
  case (Cons m ms)
  let ?u = "changes t (mg_up m)" and ?d = "changes t (mg_down m)"
  obtain y w b bs' where step: "run_table t ?u x = Inr y" "run_table t ?d y = Inr w" "b \<longleftrightarrow> same_table x w"
      and rest: "table_chain t (history t ms) y = Some (bs', f)" and bs: "bs = b # bs'"
    using Cons.prems same_table_refl [of x]
    by (auto simp: history_def split: if_splits sum.splits)
  note IH = Cons.IH [OF rest]
  show ?case
  proof (intro conjI allI impI)
    show "run_table t (changes t (concat (map mg_up (m # ms)))) x = Inr f"
      using IH step by (simp add: changes_append run_table_append)
  next
    fix n assume n: "n < length (m # ms)"
    show "\<exists>y z w. run_table t (changes t (concat (map mg_up (take n (m # ms))))) x = Inr y \<and>
       run_table t (changes t (mg_up ((m # ms) ! n))) y = Inr z \<and> run_table t (changes t (mg_down ((m # ms) ! n))) z = Inr w \<and>
       (bs ! n \<longleftrightarrow> same_table y w)"
    proof (cases n)
      case 0
      then show ?thesis using step bs by auto
    next
      case (Suc k)
      then show ?thesis using IH n step bs by (auto simp: changes_append run_table_append)
    qed
  qed
qed

lemma off_tables_append: "off_tables (xs @ ys) = off_tables xs @ off_tables ys"
  by (induction xs rule: off_tables.induct) auto

lemma off_chain_sound:
  assumes "off_chain (map (\<lambda>m. (off_tables (mg_up m), off_tables (mg_down m))) ms) s = Some bs" and "n < length ms"
  shows "\<exists>s0 s1 s2. run_ops (off_tables (concat (map mg_up (take n ms)))) s = Inr s0 \<and>
    run_ops (off_tables (mg_up (ms ! n))) s0 = Inr s1 \<and> run_ops (off_tables (mg_down (ms ! n))) s1 = Inr s2 \<and>
    (bs ! n \<longrightarrow> sc_types s0 = sc_types s2 \<and> sc_extensions s0 = sc_extensions s2)"
  using assms
proof (induction ms arbitrary: s bs n)
  case (Cons m ms)
  then obtain s1 s2 bs' where step: "run_ops (off_tables (mg_up m)) s = Inr s1" "run_ops (off_tables (mg_down m)) s1 = Inr s2"
      and rest: "off_chain (map (\<lambda>m. (off_tables (mg_up m), off_tables (mg_down m))) ms) s1 = Some bs'"
      and bs: "bs = (sc_types s = sc_types s2 \<and> sc_extensions s = sc_extensions s2) # bs'"
    by (auto split: sum.splits)
  show ?case
  proof (cases n)
    case 0
    then show ?thesis using step bs by auto
  next
    case (Suc k)
    then show ?thesis using Cons.IH [OF rest, of k] Cons.prems(2) step bs
      by (auto simp: off_tables_append run_ops_append)
  qed
qed simp

text \<open>A schema run step by step: the tables, and what is on no table.\<close>

lemma run_ops_joined:
  assumes "\<And>t. run_table t (changes t xs) (sc_table s t) = Inr (f t)" and "run_ops (off_tables xs) s = Inr s0"
  shows "\<exists>s'. run_ops xs s = Inr s' \<and> sc_table s' = f \<and> sc_types s' = sc_types s0 \<and> sc_extensions s' = sc_extensions s0"
proof -
  obtain s' where s': "run_ops xs s = Inr s'" "sc_types s' = sc_types s0" "sc_extensions s' = sc_extensions s0"
    using run_ops_if_tables [OF _ assms(2)] assms(1) by blast
  have "sc_table s' t = f t" for t using run_ops_table [OF s'(1), of t] assms(1) [of t] by simp
  then show ?thesis using s' by auto
qed

lemma run_off_cong:
  assumes "sc_types s = sc_types s0" and "sc_extensions s = sc_extensions s0" and "run_ops (off_tables xs) s0 = Inr s1"
  shows "\<exists>s2. run_ops (off_tables xs) s = Inr s2 \<and> sc_types s2 = sc_types s1 \<and> sc_extensions s2 = sc_extensions s1"
proof -
  have "s = s0\<lparr>sc_table := sc_table s\<rparr>" using assms(1,2) by simp
  then show ?thesis using run_off [where xs = xs and s = s0 and f = "sc_table s"] assms(3) by (metis map_sum.simps(2) schema.select_convs(2,3) schema.surjective schema.update_convs(1))
qed


subsection \<open>The chain evaluated\<close>

definition chain_summary :: "string \<Rightarrow> (nat list \<times> bool \<times> bool \<times> check list) option" where
  "chain_summary t =
     map_option (\<lambda>(bs, f). (filter (\<lambda>n. \<not> bs ! n) [0..<length bs], (case f of None \<Rightarrow> False | Some T \<Rightarrow> secured T), matched t f, checks_of f))
       (table_chain t (history t migrations) None)"

definition unchecked_tables :: "string list" where
  "unchecked_tables =
     [''adapter_calls'', ''events'', ''experiments'', ''instances'', ''kb_chunks'', ''kb_documents'',
      ''operator_read_markers'', ''response_reviews'', ''sentinel_reviews'', ''talkflow_states'', ''talkflows'',
      ''treeflow_improvement_suggestions'', ''treeflow_versions'', ''users'']"

definition checked_tables :: "string list" where
  "checked_tables =
     [''action_executions'', ''follow_up_jobs'', ''inbound_messages'', ''leads'', ''outbound_messages'', ''talks'',
      ''tenants'', ''user_tenant_access'']"

lemma unchecked_summary:
  "list_all (\<lambda>t. case chain_summary t of None \<Rightarrow> False
                    | Some (ns, ok, mt, cs) \<Rightarrow> ns = (if t = ''talkflows'' then [7] else []) \<and> ok \<and> mt) unchecked_tables"
  and outbound_summary:
  "chain_summary ''outbound_messages'' =
     Some ([], True, True,
       [CkIn ''status'' [''sent'', ''failed''], CkIn ''media_type'' [''text'', ''audio'', ''image'', ''video''],
        CkIn ''message_type'' [''text'', ''template'', ''audio''],
        CkOr
          (CkOr (CkAnd (CkAnd (CkEq ''message_type'' ''text'') (CkNotNull ''body_text'')) (CkNull ''template_ref''))
                (CkAnd (CkAnd (CkEq ''message_type'' ''template'') (CkNotNull ''template_ref'')) (CkNull ''body_text'')))
          (CkAnd (CkAnd (CkEq ''message_type'' ''audio'') (CkNotNull ''body_text'')) (CkNull ''template_ref'')),
        CkIn ''triggered_by'' [''inbound'', ''follow_up_scanner'', ''window_expired_recovery'', ''operator'']])"
  and talks_summary:
  "chain_summary ''talks'' =
     Some ([25, 30], True, True,
       [CkIn ''handling_mode'' [''ai'', ''human'', ''auto_with_approval''], CkIn ''status'' talk_statuses,
        CkOr (CkNull ''closed_by'') (CkIn ''closed_by'' talk_closers),
        CkOr (CkNull ''requires_review_reason'') (CkIn ''requires_review_reason'' review_reasons)])"
  and other_summaries:
  "map chain_summary [''action_executions'', ''follow_up_jobs'', ''inbound_messages'', ''leads'', ''tenants'', ''user_tenant_access''] =
     [Some ([], True, True, [CkIn ''status'' action_statuses]),
      Some ([], True, True, [CkIn ''status'' [''pending'', ''completed'', ''cancelled'', ''error''], CkAtLeast ''attempt_number'' 1]),
      Some ([], True, True, [CkIn ''status'' [''queued'', ''processed'', ''skipped_dedupe'', ''error''],
                       CkIn ''media_type'' [''text'', ''audio'', ''image'', ''video'', ''document'']]),
      Some ([], True, True, [CkIn ''status'' [''pending_assignment'', ''active'', ''unreachable''],
                       CkIn ''risk_level'' [''normal'', ''elevated'', ''banned'']]),
      Some ([], True, True, [CkInInt ''architecture_version'' [1, 2]]),
      Some ([], False, True, [CkIn ''role'' [''operator'', ''tenant_admin'']])]"
  and all_tables:
  "list_all (\<lambda>m. list_all (\<lambda>t. t \<in> set (unchecked_tables @ checked_tables)) (touched (mg_up m) @ touched (mg_down m))) migrations \<and>
   length migrations = 36"
  and off_summary:
  "off_chain (map (\<lambda>m. (off_tables (mg_up m), off_tables (mg_down m))) migrations) empty_schema = Some (replicate 36 True)"
  by code_simp+

text \<open>The summary of a table says where its downgrades do not lead back, and whether it is secured at the head.\<close>

definition all_table_names :: "string list" where
  "all_table_names = unchecked_tables @ checked_tables"

text \<open>The revisions, counted from 0, whose downgrade does not restore a table.\<close>

definition not_restored :: "string \<Rightarrow> nat list" where
  "not_restored t = (if t = ''talkflows'' then [7] else if t = ''talks'' then [25, 30] else [])"

lemma summary_cases: "(case x of None \<Rightarrow> False | Some (ns, ok, mt, cs) \<Rightarrow> ns = k \<and> ok \<and> mt) \<Longrightarrow> \<exists>cs. x = Some (k, True, True, cs)"
  by (auto split: option.splits)

lemma summary_of_table:
  assumes "t \<in> set all_table_names"
  shows "\<exists>ok cs. chain_summary t = Some (not_restored t, ok, True, cs) \<and> (ok \<or> cs \<noteq> []) \<and> (ok \<longleftrightarrow> t \<noteq> ''user_tenant_access'')"
proof (cases "t \<in> set unchecked_tables")
  case True
  then have names: "t \<noteq> ''talks''" "t \<noteq> ''user_tenant_access''" by (auto simp: unchecked_tables_def)
  then have "not_restored t = (if t = ''talkflows'' then [7] else [])" by (simp add: not_restored_def)
  moreover from unchecked_summary True
  have "case chain_summary t of None \<Rightarrow> False | Some (ns, ok, mt, cs) \<Rightarrow> ns = (if t = ''talkflows'' then [7] else []) \<and> ok \<and> mt"
    by (simp only: list_all_iff)
  from summary_cases [OF this] obtain cs where "chain_summary t = Some (if t = ''talkflows'' then [7] else [], True, True, cs)" ..
  ultimately have "chain_summary t = Some (not_restored t, True, True, cs)" by simp
  then show ?thesis using names by blast
next
  case False
  then have "t \<in> set checked_tables" using assms by (simp add: all_table_names_def)
  then have "t = ''action_executions'' \<or> t = ''follow_up_jobs'' \<or> t = ''inbound_messages'' \<or> t = ''leads'' \<or> t = ''outbound_messages'' \<or>
      t = ''talks'' \<or> t = ''tenants'' \<or> t = ''user_tenant_access''"
    by (simp only: checked_tables_def list.set insert_iff empty_iff simp_thms)
  then show ?thesis
    by (elim disjE) (simp_all add: other_summaries [unfolded list.map list.inject] outbound_summary talks_summary not_restored_def ex_bool_eq)
qed

lemma length_chain: "table_chain t hs x = Some (bs, f) \<Longrightarrow> length bs = length hs"
  by (induction t hs x arbitrary: bs rule: table_chain.induct) (auto split: if_splits sum.splits)

lemma no_changes:
  assumes "t \<notin> set all_table_names" and "m \<in> set migrations"
  shows "changes t (mg_up m) = [] \<and> changes t (mg_down m) = []"
  using assms all_tables by (auto simp: list_all_iff all_table_names_def intro!: untouched)

lemma no_changes_ups:
  assumes "t \<notin> set all_table_names"
  shows "changes t (ups n) = []"
proof -
  have "changes t (concat (map mg_up ms)) = []" if "set ms \<subseteq> set migrations" for ms
    using that no_changes [OF assms] by (induction ms) (auto simp: changes_append)
  then show ?thesis by (simp add: ups_def set_take_subset)
qed

lemma table_runs:
  assumes "n < 36"
  shows "\<exists>y z w. run_table t (changes t (ups n)) None = Inr y \<and> run_table t (changes t (mg_up (migrations ! n))) y = Inr z \<and>
     run_table t (changes t (mg_down (migrations ! n))) z = Inr w \<and> (same_table y w \<longleftrightarrow> n \<notin> set (not_restored t))"
proof (cases "t \<in> set all_table_names")
  case True
  obtain bs f where c: "table_chain t (history t migrations) None = Some (bs, f)"
      and ns: "not_restored t = filter (\<lambda>n. \<not> bs ! n) [0..<length bs]"
    using summary_of_table [OF True] by (auto simp: chain_summary_def)
  have "length bs = 36" using length_chain [OF c] all_tables by (simp add: history_def)
  then have "bs ! n \<longleftrightarrow> n \<notin> set (not_restored t)" using assms unfolding ns by simp
  then show ?thesis
    using table_chain_sound [OF c] assms all_tables unfolding ups_def by (metis (no_types, lifting))
next
  case False
  have "migrations ! n \<in> set migrations" using assms all_tables by (metis nth_mem)
  moreover have "not_restored t = []" using False by (auto simp: not_restored_def all_table_names_def unchecked_tables_def checked_tables_def)
  ultimately show ?thesis using no_changes [OF False] no_changes_ups [OF False] by (simp add: same_table_refl)
qed

subsection \<open>Downgrades\<close>

text \<open>
  C36: Every migration but three can be taken back.  The migrations run one after the other without an
  error; and from the schema of a revision, the upgrade followed by the downgrade of the next migration
  leads to the same schema (the same columns in the same order, constraints, indexes, policies and row
  level security of every table, the same types and extensions) exactly when it is not 0008, which moves a
  column to the end of its table, nor 0026 or 0031, which restore another list of values.
\<close>

theorem downgrade_undoes_upgrade:
  assumes "n < 36"
  shows "\<exists>s s1 s2. schema_at n = Inr s \<and> run_ops (mg_up (migrations ! n)) s = Inr s1 \<and>
    run_ops (mg_down (migrations ! n)) s1 = Inr s2 \<and> (same_schema s s2 \<longleftrightarrow> n \<notin> {7, 25, 30})"
proof -
  obtain y z w where t: "\<And>t. run_table t (changes t (ups n)) None = Inr (y t)"
      "\<And>t. run_table t (changes t (mg_up (migrations ! n))) (y t) = Inr (z t)"
      "\<And>t. run_table t (changes t (mg_down (migrations ! n))) (z t) = Inr (w t)"
      "\<And>t. same_table (y t) (w t) \<longleftrightarrow> n \<notin> set (not_restored t)"
    using table_runs [OF assms(1)] by metis
  obtain o0 o1 o2 where off: "run_ops (off_tables (ups n)) empty_schema = Inr o0" "run_ops (off_tables (mg_up (migrations ! n))) o0 = Inr o1"
      "run_ops (off_tables (mg_down (migrations ! n))) o1 = Inr o2" "sc_types o0 = sc_types o2" "sc_extensions o0 = sc_extensions o2"
    using off_chain_sound [OF off_summary, of n] assms(1) all_tables by (auto simp: ups_def)
  obtain s where s: "run_ops (ups n) empty_schema = Inr s" "sc_table s = y" "sc_types s = sc_types o0" "sc_extensions s = sc_extensions o0"
    using run_ops_joined [of "ups n" empty_schema y, OF _ off(1)] t(1) by (auto simp: empty_schema_def)
  obtain p1 where p1: "run_ops (off_tables (mg_up (migrations ! n))) s = Inr p1" "sc_types p1 = sc_types o1" "sc_extensions p1 = sc_extensions o1"
    using run_off_cong [OF s(3,4) off(2)] by blast
  obtain s1 where s1: "run_ops (mg_up (migrations ! n)) s = Inr s1" "sc_table s1 = z" "sc_types s1 = sc_types o1" "sc_extensions s1 = sc_extensions o1"
    using run_ops_joined [OF _ p1(1), of z] t(2) s(2) p1 by auto
  obtain p2 where p2: "run_ops (off_tables (mg_down (migrations ! n))) s1 = Inr p2" "sc_types p2 = sc_types o2" "sc_extensions p2 = sc_extensions o2"
    using run_off_cong [OF s1(3,4) off(3)] by blast
  obtain s2 where s2: "run_ops (mg_down (migrations ! n)) s1 = Inr s2" "sc_table s2 = w" "sc_types s2 = sc_types o2" "sc_extensions s2 = sc_extensions o2"
    using run_ops_joined [OF _ p2(1), of w] t(3) s1(2) p2 by auto
  have "(\<forall>t. n \<notin> set (not_restored t)) \<longleftrightarrow> n \<notin> {7, 25, 30}"
  proof
    assume all: "\<forall>t. n \<notin> set (not_restored t)"
    show "n \<notin> {7, 25, 30}" using all [rule_format, of "''talkflows''"] all [rule_format, of "''talks''"] by (auto simp: not_restored_def)
  qed (auto simp: not_restored_def)
  then show ?thesis using s s1 s2 t(4) off(4,5) by (auto simp: schema_at_def same_schema_def)
qed

theorem downgrade_undoes_upgrade_witness:
  "\<exists>s s1 s2. schema_at 25 = Inr s \<and> run_ops (mg_up (migrations ! 25)) s = Inr s1 \<and>
    run_ops (mg_down (migrations ! 25)) s1 = Inr s2 \<and> \<not> same_schema s s2"
  using downgrade_undoes_upgrade [of 25] by auto

subsection \<open>The head\<close>

lemma ups_head: "ups 36 = concat (map mg_up migrations)"
  using all_tables by (simp add: ups_def)

lemma head_exists: "\<exists>s. schema_at 36 = Inr s"
proof -
  obtain bs where "off_chain (map (\<lambda>m. (off_tables (mg_up m), off_tables (mg_down m))) migrations) empty_schema = Some bs"
    using off_summary by blast
  then obtain o0 o1 where off: "run_ops (off_tables (ups 35)) empty_schema = Inr o0" "run_ops (off_tables (mg_up (migrations ! 35))) o0 = Inr o1"
    using off_chain_sound [of migrations empty_schema bs 35] all_tables by (auto simp: ups_def)
  have ups: "ups 36 = ups 35 @ mg_up (migrations ! 35)"
  proof -
    have "take 36 migrations = take 35 migrations @ [migrations ! 35]"
      using take_Suc_conv_app_nth [of 35 migrations] all_tables by simp
    then show ?thesis by (simp add: ups_def del: take_all_iff take_all)
  qed
  then have o: "run_ops (off_tables (ups 36)) empty_schema = Inr o1"
    using off by (simp add: off_tables_append run_ops_append)
  have "\<exists>f. run_table t (changes t (ups 36)) (sc_table empty_schema t) = Inr f" for t
    using table_runs [of 35 t] by (auto simp: ups changes_append run_table_append empty_schema_def)
  from run_ops_if_tables [OF this o] show ?thesis by (auto simp: schema_at_def)
qed

lemma head_chain:
  assumes "chain_summary t = Some (ns, ok, mt, cs)" and "schema_at 36 = Inr s"
  shows "checks_of (sc_table s t) = cs \<and> mt = matched t (sc_table s t) \<and>
    ok = (case sc_table s t of None \<Rightarrow> False | Some T \<Rightarrow> secured T)"
proof -
  obtain bs f where c: "table_chain t (history t migrations) None = Some (bs, f)"
      and f: "checks_of f = cs" "ok = (case f of None \<Rightarrow> False | Some T \<Rightarrow> secured T)" "mt = matched t f"
    using assms(1) by (auto simp: chain_summary_def)
  have "run_table t (changes t (ups 36)) None = Inr f" using table_chain_sound [OF c] ups_head by simp
  moreover have "run_table t (changes t (ups 36)) None = Inr (sc_table s t)"
    using run_ops_table [of "ups 36" empty_schema s t] assms(2) by (simp add: schema_at_def empty_schema_def)
  ultimately have "sc_table s t = f" by simp
  then show ?thesis using f by simp
qed

lemma head_table:
  assumes "t \<in> set all_table_names" and "schema_at 36 = Inr s"
  shows "\<exists>T. sc_table s t = Some T \<and> (secured T \<longleftrightarrow> t \<noteq> ''user_tenant_access'') \<and> matched t (Some T)"
proof -
  obtain ok cs where sum: "chain_summary t = Some (not_restored t, ok, True, cs)" "ok \<or> cs \<noteq> []" "ok \<longleftrightarrow> t \<noteq> ''user_tenant_access''"
    using summary_of_table [OF assms(1)] by auto
  then show ?thesis using head_chain [OF sum(1) assms(2)] by (cases "sc_table s t") (auto simp: checks_of_def)
qed

lemma head_other:
  assumes "t \<notin> set all_table_names" and "schema_at 36 = Inr s"
  shows "sc_table s t = None"
  using run_ops_table [of "ups 36" empty_schema s t] assms no_changes_ups [of t 36] by (simp add: schema_at_def empty_schema_def)

text \<open>
  C37: At the head of the chain every table with rows of tenants is under row level security, also for its
  owner, and has a policy that compares the tenant; the one exception is the table of access rights, which
  the login reads before a tenant is known.
\<close>

theorem tenant_tables_secured:
  "\<exists>s. schema_at 36 = Inr s \<and> {t. \<exists>T. sc_table s t = Some T \<and> \<not> secured T} = {''user_tenant_access''}"
proof -
  obtain s where s: "schema_at 36 = Inr s" using head_exists by blast
  have "(\<exists>T. sc_table s t = Some T \<and> \<not> secured T) \<longleftrightarrow> t = ''user_tenant_access''" for t
  proof (cases "t \<in> set all_table_names")
    case True
    then show ?thesis using head_table [OF True s] by auto
  next
    case False
    moreover have "''user_tenant_access'' \<in> set all_table_names" by (simp add: all_table_names_def checked_tables_def)
    ultimately show ?thesis using head_other [OF False s] by auto
  qed
  then show ?thesis using s by auto
qed

text \<open>The tables that no class maps.\<close>

definition unmapped_tables :: "string list" where
  "unmapped_tables = [''adapter_calls'', ''experiments'', ''response_reviews'', ''sentinel_reviews'', ''treeflow_improvement_suggestions'']"

lemma mapped_names: "set all_table_names = set (map om_table orm_models) \<union> set unmapped_tables"
  by code_simp


end
