(* ===== verification/Schema_Rows.thy ===== *)
theory Schema_Rows
  imports Schema_Laws Console_Inbox Worker_Jobs Ops_Cli
begin

text \<open>
  The rows of the other theories as PostgreSQL stores them, in the columns that a \<open>CHECK\<close> looks at, and which
  of them the schema at the head of the migrations admits.
\<close>

subsection \<open>Checks on rows\<close>

datatype cell = CNull | CText string | CInt int

type_synonym cells = "(string \<times> cell) list"

definition cell_of :: "cells \<Rightarrow> string \<Rightarrow> cell" where
  "cell_of r c = (case map_of r c of None \<Rightarrow> CNull | Some x \<Rightarrow> x)"

text \<open>The value of an expression is true, false or unknown; a check rejects a row only when it is false.\<close>

fun and3 :: "bool option \<Rightarrow> bool option \<Rightarrow> bool option" where
  "and3 (Some False) y = Some False"
| "and3 (Some True) y = y"
| "and3 None (Some False) = Some False"
| "and3 None y = None"

definition or3 :: "bool option \<Rightarrow> bool option \<Rightarrow> bool option" where
  "or3 x y = map_option Not (and3 (map_option Not x) (map_option Not y))"

definition on_text :: "(string \<Rightarrow> bool) \<Rightarrow> cell \<Rightarrow> bool option" where
  "on_text P x = (case x of CText s \<Rightarrow> Some (P s) | _ \<Rightarrow> None)"

definition on_int :: "(int \<Rightarrow> bool) \<Rightarrow> cell \<Rightarrow> bool option" where
  "on_int P x = (case x of CInt n \<Rightarrow> Some (P n) | _ \<Rightarrow> None)"

fun holds :: "cells \<Rightarrow> check \<Rightarrow> bool option" where
  "holds r (CkIn c vs) = on_text (\<lambda>s. s \<in> set vs) (cell_of r c)"
| "holds r (CkInInt c vs) = on_int (\<lambda>n. n \<in> set vs) (cell_of r c)"
| "holds r (CkAtLeast c n) = on_int (\<lambda>k. n \<le> k) (cell_of r c)"
| "holds r (CkEq c v) = on_text (\<lambda>s. s = v) (cell_of r c)"
| "holds r (CkNe c v) = on_text (\<lambda>s. s \<noteq> v) (cell_of r c)"
| "holds r (CkNull c) = Some (cell_of r c = CNull)"
| "holds r (CkNotNull c) = Some (cell_of r c \<noteq> CNull)"
| "holds r (CkAnd a b) = and3 (holds r a) (holds r b)"
| "holds r (CkOr a b) = or3 (holds r a) (holds r b)"

definition admits :: "check list \<Rightarrow> cells \<Rightarrow> bool" where
  "admits cs r = list_all (\<lambda>c. holds r c \<noteq> Some False) cs"

text \<open>Whether the schema of the last migration admits a row of a table.\<close>

definition head_admits :: "string \<Rightarrow> cells \<Rightarrow> bool" where
  "head_admits t r = (case schema_at 36 of Inl e \<Rightarrow> False | Inr s \<Rightarrow> admits (checks_of (sc_table s t)) r)"

subsection \<open>The rows\<close>

definition nullable :: "('a \<Rightarrow> string) \<Rightarrow> 'a option \<Rightarrow> cell" where
  "nullable f x = (case x of None \<Rightarrow> CNull | Some a \<Rightarrow> CText (f a))"

definition talk_status_name :: "talk_status \<Rightarrow> string" where
  "talk_status_name s =
     (case s of Active \<Rightarrow> ''active'' | Paused \<Rightarrow> ''paused'' | RequiresReview \<Rightarrow> ''requires_review''
      | ClosedCompleted \<Rightarrow> ''closed_completed'' | ClosedSuccess \<Rightarrow> ''closed_completed_success''
      | ClosedFailure \<Rightarrow> ''closed_completed_failure'' | ClosedNoInterest \<Rightarrow> ''closed_no_interest''
      | ClosedDuration \<Rightarrow> ''closed_duration'' | ClosedInactivity \<Rightarrow> ''closed_inactivity''
      | ClosedOptout \<Rightarrow> ''closed_optout'' | ClosedBanned \<Rightarrow> ''closed_banned'')"

definition closer_name :: "closed_by \<Rightarrow> string" where
  "closer_name c =
     (case c of ByRule \<Rightarrow> ''rule'' | ByOptout \<Rightarrow> ''optout'' | ByLlm \<Rightarrow> ''llm'' | ByOperator \<Rightarrow> ''operator''
      | BySentinel \<Rightarrow> ''sentinel'' | ByPipelineHook \<Rightarrow> ''pipeline_hook'' | ByScanJob \<Rightarrow> ''scan_job'')"

definition reason_name :: "review_reason \<Rightarrow> string" where
  "reason_name r =
     (case r of EscalationRequested \<Rightarrow> ''escalation_requested'' | OffTopicExhausted \<Rightarrow> ''off_topic_exhausted''
      | ValidatorExhausted \<Rightarrow> ''validator_exhausted'' | TreeflowVersionMissing \<Rightarrow> ''treeflow_version_missing''
      | ObjectionTreatmentExhausted \<Rightarrow> ''objection_treatment_exhausted''
      | VoiceSynthesisFailed \<Rightarrow> ''voice_synthesis_failed'')"

definition talk_cells :: "talk \<Rightarrow> cells" where
  "talk_cells t =
     [(''status'', CText (talk_status_name (tk_status t))), (''handling_mode'', CText (mode_name (tk_mode t))),
      (''closed_by'', nullable closer_name (tk_closed_by t)),
      (''requires_review_reason'', nullable reason_name (tk_review_reason t))]"

definition lead_status_name :: "lead_status \<Rightarrow> string" where
  "lead_status_name s =
     (case s of PendingAssignment \<Rightarrow> ''pending_assignment'' | LeadActive \<Rightarrow> ''active'' | Unreachable \<Rightarrow> ''unreachable'')"

definition risk_name :: "risk_level \<Rightarrow> string" where
  "risk_name r = (case r of RiskNormal \<Rightarrow> ''normal'' | RiskElevated \<Rightarrow> ''elevated'' | RiskBanned \<Rightarrow> ''banned'')"

definition lead_cells :: "lead \<Rightarrow> cells" where
  "lead_cells l = [(''status'', CText (lead_status_name (ld_status l))), (''risk_level'', CText (risk_name (ld_risk l)))]"

definition media_name :: "media_type \<Rightarrow> string" where
  "media_name m = (case m of MText \<Rightarrow> ''text'' | MAudio \<Rightarrow> ''audio'' | MImage \<Rightarrow> ''image'' | MVideo \<Rightarrow> ''video'')"

definition inbound_status_name :: "inbound_status \<Rightarrow> string" where
  "inbound_status_name s =
     (case s of Queued \<Rightarrow> ''queued'' | Processed \<Rightarrow> ''processed'' | Skipped \<Rightarrow> ''skipped_dedupe'' | InError \<Rightarrow> ''error'')"

definition inbound_cells :: "inbound \<Rightarrow> cells" where
  "inbound_cells m =
     [(''status'', CText (inbound_status_name (in_status m))), (''media_type'', CText (media_name (in_media m)))]"

definition outbound_type_name :: "outbound_type \<Rightarrow> string" where
  "outbound_type_name t = (case t of OutText \<Rightarrow> ''text'' | OutTemplate \<Rightarrow> ''template'' | OutAudio \<Rightarrow> ''audio'')"

definition trigger_name :: "trigger \<Rightarrow> string" where
  "trigger_name t =
     (case t of TrigInbound \<Rightarrow> ''inbound'' | TrigFollowUp \<Rightarrow> ''follow_up_scanner''
      | TrigWindowExpired \<Rightarrow> ''window_expired_recovery'' | TrigOperator \<Rightarrow> ''operator'')"

definition outbound_cells :: "outbound \<Rightarrow> cells" where
  "outbound_cells m =
     [(''message_type'', CText (outbound_type_name (ob_type m))), (''body_text'', nullable id (ob_body m)),
      (''template_ref'', nullable id (ob_template m)), (''status'', CText (ob_status_name (ob_status m))),
      (''triggered_by'', CText (trigger_name (ob_trigger m))), (''media_type'', CText (media_name (ob_media m)))]"

definition job_cells :: "follow_up_job \<Rightarrow> cells" where
  "job_cells j = [(''status'', CText (job_status_name (fj_status j))), (''attempt_number'', CInt (fj_attempt j))]"

definition action_status_name :: "action_status \<Rightarrow> string" where
  "action_status_name s =
     (case s of Pending \<Rightarrow> ''pending'' | Executing \<Rightarrow> ''executing'' | Succeeded \<Rightarrow> ''success'' | Failed \<Rightarrow> ''failed'')"

definition action_cells :: "action_execution \<Rightarrow> cells" where
  "action_cells a = [(''status'', CText (action_status_name (ax_status a)))]"

definition tenant_cells :: "tenant \<Rightarrow> cells" where
  "tenant_cells tn = [(''architecture_version'', CInt (tn_architecture tn))]"

definition role_name :: "access_role \<Rightarrow> string" where
  "role_name r = (case r of RoleOperator \<Rightarrow> ''operator'' | RoleTenantAdmin \<Rightarrow> ''tenant_admin'')"

definition access_cells :: "access_row \<Rightarrow> cells" where
  "access_cells x = [(''role'', CText (role_name (ua_role x)))]"

subsection \<open>What the head admits\<close>

lemma head_admits_checks:
  assumes "chain_summary t = Some (ns, ok, mt, cs)"
  shows "head_admits t r \<longleftrightarrow> admits cs r"
proof -
  obtain s where s: "schema_at 36 = Inr s" using head_exists by blast
  from head_chain [OF assms s] show ?thesis by (simp add: head_admits_def s)
qed

lemmas head_checks =
  head_admits_checks [OF talks_summary] head_admits_checks [OF outbound_summary]
  other_summaries [unfolded list.map list.inject, THEN conjunct1, THEN head_admits_checks]
  other_summaries [unfolded list.map list.inject, THEN conjunct2, THEN conjunct1, THEN head_admits_checks]
  other_summaries [unfolded list.map list.inject, THEN conjunct2, THEN conjunct2, THEN conjunct1, THEN head_admits_checks]
  other_summaries [unfolded list.map list.inject, THEN conjunct2, THEN conjunct2, THEN conjunct2, THEN conjunct1,
    THEN head_admits_checks]
  other_summaries [unfolded list.map list.inject, THEN conjunct2, THEN conjunct2, THEN conjunct2, THEN conjunct2,
    THEN conjunct1, THEN head_admits_checks]
  other_summaries [unfolded list.map list.inject, THEN conjunct2, THEN conjunct2, THEN conjunct2, THEN conjunct2,
    THEN conjunct2, THEN conjunct1, THEN head_admits_checks]

lemmas row_simps = admits_def cell_of_def on_text_def on_int_def or3_def nullable_def

lemma talk_admitted: "head_admits ''talks'' (talk_cells t) \<longleftrightarrow> tk_status t \<noteq> Paused"
proof -
  have "talk_status_name x \<in> set talk_statuses \<longleftrightarrow> x \<noteq> Paused" for x
    by (cases x) (simp_all add: talk_status_name_def talk_statuses_def)
  moreover have "closer_name x \<in> set talk_closers" for x by (cases x) (simp_all add: closer_name_def talk_closers_def)
  moreover have "reason_name x \<in> set review_reasons" for x by (cases x) (simp_all add: reason_name_def review_reasons_def)
  moreover have "mode_name x \<in> {''ai'', ''human'', ''auto_with_approval''}" for x by (cases x) (simp_all add: mode_name_def)
  ultimately show ?thesis by (simp add: head_checks row_simps talk_cells_def split: option.split)
qed

lemma media_known: "media_name x \<in> {''text'', ''audio'', ''image'', ''video''}"
  by (cases x) (simp_all add: media_name_def)

lemma outbound_admitted:
  "head_admits ''outbound_messages'' (outbound_cells m) \<longleftrightarrow>
     (case ob_type m of OutTemplate \<Rightarrow> ob_body m = None \<and> ob_template m \<noteq> None | _ \<Rightarrow> ob_body m \<noteq> None \<and> ob_template m = None)"
proof -
  have "ob_status_name x \<in> {''sent'', ''failed''}" for x by (cases x) (simp_all add: ob_status_name_def)
  moreover have "trigger_name x \<in> {''inbound'', ''follow_up_scanner'', ''window_expired_recovery'', ''operator''}" for x
    by (cases x) (simp_all add: trigger_name_def)
  ultimately show ?thesis
    using media_known [of "ob_media m"]
    by (cases "ob_type m"; cases "ob_body m"; cases "ob_template m")
      (simp_all add: head_checks row_simps outbound_cells_def outbound_type_name_def)
qed

lemma lead_admitted: "head_admits ''leads'' (lead_cells l)"
  by (cases "ld_status l"; cases "ld_risk l")
    (simp_all add: head_checks row_simps lead_cells_def lead_status_name_def risk_name_def)

lemma inbound_admitted: "head_admits ''inbound_messages'' (inbound_cells m)"
  by (cases "in_status m"; cases "in_media m")
    (simp_all add: head_checks row_simps inbound_cells_def inbound_status_name_def media_name_def)

lemma job_admitted: "head_admits ''follow_up_jobs'' (job_cells j) \<longleftrightarrow> 1 \<le> fj_attempt j"
  by (cases "fj_status j") (simp_all add: head_checks row_simps job_cells_def job_status_name_def)

lemma action_admitted: "head_admits ''action_executions'' (action_cells a)"
  by (cases "ax_status a") (simp_all add: head_checks row_simps action_cells_def action_status_name_def action_statuses_def)

lemma access_admitted: "head_admits ''user_tenant_access'' (access_cells x)"
  by (cases "ua_role x") (simp_all add: head_checks row_simps access_cells_def role_name_def)

lemma tenant_admitted: "head_admits ''tenants'' (tenant_cells tn) \<longleftrightarrow> tn_architecture tn \<in> {1, 2}"
  by (simp add: head_checks row_simps tenant_cells_def)

lemma audit_rows_admitted:
  "head_admits ''outbound_messages'' (outbound_cells (audit_row i t m body turn ix rr sent_at))"
  "head_admits ''outbound_messages'' (outbound_cells (operator_row tn t l b external now i))"
  "head_admits ''outbound_messages'' (outbound_cells (legacy_audit_row tn f l p (reply_audit m body) st ext err now i))"
  "head_admits ''outbound_messages'' (outbound_cells (legacy_audit_row tn f l p (reengage_audit m r ps) st ext err now i))"
  "head_admits ''outbound_messages'' (outbound_cells (legacy_audit_row tn f l p (step_audit j step ps) st ext err now i))"
  by (simp_all add: outbound_admitted audit_row_def operator_row_def legacy_audit_row_def reply_audit_def reengage_audit_def
      step_audit_def)

text \<open>
  C39: The checks of the database and the values of the code agree.  The schema at the head rejects no lead,
  message, action or access row, whatever their states; a talk only when it is paused, a follow-up only when
  its attempt is not positive, a tenant only when its architecture is neither 1 nor 2; and every audit row
  that the pipeline, the worker, the follow-ups or the console write is admitted.
\<close>

theorem stored_rows_admitted:
  "(\<forall>l. head_admits ''leads'' (lead_cells l)) \<and> (\<forall>m. head_admits ''inbound_messages'' (inbound_cells m)) \<and>
   (\<forall>a. head_admits ''action_executions'' (action_cells a)) \<and> (\<forall>x. head_admits ''user_tenant_access'' (access_cells x)) \<and>
   (\<forall>t. head_admits ''talks'' (talk_cells t) \<longleftrightarrow> tk_status t \<noteq> Paused) \<and>
   (\<forall>j. head_admits ''follow_up_jobs'' (job_cells j) \<longleftrightarrow> 1 \<le> fj_attempt j) \<and>
   (\<forall>tn. head_admits ''tenants'' (tenant_cells tn) \<longleftrightarrow> tn_architecture tn \<in> {1, 2}) \<and>
   (\<forall>i t m body turn ix rr sent_at. head_admits ''outbound_messages'' (outbound_cells (audit_row i t m body turn ix rr sent_at))) \<and>
   (\<forall>tn t l b external now i. head_admits ''outbound_messages'' (outbound_cells (operator_row tn t l b external now i))) \<and>
   (\<forall>tn f l p st ext err now i.
      (\<forall>m body. head_admits ''outbound_messages'' (outbound_cells (legacy_audit_row tn f l p (reply_audit m body) st ext err now i))) \<and>
      (\<forall>m r ps. head_admits ''outbound_messages'' (outbound_cells (legacy_audit_row tn f l p (reengage_audit m r ps) st ext err now i))) \<and>
      (\<forall>j step ps. head_admits ''outbound_messages'' (outbound_cells (legacy_audit_row tn f l p (step_audit j step ps) st ext err now i))))"
  by (simp add: audit_rows_admitted lead_admitted inbound_admitted action_admitted access_admitted talk_admitted job_admitted
      tenant_admitted)

end
