(* ===== verification/Backfill.thy ===== *)
theory Backfill
  imports Realtime Repositories
begin

text \<open>
  The two migrations that move rows.  0008 makes a lead of every name in \<open>talkflows.lead_id\<close> and lets the
  conversation point to it; its downgrade writes the label back, or the id of a lead without a label.
  0032 gives every tenant its first instance.
\<close>

subsection \<open>Leads of the names in the conversations\<close>

record named_flow =
  nf_id :: uuid
  nf_tenant :: uuid
  nf_name :: string

record lead_flow =
  lf_id :: uuid
  lf_tenant :: uuid
  lf_lead :: uuid

definition flow_names :: "named_flow list \<Rightarrow> (uuid \<times> string) list" where
  "flow_names fs = remdups (map (\<lambda>f. (nf_tenant f, nf_name f)) fs)"

definition labelled :: "uuid \<Rightarrow> string \<Rightarrow> lead \<Rightarrow> bool" where
  "labelled tn name l \<longleftrightarrow> ld_tenant l = tn \<and> ld_label l = Some name"

definition named_lead :: "time \<Rightarrow> uuid \<Rightarrow> string \<Rightarrow> uuid \<Rightarrow> lead" where
  "named_lead now tn name i =
     (new_lead now tn [] [] LeadActive)\<lparr>ld_id := i, ld_e164 := None, ld_label := Some name\<rparr>"

text \<open>\<open>INSERT ... ON CONFLICT DO NOTHING\<close>, row by row; \<open>n\<close> is the next id.\<close>

fun insert_named :: "time \<Rightarrow> (uuid \<times> string) list \<Rightarrow> lead list \<times> nat \<Rightarrow> lead list \<times> nat" where
  "insert_named now [] s = s"
| "insert_named now ((tn, name) # ks) (ls, n) =
     insert_named now ks
       (if list_ex (labelled tn name) ls then (ls, n) else (ls @ [named_lead now tn name n], Suc n))"

definition point_flow :: "lead list \<Rightarrow> named_flow \<Rightarrow> pyexn + lead_flow" where
  "point_flow ls f =
     (case find (labelled (nf_tenant f) (nf_name f)) ls of
        None \<Rightarrow> Inl (OtherError ''NotNullViolation'')
      | Some l \<Rightarrow> Inr \<lparr>lf_id = nf_id f, lf_tenant = nf_tenant f, lf_lead = ld_id l\<rparr>)"

definition backfill_up :: "time \<Rightarrow> named_flow list \<Rightarrow> lead list \<times> nat \<Rightarrow> pyexn + lead_flow list \<times> lead list \<times> nat" where
  "backfill_up now fs s =
     (let s' = insert_named now (flow_names fs) s in
      bindE (mapE (point_flow (fst s')) fs) (\<lambda>ms.
      if distinct (map (\<lambda>m. (lf_tenant m, lf_lead m)) ms) then Inr (ms, s') else Inl IntegrityError))"

definition name_flow :: "lead list \<Rightarrow> lead_flow \<Rightarrow> pyexn + named_flow" where
  "name_flow ls m =
     (case find (\<lambda>l. ld_id l = lf_lead m) ls of
        None \<Rightarrow> Inl (OtherError ''NotNullViolation'')
      | Some l \<Rightarrow>
          let name = (case ld_label l of Some x \<Rightarrow> x | None \<Rightarrow> str_nat (ld_id l)) in
          if length name > 128 then Inl (OtherError ''StringDataRightTruncation'')
          else Inr \<lparr>nf_id = lf_id m, nf_tenant = lf_tenant m, nf_name = name\<rparr>)"

definition backfill_down :: "lead list \<Rightarrow> lead_flow list \<Rightarrow> pyexn + named_flow list" where
  "backfill_down ls ms =
     bindE (mapE (name_flow ls) ms) (\<lambda>fs.
     if distinct (map (\<lambda>f. (nf_tenant f, nf_name f)) fs) then Inr fs else Inl IntegrityError)"

subsection \<open>Instances of the tenants\<close>

definition main_instances :: "nat \<Rightarrow> tenant list \<Rightarrow> instance_row list" where
  "main_instances n ts = map2 (\<lambda>i t. \<lparr>is_id = i, is_tenant = tn_id t, is_channel = ''main''\<rparr>) [n..<n + length ts] ts"

lemma main_instance_resolves:
  assumes "distinct (map tn_id ts)" and "tn \<in> set ts"
  shows "\<exists>i. resolve_instance_id (main_instances n ts) (tn_id tn) ''main'' = Inr (Some i)"
  using assms
proof (induction ts arbitrary: n)
  case (Cons t ts)
  have rest: "main_instances n (t # ts) = \<lparr>is_id = n, is_tenant = tn_id t, is_channel = ''main''\<rparr> # main_instances (Suc n) ts" for n
    by (simp add: main_instances_def upt_conv_Cons del: upt_Suc)
  have ids: "is_tenant ` set (main_instances k us) \<subseteq> tn_id ` set us" for k us
    by (auto simp: main_instances_def dest: set_zip_rightD)
  show ?case
  proof (cases "tn_id tn = tn_id t")
    case True
    have "is_tenant i \<noteq> tn_id tn" if "i \<in> set (main_instances (Suc n) ts)" for i
      using that True Cons.prems(1) ids [of "Suc n" ts] by (metis distinct.simps(2) image_eqI list.set_map list.simps(9) subsetD)
    then have "filter (\<lambda>i. is_tenant i = tn_id tn \<and> is_channel i = ''main'') (main_instances (Suc n) ts) = []"
      by (simp add: filter_empty_conv)
    then show ?thesis using True by (simp add: rest resolve_instance_id_def scalar_one_or_none_def)
  next
    case False
    then show ?thesis using Cons.IH [of "Suc n"] Cons.prems by (auto simp: rest resolve_instance_id_def)
  qed
qed simp

subsection \<open>There and back\<close>

lemma insert_named_mono:
  "set (fst s) \<subseteq> set (fst (insert_named now ks s)) \<and> length (fst s) \<le> length (fst (insert_named now ks s)) \<and>
   take (length (fst s)) (fst (insert_named now ks s)) = fst s"
proof (induction now ks s rule: insert_named.induct)
  case (2 now tn name ks ls n)
  show ?case
  proof (cases "list_ex (labelled tn name) ls")
    case False
    then have "take (length ls) (take (Suc (length ls)) (fst (insert_named now ks (ls @ [named_lead now tn name n], Suc n)))) = ls"
      using 2 by simp
    then show ?thesis using 2 False by (auto simp: min_def split: if_splits)
  qed (use 2 in auto)
qed simp

lemma insert_named_has:
  "(tn, name) \<in> set ks \<Longrightarrow> list_ex (labelled tn name) (fst (insert_named now ks s))"
proof (induction now ks s rule: insert_named.induct)
  case (2 now tn' name' ks ls n)
  show ?case
  proof (cases "(tn, name) = (tn', name')")
    case True
    define s where "s = (if list_ex (labelled tn name) ls then (ls, n) else (ls @ [named_lead now tn name n], Suc n))"
    have "list_ex (labelled tn name) (fst s)"
      by (auto simp: s_def labelled_def named_lead_def new_lead_def)
    moreover have "set (fst s) \<subseteq> set (fst (insert_named now ks s))" using insert_named_mono by blast
    moreover have "insert_named now ((tn', name') # ks) (ls, n) = insert_named now ks s" using True by (simp add: s_def)
    ultimately show ?thesis by (auto simp: list_ex_iff)
  next
    case False
    then show ?thesis using 2 by auto
  qed
qed simp

lemma insert_named_ids:
  "distinct (map ld_id (fst s)) \<Longrightarrow> \<forall>l \<in> set (fst s). ld_id l < snd s \<Longrightarrow>
   distinct (map ld_id (fst (insert_named now ks s))) \<and>
   (\<forall>l \<in> set (fst (insert_named now ks s)). ld_id l < snd (insert_named now ks s))"
proof (induction now ks s rule: insert_named.induct)
  case (2 now tn name ks ls n)
  have "ld_id (named_lead now tn name n) = n" by (simp add: named_lead_def new_lead_def)
  then show ?case using 2 by (fastforce simp: less_Suc_eq)
qed simp

lemma find_by_id:
  assumes "distinct (map ld_id ls)" and "l \<in> set ls"
  shows "find (\<lambda>r. ld_id r = ld_id l) ls = Some l"
  using assms by (induction ls) auto

lemma point_flow_back:
  assumes "distinct (map ld_id ls)" and "list_ex (labelled (nf_tenant f) (nf_name f)) ls" and "length (nf_name f) \<le> 128"
  obtains l where "point_flow ls f = Inr \<lparr>lf_id = nf_id f, lf_tenant = nf_tenant f, lf_lead = ld_id l\<rparr>"
    "l \<in> set ls" "labelled (nf_tenant f) (nf_name f) l"
    "name_flow ls \<lparr>lf_id = nf_id f, lf_tenant = nf_tenant f, lf_lead = ld_id l\<rparr> = Inr f"
proof -
  obtain l where l: "find (labelled (nf_tenant f) (nf_name f)) ls = Some l"
    using assms(2) by (cases "find (labelled (nf_tenant f) (nf_name f)) ls") (auto simp: find_None_iff list_ex_iff)
  then have in_ls: "l \<in> set ls" "labelled (nf_tenant f) (nf_name f) l" by (auto simp: find_Some_iff)
  moreover have "ld_label l = Some (nf_name f)" using in_ls(2) by (simp add: labelled_def)
  ultimately show ?thesis
    using that l find_by_id [OF assms(1) in_ls(1)] assms(3) by (simp add: point_flow_def name_flow_def)
qed


definition old_flows :: "named_flow list" where
  "old_flows = [\<lparr>nf_id = 1, nf_tenant = 7, nf_name = ''ana''\<rparr>, \<lparr>nf_id = 2, nf_tenant = 7, nf_name = ''bia''\<rparr>]"


end
