(* ===== verification/Spec2Isabelle.thy ===== *)
theory Spec2Isabelle
  imports Flow_Laws Channel_Laws Worker_Jobs Scan_Talks Console_Laws Kb_Laws Lead_Assignment System Ops_Cli Simulator
    Schema_Rows Backfill
begin

text \<open>
  A verification development for PeSDR, a multi-tenant agent that talks to sales leads over WhatsApp.
  It models the Python package \<open>src/ai_sdr\<close>: the two conversation engines, the worker that runs them,
  the messaging layer, the console with which human operators read and take over conversations, and
  the knowledge base.

  A message takes this way.  The provider posts it to \<open>api/routes/webhooks.py\<close>; the WhatsApp adapter
  checks the signature and parses the payload, \<open>messaging/ingest.py\<close> stores each message once and a
  job per lead is enqueued.  The job \<open>worker/jobs/inbound.py:process_lead_inbox\<close> takes the lock of the
  lead and runs the engine of the tenant.  Engine v2 drains the queue of the lead: it joins bursts,
  transcribes audio and calls \<open>flowengine/pipeline.py:run_turn\<close> per message.  There, preprocessing finds or
  creates the lead, its open talk and the runtime state; under a transaction lock the prompt is
  built, the model is called, its reply is checked by the guardrails, the suggested transition by the
  routing (each with one corrective retry), the decision is applied to the talk and the state
  (objection treatment, collected fields, actions, completion rules, review), the reply is sent
  through the renderer and the humanizer, and an audit row is written.  Engine v1 runs the graph of
  \<open>treeflow/compiler.py\<close> on its checkpoint and schedules follow-ups.  Two cron jobs close idle talks
  (\<open>worker/jobs/scan_talks.py\<close>) and send follow-ups (\<open>worker/jobs/follow_up_scanner.py\<close>).  Operators
  see the contacts, receive live events over a websocket, take a talk over, write and release it.

  Theories.
  \<^item> \<open>Sdr_Prelude\<close>, \<open>Py_Text\<close>, \<open>Py_Repr\<close>, \<open>Py_Numeral\<close>: exceptions as sums, JSON values, dictionaries, tables as
    lists of rows; the string functions, numerals and regular expressions the code uses.
  \<^item> \<open>Sdr_Models\<close>: the model's structured output (\<open>flowengine/decision.py\<close>), the runtime state
    (\<open>flowengine/state.py\<close>) and the rows of the tables (\<open>models/\<close>); \<open>db\<close> is the database, \<open>ext\<close> the
    record of the third-party functions.
  \<^item> \<open>Treeflow_Loader\<close>, \<open>Objection_Runtime\<close>, \<open>Routing\<close>, \<open>Heuristics\<close>, \<open>Guardrails\<close>, \<open>Humanizer\<close>,
    \<open>Actions\<close>, \<open>Repositories\<close>, \<open>Post_Processing\<close>, \<open>Preprocessing\<close>, \<open>System_Prompt\<close>, \<open>Correction\<close>,
    \<open>Pipeline\<close>: one theory per module of \<open>flowengine/\<close> (with \<open>guardrails/validator.py\<close>, the
    repositories it calls and \<open>worker/jobs/execute_action.py\<close>).
  \<^item> \<open>Channel\<close>, \<open>Whatsapp_Cloud\<close>, \<open>Webhook\<close>, \<open>Renderer\<close>: the messaging port with its errors and its
    in-memory adapter, the WhatsApp adapter, ingestion, and the sending of a reply.
  \<^item> \<open>Realtime\<close>: the events of the live inbox, their producers and the hub with its bounded queues
    (\<open>realtime/\<close>).
  \<^item> \<open>Worker_Inbound\<close>, \<open>Worker_Snapshot\<close>, \<open>Worker_Jobs\<close>: the inbox loop of engine v2, the resolution of the
    tree a talk was started with, the job of a lead with both engines (\<open>worker/jobs/inbound.py\<close>).
  \<^item> \<open>Scan_Talks\<close>, \<open>Follow_Up\<close>: the two cron jobs with the follow-up scheduler (\<open>follow_up/\<close>).
  \<^item> \<open>Treeflow_V1\<close>, \<open>Guardrails_V1\<close>, \<open>Engine_V1\<close>: the schema of a tree of engine v1, its guardrails and its
    graph (\<open>schemas/treeflow_yaml.py\<close>, \<open>guardrails/runner.py\<close>, \<open>treeflow/\<close>).
  \<^item> \<open>Lead_Assignment\<close>: tree files, published versions and the assignment of leads to a conversation
    (\<open>treeflow/loader.py\<close>, \<open>treeflow/runtime.py\<close>, \<open>api/routes/leads.py\<close>, \<open>web/routes.py\<close>).
  \<^item> \<open>Web_Auth\<close>, \<open>Inbox_Repository\<close>, \<open>Console_Inbox\<close>: sessions and access to tenants (\<open>web/\<close>, \<open>ws_inbox.py\<close>),
    the queries of the inbox (\<open>repositories/inbox_repository.py\<close>) and the handlers of
    \<open>api/routes/console_inbox.py\<close>.
  \<^item> \<open>Kb_Chunker\<close>, \<open>Kb_Index\<close>: the chunker, the indexer and the retriever of the knowledge base (\<open>kb/\<close>).
  \<^item> \<open>Once_Table\<close>: the interface of an insertion with a unique key and its derived laws; it is
    interpreted on the action executions and on the inbound messages.  The interfaces \<open>channel\<close> and
    \<open>voice_channel\<close> state what a send promises; they are interpreted on the in-memory adapter.
  \<^item> \<open>User_Admin\<close>, \<open>Ops_Cli\<close>: the commands on operator accounts, follow-ups and sent messages (\<open>cli/users.py\<close>,
    \<open>cli/follow_ups.py\<close>, \<open>cli/outbound.py\<close>).
  \<^item> \<open>Tenant_Config\<close>: the schema of \<open>tenant.yaml\<close>, its loader, the factories and the registry of adapters
    (\<open>schemas/\<close>, \<open>tenant_loader/\<close>, \<open>messaging/registry.py\<close>, \<open>messaging/factory.py\<close>, \<open>voice/factory.py\<close>).
  \<^item> \<open>Simulator\<close>: the two loops of \<open>cli/simulate.py\<close>, one per engine.
  \<^item> \<open>Schema\<close>, \<open>Migrations_Base\<close>, \<open>Migrations_Flow\<close>: tables with columns, constraints, indexes and policies,
    and every \<open>upgrade\<close> and \<open>downgrade\<close> of \<open>migrations/versions\<close> as a list of operations on them.
  \<^item> \<open>Orm_Models\<close>, \<open>Schema_Rows\<close>, \<open>Backfill\<close>: the columns, keys and references of the classes of \<open>models/\<close>, the
    rows in the columns that the database checks, and the rows that the migrations 0008 and 0032 move.
  \<^item> \<open>System\<close>: the components on one database, as a step relation whose steps are the transactions they
    commit.
  \<^item> \<open>Sample_Tree\<close>, \<open>Sample_Turn\<close>: a concrete tenant on which the theorems are exercised.
  \<^item> \<open>Flow_Laws\<close>, \<open>Pipeline_Laws\<close>, \<open>Channel_Laws\<close>, \<open>Console_Laws\<close>, \<open>Kb_Laws\<close>, \<open>Schema_Laws\<close> hold the theorems that span
    several of these; the others stand at the end of their component's theory.

  What is shown.
  \<^item> System: whatever order the transactions of the components come in, the tables of the conversations
    stay well-formed and a closed talk is never open again, provided that a turn finds its talk open; the
    code does not check that, and \<open>turn_reopens_scanned_talk\<close> shows what follows.
  \<^item> Engine v2: a loaded tree is well-formed, and on such a tree the objection runtime never raises,
    refines a small abstract machine and ends every treatment; routing advances exactly when its
    specification allows it; the guardrails are characterised by whitelists; every run of a turn keeps
    the tables well-formed, delivers its reply once and in one modality, leaves one audit row and makes
    at most three model calls; an exception rolls the turn back; actions are created exactly once.
  \<^item> Worker: the inbox loop ends with an empty queue or one refused message and changes nothing but the
    waiting messages of its lead; a follow-up is sent at most once; a scan that runs alone closes exactly
    the talks that are due, and leaves alone what others hold.
  \<^item> Messaging: webhook deliveries are idempotent, forged ones are rejected, events reach exactly the
    connections of their instance.
  \<^item> Console: a login opens a session of the same user; no route touches a contact of another tenant; a
    repeated send delivers once; an operator writes only while a human holds the talk; after a takeover no
    turn answers the lead.
  \<^item> Administration: a new account logs in, a revocation takes effect at once, a dry run shows what the
    scheduler would do, a cancelled follow-up is not sent, and the caches of the adapter registry are
    invisible as long as the files do not change.
  \<^item> Engine v1: the checkpoint always names a node of the tree.  A published version is the text of its
    file; assigning a lead starts one conversation.
  \<^item> Simulator: a session belongs to the lead of its label, if that lead has a number.
  \<^item> Schema: the 36 migrations run, all but three downgrades lead back to the schema before their upgrade,
    and every table of tenants' rows ends up under forced row level security.  The classes of the models and
    the tables at the head are the same; the checks admit every row the code writes, but no paused talk;
    migration 0008 loses no conversation.
  \<^item> Knowledge base: the chunks of a document spell its text; reindexing refines the synchronisation of
    a map of hashes and is idempotent; the retriever answers the best chunks above their threshold.
  Some theorems show what goes wrong: a reply that is sent unchecked, a closed talk that a failed voice
  message reopens, a lead of the webhook that cannot be answered, a scan that one tree stops, a talk
  that is closed while it is taken over or while its turn waits for the lock, a message that
  overlapping requests deliver twice, a lead that another tenant can assign to itself.

  Conventions.  Times and durations are integers in microseconds (in \<open>Web_Auth\<close> seconds), uuids are
  numbers drawn from a counter, texts are lists of characters (Latin-1).  The model, HTTP, HMAC, JSON
  and YAML parsing, \<open>simpleeval\<close>, Jinja, SHA-256, bcrypt, the cookie signer, the tokenizer, the embedding
  model, LangGraph's scheduler and the tenant's price expression are parameters; what a theorem needs of them is among
  its hypotheses (\<open>signer_law\<close>, \<open>only_sessions\<close>, the laws of \<open>channel\<close>).  Waiting times are not modelled.
  The queries are not filtered by row level security: the application's database role has \<open>BYPASSRLS\<close>, so
  the policies that \<open>Schema_Laws\<close> counts do not apply to it.  A lock is the set of the keys that others hold; where a handler waits for a
  lock or commits between two steps, a function (\<open>wait_lock\<close>, \<open>others\<close>) stands for whatever other sessions
  commit in between.  The retry of a send makes at most \<open>wa_max_attempts\<close> = 3 attempts, an action at most
  \<open>max_attempts\<close> = 3, a treatment at most 10 turns, a graph of engine v1 at most the recursion limit it is
  given; these bounds are the ones of the code, and no other fuel is used.

  Not modelled: the HTML pages and the formatting of their times; the client of the command line for
  leads; settings and start-up; the subprocess that decrypts secrets; the clients of storage, speech and language models;
  tracing and log lines; the critic's prompt; the start of tasks of the realtime hub; the approximate
  vector index.  Of the migrations, the checks of PostgreSQL across tables (that a referenced table exists, that
  a dropped one is not referred to), the columns that only occur in the condition of a partial index, and what
  existing rows do to a new constraint are left out.
\<close>

end
